(* ===== verification/Prelude.thy ===== *)
theory Prelude
  imports Complex_Main "HOL-Library.Word"
begin

text \<open>
  Shared vocabulary of the development. Python exceptions are the values of \<open>pyexc\<close>; a
  fallible computation returns a value of \<open>'a res\<close> (\<open>Inl\<close> the exception raised, \<open>Inr\<close> the
  value returned), and \<open>rbind\<close> sequences two of them the way two statements of a Python
  function are sequenced: the first exception ends the function. Python values that cross
  the wire are the values of \<open>pval\<close>. The lemma collections \<open>res_simps\<close> and \<open>wire_simps\<close>
  carry the automation of the component theories.
\<close>

named_theorems res_simps "sequencing of fallible computations"
named_theorems wire_simps "sizes and shapes of encoded data"

subsection \<open>Exceptions and fallible results\<close>

text \<open>
  The exceptions raised by the modelled code and by the standard library functions it
  calls. \<open>Error\<close> is the library's own class (\<open>value\<close> and \<open>description\<close>); \<open>Empty\<close> is
  \<^verbatim>\<open>queue.Empty\<close>; \<open>SocketError\<close> carries an errno. \<open>Blocked\<close> is no
  exception: it stands for a call that waits forever, and no modelled code catches it.
\<close>

datatype pyexc =
    StructError
  | ValueError
  | TypeError
  | IndexError
  | KeyError
  | AttributeError
  | UnicodeError
  | Empty
  | ThreadError
  | SocketError int
  | Error int string
  | Blocked

type_synonym 'a res = "pyexc + 'a"

definition rbind :: "'a res \<Rightarrow> ('a \<Rightarrow> 'b res) \<Rightarrow> 'b res" where
  "rbind m f = (case m of Inl e \<Rightarrow> Inl e | Inr x \<Rightarrow> f x)"

definition rmap :: "('a \<Rightarrow> 'b) \<Rightarrow> 'a res \<Rightarrow> 'b res" where
  "rmap f m = (case m of Inl e \<Rightarrow> Inl e | Inr x \<Rightarrow> Inr (f x))"

fun mapM :: "('a \<Rightarrow> 'b res) \<Rightarrow> 'a list \<Rightarrow> 'b list res" where
  "mapM f [] = Inr []"
| "mapM f (x # xs) = rbind (f x) (\<lambda>y. rmap (Cons y) (mapM f xs))"

definition is_ok :: "'a res \<Rightarrow> bool" where
  "is_ok m = (case m of Inl _ \<Rightarrow> False | Inr _ \<Rightarrow> True)"

subsection \<open>Python data\<close>

type_synonym byte = "8 word"
type_synonym bytes = "byte list"

text \<open>
  Python values. \<open>PStr\<close> is a text string as its list of code points (\<^verbatim>\<open>str\<close> in Python 3,
  \<^verbatim>\<open>unicode\<close> in Python 2); \<open>PBytes\<close> is a byte string (\<^verbatim>\<open>bytes\<close> in Python 3, \<^verbatim>\<open>str\<close> in
  Python 2); \<open>PFloat\<close> carries the IEEE-754 single-precision pattern read from the wire.
\<close>

datatype pval =
    PNone
  | PInt int
  | PBool bool
  | PFloat "32 word"
  | PStr "nat list"
  | PBytes bytes
  | PTuple "pval list"
  | PList "pval list"

definition str_points :: "string \<Rightarrow> nat list" where
  "str_points s = map of_char s"

abbreviation pstr :: "string \<Rightarrow> pval" where
  "pstr s \<equiv> PStr (str_points s)"

text \<open>Truth value testing, \<^verbatim>\<open>bool(x)\<close>.\<close>

fun truthy :: "pval \<Rightarrow> bool" where
  "truthy PNone = False"
| "truthy (PInt i) = (i \<noteq> 0)"
| "truthy (PBool b) = b"
| "truthy (PFloat w) = (take_bit 31 (uint w) \<noteq> 0)"
| "truthy (PStr s) = (s \<noteq> [])"
| "truthy (PBytes s) = (s \<noteq> [])"
| "truthy (PTuple xs) = (xs \<noteq> [])"
| "truthy (PList xs) = (xs \<noteq> [])"

text \<open>Slicing \<^verbatim>\<open>xs[i:j]\<close> with bounds that are not negative; out of range it is cut short.\<close>

definition py_slice :: "nat \<Rightarrow> nat \<Rightarrow> 'a list \<Rightarrow> 'a list" where
  "py_slice i j xs = take (j - i) (drop i xs)"

text \<open>Indexing \<^verbatim>\<open>xs[i]\<close>: a negative index counts from the end, out of range raises.\<close>

definition py_index :: "'a list \<Rightarrow> int \<Rightarrow> 'a res" where
  "py_index xs i =
     (if 0 \<le> i then (if nat i < length xs then Inr (xs ! nat i) else Inl IndexError)
      else (if nat (- i) \<le> length xs then Inr (xs ! (length xs - nat (- i))) else Inl IndexError))"

text \<open>\<^verbatim>\<open>s.split(' ')\<close>: cuts at every single space, and \<^verbatim>\<open>''.split(' ')\<close> is \<^verbatim>\<open>['']\<close>.\<close>

fun split_space :: "string \<Rightarrow> string list" where
  "split_space [] = [[]]"
| "split_space (c # cs) =
     (if c = CHR '' '' then [] # split_space cs
      else (case split_space cs of [] \<Rightarrow> [[c]] | w # ws \<Rightarrow> (c # w) # ws))"

text \<open>\<^verbatim>\<open>str(n)\<close> and \<^verbatim>\<open>'\{0\}'.format(n)\<close> of an integer.\<close>

fun nat_str :: "nat \<Rightarrow> string" where
  "nat_str n = (if n < 10 then [char_of (n + 48)] else nat_str (n div 10) @ [char_of (n mod 10 + 48)])"

declare nat_str.simps [simp del]

definition int_str :: "int \<Rightarrow> string" where
  "int_str i = (if i < 0 then CHR ''-'' # nat_str (nat (- i)) else nat_str (nat i))"

text \<open>\<^verbatim>\<open>int(s)\<close> of a string of decimal digits, the only strings the code converts.\<close>

definition is_digit :: "char \<Rightarrow> bool" where
  "is_digit c = (48 \<le> (of_char c :: nat) \<and> (of_char c :: nat) \<le> 57)"

definition digit_val :: "char \<Rightarrow> nat" where
  "digit_val c = of_char c - 48"

fun digits_val :: "nat \<Rightarrow> string \<Rightarrow> nat option" where
  "digits_val acc [] = Some acc"
| "digits_val acc (c # cs) = (if is_digit c then digits_val (10 * acc + digit_val c) cs else None)"

definition int_of_digits :: "string \<Rightarrow> nat res" where
  "int_of_digits s = (if s = [] then Inl ValueError
     else case digits_val 0 s of None \<Rightarrow> Inl ValueError | Some n \<Rightarrow> Inr n)"

subsection \<open>Laws of sequencing\<close>

lemma rbind_Inr [simp]: "rbind (Inr x) f = f x"
  by (simp add: rbind_def)

lemma rbind_Inl [simp]: "rbind (Inl e) f = Inl e"
  by (simp add: rbind_def)

lemma rmap_Inr [simp]: "rmap f (Inr x) = Inr (f x)"
  by (simp add: rmap_def)

lemma rmap_Inl [simp]: "rmap f (Inl e) = Inl e"
  by (simp add: rmap_def)

lemma rmap_rmap [simp]: "rmap f (rmap g m) = rmap (\<lambda>x. f (g x)) m"
  by (cases m) auto

lemma rbind_eq_Inr [res_simps]: "rbind m f = Inr y \<longleftrightarrow> (\<exists>x. m = Inr x \<and> f x = Inr y)"
  by (cases m) (auto simp: rbind_def)

lemma rbind_eq_Inl [res_simps]: "rbind m f = Inl e \<longleftrightarrow> m = Inl e \<or> (\<exists>x. m = Inr x \<and> f x = Inl e)"
  by (cases m) (auto simp: rbind_def)

lemma rmap_eq_Inr [res_simps]: "rmap f m = Inr y \<longleftrightarrow> (\<exists>x. m = Inr x \<and> y = f x)"
  by (cases m) (auto simp: rmap_def)

lemma rmap_eq_Inl [res_simps]: "rmap f m = Inl e \<longleftrightarrow> m = Inl e"
  by (cases m) (auto simp: rmap_def)

lemma is_ok_Inr [simp]: "is_ok (Inr x)"
  by (simp add: is_ok_def)

lemma is_ok_Inl [simp]: "\<not> is_ok (Inl e)"
  by (simp add: is_ok_def)

lemma is_ok_iff: "is_ok m \<longleftrightarrow> (\<exists>x. m = Inr x)"
  by (cases m) auto

lemma mapM_ok: "(\<And>x. x \<in> set xs \<Longrightarrow> f x = Inr (g x)) \<Longrightarrow> mapM f xs = Inr (map g xs)"
  by (induction xs) auto

lemma mapM_length: "mapM f xs = Inr ys \<Longrightarrow> length ys = length xs"
  by (induction xs arbitrary: ys) (auto simp: res_simps)

subsection \<open>Slices\<close>

lemma length_py_slice [simp]: "length (py_slice i j xs) = min (j - i) (length xs - i)"
  by (simp add: py_slice_def)

lemma py_slice_append_left: "j \<le> length xs \<Longrightarrow> py_slice i j (xs @ ys) = py_slice i j xs"
  by (cases "i \<le> j") (auto simp: py_slice_def)

lemma split_space_nonempty [simp]: "split_space s \<noteq> []"
  by (induction s) (auto split: list.splits)

lemma split_space_no_space: "w \<in> set (split_space s) \<Longrightarrow> CHR '' '' \<notin> set w"
  by (induction s arbitrary: w) (auto split: list.splits if_splits)

end
