(* ===== verification/Pystruct.thy ===== *)
theory Pystruct
  imports Prelude
begin

text \<open>
  The part of Python's \<^verbatim>\<open>struct\<close> module the program uses: little-endian, standard-size
  formats (prefix \<^verbatim>\<open><\<close>). A format is read into a list of \<open>atom\<close>s, one per value packed or
  unpacked; \<open>calcsize_le\<close>, \<open>pack_le\<close> and \<open>unpack_le\<close> are \<^verbatim>\<open>struct.calcsize('<' + f)\<close>,
  \<^verbatim>\<open>struct.pack('<' + f, *args)\<close> and \<^verbatim>\<open>struct.unpack('<' + f, data)\<close>. Every failure of the
  module is \<^verbatim>\<open>struct.error\<close>. The codes \<^verbatim>\<open>d\<close>, \<^verbatim>\<open>p\<close>, \<^verbatim>\<open>x\<close> occur in no format of the program
  and are refused by the model like an unknown code; \<^verbatim>\<open>f\<close> packs only a value that already
  is a single-precision float, which is all the program reads and it never writes one.
  The locale \<open>wire_codec\<close> states what a fixed-width field promises; it is interpreted on
  the unsigned and the signed integers of the module.
\<close>

subsection \<open>Formats\<close>

datatype atom =
    UInt nat      \<comment> \<open>B, H, I, L, Q: unsigned, that many bytes\<close>
  | SInt nat      \<comment> \<open>b, h, i, l, q: two's complement, that many bytes\<close>
  | Bool8         \<comment> \<open>?\<close>
  | Chr8          \<comment> \<open>c\<close>
  | Flt32         \<comment> \<open>f\<close>
  | Raw nat       \<comment> \<open>n followed by s: one byte string of n bytes\<close>

definition code_of :: "char \<Rightarrow> atom option" where
  "code_of c =
     (if c = CHR ''B'' then Some (UInt 1) else if c = CHR ''b'' then Some (SInt 1)
      else if c = CHR ''H'' then Some (UInt 2) else if c = CHR ''h'' then Some (SInt 2)
      else if c = CHR ''I'' \<or> c = CHR ''L'' then Some (UInt 4)
      else if c = CHR ''i'' \<or> c = CHR ''l'' then Some (SInt 4)
      else if c = CHR ''Q'' then Some (UInt 8) else if c = CHR ''q'' then Some (SInt 8)
      else if c = CHR ''?'' then Some Bool8 else if c = CHR ''c'' then Some Chr8
      else if c = CHR ''f'' then Some Flt32 else None)"

text \<open>
  Reading a format: white space between items is skipped, a decimal repeat count repeats
  the code that follows it (for \<^verbatim>\<open>s\<close> it is the length), a count with no code is an error.
\<close>

definition is_space :: "char \<Rightarrow> bool" where
  "is_space c = (c = CHR '' '' \<or> (9 \<le> (of_char c :: nat) \<and> (of_char c :: nat) \<le> 13))"

fun parse_atoms :: "nat option \<Rightarrow> string \<Rightarrow> atom list res" where
  "parse_atoms None [] = Inr []"
| "parse_atoms (Some n) [] = Inl StructError"
| "parse_atoms cnt (c # cs) =
     (if is_space c then (case cnt of None \<Rightarrow> parse_atoms None cs | Some _ \<Rightarrow> Inl StructError)
      else if is_digit c then
        parse_atoms (Some (10 * (case cnt of None \<Rightarrow> 0 | Some n \<Rightarrow> n) + digit_val c)) cs
      else
        (let n = (case cnt of None \<Rightarrow> 1 | Some n \<Rightarrow> n) in
         if c = CHR ''s'' then rmap (Cons (Raw n)) (parse_atoms None cs)
         else (case code_of c of
                 None \<Rightarrow> Inl StructError
               | Some a \<Rightarrow> rmap (append (replicate n a)) (parse_atoms None cs))))"

definition atoms_of :: "string \<Rightarrow> atom list res" where
  "atoms_of f = parse_atoms None f"

fun atom_size :: "atom \<Rightarrow> nat" where
  "atom_size (UInt w) = w"
| "atom_size (SInt w) = w"
| "atom_size Bool8 = 1"
| "atom_size Chr8 = 1"
| "atom_size Flt32 = 4"
| "atom_size (Raw n) = n"

definition atoms_size :: "atom list \<Rightarrow> nat" where
  "atoms_size as = sum_list (map atom_size as)"

definition calcsize_le :: "string \<Rightarrow> nat res" where
  "calcsize_le f = rmap atoms_size (atoms_of f)"

subsection \<open>Integers in little-endian order\<close>

fun le_bytes :: "nat \<Rightarrow> int \<Rightarrow> bytes" where
  "le_bytes 0 v = []"
| "le_bytes (Suc n) v = word_of_int v # le_bytes n (v div 256)"

fun le_uint :: "bytes \<Rightarrow> int" where
  "le_uint [] = 0"
| "le_uint (b # bs) = uint b + 256 * le_uint bs"

definition le_sint :: "bytes \<Rightarrow> int" where
  "le_sint bs = (let v = le_uint bs; m = 256 ^ length bs in if m \<le> 2 * v then v - m else v)"

definition uint_fits :: "nat \<Rightarrow> int \<Rightarrow> bool" where
  "uint_fits w v = (0 \<le> v \<and> v < 256 ^ w)"

definition sint_fits :: "nat \<Rightarrow> int \<Rightarrow> bool" where
  "sint_fits w v = (- (256 ^ w) \<le> 2 * v \<and> 2 * v < 256 ^ w)"

subsection \<open>pack and unpack\<close>

text \<open>A value given for an integer code: an int, or a bool, which is an int.\<close>

fun int_arg :: "pval \<Rightarrow> int option" where
  "int_arg (PInt i) = Some i"
| "int_arg (PBool b) = Some (if b then 1 else 0)"
| "int_arg _ = None"

fun pack_atom :: "atom \<Rightarrow> pval \<Rightarrow> bytes res" where
  "pack_atom (UInt w) v = (case int_arg v of
     None \<Rightarrow> Inl StructError
   | Some i \<Rightarrow> if uint_fits w i then Inr (le_bytes w i) else Inl StructError)"
| "pack_atom (SInt w) v = (case int_arg v of
     None \<Rightarrow> Inl StructError
   | Some i \<Rightarrow> if sint_fits w i then Inr (le_bytes w i) else Inl StructError)"
| "pack_atom Bool8 v = Inr [if truthy v then 1 else 0]"
| "pack_atom Chr8 v = (case v of PBytes [b] \<Rightarrow> Inr [b] | _ \<Rightarrow> Inl StructError)"
| "pack_atom Flt32 v = (case v of PFloat x \<Rightarrow> Inr (le_bytes 4 (uint x)) | _ \<Rightarrow> Inl StructError)"
| "pack_atom (Raw n) v = (case v of
     PBytes bs \<Rightarrow> Inr (take n bs @ replicate (n - length bs) 0)
   | _ \<Rightarrow> Inl StructError)"

fun pack_atoms :: "atom list \<Rightarrow> pval list \<Rightarrow> bytes res" where
  "pack_atoms [] [] = Inr []"
| "pack_atoms (a # as) (v # vs) = rbind (pack_atom a v) (\<lambda>b. rmap (append b) (pack_atoms as vs))"
| "pack_atoms _ _ = Inl StructError"

definition pack_le :: "string \<Rightarrow> pval list \<Rightarrow> bytes res" where
  "pack_le f args = rbind (atoms_of f) (\<lambda>as. pack_atoms as args)"

fun unpack_atom :: "atom \<Rightarrow> bytes \<Rightarrow> pval" where
  "unpack_atom (UInt w) bs = PInt (le_uint bs)"
| "unpack_atom (SInt w) bs = PInt (le_sint bs)"
| "unpack_atom Bool8 bs = PBool (le_uint bs \<noteq> 0)"
| "unpack_atom Chr8 bs = PBytes bs"
| "unpack_atom Flt32 bs = PFloat (word_of_int (le_uint bs))"
| "unpack_atom (Raw n) bs = PBytes bs"

fun unpack_atoms :: "atom list \<Rightarrow> bytes \<Rightarrow> pval list" where
  "unpack_atoms [] bs = []"
| "unpack_atoms (a # as) bs = unpack_atom a (take (atom_size a) bs) # unpack_atoms as (drop (atom_size a) bs)"

definition unpack_le :: "string \<Rightarrow> bytes \<Rightarrow> pval list res" where
  "unpack_le f data = rbind (atoms_of f) (\<lambda>as.
     if length data = atoms_size as then Inr (unpack_atoms as data) else Inl StructError)"

subsection \<open>Sizes\<close>

lemma atoms_size_simps [simp]:
  "atoms_size [] = 0" "atoms_size (a # as) = atom_size a + atoms_size as"
  "atoms_size (as @ bs) = atoms_size as + atoms_size bs"
  by (simp_all add: atoms_size_def)

lemma length_le_bytes [simp]: "length (le_bytes n v) = n"
  by (induction n arbitrary: v) auto

lemma length_unpack_atoms [simp]: "length (unpack_atoms as bs) = length as"
  by (induction as arbitrary: bs) auto

lemma pack_atom_length: "pack_atom a v = Inr bs \<Longrightarrow> length bs = atom_size a"
  by (cases a) (auto split: option.splits if_splits pval.splits list.splits)

lemma pack_atoms_length:
  "pack_atoms as vs = Inr bs \<Longrightarrow> length bs = atoms_size as \<and> length vs = length as"
  by (induction as vs arbitrary: bs rule: pack_atoms.induct)
     (auto simp: res_simps dest: pack_atom_length)

lemma pack_le_length: "pack_le f vs = Inr bs \<Longrightarrow> calcsize_le f = Inr (length bs)"
  by (auto simp: pack_le_def calcsize_le_def res_simps dest: pack_atoms_length)

lemma unpack_le_length: "unpack_le f bs = Inr vs \<Longrightarrow> calcsize_le f = Inr (length bs)"
  by (auto simp: unpack_le_def calcsize_le_def res_simps split: if_splits)

lemma unpack_le_total: "calcsize_le f = Inr (length bs) \<Longrightarrow> \<exists>vs. unpack_le f bs = Inr vs"
  by (auto simp: unpack_le_def calcsize_le_def res_simps)

subsection \<open>Fixed-width integer fields\<close>

text \<open>
  A fixed-width field: every value that fits is encoded in exactly the width and decoded to
  itself, and every byte string of the width is the encoding of the value it decodes to.
\<close>

locale wire_codec =
  fixes enc :: "'a \<Rightarrow> bytes" and dec :: "bytes \<Rightarrow> 'a" and fits :: "'a \<Rightarrow> bool" and width :: nat
  assumes enc_width: "fits v \<Longrightarrow> length (enc v) = width"
    and dec_enc: "fits v \<Longrightarrow> dec (enc v) = v"
    and dec_fits: "length bs = width \<Longrightarrow> fits (dec bs)"
    and enc_dec: "length bs = width \<Longrightarrow> enc (dec bs) = bs"
begin

lemma enc_inj: "fits v \<Longrightarrow> fits w \<Longrightarrow> enc v = enc w \<longleftrightarrow> v = w"
  using dec_enc by metis

lemma dec_inj: "length bs = width \<Longrightarrow> length cs = width \<Longrightarrow> dec bs = dec cs \<longleftrightarrow> bs = cs"
  using enc_dec by metis

lemma enc_surj: "length bs = width \<Longrightarrow> \<exists>v. fits v \<and> enc v = bs"
  using enc_dec dec_fits by blast

lemma dec_prefix: "fits v \<Longrightarrow> dec (take width (enc v @ rest)) = v"
  using enc_width [of v] dec_enc [of v] by simp

end

lemma le_uint_bounds: "0 \<le> le_uint bs \<and> le_uint bs < 256 ^ length bs"
proof (induction bs)
  case Nil
  then show ?case by simp
next
  case (Cons b bs)
  have "0 \<le> uint b" "uint b < 256"
    using uint_bounded [of b] by simp_all
  with Cons show ?case by auto
qed

lemma le_uint_le_bytes_mod: "le_uint (le_bytes n v) = v mod 256 ^ n"
proof (induction n arbitrary: v)
  case 0
  then show ?case by simp
next
  case (Suc n)
  have "uint (word_of_int v :: byte) = v mod 256"
    by (simp add: uint_word_of_int)
  then show ?case
    using Suc by (simp add: mod_mult2_eq' [of v 256 "256 ^ n"] zmod_zmult2_eq)
qed

lemma le_bytes_le_uint: "le_bytes (length bs) (le_uint bs) = bs"
proof (induction bs)
  case Nil
  then show ?case by simp
next
  case (Cons b bs)
  have b: "0 \<le> uint b" "uint b < 256"
    using uint_bounded [of b] by simp_all
  then have "(uint b + 256 * le_uint bs) div 256 = le_uint bs"
    by simp
  moreover have "(256 :: byte) * x = 0" for x
  proof -
    have "(256 :: byte) = 0" by simp
    then show ?thesis by (metis mult_zero_left)
  qed
  then have "(word_of_int (uint b + 256 * le_uint bs) :: byte) = b"
    by simp
  ultimately show ?case
    using Cons by simp
qed

lemma uint_fits_le_uint: "length bs = w \<Longrightarrow> uint_fits w (le_uint bs)"
  using le_uint_bounds [of bs] by (auto simp: uint_fits_def)

lemma le_uint_le_bytes [simp]: "uint_fits w v \<Longrightarrow> le_uint (le_bytes w v) = v"
  by (simp add: le_uint_le_bytes_mod uint_fits_def)

interpretation unsigned_field: wire_codec "le_bytes w" le_uint "uint_fits w" w for w
  by unfold_locales (auto simp: uint_fits_le_uint le_bytes_le_uint)

lemma le_bytes_mod: "le_bytes n (v mod 256 ^ n) = le_bytes n v"
  using le_bytes_le_uint [of "le_bytes n v"] by (simp add: le_uint_le_bytes_mod)

lemma le_sint_le_bytes [simp]: "sint_fits w v \<Longrightarrow> le_sint (le_bytes w v) = v"
proof -
  assume f: "sint_fits w v"
  have pos: "(0::int) < 256 ^ w" by simp
  show ?thesis
  proof (cases "0 \<le> v")
    case True
    with f have "v mod 256 ^ w = v" by (auto simp: sint_fits_def)
    with f show ?thesis by (simp add: le_sint_def le_uint_le_bytes_mod sint_fits_def Let_def)
  next
    case False
    have "v mod 256 ^ w = (v + 256 ^ w) mod 256 ^ w" by simp
    also have "\<dots> = v + 256 ^ w"
      using False f pos by (intro mod_pos_pos_trivial) (auto simp: sint_fits_def)
    finally show ?thesis
      using f by (simp add: le_sint_def le_uint_le_bytes_mod sint_fits_def Let_def)
  qed
qed

lemma sint_fits_le_sint: "0 < w \<Longrightarrow> length bs = w \<Longrightarrow> sint_fits w (le_sint bs)"
  using le_uint_bounds [of bs] by (auto simp: sint_fits_def le_sint_def Let_def)

lemma le_bytes_le_sint: "length bs = w \<Longrightarrow> le_bytes w (le_sint bs) = bs"
proof -
  assume w: "length bs = w"
  have "le_sint bs mod 256 ^ w = le_uint bs mod 256 ^ w"
    using w by (auto simp: le_sint_def Let_def mod_diff_right_eq)
  then have "le_bytes w (le_sint bs) = le_bytes w (le_uint bs)"
    by (metis le_bytes_mod)
  with w le_bytes_le_uint [of bs] show ?thesis by simp
qed

interpretation signed_field: wire_codec "le_bytes (Suc w)" le_sint "sint_fits (Suc w)" "Suc w" for w
  by unfold_locales (auto simp: le_bytes_le_sint sint_fits_le_sint simp del: le_bytes.simps)

subsection \<open>Round trips\<close>

text \<open>
  What the receiver reads back for a packed value: an int for an integer code (a bool is
  the int it is), the truth value for \<^verbatim>\<open>?\<close>, the padded or cut byte string for \<^verbatim>\<open>s\<close>.
\<close>

fun wire_value :: "atom \<Rightarrow> pval \<Rightarrow> pval" where
  "wire_value (UInt w) v = (case int_arg v of None \<Rightarrow> PNone | Some i \<Rightarrow> PInt i)"
| "wire_value (SInt w) v = (case int_arg v of None \<Rightarrow> PNone | Some i \<Rightarrow> PInt i)"
| "wire_value Bool8 v = PBool (truthy v)"
| "wire_value (Raw n) v = (case v of
     PBytes bs \<Rightarrow> PBytes (take n bs @ replicate (n - length bs) 0) | _ \<Rightarrow> PNone)"
| "wire_value _ v = v"

lemma le_uint_le_bytes_32: "word_of_int (le_uint (le_bytes 4 (uint (x :: 32 word)))) = x"
  using uint_bounded [of x] by (simp add: le_uint_le_bytes_mod)

lemma unpack_pack_atom: "pack_atom a v = Inr bs \<Longrightarrow> unpack_atom a bs = wire_value a v"
  by (cases a) (auto simp: le_uint_le_bytes_32 simp del: le_bytes.simps
      split: option.splits if_splits pval.splits list.splits)

lemma unpack_pack_atoms:
  "pack_atoms as vs = Inr bs \<Longrightarrow> unpack_atoms as bs = map2 wire_value as vs"
  by (induction as vs arbitrary: bs rule: pack_atoms.induct)
     (auto simp: res_simps pack_atom_length unpack_pack_atom)

text \<open>
  Conversely, every byte string of the format's size unpacks, and packing what was unpacked
  gives the bytes back, as long as the bytes read by \<^verbatim>\<open>?\<close> are 0 or 1.
\<close>

fun canonical_bytes :: "atom list \<Rightarrow> bytes \<Rightarrow> bool" where
  "canonical_bytes [] bs = True"
| "canonical_bytes (a # as) bs =
     ((a = Bool8 \<longrightarrow> le_uint (take 1 bs) \<le> 1) \<and> canonical_bytes as (drop (atom_size a) bs))"

fun atom_ok :: "atom \<Rightarrow> bool" where
  "atom_ok (SInt w) = (0 < w)"
| "atom_ok _ = True"

lemma le_uint_single [simp]: "le_uint [b] = uint b"
  by simp

lemma length_1_conv: "length xs = Suc 0 \<longleftrightarrow> (\<exists>x. xs = [x])"
  by (cases xs) auto

lemma pack_unpack_bool: "length bs = 1 \<Longrightarrow> le_uint bs \<le> 1 \<Longrightarrow> pack_atom Bool8 (unpack_atom Bool8 bs) = Inr bs"
proof -
  assume "length bs = 1" and le: "le_uint bs \<le> 1"
  then obtain b where b: "bs = [b]" by (auto simp: length_1_conv)
  have "uint b = 0 \<or> uint b = 1"
  proof -
    have "uint b \<le> 1" "0 \<le> uint b" using le b by simp_all
    then show ?thesis by linarith
  qed
  then have "b = 0 \<or> b = 1" by (metis uint_0_eq uint_1_eq word_uint_eqI)
  then show ?thesis using b by auto
qed

lemma pack_unpack_atom:
  assumes "length bs = atom_size a" "atom_ok a" "a = Bool8 \<longrightarrow> le_uint bs \<le> 1"
  shows "pack_atom a (unpack_atom a bs) = Inr bs"
proof (cases a)
  case (UInt w)
  with assms show ?thesis by (simp add: unsigned_field.enc_dec unsigned_field.dec_fits)
next
  case (SInt w)
  with assms show ?thesis by (simp add: sint_fits_le_sint le_bytes_le_sint)
next
  case Bool8
  with assms show ?thesis by (simp add: pack_unpack_bool del: pack_atom.simps unpack_atom.simps)
next
  case Chr8
  with assms show ?thesis by (auto simp: length_1_conv)
next
  case Flt32
  with assms le_uint_bounds [of bs] le_bytes_le_uint [of bs] show ?thesis
    by (simp add: uint_word_of_int del: le_bytes.simps)
next
  case (Raw n)
  with assms show ?thesis by simp
qed

lemma pack_unpack_atoms:
  "length bs = atoms_size as \<Longrightarrow> list_all atom_ok as \<Longrightarrow> canonical_bytes as bs \<Longrightarrow>
   pack_atoms as (unpack_atoms as bs) = Inr bs"
proof (induction as arbitrary: bs)
  case Nil
  then show ?case by simp
next
  case (Cons a as)
  have "pack_atom a (unpack_atom a (take (atom_size a) bs)) = Inr (take (atom_size a) bs)"
    using Cons.prems by (intro pack_unpack_atom) auto
  moreover have "pack_atoms as (unpack_atoms as (drop (atom_size a) bs)) = Inr (drop (atom_size a) bs)"
    using Cons.prems by (intro Cons.IH) auto
  ultimately show ?case by simp
qed

end
