(* ===== verification/State.thy ===== *)
theory State
  imports Pystruct
begin

text \<open>
  The objects of \<^verbatim>\<open>ip_connection.py\<close>: a \<open>device\<close> for an instance of \<^verbatim>\<open>Device\<close>, a
  \<open>cb_context\<close> for an instance of \<^verbatim>\<open>IPConnection.CallbackContext\<close>, and \<open>ipcon\<close> for an
  instance of \<^verbatim>\<open>IPConnection\<close>. Device and context objects live in two stores indexed by
  references (\<open>dev_heap\<close>, \<open>ctx_heap\<close>), because the program aliases them: \<^verbatim>\<open>ipcon.devices\<close> maps
  an identifier to a device object that user code holds too, and \<^verbatim>\<open>disconnect\<close> keeps using
  a callback context after it has left \<^verbatim>\<open>self.callback\<close>. A queue is the list of its items,
  oldest first. A registered callback is an opaque handle, or \<open>None\<close> for Python's \<^verbatim>\<open>None\<close>.
\<close>

subsection \<open>Constants\<close>

abbreviation (input) FUNCTION_ENUMERATE :: int where "FUNCTION_ENUMERATE \<equiv> 254"
abbreviation (input) FUNCTION_ADC_CALIBRATE :: int where "FUNCTION_ADC_CALIBRATE \<equiv> 251"
abbreviation (input) FUNCTION_GET_ADC_CALIBRATION :: int where "FUNCTION_GET_ADC_CALIBRATION \<equiv> 250"
abbreviation (input) FUNCTION_READ_BRICKLET_UID :: int where "FUNCTION_READ_BRICKLET_UID \<equiv> 249"
abbreviation (input) FUNCTION_WRITE_BRICKLET_UID :: int where "FUNCTION_WRITE_BRICKLET_UID \<equiv> 248"
abbreviation (input) FUNCTION_READ_BRICKLET_PLUGIN :: int where "FUNCTION_READ_BRICKLET_PLUGIN \<equiv> 247"
abbreviation (input) FUNCTION_WRITE_BRICKLET_PLUGIN :: int where "FUNCTION_WRITE_BRICKLET_PLUGIN \<equiv> 246"
abbreviation (input) FUNCTION_DISCONNECT_PROBE :: int where "FUNCTION_DISCONNECT_PROBE \<equiv> 128"
abbreviation (input) CALLBACK_ENUMERATE :: int where "CALLBACK_ENUMERATE \<equiv> 253"
abbreviation (input) CALLBACK_CONNECTED :: int where "CALLBACK_CONNECTED \<equiv> 0"
abbreviation (input) CALLBACK_DISCONNECTED :: int where "CALLBACK_DISCONNECTED \<equiv> 1"
abbreviation (input) BROADCAST_UID :: int where "BROADCAST_UID \<equiv> 0"
abbreviation (input) CONNECT_REASON_REQUEST :: int where "CONNECT_REASON_REQUEST \<equiv> 0"
abbreviation (input) CONNECT_REASON_AUTO_RECONNECT :: int where "CONNECT_REASON_AUTO_RECONNECT \<equiv> 1"
abbreviation (input) DISCONNECT_REASON_REQUEST :: int where "DISCONNECT_REASON_REQUEST \<equiv> 0"
abbreviation (input) DISCONNECT_REASON_ERROR :: int where "DISCONNECT_REASON_ERROR \<equiv> 1"
abbreviation (input) DISCONNECT_REASON_SHUTDOWN :: int where "DISCONNECT_REASON_SHUTDOWN \<equiv> 2"
abbreviation (input) CONNECTION_STATE_DISCONNECTED :: int where "CONNECTION_STATE_DISCONNECTED \<equiv> 0"
abbreviation (input) CONNECTION_STATE_CONNECTED :: int where "CONNECTION_STATE_CONNECTED \<equiv> 1"
abbreviation (input) CONNECTION_STATE_PENDING :: int where "CONNECTION_STATE_PENDING \<equiv> 2"

text \<open>The values of the class \<^verbatim>\<open>Error\<close>, and its \<^verbatim>\<open>__str__\<close>.\<close>

abbreviation (input) TIMEOUT :: int where "TIMEOUT \<equiv> -1"
abbreviation (input) ALREADY_CONNECTED :: int where "ALREADY_CONNECTED \<equiv> -7"
abbreviation (input) NOT_CONNECTED :: int where "NOT_CONNECTED \<equiv> -8"
abbreviation (input) INVALID_PARAMETER :: int where "INVALID_PARAMETER \<equiv> -9"
abbreviation (input) NOT_SUPPORTED :: int where "NOT_SUPPORTED \<equiv> -10"
abbreviation (input) UNKNOWN_ERROR_CODE :: int where "UNKNOWN_ERROR_CODE \<equiv> -11"

definition Error_str :: "int \<Rightarrow> string \<Rightarrow> string" where
  "Error_str value description = description @ '' ('' @ int_str value @ '')''"

text \<open>The response expected flag of one function, \<^verbatim>\<open>Device.RESPONSE_EXPECTED_*\<close>.\<close>

datatype resp_flag =
    INVALID_FUNCTION_ID
  | ALWAYS_TRUE     \<comment> \<open>getter\<close>
  | ALWAYS_FALSE    \<comment> \<open>callback\<close>
  | RE_TRUE         \<comment> \<open>setter\<close>
  | RE_FALSE        \<comment> \<open>setter, default\<close>

subsection \<open>Objects\<close>

type_synonym cb_handle = "nat option"

record device =
  uid :: int
  api_version :: "int \<times> int \<times> int"
  dev_registered_callbacks :: "int \<rightharpoonup> cb_handle"
  callback_formats :: "int \<rightharpoonup> string"
  expected_response_function_id :: "int option"
  expected_response_sequence_number :: "int option"
  response_queue :: "bytes list"
  response_expected :: "resp_flag list"

text \<open>
  Threads: any thread of the user, the callback thread of a context, the disconnect prober
  and the receiver started for a socket number.
\<close>

datatype thread =
    User_Thread nat
  | Callback_Processor nat
  | Disconnect_Prober int
  | Brickd_Receiver int

text \<open>
  A reference to a thread object: one that was started, or one whose \<^verbatim>\<open>start()\<close> raised.
  \<^verbatim>\<open>join()\<close> on the latter raises RuntimeError (here \<open>ThreadError\<close>).
\<close>

datatype thread_ref = Started thread | Unstarted thread

datatype queue_item =
    QUEUE_EXIT
  | QUEUE_META int int "int option"
  | QUEUE_PACKET bytes

record cb_context =
  cb_queue :: "queue_item list"
  cb_thread :: "thread option"
  packet_dispatch_allowed :: bool

text \<open>A connected socket: its peer and all bytes the operating system accepted for it.\<close>

record sock =
  sock_peer :: "string \<times> int"
  sock_sent :: bytes

record ipcon =
  host :: "string option"
  port :: "int option"
  timeout :: rat
  auto_reconnect :: bool
  auto_reconnect_allowed :: bool
  auto_reconnect_pending :: bool
  next_sequence_number :: int
  next_authentication_nonce :: int
  devices :: "int \<rightharpoonup> nat"
  registered_callbacks :: "int \<rightharpoonup> cb_handle"
  socket :: "sock option"
  socket_id :: int
  receive_flag :: bool
  receive_thread :: "thread_ref option"
  callback :: "nat option"
  disconnect_probe_flag :: bool
  disconnect_probe_queue :: "bool list option"
  disconnect_probe_thread :: "thread_ref option"
  waiter :: nat
  brickd :: nat
  dev_heap :: "nat \<Rightarrow> device"
  next_dev :: nat
  ctx_heap :: "nat \<Rightarrow> cb_context"
  next_ctx :: nat

definition upd_dev :: "nat \<Rightarrow> (device \<Rightarrow> device) \<Rightarrow> ipcon \<Rightarrow> ipcon" where
  "upd_dev d f s = s\<lparr>dev_heap := (dev_heap s)(d := f (dev_heap s d))\<rparr>"

definition upd_ctx :: "nat \<Rightarrow> (cb_context \<Rightarrow> cb_context) \<Rightarrow> ipcon \<Rightarrow> ipcon" where
  "upd_ctx c f s = s\<lparr>ctx_heap := (ctx_heap s)(c := f (ctx_heap s c))\<rparr>"

text \<open>\<^verbatim>\<open>context.queue.put(item)\<close>, and \<^verbatim>\<open>self.callback.queue.put(item)\<close>, which raises
  AttributeError when \<^verbatim>\<open>self.callback\<close> is \<^verbatim>\<open>None\<close>.\<close>

definition ctx_put :: "nat \<Rightarrow> queue_item \<Rightarrow> ipcon \<Rightarrow> ipcon" where
  "ctx_put c item s = upd_ctx c (\<lambda>x. x\<lparr>cb_queue := cb_queue x @ [item]\<rparr>) s"

definition callback_put :: "queue_item \<Rightarrow> ipcon \<Rightarrow> unit res \<times> ipcon" where
  "callback_put item s = (case callback s of
     None \<Rightarrow> (Inl AttributeError, s)
   | Some c \<Rightarrow> (Inr (), ctx_put c item s))"

text \<open>Sequencing of stateful computations: an exception keeps the state it was raised in.\<close>

definition sbind :: "'a res \<times> 's \<Rightarrow> ('a \<Rightarrow> 's \<Rightarrow> 'b res \<times> 's) \<Rightarrow> 'b res \<times> 's" where
  "sbind m f = (case m of (Inl e, s) \<Rightarrow> (Inl e, s) | (Inr x, s) \<Rightarrow> f x s)"

lemma sbind_Inr [simp]: "sbind (Inr x, s) f = f x s"
  by (simp add: sbind_def)

lemma sbind_Inl [simp]: "sbind (Inl e, s) f = (Inl e, s)"
  by (simp add: sbind_def)

lemma sbind_eq_Inr [res_simps]:
  "sbind m f = (Inr y, t) \<longleftrightarrow> (\<exists>x s. m = (Inr x, s) \<and> f x s = (Inr y, t))"
  by (auto simp: sbind_def split: prod.splits sum.splits)

lemma sbind_eq_Inl [res_simps]:
  "sbind m f = (Inl e, t) \<longleftrightarrow> m = (Inl e, t) \<or> (\<exists>x s. m = (Inr x, s) \<and> f x s = (Inl e, t))"
  by (auto simp: sbind_def split: prod.splits sum.splits)

end
