(* ===== verification/Base58.thy ===== *)
theory Base58
  imports Prelude
begin

unbundle bit_operations_syntax

text \<open>
  The textual device identifiers of \<^verbatim>\<open>ip_connection.py\<close>: \<^verbatim>\<open>base58encode\<close>, \<^verbatim>\<open>base58decode\<close>
  and the reduction \<^verbatim>\<open>uid64_to_uid32\<close> of a 64-bit identifier. Python integers are
  unbounded, so they are \<open>int\<close>; the loops are recursive functions. Shown: decoding inverts
  encoding on every non-negative number, encoding inverts decoding on every string without
  a superfluous leading digit, and the reduction selects 32 fixed bits.
\<close>

definition BASE58 :: string where
  "BASE58 = ''123456789abcdefghijkmnopqrstuvwxyzABCDEFGHJKLMNPQRSTUVWXYZ''"

text \<open>The loop of \<^verbatim>\<open>base58encode\<close> with its two variables, and what follows the loop.\<close>

function base58encode_loop :: "int \<Rightarrow> string \<Rightarrow> string res" where
  "base58encode_loop value encoded =
     (if 58 \<le> value then
        rbind (py_index BASE58 (value mod 58)) (\<lambda>c. base58encode_loop (value div 58) (c # encoded))
      else rmap (\<lambda>c. c # encoded) (py_index BASE58 value))"
  by pat_completeness auto
termination
  by (relation "measure (\<lambda>(value, encoded). nat value)") auto

declare base58encode_loop.simps [simp del]

definition base58encode :: "int \<Rightarrow> string res" where
  "base58encode value = base58encode_loop value []"

text \<open>\<^verbatim>\<open>s.index(c)\<close>.\<close>

fun str_index :: "string \<Rightarrow> char \<Rightarrow> int res" where
  "str_index [] c = Inl ValueError"
| "str_index (d # ds) c = (if d = c then Inr 0 else rmap (\<lambda>i. i + 1) (str_index ds c))"

fun base58decode_loop :: "int \<Rightarrow> int \<Rightarrow> string \<Rightarrow> int res" where
  "base58decode_loop value column_multiplier [] = Inr value"
| "base58decode_loop value column_multiplier (c # cs) =
     rbind (str_index BASE58 c) (\<lambda>column.
       base58decode_loop (value + column * column_multiplier) (column_multiplier * 58) cs)"

definition base58decode :: "string \<Rightarrow> int res" where
  "base58decode encoded = base58decode_loop 0 1 (rev encoded)"

definition uid64_to_uid32 :: "int \<Rightarrow> int" where
  "uid64_to_uid32 uid64 =
     (let value1 = uid64 AND 0xFFFFFFFF;
          value2 = drop_bit 32 uid64 AND 0xFFFFFFFF;
          uid32 = value1 AND 0x00000FFF;
          uid32 = uid32 OR drop_bit 12 (value1 AND 0x0F000000);
          uid32 = uid32 OR push_bit 16 (value2 AND 0x0000003F);
          uid32 = uid32 OR push_bit 6 (value2 AND 0x000F0000);
          uid32 = uid32 OR push_bit 2 (value2 AND 0x3F000000)
      in uid32)"

text \<open>The value of a list of digits, most significant first.\<close>

fun digits58 :: "int list \<Rightarrow> int" where
  "digits58 [] = 0"
| "digits58 (d # ds) = d * 58 ^ length ds + digits58 ds"

text \<open>The bit of the 64-bit identifier that becomes bit \<open>n\<close> of the 32-bit one.\<close>

definition uid_source_bit :: "nat \<Rightarrow> nat" where
  "uid_source_bit n =
     (if n < 12 then n else if n < 16 then n + 12 else if n < 22 then n + 16
      else if n < 26 then n + 26 else n + 30)"

subsection \<open>The alphabet\<close>

lemma length_BASE58: "length BASE58 = 58"
  by (simp add: BASE58_def)

lemma distinct_BASE58: "distinct BASE58"
  by (simp add: BASE58_def)

lemma str_index_nth: "distinct s \<Longrightarrow> i < length s \<Longrightarrow> str_index s (s ! i) = Inr (int i)"
proof (induction s arbitrary: i)
  case Nil
  then show ?case by simp
next
  case (Cons d ds)
  show ?case
  proof (cases i)
    case 0
    then show ?thesis by simp
  next
    case (Suc j)
    with Cons have "str_index ds (ds ! j) = Inr (int j)" "ds ! j \<noteq> d" by auto
    with Suc show ?thesis by simp
  qed
qed

lemma str_index_ok: "str_index s c = Inr i \<Longrightarrow> 0 \<le> i \<and> i < int (length s) \<and> s ! nat i = c"
  by (induction s arbitrary: i) (auto simp: res_simps nat_add_distrib split: if_splits)

lemma str_index_error: "str_index s c = Inl e \<longleftrightarrow> e = ValueError \<and> c \<notin> set s"
  by (induction s) (auto simp: res_simps)

lemma py_index_digit: "0 \<le> d \<Longrightarrow> d < 58 \<Longrightarrow> py_index BASE58 d = Inr (BASE58 ! nat d)"
  by (simp add: py_index_def length_BASE58)

lemma str_index_digit: "0 \<le> d \<Longrightarrow> d < 58 \<Longrightarrow> str_index BASE58 (BASE58 ! nat d) = Inr d"
  using str_index_nth [OF distinct_BASE58, of "nat d"] by (simp add: length_BASE58)

subsection \<open>Decoding computes the positional value\<close>

lemma digits58_append_single: "digits58 (ds @ [d]) = 58 * digits58 ds + d"
  by (induction ds) (auto simp: algebra_simps)

lemma base58decode_loop_eq:
  "base58decode_loop v m cs = rmap (\<lambda>ds. v + m * digits58 (rev ds)) (mapM (str_index BASE58) cs)"
proof (induction cs arbitrary: v m)
  case Nil
  then show ?case by simp
next
  case (Cons c cs)
  show ?case
    by (cases "str_index BASE58 c"; cases "mapM (str_index BASE58) cs")
       (auto simp: Cons digits58_append_single algebra_simps)
qed

lemma base58decode_eq:
  "base58decode s = rmap (\<lambda>ds. digits58 (rev ds)) (mapM (str_index BASE58) (rev s))"
  by (simp add: base58decode_def base58decode_loop_eq)

definition valid58 :: "int list \<Rightarrow> bool" where
  "valid58 ds = list_all (\<lambda>d. 0 \<le> d \<and> d < 58) ds"

lemma base58decode_digits:
  assumes "valid58 ds"
  shows "base58decode (map (\<lambda>d. BASE58 ! nat d) ds) = Inr (digits58 ds)"
proof -
  have "mapM (str_index BASE58) (map (\<lambda>d. BASE58 ! nat d) xs) = Inr xs" if "valid58 xs" for xs
    using that by (induction xs) (auto simp: str_index_digit valid58_def)
  moreover have "valid58 (rev ds)" using assms by (simp add: valid58_def list_all_iff)
  ultimately show ?thesis by (simp add: base58decode_eq rev_map)
qed

lemma decodable_digits:
  assumes "set s \<subseteq> set BASE58"
  obtains ds where "valid58 ds" "s = map (\<lambda>d. BASE58 ! nat d) ds"
proof -
  have "\<exists>ds. valid58 ds \<and> s = map (\<lambda>d. BASE58 ! nat d) ds"
    using assms
  proof (induction s)
    case Nil
    then show ?case by (auto simp: valid58_def)
  next
    case (Cons c s)
    then obtain i ds where i: "i < 58" "c = BASE58 ! i" and ds: "valid58 ds" "s = map (\<lambda>d. BASE58 ! nat d) ds"
      by (auto simp: in_set_conv_nth length_BASE58)
    then have "valid58 (int i # ds)" "c # s = map (\<lambda>d. BASE58 ! nat d) (int i # ds)"
      by (auto simp: valid58_def)
    then show ?case by (intro exI [of _ "int i # ds"] conjI)
  qed
  with that show thesis by blast
qed

lemma digits58_bounds: "valid58 ds \<Longrightarrow> 0 \<le> digits58 ds \<and> digits58 ds < 58 ^ length ds"
proof (induction ds)
  case Nil
  then show ?case by simp
next
  case (Cons d ds)
  then have d: "0 \<le> d" "d \<le> 57" and ih: "0 \<le> digits58 ds" "digits58 ds < 58 ^ length ds"
    by (auto simp: valid58_def)
  have "d * 58 ^ length ds \<le> 57 * 58 ^ length ds"
    using d by (intro mult_right_mono) auto
  with ih(2) have "d * 58 ^ length ds + digits58 ds < 58 * 58 ^ length ds" by linarith
  with d ih(1) show ?case by simp
qed

lemma base58decode_nonneg: "base58decode s = Inr v \<Longrightarrow> 0 \<le> v"
proof -
  assume ok: "base58decode s = Inr v"
  then obtain ds where ds: "mapM (str_index BASE58) (rev s) = Inr ds" "v = digits58 (rev ds)"
    by (auto simp: base58decode_eq res_simps)
  have "valid58 xs" if "mapM (str_index BASE58) cs = Inr xs" for xs cs
    using that by (induction cs arbitrary: xs)
      (auto simp: res_simps valid58_def length_BASE58 dest!: str_index_ok)
  from this [OF ds(1)] have "valid58 (rev ds)" by (simp add: valid58_def list_all_iff)
  with ds(2) digits58_bounds show ?thesis by simp
qed

subsection \<open>Encoding produces the digits\<close>

function enc_digits :: "int \<Rightarrow> int list" where
  "enc_digits v = (if v < 58 then [v] else enc_digits (v div 58) @ [v mod 58])"
  by pat_completeness auto
termination
  by (relation "measure nat") auto

declare enc_digits.simps [simp del]

lemma enc_digits_valid: "0 \<le> v \<Longrightarrow> valid58 (enc_digits v) \<and> digits58 (enc_digits v) = v"
proof (induction v rule: enc_digits.induct)
  case (1 v)
  then show ?case
    by (cases "v < 58") (auto simp: enc_digits.simps [of v] digits58_append_single valid58_def)
qed

lemma base58encode_loop_digits:
  "0 \<le> v \<Longrightarrow> base58encode_loop v acc = Inr (map (\<lambda>d. BASE58 ! nat d) (enc_digits v) @ acc)"
proof (induction v acc rule: base58encode_loop.induct)
  case (1 v acc)
  then show ?case
    by (cases "v < 58")
       (auto simp: base58encode_loop.simps [of v] enc_digits.simps [of v] py_index_digit)
qed

lemma base58encode_digits:
  "0 \<le> v \<Longrightarrow> base58encode v = Inr (map (\<lambda>d. BASE58 ! nat d) (enc_digits v))"
  by (simp add: base58encode_def base58encode_loop_digits)

lemma enc_digits_digits58:
  "valid58 ds \<Longrightarrow> ds \<noteq> [] \<Longrightarrow> hd ds \<noteq> 0 \<or> length ds = 1 \<Longrightarrow> enc_digits (digits58 ds) = ds"
proof (induction ds rule: rev_induct)
  case Nil
  then show ?case by simp
next
  case (snoc d ds)
  have d: "0 \<le> d" "d < 58" and v: "valid58 ds" using snoc.prems by (auto simp: valid58_def)
  show ?case
  proof (cases "ds = []")
    case True
    with d show ?thesis by (simp add: enc_digits.simps)
  next
    case False
    with snoc.prems have hd: "hd ds \<noteq> 0" by simp
    then have ih: "enc_digits (digits58 ds) = ds" using snoc.IH v False by simp
    have pos: "0 < digits58 ds"
    proof (cases ds)
      case (Cons e es)
      then have "0 < e" "0 \<le> digits58 es"
        using v hd digits58_bounds [of es] by (auto simp: valid58_def)
      with Cons show ?thesis by (simp add: add_pos_nonneg)
    qed (use False in simp)
    then show ?thesis
      using d ih by (simp add: digits58_append_single enc_digits.simps [of "58 * digits58 ds + d"])
  qed
qed

text \<open>
  C16. Round trip of the device identifiers: \<^verbatim>\<open>base58encode\<close> returns a string for every
  number that is not negative, and \<^verbatim>\<open>base58decode\<close> reads that number back.
\<close>

theorem base58_decode_encode:
  assumes "0 \<le> value"
  shows "\<exists>s. base58encode value = Inr s \<and> base58decode s = Inr value"
proof -
  have "base58decode (map (\<lambda>d. BASE58 ! nat d) (enc_digits value)) = Inr value"
    using enc_digits_valid [OF assms] base58decode_digits by metis
  with base58encode_digits [OF assms] show ?thesis by blast
qed

theorem base58_decode_encode_witness:
  "(0::int) \<le> 188325 \<and> (\<exists>s. base58encode 188325 = Inr s \<and> base58decode s = Inr 188325)"
  using base58_decode_encode [of 188325] by simp

text \<open>
  C17. The other direction: a non-empty identifier over the alphabet is what
  \<^verbatim>\<open>base58encode\<close> gives for its value, unless it starts with the zero digit \<^verbatim>\<open>1\<close> without
  being just that digit. So no two identifiers in that normal form name the same device.
\<close>

theorem base58_encode_decode:
  assumes "set s \<subseteq> set BASE58" "s \<noteq> []" "hd s \<noteq> CHR ''1'' \<or> length s = 1"
  shows "rbind (base58decode s) base58encode = Inr s"
proof -
  obtain ds where ds: "valid58 ds" "s = map (\<lambda>d. BASE58 ! nat d) ds"
    using decodable_digits [OF assms(1)] .
  have "hd ds \<noteq> 0 \<or> length ds = 1" "ds \<noteq> []"
    using assms(2,3) ds by (cases ds; auto simp: BASE58_def)+
  then have "enc_digits (digits58 ds) = ds" using enc_digits_digits58 ds(1) by blast
  then show ?thesis
    using ds base58decode_digits base58encode_digits digits58_bounds by simp
qed

theorem base58_encode_decode_witness: "rbind (base58decode ''oV7'') base58encode = Inr ''oV7''"
  by (rule base58_encode_decode) (simp_all add: BASE58_def)

lemma base58decode_error: "base58decode s = Inl e \<longleftrightarrow> e = ValueError \<and> \<not> set s \<subseteq> set BASE58"
proof -
  have "mapM (str_index BASE58) cs = Inl e \<longleftrightarrow> e = ValueError \<and> \<not> set cs \<subseteq> set BASE58" for cs
  proof (induction cs)
    case (Cons c cs)
    then show ?case
      using str_index_error [of BASE58 c e] str_index_error [of BASE58 c]
      by (cases "str_index BASE58 c") (auto simp: res_simps)
  qed simp
  from this [of "rev s"] show ?thesis by (simp add: base58decode_eq res_simps)
qed

subsection \<open>The reduction to 32 bits\<close>

lemma uid_masks:
  "(0xFFFFFFFF :: int) = mask 32" "(0x00000FFF :: int) = mask 12"
  "(0x0F000000 :: int) = push_bit 24 (mask 4)" "(0x0000003F :: int) = mask 6"
  "(0x000F0000 :: int) = push_bit 16 (mask 4)" "(0x3F000000 :: int) = push_bit 24 (mask 6)"
  by (simp_all add: mask_eq_exp_minus_1 push_bit_eq_mult)

lemma uid64_to_uid32_bit:
  "bit (uid64_to_uid32 uid64) n \<longleftrightarrow> n < 32 \<and> bit uid64 (uid_source_bit n)"
  by (auto simp: uid64_to_uid32_def Let_def uid_masks bit_simps uid_source_bit_def add.commute)

lemma uid64_to_uid32_range: "0 \<le> uid64_to_uid32 uid64 \<and> uid64_to_uid32 uid64 < 2 ^ 32"
proof -
  have "take_bit 32 (uid64_to_uid32 uid64) = uid64_to_uid32 uid64"
    by (rule bit_eqI) (auto simp: bit_simps uid64_to_uid32_bit)
  then show ?thesis
    by (metis take_bit_nonnegative take_bit_int_less_exp)
qed

text \<open>
  C34. \<^verbatim>\<open>uid64_to_uid32\<close> only selects bits: bit \<open>n\<close> of its result is the bit of the argument
  that \<open>uid_source_bit\<close> names, and no bit from 32 on is set. Hence the result always fits
  the four bytes it has in a packet header.
\<close>

theorem uid64_to_uid32_bits:
  "(bit (uid64_to_uid32 uid64) n \<longleftrightarrow> n < 32 \<and> bit uid64 (uid_source_bit n)) \<and>
   0 \<le> uid64_to_uid32 uid64 \<and> uid64_to_uid32 uid64 < 2 ^ 32"
  using uid64_to_uid32_bit uid64_to_uid32_range by blast

end
