(* ===== verification/Device.thy ===== *)
theory Device
  imports State Base58
begin

text \<open>
  The class \<^verbatim>\<open>Device\<close> of \<^verbatim>\<open>ip_connection.py\<close>: its constructor and the response expected table.
  The table has 256 flags; getters (\<open>ALWAYS_TRUE\<close>) and callbacks (\<open>ALWAYS_FALSE\<close>) are fixed,
  setters can be switched. The locale \<open>response_flags\<close> states what the table promises its
  clients; it is interpreted on the methods of the class.
\<close>

subsection \<open>Model\<close>

text \<open>The fields \<^verbatim>\<open>Device.__init__\<close> gives a new object, before it is added to the connection.\<close>

definition new_device :: "int \<Rightarrow> device" where
  "new_device uid' =
     \<lparr>uid = uid',
      api_version = (0, 0, 0),
      dev_registered_callbacks = Map.empty,
      callback_formats = Map.empty,
      expected_response_function_id = None,
      expected_response_sequence_number = None,
      response_queue = [],
      response_expected = (replicate 256 INVALID_FUNCTION_ID)
        [nat FUNCTION_ENUMERATE := ALWAYS_FALSE,
         nat FUNCTION_ADC_CALIBRATE := ALWAYS_TRUE,
         nat FUNCTION_GET_ADC_CALIBRATION := ALWAYS_TRUE,
         nat FUNCTION_READ_BRICKLET_UID := ALWAYS_TRUE,
         nat FUNCTION_WRITE_BRICKLET_UID := ALWAYS_TRUE,
         nat FUNCTION_READ_BRICKLET_PLUGIN := ALWAYS_TRUE,
         nat FUNCTION_WRITE_BRICKLET_PLUGIN := ALWAYS_TRUE,
         nat CALLBACK_ENUMERATE := ALWAYS_FALSE]\<rparr>"

definition device_uid :: "string \<Rightarrow> int res" where
  "device_uid u = rmap (\<lambda>uid'. if uid' > 0xFFFFFFFF then uid64_to_uid32 uid' else uid') (base58decode u)"

text \<open>\<^verbatim>\<open>Device.__init__\<close>: the new object is stored and entered in \<^verbatim>\<open>ipcon.devices\<close>.\<close>

definition Device_init :: "string \<Rightarrow> ipcon \<Rightarrow> nat res \<times> ipcon" where
  "Device_init u s = (case device_uid u of
     Inl e \<Rightarrow> (Inl e, s)
   | Inr uid' \<Rightarrow>
       (let d = next_dev s in
        (Inr d, s\<lparr>dev_heap := (dev_heap s)(d := new_device uid'),
                  next_dev := d + 1,
                  devices := (devices s)(uid' \<mapsto> d)\<rparr>)))"

definition get_api_version :: "device \<Rightarrow> int \<times> int \<times> int" where
  "get_api_version dev = api_version dev"

definition get_response_expected :: "device \<Rightarrow> int \<Rightarrow> bool res" where
  "get_response_expected dev function_id =
     (if function_id < 0 \<or> int (length (response_expected dev)) \<le> function_id then Inl ValueError
      else let flag = response_expected dev ! nat function_id in
        if flag = INVALID_FUNCTION_ID then Inl ValueError
        else Inr (flag \<in> {ALWAYS_TRUE, RE_TRUE}))"

definition set_response_expected :: "device \<Rightarrow> int \<Rightarrow> bool \<Rightarrow> device res" where
  "set_response_expected dev function_id expected =
     (if function_id < 0 \<or> int (length (response_expected dev)) \<le> function_id then Inl ValueError
      else let flag = response_expected dev ! nat function_id in
        if flag = INVALID_FUNCTION_ID then Inl ValueError
        else if flag \<in> {ALWAYS_TRUE, ALWAYS_FALSE} then Inl ValueError
        else Inr (dev\<lparr>response_expected := (response_expected dev)
               [nat function_id := if expected then RE_TRUE else RE_FALSE]\<rparr>))"

text \<open>The loop of \<^verbatim>\<open>set_response_expected_all\<close> over the indices of the table.\<close>

fun set_all_loop :: "resp_flag \<Rightarrow> nat list \<Rightarrow> resp_flag list \<Rightarrow> resp_flag list" where
  "set_all_loop flag [] tab = tab"
| "set_all_loop flag (i # is) tab =
     set_all_loop flag is (if tab ! i \<in> {RE_TRUE, RE_FALSE} then tab[i := flag] else tab)"

definition set_response_expected_all :: "device \<Rightarrow> bool \<Rightarrow> device" where
  "set_response_expected_all dev expected =
     (let flag = (if expected then RE_TRUE else RE_FALSE) in
      dev\<lparr>response_expected := set_all_loop flag [0..<length (response_expected dev)] (response_expected dev)\<rparr>)"

text \<open>
  \<^verbatim>\<open>BrickDaemon\<close>, the device that stands for the daemon itself, and \<^verbatim>\<open>IPConnection.__init__\<close>,
  which creates it. \<^verbatim>\<open>Semaphore()\<close> starts with the value 1; the default timeout is 2.5 s.
\<close>

definition BrickDaemon_init :: "string \<Rightarrow> ipcon \<Rightarrow> nat res \<times> ipcon" where
  "BrickDaemon_init u s = sbind (Device_init u s) (\<lambda>d s.
     (Inr d, upd_dev d (\<lambda>dev. dev\<lparr>api_version := (2, 0, 0),
        response_expected := (response_expected dev)[1 := ALWAYS_TRUE, 2 := RE_TRUE]\<rparr>) s))"

definition ipcon_fields :: ipcon where
  "ipcon_fields =
     \<lparr>host = None, port = None, timeout = 5 / 2,
      auto_reconnect = True, auto_reconnect_allowed = False, auto_reconnect_pending = False,
      next_sequence_number = 0, next_authentication_nonce = 0,
      devices = Map.empty, registered_callbacks = Map.empty,
      socket = None, socket_id = 0,
      receive_flag = False, receive_thread = None,
      callback = None,
      disconnect_probe_flag = False, disconnect_probe_queue = None, disconnect_probe_thread = None,
      waiter = 1, brickd = 0,
      dev_heap = (\<lambda>_. new_device 0), next_dev = 0,
      ctx_heap = (\<lambda>_. \<lparr>cb_queue = [], cb_thread = None, packet_dispatch_allowed = False\<rparr>),
      next_ctx = 0\<rparr>"

definition IPConnection_init :: "unit res \<times> ipcon" where
  "IPConnection_init = sbind (BrickDaemon_init ''2'' ipcon_fields) (\<lambda>d s. (Inr (), s\<lparr>brickd := d\<rparr>))"

text \<open>The state of a connection object just created.\<close>

abbreviation ipcon0 :: ipcon where
  "ipcon0 \<equiv> snd IPConnection_init"

text \<open>The functions whose flag can be changed.\<close>

definition adjustable :: "device \<Rightarrow> int \<Rightarrow> bool" where
  "adjustable dev function_id =
     (0 \<le> function_id \<and> function_id < int (length (response_expected dev)) \<and>
      response_expected dev ! nat function_id \<in> {RE_TRUE, RE_FALSE})"

subsection \<open>The loop over the whole table\<close>

definition switch_flag :: "resp_flag \<Rightarrow> resp_flag \<Rightarrow> resp_flag" where
  "switch_flag flag old = (if old \<in> {RE_TRUE, RE_FALSE} then flag else old)"

lemma set_all_loop_length [simp]: "length (set_all_loop flag is tab) = length tab"
  by (induction "is" arbitrary: tab) auto

lemma set_all_loop_nth:
  "distinct is \<Longrightarrow> i < length tab \<Longrightarrow>
   set_all_loop flag is tab ! i = (if i \<in> set is then switch_flag flag (tab ! i) else tab ! i)"
proof (induction "is" arbitrary: tab)
  case Nil
  then show ?case by simp
next
  case (Cons j js)
  then show ?case
    by (cases "i = j") (auto simp: switch_flag_def nth_list_update)
qed

lemma set_all_table:
  "response_expected (set_response_expected_all dev b) =
     map (switch_flag (if b then RE_TRUE else RE_FALSE)) (response_expected dev)"
  by (rule nth_equalityI) (auto simp: set_response_expected_all_def Let_def set_all_loop_nth)

text \<open>
  \<^verbatim>\<open>set_response_expected_all\<close> is the pointwise switch: walking the table and writing
  in place changes every setter flag to the requested one and leaves every other flag alone.
\<close>

theorem set_response_expected_all_map:
  "response_expected (set_response_expected_all dev b) =
     map (switch_flag (if b then RE_TRUE else RE_FALSE)) (response_expected dev)"
  by (rule set_all_table)

subsection \<open>The contract of the table\<close>

datatype flag_op = Set_One int bool | Set_All bool

text \<open>A sequence of calls; a call that raises leaves the object as it is and the next one runs.\<close>

fun run_flag_ops :: "('d \<Rightarrow> int \<Rightarrow> bool \<Rightarrow> 'd res) \<Rightarrow> ('d \<Rightarrow> bool \<Rightarrow> 'd) \<Rightarrow> flag_op list \<Rightarrow> 'd \<Rightarrow> 'd" where
  "run_flag_ops assign assign_all [] d = d"
| "run_flag_ops assign assign_all (Set_One f b # ops) d =
     run_flag_ops assign assign_all ops (case assign d f b of Inl _ \<Rightarrow> d | Inr d' \<Rightarrow> d')"
| "run_flag_ops assign assign_all (Set_All b # ops) d =
     run_flag_ops assign assign_all ops (assign_all d b)"

text \<open>The value a call gives the flag of function \<open>f\<close>, if it concerns that flag.\<close>

fun op_value :: "int \<Rightarrow> flag_op \<Rightarrow> bool option" where
  "op_value f (Set_One g b) = (if g = f then Some b else None)"
| "op_value f (Set_All b) = Some b"

locale response_flags =
  fixes lookup :: "'d \<Rightarrow> int \<Rightarrow> bool res"
    and assign :: "'d \<Rightarrow> int \<Rightarrow> bool \<Rightarrow> 'd res"
    and assign_all :: "'d \<Rightarrow> bool \<Rightarrow> 'd"
    and free :: "'d \<Rightarrow> int \<Rightarrow> bool"
  assumes assign_ok: "is_ok (assign d f b) \<longleftrightarrow> free d f"
    and lookup_assign: "assign d f b = Inr d' \<Longrightarrow> lookup d' g = (if g = f then Inr b else lookup d g)"
    and free_assign: "assign d f b = Inr d' \<Longrightarrow> free d' g \<longleftrightarrow> free d g"
    and lookup_assign_all: "lookup (assign_all d b) g = (if free d g then Inr b else lookup d g)"
    and free_assign_all: "free (assign_all d b) g \<longleftrightarrow> free d g"
begin

lemma run_free: "free (run_flag_ops assign assign_all ops d) g \<longleftrightarrow> free d g"
proof (induction ops arbitrary: d)
  case (Cons op ops)
  then show ?case
    by (cases op) (auto simp: free_assign free_assign_all split: sum.splits)
qed simp

lemma run_fixed: "\<not> free d g \<Longrightarrow> lookup (run_flag_ops assign assign_all ops d) g = lookup d g"
proof (induction ops arbitrary: d)
  case (Cons op ops)
  have fixed: "assign d g b \<noteq> Inr d'" for b d'
    using assign_ok [of d g b] Cons.prems by auto
  with Cons show ?case
    by (cases op) (auto simp: free_assign free_assign_all lookup_assign lookup_assign_all split: sum.splits)
qed simp

lemma run_last:
  "free d f \<Longrightarrow> lookup (run_flag_ops assign assign_all ops d) f =
     (let vs = List.map_filter (op_value f) ops in if vs = [] then lookup d f else Inr (last vs))"
proof (induction ops arbitrary: d)
  case (Cons op ops)
  show ?case
  proof (cases op)
    case (Set_One g b)
    show ?thesis
    proof (cases "assign d g b")
      case (Inl e)
      then have "g \<noteq> f" using assign_ok [of d g b] Cons.prems by auto
      with Inl Set_One Cons show ?thesis by (simp add: map_filter_simps)
    next
      case (Inr d')
      with Set_One Cons.IH [of d'] Cons.prems free_assign [OF Inr] lookup_assign [OF Inr, of f] show ?thesis
        by (auto simp: map_filter_simps Let_def)
    qed
  next
    case (Set_All b)
    with Cons.IH [of "assign_all d b"] Cons.prems show ?thesis
      by (auto simp: map_filter_simps Let_def free_assign_all lookup_assign_all)
  qed
qed (simp add: map_filter_simps)

end

lemma adjustable_assign:
  "set_response_expected d f b = Inr d' \<Longrightarrow> adjustable d' g \<longleftrightarrow> adjustable d g"
  by (cases "g = f"; cases "response_expected d ! nat f")
     (auto simp: set_response_expected_def adjustable_def Let_def nth_list_update nat_eq_iff
        split: if_splits)

lemma lookup_assign_flag:
  "set_response_expected d f b = Inr d' \<Longrightarrow>
   get_response_expected d' g = (if g = f then Inr b else get_response_expected d g)"
  by (cases "g = f"; cases "g < 0")
     (auto simp: set_response_expected_def get_response_expected_def Let_def nth_list_update nat_eq_iff
        split: if_splits)

lemma lookup_assign_all_flag:
  "get_response_expected (set_response_expected_all d b) g =
     (if adjustable d g then Inr b else get_response_expected d g)"
  by (cases "response_expected d ! nat g")
     (auto simp: get_response_expected_def set_all_table adjustable_def switch_flag_def nat_less_iff)

lemma adjustable_assign_all: "adjustable (set_response_expected_all d b) g \<longleftrightarrow> adjustable d g"
  by (cases "response_expected d ! nat g")
     (auto simp: set_all_table adjustable_def switch_flag_def nat_less_iff)

lemma assign_ok_adjustable: "is_ok (set_response_expected d f b) \<longleftrightarrow> adjustable d f"
  by (cases "response_expected d ! nat f")
     (auto simp: set_response_expected_def adjustable_def Let_def)

interpretation flags: response_flags
  get_response_expected set_response_expected set_response_expected_all adjustable
  by unfold_locales
     (simp_all add: assign_ok_adjustable lookup_assign_flag adjustable_assign lookup_assign_all_flag
        adjustable_assign_all)

text \<open>The calls of \<^verbatim>\<open>set_response_expected\<close> and \<^verbatim>\<open>set_response_expected_all\<close> on one device.\<close>

abbreviation run_ops :: "flag_op list \<Rightarrow> device \<Rightarrow> device" where
  "run_ops \<equiv> run_flag_ops set_response_expected set_response_expected_all"

text \<open>
  C20. The flag of a getter or of a callback cannot be changed: whatever sequence of
  \<^verbatim>\<open>set_response_expected\<close> and \<^verbatim>\<open>set_response_expected_all\<close> calls is made, and whether or
  not some of them raise, \<^verbatim>\<open>get_response_expected\<close> returns what it returned before.
\<close>

theorem fixed_flags_never_change:
  assumes "0 \<le> f" "f < int (length (response_expected d))"
    and "response_expected d ! nat f \<in> {ALWAYS_TRUE, ALWAYS_FALSE, INVALID_FUNCTION_ID}"
  shows "get_response_expected (run_ops ops d) f = get_response_expected d f"
  using assms by (intro flags.run_fixed) (auto simp: adjustable_def)

theorem fixed_flags_never_change_witness:
  "get_response_expected (run_ops [Set_One 249 False, Set_All False] (new_device 7)) 249
     = get_response_expected (new_device 7) 249"
  by (rule fixed_flags_never_change) (simp_all add: new_device_def)

text \<open>
  C26. The flag of a setter is the one set last: after any sequence of calls it has the value
  given by the last call that concerns it, by either of the two methods, whatever calls for
  other functions come before or after, and its old value if no call concerns it.
\<close>

theorem last_flag_wins:
  assumes "adjustable d f"
  shows "get_response_expected (run_ops ops d) f =
    (let vs = List.map_filter (op_value f) ops in if vs = [] then get_response_expected d f else Inr (last vs))"
  using assms by (rule flags.run_last)

theorem last_flag_wins_witness:
  "let d = (new_device 7)\<lparr>response_expected := [INVALID_FUNCTION_ID, RE_FALSE, RE_FALSE]\<rparr> in
   get_response_expected (run_ops [Set_All False, Set_One 1 True, Set_One 2 False] d) 1 = Inr True \<and>
   get_response_expected (run_ops [Set_One 2 True] d) 1 = Inr False"
proof -
  let ?d = "(new_device 7)\<lparr>response_expected := [INVALID_FUNCTION_ID, RE_FALSE, RE_FALSE]\<rparr>"
  have a: "adjustable ?d 1" by (simp add: adjustable_def)
  have "get_response_expected ?d 1 = Inr False" by (simp add: get_response_expected_def)
  with last_flag_wins [OF a, of "[Set_All False, Set_One 1 True, Set_One 2 False]"] last_flag_wins [OF a, of "[Set_One 2 True]"]
  show ?thesis unfolding Let_def by (simp add: map_filter_simps)
qed

subsection \<open>Identifiers\<close>

lemma device_uid_bounds: "device_uid u = Inr x \<Longrightarrow> 0 \<le> x \<and> x < 2 ^ 32"
  using uid64_to_uid32_range base58decode_nonneg
  by (fastforce simp: device_uid_def res_simps not_less split: if_splits)

text \<open>Well-formed device objects: an identifier of four bytes and a full table.\<close>

definition device_ok :: "device \<Rightarrow> bool" where
  "device_ok dev = (0 \<le> uid dev \<and> uid dev < 2 ^ 32 \<and> length (response_expected dev) = 256)"

lemma new_device_ok: "device_uid u = Inr x \<Longrightarrow> device_ok (new_device x)"
  using device_uid_bounds by (auto simp: device_ok_def new_device_def)

lemma known_function_range:
  "device_ok dev \<Longrightarrow> get_response_expected dev f = Inr b \<Longrightarrow> 0 \<le> f \<and> f < 256"
  by (auto simp: device_ok_def get_response_expected_def split: if_splits)

lemma set_response_expected_ok: "device_ok d \<Longrightarrow> set_response_expected d f b = Inr d' \<Longrightarrow> device_ok d'"
  by (auto simp: device_ok_def set_response_expected_def Let_def split: if_splits)

lemma set_response_expected_all_ok: "device_ok d \<Longrightarrow> device_ok (set_response_expected_all d b)"
  by (auto simp: device_ok_def set_response_expected_all_def Let_def)

text \<open>
  C33. Every device object the constructor creates is well formed, whatever string names it:
  the constructor raises ValueError for a string with a character outside the alphabet, and
  otherwise the identifier fits four bytes, also when the string stands for 64 bits or more;
  the object is entered under its identifier and no other entry changes.
\<close>

theorem Device_init_correct:
  "Device_init u s =
     (if set u \<subseteq> set BASE58
      then (Inr (next_dev s),
            s\<lparr>dev_heap := (dev_heap s)(next_dev s := new_device (projr (device_uid u))),
              next_dev := next_dev s + 1,
              devices := (devices s)(projr (device_uid u) \<mapsto> next_dev s)\<rparr>)
      else (Inl ValueError, s)) \<and>
   (set u \<subseteq> set BASE58 \<longrightarrow> device_ok (new_device (projr (device_uid u))))"
proof (cases "device_uid u")
  case (Inl e)
  then have "e = ValueError" "\<not> set u \<subseteq> set BASE58"
    using base58decode_error by (auto simp: device_uid_def res_simps)
  with Inl show ?thesis by (simp add: Device_init_def)
next
  case (Inr x)
  then have "set u \<subseteq> set BASE58"
    using base58decode_error [of u ValueError] by (auto simp: device_uid_def res_simps)
  with Inr new_device_ok show ?thesis by (simp add: Device_init_def Let_def)
qed

theorem Device_init_correct_witness:
  "set ''oV7'' \<subseteq> set BASE58 \<and> device_ok (new_device (projr (device_uid ''oV7'')))"
proof -
  have "set ''oV7'' \<subseteq> set BASE58" by (simp add: BASE58_def)
  with Device_init_correct [of "''oV7''" undefined] show ?thesis by simp
qed

lemma device_uid_2: "device_uid ''2'' = Inr 1"
  by code_simp

lemma ipcon0_eq:
  "IPConnection_init = (Inr (), ipcon_fields\<lparr>
     dev_heap := (\<lambda>_. new_device 0)(0 := (new_device 1)\<lparr>api_version := (2, 0, 0),
        response_expected := (response_expected (new_device 1))[1 := ALWAYS_TRUE, 2 := RE_TRUE]\<rparr>),
     next_dev := 1, devices := [1 \<mapsto> 0]\<rparr>)"
  by (simp add: IPConnection_init_def BrickDaemon_init_def Device_init_def device_uid_2 ipcon_fields_def
      upd_dev_def Let_def)

end
