(* ===== verification/Packet.thy ===== *)
theory Packet
  imports Device
begin

unbundle bit_operations_syntax

text \<open>
  The eight-byte packet header of \<^verbatim>\<open>ip_connection.py\<close>: the readers \<^verbatim>\<open>get_*_from_data\<close>, the
  sequence numbers and \<^verbatim>\<open>create_packet_header\<close>. Shown: what is written in a header is what
  the readers find there, sequence numbers run through 1 to 15 and are never 0, which on
  the wire marks a callback, and a header can be built for every registered function.
\<close>

subsection \<open>Model\<close>

definition unpack_int :: "string \<Rightarrow> bytes \<Rightarrow> int res" where
  "unpack_int f data = rbind (unpack_le f data) (\<lambda>xs. case xs of PInt v # _ \<Rightarrow> Inr v | _ \<Rightarrow> Inl IndexError)"

definition get_uid_from_data :: "bytes \<Rightarrow> int res" where
  "get_uid_from_data data = unpack_int ''I'' (py_slice 0 4 data)"

definition get_length_from_data :: "bytes \<Rightarrow> int res" where
  "get_length_from_data data = unpack_int ''B'' (py_slice 4 5 data)"

definition get_function_id_from_data :: "bytes \<Rightarrow> int res" where
  "get_function_id_from_data data = unpack_int ''B'' (py_slice 5 6 data)"

definition get_sequence_number_from_data :: "bytes \<Rightarrow> int res" where
  "get_sequence_number_from_data data =
     rmap (\<lambda>x. drop_bit 4 x AND 0x0F) (unpack_int ''B'' (py_slice 6 7 data))"

definition get_error_code_from_data :: "bytes \<Rightarrow> int res" where
  "get_error_code_from_data data =
     rmap (\<lambda>x. drop_bit 6 x AND 0x03) (unpack_int ''B'' (py_slice 7 8 data))"

definition get_next_sequence_number :: "ipcon \<Rightarrow> int \<times> ipcon" where
  "get_next_sequence_number s =
     (let sequence_number = next_sequence_number s + 1
      in (sequence_number, s\<lparr>next_sequence_number := sequence_number mod 15\<rparr>))"

text \<open>
  \<^verbatim>\<open>create_packet_header\<close>: the header, whether a response is expected, and the sequence
  number. The sequence number is consumed even when the call raises.
\<close>

definition create_packet_header ::
    "nat option \<Rightarrow> int \<Rightarrow> int \<Rightarrow> ipcon \<Rightarrow> (bytes \<times> bool \<times> int) res \<times> ipcon" where
  "create_packet_header dev len function_id s =
     (let (sequence_number, s') = get_next_sequence_number s in
      (rbind
         (case dev of
            None \<Rightarrow> Inr (BROADCAST_UID, 0)
          | Some d \<Rightarrow> rmap (\<lambda>e. (uid (dev_heap s' d), if e then 1 else 0))
                       (get_response_expected (dev_heap s' d) function_id))
         (\<lambda>(u, r_bit).
            let sequence_number_and_options = push_bit 4 sequence_number OR push_bit 3 r_bit in
            rmap (\<lambda>h. (h, r_bit \<noteq> 0, sequence_number))
              (pack_le ''IBBBB'' [PInt u, PInt len, PInt function_id,
                                  PInt sequence_number_and_options, PInt 0])),
       s'))"

text \<open>The sequence numbers of \<open>n\<close> consecutive calls.\<close>

fun sequence_numbers :: "nat \<Rightarrow> ipcon \<Rightarrow> int list" where
  "sequence_numbers 0 s = []"
| "sequence_numbers (Suc n) s =
     (let (q, s') = get_next_sequence_number s in q # sequence_numbers n s')"

subsection \<open>Reading a header\<close>

lemma header_atoms:
  "atoms_of ''I'' = Inr [UInt 4]" "atoms_of ''B'' = Inr [UInt 1]"
  "atoms_of ''IBBBB'' = Inr [UInt 4, UInt 1, UInt 1, UInt 1, UInt 1]"
  by code_simp+

lemma unpack_int_I [simp]:
  "unpack_int ''I'' bs = (if length bs = 4 then Inr (le_uint bs) else Inl StructError)"
  by (simp add: unpack_int_def unpack_le_def header_atoms)

lemma unpack_int_B [simp]:
  "unpack_int ''B'' bs = (if length bs = 1 then Inr (le_uint bs) else Inl StructError)"
  by (simp add: unpack_int_def unpack_le_def header_atoms)

lemma le_uint_slice1: "i < length data \<Longrightarrow> le_uint (py_slice i (Suc i) data) = uint (data ! i)"
  by (simp add: py_slice_def take_Suc_conv_app_nth hd_drop_conv_nth take_Suc)

lemma get_uid_from_data_eq:
  "get_uid_from_data data = (if 4 \<le> length data then Inr (le_uint (take 4 data)) else Inl StructError)"
  by (auto simp: get_uid_from_data_def py_slice_def)

lemma get_length_from_data_eq:
  "get_length_from_data data = (if 4 < length data then Inr (uint (data ! 4)) else Inl StructError)"
  using le_uint_slice1 [of 4 data] by (auto simp: get_length_from_data_def)

lemma get_function_id_from_data_eq:
  "get_function_id_from_data data = (if 5 < length data then Inr (uint (data ! 5)) else Inl StructError)"
  using le_uint_slice1 [of 5 data] by (auto simp: get_function_id_from_data_def)

lemma get_sequence_number_from_data_eq:
  "get_sequence_number_from_data data =
     (if 6 < length data then Inr (drop_bit 4 (uint (data ! 6)) AND 0x0F) else Inl StructError)"
  using le_uint_slice1 [of 6 data] by (auto simp: get_sequence_number_from_data_def)

lemma get_error_code_from_data_eq:
  "get_error_code_from_data data =
     (if 7 < length data then Inr (drop_bit 6 (uint (data ! 7)) AND 0x03) else Inl StructError)"
  using le_uint_slice1 [of 7 data] by (auto simp: get_error_code_from_data_def)

lemmas header_reads =
  get_uid_from_data_eq get_length_from_data_eq get_function_id_from_data_eq
  get_sequence_number_from_data_eq get_error_code_from_data_eq

text \<open>The readers depend on the first eight bytes only.\<close>

lemma header_reads_append:
  assumes "8 \<le> length h"
  shows "get_uid_from_data (h @ r) = get_uid_from_data h"
    and "get_length_from_data (h @ r) = get_length_from_data h"
    and "get_function_id_from_data (h @ r) = get_function_id_from_data h"
    and "get_sequence_number_from_data (h @ r) = get_sequence_number_from_data h"
    and "get_error_code_from_data (h @ r) = get_error_code_from_data h"
  using assms by (simp_all add: header_reads nth_append)

lemma get_sequence_number_range:
  "get_sequence_number_from_data data = Inr q \<Longrightarrow> 0 \<le> q \<and> q \<le> 15"
proof -
  assume "get_sequence_number_from_data data = Inr q"
  then obtain x :: int where "q = x AND 0x0F" by (auto simp: get_sequence_number_from_data_eq split: if_splits)
  then have "q = take_bit 4 x" by (simp add: take_bit_eq_mask mask_eq_exp_minus_1)
  then have "0 \<le> q" "q < 2 ^ 4" by (metis take_bit_nonnegative, metis take_bit_int_less_exp)
  then show ?thesis by simp
qed

subsection \<open>Sequence numbers\<close>

definition seq_ok :: "ipcon \<Rightarrow> bool" where
  "seq_ok s = (0 \<le> next_sequence_number s \<and> next_sequence_number s < 15)"

lemma get_next_sequence_number_ok:
  "seq_ok s \<Longrightarrow> get_next_sequence_number s = (q, s') \<Longrightarrow> 1 \<le> q \<and> q \<le> 15 \<and> seq_ok s'"
  by (auto simp: get_next_sequence_number_def seq_ok_def Let_def)

lemma sequence_numbers_eq:
  "seq_ok s \<Longrightarrow> sequence_numbers n s = map (\<lambda>k. (next_sequence_number s + int k) mod 15 + 1) [0..<n]"
proof (induction n arbitrary: s)
  case 0
  then show ?case by simp
next
  case (Suc n)
  let ?s' = "s\<lparr>next_sequence_number := (next_sequence_number s + 1) mod 15\<rparr>"
  have "seq_ok ?s'" by (simp add: seq_ok_def)
  from Suc.IH [OF this] have
    "sequence_numbers n ?s' = map (\<lambda>k. ((next_sequence_number s + 1) mod 15 + int k) mod 15 + 1) [0..<n]"
    by simp
  also have "\<dots> = map (\<lambda>k. (next_sequence_number s + int (Suc k)) mod 15 + 1) [0..<n]"
    by (auto simp: mod_simps algebra_simps)
  finally show ?case
    using Suc.prems
    by (simp add: get_next_sequence_number_def Let_def seq_ok_def upt_conv_Cons map_Suc_upt [symmetric]
          del: upt_Suc)
qed

text \<open>
  C32. Any number of calls of \<^verbatim>\<open>get_next_sequence_number\<close> hand out only the numbers 1 to 15
  (0 marks callbacks on the wire), and any fifteen in a row are pairwise different.
\<close>

theorem sequence_numbers_cycle:
  assumes "0 \<le> next_sequence_number s" "next_sequence_number s < 15"
  shows "set (sequence_numbers n s) \<subseteq> {1..15} \<and>
         (n \<le> 15 \<longrightarrow> distinct (sequence_numbers n s))"
proof -
  have eq: "sequence_numbers n s = map (\<lambda>k. (next_sequence_number s + int k) mod 15 + 1) [0..<n]"
    using assms by (intro sequence_numbers_eq) (simp add: seq_ok_def)
  have "inj_on (\<lambda>k. (next_sequence_number s + int k) mod 15 + 1) {0..<n}" if "n \<le> 15"
  proof (rule inj_onI)
    fix j k assume jk: "j \<in> {0..<n}" "k \<in> {0..<n}"
      and "(next_sequence_number s + int j) mod 15 + 1 = (next_sequence_number s + int k) mod 15 + 1"
    then have "(next_sequence_number s + int j) mod 15 = (next_sequence_number s + int k) mod 15" by simp
    then have "int j mod 15 = int k mod 15" by (metis add_diff_cancel_left' mod_diff_left_eq)
    with jk that show "j = k" by simp
  qed
  then show ?thesis by (auto simp: eq distinct_map)
qed

theorem sequence_numbers_cycle_witness:
  "set (sequence_numbers 4 ((undefined :: ipcon)\<lparr>next_sequence_number := 13\<rparr>)) \<subseteq> {1..15} \<and>
   distinct (sequence_numbers 4 ((undefined :: ipcon)\<lparr>next_sequence_number := 13\<rparr>))"
  using sequence_numbers_cycle [of "(undefined :: ipcon)\<lparr>next_sequence_number := 13\<rparr>" 4] by simp

subsection \<open>Writing a header\<close>

definition options_of :: "int \<Rightarrow> bool \<Rightarrow> int" where
  "options_of q b = 16 * q + (if b then 8 else 0)"

lemma options_byte:
  assumes "1 \<le> q" "q \<le> (15::int)"
  shows "push_bit 4 q OR push_bit 3 (if b then 1 else 0) = options_of q b"
proof -
  have "q \<in> {1, 2, 3, 4, 5, 6, 7, 8, 9, 10, 11, 12, 13, 14, 15}" using assms by simp presburger
  then show ?thesis by (elim insertE emptyE) (simp_all add: push_bit_eq_mult options_of_def)
qed

lemma options_byte_bounds:
  assumes "1 \<le> q" "q \<le> (15::int)"
  shows "uint_fits 1 (options_of q b)"
  using assms by (simp add: uint_fits_def options_of_def)

lemma options_bit3: "bit (options_of q b) 3 \<longleftrightarrow> b"
  by (simp add: options_of_def bit_iff_odd div_plus_div_distrib_dvd_left)

text \<open>The bytes of a header with sequence number \<open>q\<close> and response expected bit \<open>b\<close>.\<close>

definition header_bytes :: "int \<Rightarrow> int \<Rightarrow> int \<Rightarrow> int \<Rightarrow> bool \<Rightarrow> bytes" where
  "header_bytes u len function_id q b =
     le_bytes 4 u @ le_bytes 1 len @ le_bytes 1 function_id @
     le_bytes 1 (options_of q b) @ le_bytes 1 0"

lemma pack_header:
  assumes "uint_fits 4 u" "uint_fits 1 f" "1 \<le> q" "q \<le> 15"
  shows "pack_le ''IBBBB'' [PInt u, PInt len, PInt f, PInt (options_of q b), PInt 0] =
         (if uint_fits 1 len then Inr (header_bytes u len f q b) else Inl StructError)"
  using assms options_byte_bounds [OF assms(3,4), of b] uint_fits_def [of 1 0]
  by (simp add: pack_le_def header_atoms header_bytes_def)

lemma length_header_bytes [simp]: "length (header_bytes u len f q b) = 8"
  by (simp add: header_bytes_def)

lemma byte_of_fits: "uint_fits (Suc 0) v \<Longrightarrow> uint (word_of_int v :: byte) = v"
  by (simp add: uint_fits_def uint_word_of_int)

lemma header_bytes_nth:
  assumes "uint_fits 1 len" "uint_fits 1 f" "1 \<le> q" "q \<le> 15"
  shows "uint (header_bytes u len f q b ! 4) = len"
    and "uint (header_bytes u len f q b ! 5) = f"
    and "uint (header_bytes u len f q b ! 6) = options_of q b"
    and "uint (header_bytes u len f q b ! 7) = 0"
  using assms options_byte_bounds [OF assms(3,4), of b]
  by (simp_all add: header_bytes_def nth_append byte_of_fits)

lemma seq_of_options:
  assumes "1 \<le> q" "q \<le> (15::int)"
  shows "drop_bit 4 (options_of q b) AND 15 = q"
proof -
  have "drop_bit 4 (options_of q b) = q"
    using assms by (simp add: drop_bit_eq_div options_of_def)
  moreover have "q AND 15 = q"
    using assms take_bit_int_eq_self [of q 4] by (simp add: take_bit_eq_mask mask_eq_exp_minus_1)
  ultimately show ?thesis by simp
qed

lemma header_bytes_reads:
  assumes "uint_fits 4 u" "uint_fits 1 len" "uint_fits 1 f" "1 \<le> q" "q \<le> 15"
  shows "get_uid_from_data (header_bytes u len f q b) = Inr u"
    and "get_length_from_data (header_bytes u len f q b) = Inr len"
    and "get_function_id_from_data (header_bytes u len f q b) = Inr f"
    and "get_sequence_number_from_data (header_bytes u len f q b) = Inr q"
    and "get_error_code_from_data (header_bytes u len f q b) = Inr 0"
proof -
  have "take 4 (header_bytes u len f q b) = le_bytes 4 u"
    by (simp add: header_bytes_def del: le_bytes.simps)
  with assms show "get_uid_from_data (header_bytes u len f q b) = Inr u"
    by (simp add: get_uid_from_data_eq)
qed (use assms in \<open>simp_all add: header_reads header_bytes_nth seq_of_options\<close>)

text \<open>The response expected bit the header carries.\<close>

definition expects :: "nat option \<Rightarrow> int \<Rightarrow> ipcon \<Rightarrow> bool" where
  "expects dev f s = (case dev of None \<Rightarrow> False | Some d \<Rightarrow> get_response_expected (dev_heap s d) f = Inr True)"

definition target_uid :: "nat option \<Rightarrow> ipcon \<Rightarrow> int" where
  "target_uid dev s = (case dev of None \<Rightarrow> BROADCAST_UID | Some d \<Rightarrow> uid (dev_heap s d))"

definition known_function :: "nat option \<Rightarrow> int \<Rightarrow> ipcon \<Rightarrow> bool" where
  "known_function dev f s = (case dev of None \<Rightarrow> True | Some d \<Rightarrow> is_ok (get_response_expected (dev_heap s d) f))"

lemma create_packet_header_eq:
  assumes "seq_ok s" "known_function dev f s" "uint_fits 4 (target_uid dev s)" "uint_fits 1 f"
  shows "create_packet_header dev len f s =
     (let q = next_sequence_number s + 1 in
      (if uint_fits 1 len
       then Inr (header_bytes (target_uid dev s) len f q (expects dev f s), expects dev f s, q)
       else Inl StructError,
       s\<lparr>next_sequence_number := q mod 15\<rparr>))"
proof -
  have q: "1 \<le> next_sequence_number s + 1" "next_sequence_number s + 1 \<le> 15"
    using assms(1) by (auto simp: seq_ok_def)
  show ?thesis
    using assms pack_header [OF assms(3,4) q, of len "expects dev f s"]
      options_byte [OF q, of "expects dev f s"]
    by (auto simp: create_packet_header_def get_next_sequence_number_def Let_def expects_def
        target_uid_def known_function_def is_ok_iff split: option.splits)
qed

text \<open>
  C18. For a well-formed device, a function it knows and a length that fits its byte,
  \<^verbatim>\<open>create_packet_header\<close> returns eight bytes in which the readers used on the receiving
  side find the device's identifier, that length, that function, the sequence number
  handed out (which is not 0) and error code 0; the response expected bit is the device's
  flag for the function, and of the state only the sequence counter changes.
\<close>

theorem create_packet_header_readable:
  assumes "0 \<le> next_sequence_number s" "next_sequence_number s < 15"
    and "device_ok (dev_heap s d)"
    and "get_response_expected (dev_heap s d) function_id = Inr e"
    and "0 \<le> len" "len < 256"
  shows "\<exists>h q. create_packet_header (Some d) len function_id s =
             (Inr (h, e, q), s\<lparr>next_sequence_number := q mod 15\<rparr>) \<and>
           length h = 8 \<and> q \<noteq> 0 \<and>
           get_uid_from_data h = Inr (uid (dev_heap s d)) \<and>
           get_length_from_data h = Inr len \<and>
           get_function_id_from_data h = Inr function_id \<and>
           get_sequence_number_from_data h = Inr q \<and>
           get_error_code_from_data h = Inr 0 \<and>
           (bit (h ! 6) 3 \<longleftrightarrow> e)"
proof -
  let ?q = "next_sequence_number s + 1"
  let ?h = "header_bytes (uid (dev_heap s d)) len function_id ?q e"
  have q: "1 \<le> ?q" "?q \<le> 15" using assms(1,2) by simp_all
  have fits: "uint_fits 4 (uid (dev_heap s d))" "uint_fits 1 function_id" "uint_fits 1 len"
    using assms(3,5,6) known_function_range [OF assms(3,4)] by (auto simp: device_ok_def uint_fits_def)
  have "create_packet_header (Some d) len function_id s =
          (Inr (?h, e, ?q), s\<lparr>next_sequence_number := ?q mod 15\<rparr>)"
    using create_packet_header_eq [of s "Some d" function_id len] assms fits
    by (simp add: seq_ok_def known_function_def target_uid_def expects_def Let_def)
  moreover have "bit (uint (?h ! 6)) 3 \<longleftrightarrow> e"
    by (simp only: header_bytes_nth(3) [OF fits(3,2) q] options_bit3)
  then have "bit (?h ! 6) 3 \<longleftrightarrow> e"
    by (simp add: bit_unsigned_iff)
  ultimately show ?thesis
    using header_bytes_reads [OF fits(1,3,2) q, of e] q by (intro exI [of _ ?h] exI [of _ ?q]) simp
qed

theorem create_packet_header_readable_witness:
  "\<exists>h q. create_packet_header (Some 0) 8 1 ipcon0 =
             (Inr (h, True, q), ipcon0\<lparr>next_sequence_number := q mod 15\<rparr>) \<and>
           length h = 8 \<and> q \<noteq> 0 \<and>
           get_uid_from_data h = Inr (uid (dev_heap ipcon0 0)) \<and>
           get_length_from_data h = Inr 8 \<and>
           get_function_id_from_data h = Inr 1 \<and>
           get_sequence_number_from_data h = Inr q \<and>
           get_error_code_from_data h = Inr 0 \<and>
           (bit (h ! 6) 3 \<longleftrightarrow> True)"
  by (rule create_packet_header_readable)
     (simp_all add: ipcon0_eq ipcon_fields_def device_ok_def new_device_def get_response_expected_def)

end
