(* ===== verification/Wire.thy ===== *)
theory Wire
  imports Packet
begin

text \<open>
  The payload of a packet: the packing loop of \<^verbatim>\<open>IPConnection.send_request\<close> (with its local
  function \<^verbatim>\<open>pack_string\<close>) and \<^verbatim>\<open>IPConnection.deserialize_data\<close> with its two helpers. A form
  is a list of field formats separated by spaces. The Python version is an argument
  (\<open>hexversion\<close>, \<^verbatim>\<open>sys.hexversion\<close>), as the code branches on it. Shown: fields are laid out
  one after the other with the size \<^verbatim>\<open>struct.calcsize\<close> gives the whole form, and what was
  packed is what \<^verbatim>\<open>deserialize_data\<close> returns.
\<close>

subsection \<open>Packing\<close>

text \<open>\<^verbatim>\<open>*d\<close> and iteration over \<^verbatim>\<open>d\<close>.\<close>

fun star_args :: "int \<Rightarrow> pval \<Rightarrow> pval list res" where
  "star_args hexversion (PTuple xs) = Inr xs"
| "star_args hexversion (PList xs) = Inr xs"
| "star_args hexversion (PStr cs) = Inr (map (\<lambda>c. PStr [c]) cs)"
| "star_args hexversion (PBytes bs) =
     Inr (if hexversion < 0x03000000 then map (\<lambda>b. PBytes [b]) bs else map (\<lambda>b. PInt (uint b)) bs)"
| "star_args hexversion _ = Inl TypeError"

text \<open>\<^verbatim>\<open>bytes(map(ord, d))\<close>: every code point must be below 256.\<close>

definition bytes_of_points :: "nat list \<Rightarrow> bytes res" where
  "bytes_of_points cs = (if list_all (\<lambda>c. c < 256) cs then Inr (map of_nat cs) else Inl ValueError)"

definition pack_string :: "int \<Rightarrow> string \<Rightarrow> pval \<Rightarrow> bytes res" where
  "pack_string hexversion f d =
     (if hexversion < 0x03000000 then
        (case d of
           PStr cs \<Rightarrow>
             (let f' = map (\<lambda>x. if x = CHR ''s'' \<or> x = CHR ''c'' then CHR ''B'' else x) f;
                  p = filter (\<lambda>x. x \<noteq> CHR ''B'') f';
                  p' = (if p = [] then ''1'' else p)
              in rbind (int_of_digits p') (\<lambda>n.
                   pack_le f' (map (\<lambda>c. PInt (int c)) cs @ replicate (n - length cs) (PInt 0))))
         | _ \<Rightarrow> pack_le f [d])
      else
        (case d of
           PStr cs \<Rightarrow> rbind (bytes_of_points cs) (\<lambda>bs. pack_le f [PBytes bs])
         | _ \<Rightarrow> pack_le f [d]))"

text \<open>The body of the loop: the bytes one field adds to the request.\<close>

definition pack_field :: "int \<Rightarrow> string \<Rightarrow> pval \<Rightarrow> bytes res" where
  "pack_field hexversion f d =
     (if 1 < length f \<and> CHR ''s'' \<notin> set f \<and> CHR ''c'' \<notin> set f then
        rbind (star_args hexversion d) (\<lambda>args. pack_le f args)
      else if CHR ''s'' \<in> set f then pack_string hexversion f d
      else if CHR ''c'' \<in> set f then
        (if 1 < length f then
           rbind (int_of_digits (filter (\<lambda>x. x \<noteq> CHR ''c'') f)) (\<lambda>n.
           rbind (star_args hexversion d) (\<lambda>ks.
             if n \<noteq> length ks then Inl ValueError
             else rmap concat (mapM (pack_string hexversion ''c'') ks)))
         else pack_string hexversion f d)
      else pack_le f [d])"

fun pack_fields :: "int \<Rightarrow> (string \<times> pval) list \<Rightarrow> bytes \<Rightarrow> bytes res" where
  "pack_fields hexversion [] request = Inr request"
| "pack_fields hexversion ((f, d) # fds) request =
     rbind (pack_field hexversion f d) (\<lambda>bs. pack_fields hexversion fds (request @ bs))"

subsection \<open>Unpacking\<close>

definition decode_ascii :: "bytes \<Rightarrow> nat list res" where
  "decode_ascii bs = (if list_all (\<lambda>b. b < 128) bs then Inr (map unat bs) else Inl UnicodeError)"

definition handle_deserialized_char :: "int \<Rightarrow> pval \<Rightarrow> pval res" where
  "handle_deserialized_char hexversion c =
     (if 0x03000000 \<le> hexversion then
        (case c of PBytes bs \<Rightarrow> rmap PStr (decode_ascii bs) | _ \<Rightarrow> Inl AttributeError)
      else Inr c)"

definition handle_deserialized_string :: "int \<Rightarrow> pval \<Rightarrow> pval res" where
  "handle_deserialized_string hexversion s =
     (case s of
        PBytes bs \<Rightarrow>
          (if 0x03000000 \<le> hexversion
           then rmap (\<lambda>cs. PStr (takeWhile (\<lambda>c. c \<noteq> 0) cs)) (decode_ascii bs)
           else Inr (PBytes (takeWhile (\<lambda>b. b \<noteq> 0) bs)))
      | _ \<Rightarrow> Inl AttributeError)"

text \<open>The body of the loop of \<^verbatim>\<open>deserialize_data\<close>, after \<^verbatim>\<open>struct.unpack\<close>.\<close>

definition convert_field :: "int \<Rightarrow> string \<Rightarrow> pval list \<Rightarrow> pval res" where
  "convert_field hexversion f x =
     (if 1 < length x then
        (if CHR ''c'' \<in> set f then rmap PTuple (mapM (handle_deserialized_char hexversion) x)
         else Inr (PTuple x))
      else if CHR ''c'' \<in> set f then rbind (py_index x 0) (handle_deserialized_char hexversion)
      else if CHR ''s'' \<in> set f then rbind (py_index x 0) (handle_deserialized_string hexversion)
      else py_index x 0)"

fun deserialize_fields :: "int \<Rightarrow> string list \<Rightarrow> bytes \<Rightarrow> pval list res" where
  "deserialize_fields hexversion [] data = Inr []"
| "deserialize_fields hexversion (f # fs) data =
     rbind (calcsize_le f) (\<lambda>len.
     rbind (unpack_le f (take len data)) (\<lambda>x.
     rbind (convert_field hexversion f x) (\<lambda>v.
       rmap (Cons v) (deserialize_fields hexversion fs (drop len data)))))"

definition deserialize_data :: "int \<Rightarrow> bytes \<Rightarrow> string \<Rightarrow> pval res" where
  "deserialize_data hexversion data form =
     rmap (\<lambda>ret. if length ret = 1 then hd ret else PList ret)
       (deserialize_fields hexversion (split_space form) data)"

subsection \<open>A form is the concatenation of its fields\<close>

lemma parse_atoms_error: "parse_atoms cnt s = Inl e \<Longrightarrow> e = StructError"
  by (induction cnt s rule: parse_atoms.induct)
     (auto simp: Let_def res_simps split: if_splits option.splits)

lemma parse_atoms_space:
  "CHR '' '' \<notin> set w \<Longrightarrow> parse_atoms cnt w = Inr as \<Longrightarrow>
   parse_atoms cnt (w @ CHR '' '' # rest) = rmap (append as) (parse_atoms None rest)"
proof (induction cnt w arbitrary: as rule: parse_atoms.induct)
  case 1
  then show ?case by (cases "parse_atoms None rest") (auto simp: is_space_def)
next
  case (2 n)
  then show ?case by simp
next
  case (3 cnt c cs)
  then show ?case
    by (cases "parse_atoms None rest")
       (auto simp: Let_def res_simps split: if_splits option.splits)
qed

lemma split_space_Cons:
  "split_space s = w # ws \<Longrightarrow>
   CHR '' '' \<notin> set w \<and>
   (if ws = [] then s = w else \<exists>r. s = w @ CHR '' '' # r \<and> split_space r = ws)"
proof (induction s arbitrary: w ws)
  case Nil
  then show ?case by auto
next
  case (Cons c cs)
  obtain v vs where v: "split_space cs = v # vs" by (cases "split_space cs") auto
  show ?case
  proof (cases "c = CHR '' ''")
    case True
    with Cons.prems v show ?thesis by auto
  next
    case False
    with Cons.prems v have "w = c # v" "ws = vs" by auto
    with Cons.IH [OF v] False show ?thesis by auto
  qed
qed

lemma atoms_of_split:
  "mapM atoms_of (split_space form) = Inr ass \<Longrightarrow> atoms_of form = Inr (concat ass)"
proof (induction "length form" arbitrary: form ass rule: less_induct)
  case less
  obtain w ws where w: "split_space form = w # ws" by (cases "split_space form") auto
  note sp = split_space_Cons [OF w]
  from less.prems w obtain as ass' where as: "atoms_of w = Inr as" "mapM atoms_of ws = Inr ass'" "ass = as # ass'"
    by (auto simp: res_simps)
  show ?case
  proof (cases "ws = []")
    case True
    with sp as show ?thesis by simp
  next
    case False
    with sp obtain r where r: "form = w @ CHR '' '' # r" "split_space r = ws" "CHR '' '' \<notin> set w" by auto
    then have "atoms_of r = Inr (concat ass')" using less.hyps [of r ass'] as(2) by simp
    with r as parse_atoms_space [of w None as r] show ?thesis by (simp add: atoms_of_def)
  qed
qed

lemma calcsize_split:
  assumes "mapM calcsize_le (split_space form) = Inr ns"
  shows "calcsize_le form = Inr (sum_list ns)"
proof -
  have "\<exists>ass. mapM atoms_of fs = Inr ass \<and> ns = map atoms_size ass" if "mapM calcsize_le fs = Inr ns" for fs ns
    using that by (induction fs arbitrary: ns) (fastforce simp: calcsize_le_def res_simps)+
  from this [OF assms] obtain ass where "mapM atoms_of (split_space form) = Inr ass" "ns = map atoms_size ass"
    by blast
  moreover have "atoms_size (concat ass) = sum_list (map atoms_size ass)" by (induction ass) auto
  ultimately show ?thesis by (simp add: calcsize_le_def atoms_of_split)
qed

subsection \<open>The kinds of fields\<close>

text \<open>
  The field formats of the program: one number, an array of numbers, one character, an
  array of characters, a string. \<open>classify\<close> computes the kind of a format; a format that the
  two loops would treat differently (such as \<^verbatim>\<open>1B\<close>) has none.
\<close>

datatype field = FNum atom | FNums nat atom | FChr | FChrs nat | FStr nat

definition classify :: "string \<Rightarrow> field option" where
  "classify f = (case atoms_of f of Inl _ \<Rightarrow> None | Inr as \<Rightarrow>
     (if CHR ''s'' \<in> set f then
        (case as of [Raw n] \<Rightarrow> if CHR ''c'' \<in> set f then None else Some (FStr n) | _ \<Rightarrow> None)
      else if CHR ''c'' \<in> set f then
        (if f = ''c'' then Some FChr
         else if 1 < length f \<and> 1 < length as \<and> as = replicate (length as) Chr8 \<and>
              int_of_digits (filter (\<lambda>x. x \<noteq> CHR ''c'') f) = Inr (length as)
         then Some (FChrs (length as)) else None)
      else if length f = 1 then (case as of [a] \<Rightarrow> Some (FNum a) | _ \<Rightarrow> None)
      else (case as of a # b # _ \<Rightarrow>
              if as = replicate (length as) a then Some (FNums (length as) a) else None
            | _ \<Rightarrow> None)))"

fun field_size :: "field \<Rightarrow> nat" where
  "field_size (FNum a) = atom_size a"
| "field_size (FNums n a) = n * atom_size a"
| "field_size FChr = 1"
| "field_size (FChrs n) = n"
| "field_size (FStr n) = n"

text \<open>The arguments a field accepts without loss, and what the other end reads.\<close>

definition num_ok :: "atom \<Rightarrow> pval \<Rightarrow> bool" where
  "num_ok a v = is_ok (pack_atom a v)"

fun seq_items :: "pval \<Rightarrow> pval list option" where
  "seq_items (PTuple xs) = Some xs"
| "seq_items (PList xs) = Some xs"
| "seq_items _ = None"

fun chr_ok :: "pval \<Rightarrow> bool" where
  "chr_ok (PStr [c]) = (c < 128)"
| "chr_ok _ = False"

fun arg_ok :: "field \<Rightarrow> pval \<Rightarrow> bool" where
  "arg_ok (FNum a) v = num_ok a v"
| "arg_ok (FNums n a) v = (case seq_items v of None \<Rightarrow> False | Some xs \<Rightarrow> length xs = n \<and> list_all (num_ok a) xs)"
| "arg_ok FChr v = chr_ok v"
| "arg_ok (FChrs n) v = (case seq_items v of None \<Rightarrow> False | Some xs \<Rightarrow> length xs = n \<and> list_all chr_ok xs)"
| "arg_ok (FStr n) v = (case v of PStr cs \<Rightarrow> length cs \<le> n \<and> list_all (\<lambda>c. 0 < c \<and> c < 128) cs | _ \<Rightarrow> False)"

fun read_value :: "field \<Rightarrow> pval \<Rightarrow> pval" where
  "read_value (FNum a) v = wire_value a v"
| "read_value (FNums n a) v = (case seq_items v of None \<Rightarrow> PNone | Some xs \<Rightarrow> PTuple (map (wire_value a) xs))"
| "read_value (FChrs n) v = (case seq_items v of None \<Rightarrow> PNone | Some xs \<Rightarrow> PTuple xs)"
| "read_value _ v = v"

lemma pack_atoms_replicate:
  "list_all (num_ok a) xs \<Longrightarrow> length xs = n \<Longrightarrow> \<exists>bs. pack_atoms (replicate n a) xs = Inr bs"
  by (induction xs arbitrary: n) (auto simp: num_ok_def is_ok_iff)

lemma map2_replicate: "length xs = n \<Longrightarrow> map2 f (replicate n a) xs = map (f a) xs"
  by (induction xs arbitrary: n) auto

lemma atoms_size_replicate [simp]: "atoms_size (replicate n a) = n * atom_size a"
  by (induction n) auto

lemma ascii_roundtrip:
  "list_all (\<lambda>c. c < 128) cs \<Longrightarrow>
   bytes_of_points cs = Inr (map of_nat cs) \<and> decode_ascii (map of_nat cs @ replicate k 0) = Inr (cs @ replicate k 0)"
proof -
  assume a: "list_all (\<lambda>c. c < 128) cs"
  have small: "(of_nat c :: byte) < 128 \<and> unat (of_nat c :: byte) = c" if "c < 128" for c
    using that by (simp add: word_less_nat_alt unat_of_nat)
  have "list_all (\<lambda>b. b < 128) (map of_nat cs @ replicate k (0 :: byte))"
    using a small by (auto simp: list_all_iff)
  moreover have "map unat (map of_nat cs @ replicate k (0 :: byte)) = cs @ replicate k 0"
    using a small by (auto simp: list_all_iff intro: map_idI)
  moreover have "list_all (\<lambda>c. c < 256) cs"
    using a by (auto simp: list_all_iff)
  ultimately show ?thesis
    by (simp add: bytes_of_points_def decode_ascii_def)
qed

lemma chr_ok_cases: "chr_ok v \<Longrightarrow> \<exists>c. v = PStr [c] \<and> c < 128"
  by (cases v rule: chr_ok.cases) auto

lemma atoms_of_c: "atoms_of ''c'' = Inr [Chr8]"
  by code_simp

lemma pack_chr: "0x03000000 \<le> hv \<Longrightarrow> c < 128 \<Longrightarrow> pack_string hv ''c'' (PStr [c]) = Inr [of_nat c]"
  using ascii_roundtrip [of "[c]" 0] by (simp add: pack_string_def pack_le_def atoms_of_c)

lemma char_back:
  "0x03000000 \<le> hv \<Longrightarrow> c < 128 \<Longrightarrow> handle_deserialized_char hv (PBytes [of_nat c]) = Inr (PStr [c])"
  using ascii_roundtrip [of "[c]" 0] by (simp add: handle_deserialized_char_def)

text \<open>Characters of an array, one by one.\<close>

lemma chars_roundtrip:
  assumes "0x03000000 \<le> hv" "list_all chr_ok xs"
  shows "\<exists>bs. mapM (pack_string hv ''c'') xs = Inr (map (\<lambda>b. [b]) bs) \<and> length bs = length xs \<and>
              mapM (handle_deserialized_char hv) (map (\<lambda>b. PBytes [b]) bs) = Inr xs"
  using assms(2)
proof (induction xs)
  case (Cons x xs)
  then obtain c where c: "x = PStr [c]" "c < 128" using chr_ok_cases by auto
  from Cons obtain bs where
    "mapM (pack_string hv ''c'') xs = Inr (map (\<lambda>b. [b]) bs)" "length bs = length xs"
    "mapM (handle_deserialized_char hv) (map (\<lambda>b. PBytes [b]) bs) = Inr xs" by auto
  with c assms(1) show ?case
    by (intro exI [of _ "of_nat c # bs"]) (simp add: pack_chr char_back)
qed simp

lemma unpack_chars: "unpack_atoms (replicate (length bs) Chr8) bs = map (\<lambda>b. PBytes [b]) bs"
  by (induction bs) auto

lemma concat_singletons [simp]: "concat (map (\<lambda>b. [b]) bs) = bs"
  by (induction bs) auto

text \<open>The promise of one field, for every kind of field.\<close>

definition field_roundtrip :: "int \<Rightarrow> string \<Rightarrow> field \<Rightarrow> pval \<Rightarrow> bool" where
  "field_roundtrip hv f k v =
     (\<exists>bs x. pack_field hv f v = Inr bs \<and> length bs = field_size k \<and>
        calcsize_le f = Inr (field_size k) \<and> unpack_le f bs = Inr x \<and>
        convert_field hv f x = Inr (read_value k v))"

lemma num_field:
  assumes "atoms_of f = Inr [a]" "length f = 1" "CHR ''s'' \<notin> set f" "CHR ''c'' \<notin> set f" "num_ok a v"
  shows "field_roundtrip hv f (FNum a) v"
proof -
  from assms(5) obtain bs where bs: "pack_atom a v = Inr bs" by (auto simp: num_ok_def is_ok_iff)
  have "pack_field hv f v = Inr bs" using assms bs by (simp add: pack_field_def pack_le_def)
  moreover have "unpack_le f bs = Inr [wire_value a v]"
    using assms bs pack_atom_length [OF bs] by (simp add: unpack_le_def unpack_pack_atom)
  ultimately show ?thesis
    using assms pack_atom_length [OF bs]
    by (auto simp: field_roundtrip_def calcsize_le_def convert_field_def py_index_def)
qed

lemma nums_field:
  assumes "atoms_of f = Inr (replicate n a)" "1 < length f" "1 < n"
    "CHR ''s'' \<notin> set f" "CHR ''c'' \<notin> set f" "seq_items v = Some xs" "length xs = n" "list_all (num_ok a) xs"
  shows "field_roundtrip hv f (FNums n a) v"
proof -
  obtain bs where bs: "pack_atoms (replicate n a) xs = Inr bs"
    using pack_atoms_replicate assms(7,8) by blast
  have len: "length bs = n * atom_size a" using pack_atoms_length [OF bs] by simp
  have "star_args hv v = Inr xs" using assms(6) by (cases v) auto
  then have "pack_field hv f v = Inr bs" using assms bs by (simp add: pack_field_def pack_le_def)
  moreover have "unpack_le f bs = Inr (map (wire_value a) xs)"
    using assms len unpack_pack_atoms [OF bs] by (simp add: unpack_le_def map2_replicate)
  ultimately show ?thesis
    using assms len by (auto simp: field_roundtrip_def calcsize_le_def convert_field_def)
qed

lemma chr_field:
  assumes "0x03000000 \<le> hv" "chr_ok v"
  shows "field_roundtrip hv ''c'' FChr v"
proof -
  obtain c where c: "v = PStr [c]" "c < 128" using chr_ok_cases assms(2) by blast
  then show ?thesis
    using assms(1)
    by (simp add: field_roundtrip_def pack_field_def pack_chr calcsize_le_def atoms_of_c unpack_le_def
        convert_field_def py_index_def char_back)
qed

lemma chrs_field:
  assumes "0x03000000 \<le> hv" "atoms_of f = Inr (replicate n Chr8)" "1 < length f" "1 < n"
    "CHR ''s'' \<notin> set f" "CHR ''c'' \<in> set f" "int_of_digits (filter (\<lambda>x. x \<noteq> CHR ''c'') f) = Inr n"
    "seq_items v = Some xs" "length xs = n" "list_all chr_ok xs"
  shows "field_roundtrip hv f (FChrs n) v"
proof -
  obtain bs where bs: "mapM (pack_string hv ''c'') xs = Inr (map (\<lambda>b. [b]) bs)" "length bs = n"
      "mapM (handle_deserialized_char hv) (map (\<lambda>b. PBytes [b]) bs) = Inr xs"
    using chars_roundtrip assms(1,9,10) by blast
  have "star_args hv v = Inr xs" using assms(8) by (cases v) auto
  then have "pack_field hv f v = Inr bs" using assms bs by (simp add: pack_field_def)
  moreover have "unpack_le f bs = Inr (map (\<lambda>b. PBytes [b]) bs)"
    using assms bs unpack_chars [of bs] by (simp add: unpack_le_def)
  ultimately show ?thesis
    using assms bs by (auto simp: field_roundtrip_def calcsize_le_def convert_field_def)
qed

lemma takeWhile_zero_padding:
  "list_all (\<lambda>c. 0 < c) cs \<Longrightarrow> takeWhile (\<lambda>c. c \<noteq> 0) (cs @ replicate k (0::nat)) = cs"
  by (induction cs) auto

lemma str_field:
  assumes "0x03000000 \<le> hv" "atoms_of f = Inr [Raw n]" "CHR ''s'' \<in> set f" "CHR ''c'' \<notin> set f"
    "length cs \<le> n" "list_all (\<lambda>c. 0 < c \<and> c < 128) cs"
  shows "field_roundtrip hv f (FStr n) (PStr cs)"
proof -
  have cs: "list_all (\<lambda>c. c < 128) cs" "list_all (\<lambda>c. 0 < c) cs" using assms(6) by (auto simp: list_all_iff)
  let ?bs = "map of_nat cs @ replicate (n - length cs) (0 :: byte)"
  have "pack_field hv f (PStr cs) = Inr ?bs"
    using assms ascii_roundtrip [OF cs(1), of 0] by (simp add: pack_field_def pack_string_def pack_le_def)
  moreover have "unpack_le f ?bs = Inr [PBytes ?bs]" using assms by (simp add: unpack_le_def)
  moreover have "convert_field hv f [PBytes ?bs] = Inr (PStr cs)"
    using assms ascii_roundtrip [OF cs(1), of "n - length cs"] takeWhile_zero_padding [OF cs(2)]
    by (simp add: convert_field_def py_index_def handle_deserialized_string_def)
  ultimately show ?thesis
    using assms by (auto simp: field_roundtrip_def calcsize_le_def)
qed

lemma classify_roundtrip:
  assumes hv: "0x03000000 \<le> hv" and k: "classify f = Some k" and v: "arg_ok k v"
  shows "field_roundtrip hv f k v"
proof -
  from k obtain as where as: "atoms_of f = Inr as" by (auto simp: classify_def split: sum.splits)
  show ?thesis
  proof (cases k)
    case (FNum a)
    with k as v show ?thesis
      by (auto simp: classify_def split: if_splits list.splits atom.splits intro: num_field)
  next
    case (FNums n a)
    with k as have "atoms_of f = Inr (replicate n a)" "length f \<noteq> 1" "1 < n" "f \<noteq> []"
        "CHR ''s'' \<notin> set f" "CHR ''c'' \<notin> set f"
      by (auto simp: classify_def atoms_of_def split: if_splits list.splits atom.splits)
    moreover from FNums v obtain xs where "seq_items v = Some xs" "length xs = n" "list_all (num_ok a) xs"
      by (auto split: option.splits)
    moreover have "1 < length f" using calculation(2,4) by (cases f; cases "tl f") auto
    ultimately show ?thesis using FNums nums_field by blast
  next
    case FChr
    with k as have "f = ''c''" by (auto simp: classify_def split: if_splits list.splits atom.splits)
    with FChr v hv show ?thesis by (simp add: chr_field)
  next
    case (FChrs n)
    with k as have "atoms_of f = Inr (replicate n Chr8)" "1 < length f" "1 < n"
        "CHR ''s'' \<notin> set f" "CHR ''c'' \<in> set f" "int_of_digits (filter (\<lambda>x. x \<noteq> CHR ''c'') f) = Inr n"
      by (auto simp: classify_def split: if_splits list.splits atom.splits)
    moreover from FChrs v obtain xs where "seq_items v = Some xs" "length xs = n" "list_all chr_ok xs"
      by (auto split: option.splits)
    ultimately show ?thesis using FChrs hv chrs_field by blast
  next
    case (FStr n)
    with k as have "atoms_of f = Inr [Raw n]" "CHR ''s'' \<in> set f" "CHR ''c'' \<notin> set f"
      by (auto simp: classify_def split: if_splits list.splits atom.splits)
    with FStr v hv show ?thesis by (auto split: pval.splits intro: str_field)
  qed
qed

subsection \<open>The size of what is packed, for any arguments\<close>

text \<open>Replacing \<^verbatim>\<open>s\<close> and \<^verbatim>\<open>c\<close> by \<^verbatim>\<open>B\<close>, as Python 2 does for text, keeps the size.\<close>

abbreviation as_bytes_format :: "string \<Rightarrow> string" where
  "as_bytes_format \<equiv> map (\<lambda>x. if x = CHR ''s'' \<or> x = CHR ''c'' then CHR ''B'' else x)"

lemma code_of_size: "code_of c = Some a \<Longrightarrow> c = CHR ''c'' \<Longrightarrow> atom_size a = 1"
  by (simp add: code_of_def)

lemma parse_atoms_as_bytes:
  "parse_atoms cnt f = Inr as \<Longrightarrow>
   \<exists>bs. parse_atoms cnt (as_bytes_format f) = Inr bs \<and> atoms_size bs = atoms_size as"
proof (induction cnt f arbitrary: as rule: parse_atoms.induct)
  case 1
  then show ?case by simp
next
  case (2 n)
  then show ?case by simp
next
  case (3 cnt c cs)
  have [simp]: "code_of (CHR ''B'') = Some (UInt 1)" "\<not> is_space (CHR ''B'')" "\<not> is_digit (CHR ''B'')"
    "\<not> is_space (CHR ''s'')" "\<not> is_digit (CHR ''s'')" "\<not> is_space (CHR ''c'')" "\<not> is_digit (CHR ''c'')"
    "code_of (CHR ''c'') = Some Chr8"
    by (simp_all add: code_of_def is_space_def is_digit_def)
  show ?case
  proof (cases "is_space c \<or> is_digit c")
    case True
    then have "c \<noteq> CHR ''s''" "c \<noteq> CHR ''c''" by auto
    with 3 True show ?thesis by (auto split: option.splits if_splits)
  next
    case False
    let ?n = "case cnt of None \<Rightarrow> 1 | Some n \<Rightarrow> n"
    from False "3.prems" obtain as' where as': "parse_atoms None cs = Inr as'"
      "as = (if c = CHR ''s'' then Raw ?n # as' else replicate ?n (the (code_of c)) @ as')"
      "c \<noteq> CHR ''s'' \<Longrightarrow> code_of c \<noteq> None"
      by (auto simp: Let_def res_simps split: if_splits option.splits)
    obtain bs where "parse_atoms None (as_bytes_format cs) = Inr bs" "atoms_size bs = atoms_size as'"
      using "3.IH" False as' by (cases "c = CHR ''s''") (fastforce split: option.splits)+
    with False as' show ?thesis by (cases "c = CHR ''s''"; cases "c = CHR ''c''") (auto simp: Let_def)
  qed
qed

lemma calcsize_as_bytes: "calcsize_le f = Inr n \<Longrightarrow> calcsize_le (as_bytes_format f) = Inr n"
  using parse_atoms_as_bytes [of None f] by (auto simp: calcsize_le_def atoms_of_def res_simps)

lemma pack_string_length:
  "calcsize_le f = Inr n \<Longrightarrow> pack_string hv f d = Inr bs \<Longrightarrow> length bs = n"
  using calcsize_as_bytes [of f n]
  by (auto simp: pack_string_def Let_def res_simps split: if_splits pval.splits dest!: pack_le_length)

lemma calcsize_c: "calcsize_le ''c'' = Inr 1"
  by (simp add: calcsize_le_def atoms_of_c)

lemma mapM_chars_length: "mapM (pack_string hv ''c'') ks = Inr bss \<Longrightarrow> length (concat bss) = length ks"
  by (induction ks arbitrary: bss) (auto simp: res_simps dest: pack_string_length [OF calcsize_c])

lemma classify_size: "classify f = Some k \<Longrightarrow> calcsize_le f = Inr (field_size k)"
  by (auto simp: classify_def calcsize_le_def atoms_of_c split: sum.splits if_splits list.splits atom.splits)
     (metis atoms_size_replicate atom_size.simps(4) mult.right_neutral
        atoms_size_simps(2) length_Cons add.assoc)+

lemma pack_field_length:
  assumes "classify f = Some k" "pack_field hv f d = Inr bs"
  shows "length bs = field_size k"
proof -
  note size = classify_size [OF assms(1)]
  have "length bs = n" if "calcsize_le f = Inr n" "pack_le f args = Inr bs" for args n
    using pack_le_length [OF that(2)] that(1) by simp
  moreover have "length bs = field_size k"
    if "CHR ''c'' \<in> set f" "1 < length f" "CHR ''s'' \<notin> set f"
      "int_of_digits (filter (\<lambda>x. x \<noteq> CHR ''c'') f) = Inr (length ks)"
      "mapM (pack_string hv ''c'') ks = Inr bss" "bs = concat bss" for ks bss
    using assms(1) that mapM_chars_length [OF that(5)]
    by (auto simp: classify_def split: sum.splits if_splits)
  ultimately show ?thesis
    using assms(2) size pack_string_length [OF size]
    by (auto simp: pack_field_def res_simps split: if_splits)
qed

text \<open>The kinds of the fields of a form; the empty form has none.\<close>

fun classify_all :: "string list \<Rightarrow> field list option" where
  "classify_all [] = Some []"
| "classify_all (f # fs) = (case classify f of None \<Rightarrow> None
     | Some k \<Rightarrow> (case classify_all fs of None \<Rightarrow> None | Some ks \<Rightarrow> Some (k # ks)))"

definition form_fields :: "string \<Rightarrow> field list option" where
  "form_fields form = (if form = [] then Some [] else classify_all (split_space form))"

definition form_size :: "field list \<Rightarrow> nat" where
  "form_size ks = sum_list (map field_size ks)"

lemma form_size_simps [simp]: "form_size [] = 0" "form_size (k # ks) = field_size k + form_size ks"
  by (simp_all add: form_size_def)

lemma classify_all_length: "classify_all fs = Some ks \<Longrightarrow> length ks = length fs"
  by (induction fs arbitrary: ks) (auto split: option.splits)

lemma classify_all_sizes: "classify_all fs = Some ks \<Longrightarrow> mapM calcsize_le fs = Inr (map field_size ks)"
  by (induction fs arbitrary: ks) (auto simp: classify_size split: option.splits)

lemma form_fields_size:
  assumes "form_fields form = Some ks"
  shows "calcsize_le form = Inr (form_size ks)"
proof (cases "form = []")
  case True
  with assms show ?thesis by (simp add: form_fields_def calcsize_le_def atoms_of_def)
next
  case False
  with assms calcsize_split [OF classify_all_sizes] show ?thesis by (simp add: form_fields_def form_size_def)
qed

lemma pack_fields_length:
  "classify_all fs = Some ks \<Longrightarrow> length ds = length fs \<Longrightarrow> pack_fields hv (zip fs ds) r = Inr bs \<Longrightarrow>
   length bs = length r + form_size ks \<and> take (length r) bs = r"
proof (induction fs arbitrary: ks ds r)
  case (Cons f fs)
  then obtain d ds' k ks' where [simp]: "ds = d # ds'" "ks = k # ks'"
    and k: "classify f = Some k" "classify_all fs = Some ks'"
    by (cases ds) (auto split: option.splits)
  from Cons.prems obtain b where b: "pack_field hv f d = Inr b" "pack_fields hv (zip fs ds') (r @ b) = Inr bs"
    by (auto simp: res_simps)
  from Cons.IH [OF k(2) _ b(2)] Cons.prems(2)
  have "length bs = length (r @ b) + form_size ks'" "take (length (r @ b)) bs = r @ b" by auto
  moreover from this(2) have "take (length r) bs = r"
    by (metis append_eq_conv_conj le_add1 length_append min.absorb1 take_take append_take_drop_id)
  ultimately show ?case using pack_field_length [OF k(1) b(1)] by simp
qed simp

lemma form_fields_split:
  assumes "form_fields form = Some ks" "length ds = length ks"
  shows "\<exists>fs. zip (split_space form) ds = zip fs ds \<and> classify_all fs = Some ks"
  using assms by (cases "form = []") (auto simp: form_fields_def intro: exI [of _ "[]"])

text \<open>
  Whatever the arguments and the Python version, if the packing loop of
  \<^verbatim>\<open>send_request\<close> succeeds on one argument per field, it appends exactly
  \<^verbatim>\<open>struct.calcsize\<close> of the form to the header it was given, so the length byte computed
  before packing is the length of the packet sent.
\<close>

theorem payload_length:
  assumes "form_fields form = Some ks" "length data = length ks"
    and "pack_fields hexversion (zip (split_space form) data) header = Inr request"
  shows "take (length header) request = header \<and>
         calcsize_le form = Inr (length request - length header) \<and> length header \<le> length request"
proof -
  obtain fs where fs: "zip (split_space form) data = zip fs data" "classify_all fs = Some ks"
    using form_fields_split [OF assms(1,2)] by blast
  have "length data = length fs" using assms(2) classify_all_length [OF fs(2)] by simp
  with pack_fields_length [OF fs(2) this] assms(3) fs(1)
  have "length request = length header + form_size ks" "take (length header) request = header" by auto
  with form_fields_size [OF assms(1)] show ?thesis by simp
qed

theorem payload_length_witness:
  "take 2 [9, 9, 5, 0, 3] = [9, 9 :: byte] \<and> calcsize_le ''H B'' = Inr (5 - 2)"
proof -
  have f: "form_fields ''H B'' = Some [FNum (UInt 2), FNum (UInt 1)]" by code_simp
  have "pack_fields 0x03000000 (zip (split_space ''H B'') [PInt 5, PInt 3]) [9, 9] = Inr [9, 9, 5, 0, 3]"
    by code_simp
  from payload_length [OF f _ this] show ?thesis by simp
qed

subsection \<open>Round trip of a whole payload\<close>

lemma fields_roundtrip:
  assumes hv: "0x03000000 \<le> hv"
  shows "classify_all fs = Some ks \<Longrightarrow> list_all2 arg_ok ks ds \<Longrightarrow>
    \<exists>bs. pack_fields hv (zip fs ds) r = Inr (r @ bs) \<and>
         deserialize_fields hv fs (bs @ rest) = Inr (map2 read_value ks ds)"
proof (induction fs arbitrary: ks ds r)
  case (Cons f fs)
  then obtain d ds' k ks' where [simp]: "ds = d # ds'" "ks = k # ks'"
    and k: "classify f = Some k" "classify_all fs = Some ks'" "arg_ok k d" "list_all2 arg_ok ks' ds'"
    by (auto split: option.splits simp: list_all2_Cons1)
  obtain b x where b: "pack_field hv f d = Inr b" "length b = field_size k" "calcsize_le f = Inr (field_size k)"
      "unpack_le f b = Inr x" "convert_field hv f x = Inr (read_value k d)"
    using classify_roundtrip [OF hv k(1,3)] by (auto simp: field_roundtrip_def)
  obtain bs where "pack_fields hv (zip fs ds') (r @ b) = Inr ((r @ b) @ bs)"
      "deserialize_fields hv fs (bs @ rest) = Inr (map2 read_value ks' ds')"
    using Cons.IH [OF k(2,4)] by blast
  with b show ?case by (intro exI [of _ "b @ bs"]) simp
qed auto

text \<open>The value \<^verbatim>\<open>deserialize_data\<close> returns for the values of the fields.\<close>

definition collapse :: "pval list \<Rightarrow> pval" where
  "collapse vs = (if length vs = 1 then hd vs else PList vs)"

text \<open>
  C4. Round trip through the wire under Python 3: arguments within their ranges (numbers
  that fit, ASCII characters, strings without NUL no longer than their field) are packed
  by the loop of \<^verbatim>\<open>send_request\<close>, and \<^verbatim>\<open>deserialize_data\<close> with the same form returns them,
  each array as a tuple and a single field bare.
\<close>

theorem payload_roundtrip:
  assumes "0x03000000 \<le> hexversion" "form_fields form = Some ks" "form \<noteq> []"
    and "list_all2 arg_ok ks data"
  shows "\<exists>payload. pack_fields hexversion (zip (split_space form) data) header = Inr (header @ payload) \<and>
           deserialize_data hexversion payload form = Inr (collapse (map2 read_value ks data))"
  using fields_roundtrip [OF assms(1), of "split_space form" ks data header "[]"] assms(2-4)
  by (auto simp: form_fields_def deserialize_data_def collapse_def)

theorem payload_roundtrip_witness:
  "\<exists>payload. pack_fields 0x03000000 (zip (split_space ''H 3B c 4s'')
       [PInt 300, PList [PInt 1, PInt 2, PInt 3], pstr ''a'', pstr ''hi'']) [7] = Inr ([7] @ payload) \<and>
     deserialize_data 0x03000000 payload ''H 3B c 4s'' =
       Inr (PList [PInt 300, PTuple [PInt 1, PInt 2, PInt 3], pstr ''a'', pstr ''hi''])"
proof -
  have f: "form_fields ''H 3B c 4s'' = Some [FNum (UInt 2), FNums 3 (UInt 1), FChr, FStr 4]" by code_simp
  have a: "list_all2 arg_ok [FNum (UInt 2), FNums 3 (UInt 1), FChr, FStr 4]
      [PInt 300, PList [PInt 1, PInt 2, PInt 3], pstr ''a'', pstr ''hi'']"
    by code_simp
  have "0x03000000 \<le> (0x03000000 :: int)" by simp
  from payload_roundtrip [OF this f _ a, of "[7]"] show ?thesis by (simp add: collapse_def)
qed

subsection \<open>Deserialising any response\<close>

lemma deserialize_data_collapse:
  "deserialize_data hv data form = rmap collapse (deserialize_fields hv (split_space form) data)"
  by (simp add: deserialize_data_def collapse_def [abs_def])

fun is_text :: "field \<Rightarrow> bool" where
  "is_text (FNum a) = False"
| "is_text (FNums n a) = False"
| "is_text _ = True"

text \<open>Text in a response is readable: Python 2 does not decode it, Python 3 decodes ASCII.\<close>

definition text_ok :: "int \<Rightarrow> field \<Rightarrow> bytes \<Rightarrow> bool" where
  "text_ok hv k bs = (is_text k \<longrightarrow> hv < 0x03000000 \<or> list_all (\<lambda>b. b < 128) bs)"

lemma chars_total:
  "list_all (\<lambda>b. b < 128) bs \<or> hv < 0x03000000 \<Longrightarrow>
   \<exists>vs. mapM (handle_deserialized_char hv) (map (\<lambda>b. PBytes [b]) bs) = Inr vs"
  by (induction bs) (auto simp: handle_deserialized_char_def decode_ascii_def)

lemma convert_total:
  assumes k: "classify f = Some k" and len: "length bs = field_size k" and t: "text_ok hv k bs"
  shows "\<exists>x v. unpack_le f bs = Inr x \<and> convert_field hv f x = Inr v"
proof -
  from k obtain as where as: "atoms_of f = Inr as" by (auto simp: classify_def split: sum.splits)
  have size: "length bs = atoms_size as"
    using classify_size [OF k] as len by (simp add: calcsize_le_def)
  then have x: "unpack_le f bs = Inr (unpack_atoms as bs)" using as by (simp add: unpack_le_def)
  have "\<exists>v. convert_field hv f (unpack_atoms as bs) = Inr v"
  proof (cases k)
    case (FNum a)
    with k as show ?thesis
      by (auto simp: classify_def convert_field_def py_index_def split: if_splits list.splits atom.splits)
  next
    case (FNums n a)
    with k as show ?thesis
      by (auto simp: classify_def convert_field_def split: if_splits list.splits atom.splits)
  next
    case FChr
    with k as have "f = ''c''" by (auto simp: classify_def split: if_splits list.splits atom.splits)
    with as atoms_of_c FChr t size show ?thesis
      by (auto simp: convert_field_def py_index_def text_ok_def handle_deserialized_char_def decode_ascii_def)
  next
    case (FChrs n)
    with k as have f: "CHR ''c'' \<in> set f" "as = replicate (length as) Chr8" "1 < length as"
      by (auto simp: classify_def split: if_splits list.splits atom.splits)
    then have "length bs = length as" using size by (metis atoms_size_replicate atom_size.simps(4) mult.right_neutral)
    with f(2) have "unpack_atoms as bs = map (\<lambda>b. PBytes [b]) bs" by (metis unpack_chars)
    with f FChrs t \<open>length bs = length as\<close> chars_total [of bs hv] show ?thesis
      by (auto simp: convert_field_def text_ok_def)
  next
    case (FStr n)
    with k as have "as = [Raw n]" "CHR ''s'' \<in> set f" "CHR ''c'' \<notin> set f"
      by (auto simp: classify_def split: if_splits list.splits atom.splits)
    with FStr t size show ?thesis
      by (auto simp: convert_field_def py_index_def text_ok_def handle_deserialized_string_def decode_ascii_def)
  qed
  with x show ?thesis by blast
qed

fun texts_ok :: "int \<Rightarrow> field list \<Rightarrow> bytes \<Rightarrow> bool" where
  "texts_ok hv [] bs = True"
| "texts_ok hv (k # ks) bs = (text_ok hv k (take (field_size k) bs) \<and> texts_ok hv ks (drop (field_size k) bs))"

lemma deserialize_fields_total:
  "classify_all fs = Some ks \<Longrightarrow> form_size ks \<le> length data \<Longrightarrow> texts_ok hv ks data \<Longrightarrow>
   \<exists>vs. deserialize_fields hv fs data = Inr vs \<and> length vs = length ks"
proof (induction fs arbitrary: ks data)
  case (Cons f fs)
  then obtain k ks' where [simp]: "ks = k # ks'" and k: "classify f = Some k" "classify_all fs = Some ks'"
    by (auto split: option.splits)
  obtain x v where "unpack_le f (take (field_size k) data) = Inr x" "convert_field hv f x = Inr v"
    using convert_total [OF k(1), of "take (field_size k) data" hv] Cons.prems by auto
  moreover have "form_size ks' \<le> length (drop (field_size k) data)" "texts_ok hv ks' (drop (field_size k) data)"
    using Cons.prems(2,3) by simp_all
  then obtain vs where "deserialize_fields hv fs (drop (field_size k) data) = Inr vs" "length vs = length ks'"
    using Cons.IH [OF k(2)] by blast
  ultimately show ?case using classify_size [OF k(1)] by simp
qed simp

lemma deserialize_fields_short:
  "classify_all fs = Some ks \<Longrightarrow> length data < form_size ks \<Longrightarrow> \<not> is_ok (deserialize_fields hv fs data)"
proof (induction fs arbitrary: ks data)
  case (Cons f fs)
  then obtain k ks' where [simp]: "ks = k # ks'" and k: "classify f = Some k" "classify_all fs = Some ks'"
    by (auto split: option.splits)
  show ?case
  proof (cases "length data < field_size k")
    case True
    then have "\<not> is_ok (unpack_le f data)"
      using unpack_le_length [of f data] classify_size [OF k(1)] by (auto simp: is_ok_iff)
    with True classify_size [OF k(1)] show ?thesis by (auto simp: is_ok_iff res_simps)
  next
    case False
    then have "\<not> is_ok (deserialize_fields hv fs (drop (field_size k) data))"
      using Cons.IH [OF k(2)] Cons.prems by simp
    with classify_size [OF k(1)] show ?thesis by (auto simp: is_ok_iff res_simps)
  qed
qed simp

text \<open>
  C31. \<^verbatim>\<open>deserialize_data\<close> on any bytes a device may send: a payload shorter than the form
  raises, and a payload that is long enough, with readable text in its text fields, gives
  one value per field; bytes past the form are ignored.
\<close>

theorem deserialize_data_outcome:
  assumes "form_fields form = Some ks" "form \<noteq> []"
  shows "(length data < form_size ks \<longrightarrow> \<not> is_ok (deserialize_data hexversion data form)) \<and>
         (form_size ks \<le> length data \<and> texts_ok hexversion ks data \<longrightarrow>
            (\<exists>vs. length vs = length ks \<and> deserialize_data hexversion data form = Inr (collapse vs)))"
  using deserialize_fields_total [of "split_space form" ks data hexversion]
    deserialize_fields_short [of "split_space form" ks data hexversion] assms
  by (auto simp: form_fields_def deserialize_data_collapse is_ok_iff res_simps)

theorem deserialize_data_outcome_witness:
  "\<not> is_ok (deserialize_data 0x03000000 [1] ''H B'') \<and>
   (\<exists>vs. length vs = Suc (Suc 0) \<and> deserialize_data 0x03000000 [1, 2, 3, 4] ''H B'' = Inr (collapse vs))"
proof -
  have f: "form_fields ''H B'' = Some [FNum (UInt 2), FNum (UInt 1)]" by code_simp
  show ?thesis
    using deserialize_data_outcome [OF f, of "[1]" "0x03000000"]
      deserialize_data_outcome [OF f, of "[1, 2, 3, 4]" "0x03000000"]
    by (simp add: text_ok_def)
qed

end
