(* ===== verification/Connection.thy ===== *)
theory Connection
  imports Wire
begin

text \<open>
  The connection life cycle of \<^verbatim>\<open>IPConnection\<close>: \<^verbatim>\<open>connect\<close>, \<^verbatim>\<open>disconnect\<close>, their unlocked
  workers, \<^verbatim>\<open>send\<close>, \<^verbatim>\<open>handle_disconnect_by_peer\<close> and the accessors. Each method is a
  function on the connection state that returns its result or its exception together with
  the new state. What the operating system decides (whether a
  thread starts, whether \<^verbatim>\<open>socket.connect\<close> succeeds, how many bytes \<^verbatim>\<open>socket.send\<close> takes) is an
  explicit argument. A method that holds \<^verbatim>\<open>socket_lock\<close> for its whole body is one step; a
  \<^verbatim>\<open>join\<close> is passed once the joined thread has left its loop. The one join under the lock that
  may wait forever, that of the callback thread in the cleanup of \<^verbatim>\<open>connect\<close>, ends the call with
  \<open>Blocked\<close>. Between two calls the callback thread is reading its queue or trying to
  reconnect; the theory \<open>Threads\<close> treats the points between, step by step.
\<close>

subsection \<open>Decisions of the operating system\<close>

record os_env =
  callback_starts :: bool
  connect_error :: "int option"
  probe_starts :: bool
  receive_starts :: bool

definition os_ok :: os_env where
  "os_ok = \<lparr>callback_starts = True, connect_error = None, probe_starts = True, receive_starts = True\<rparr>"

datatype send_result = Sent nat | Send_Error

subsection \<open>Model\<close>

definition opt_str :: "('a \<Rightarrow> string) \<Rightarrow> 'a option \<Rightarrow> string" where
  "opt_str f x = (case x of None \<Rightarrow> ''None'' | Some y \<Rightarrow> f y)"

text \<open>The first block of \<^verbatim>\<open>connect_unlocked\<close>: create the callback context unless there is one.\<close>

definition start_callback :: "os_env \<Rightarrow> ipcon \<Rightarrow> unit res \<times> ipcon" where
  "start_callback env s =
     (if callback s \<noteq> None then (Inr (), s)
      else let c = next_ctx s;
               s1 = s\<lparr>ctx_heap := (ctx_heap s)(c := \<lparr>cb_queue = [],
                                               cb_thread = Some (Callback_Processor c),
                                               packet_dispatch_allowed = False\<rparr>),
                      next_ctx := c + 1, callback := Some c\<rparr>
           in if callback_starts env then (Inr (), s1)
              else (Inl ThreadError, s1\<lparr>callback := None\<rparr>))"

text \<open>
  The part of the three \<^verbatim>\<open>cleanup\<close> functions that ends the callback thread. It leaves the exit
  mark and joins the thread, holding \<^verbatim>\<open>socket_lock\<close>. The join passes when the thread reaches the
  exit mark without that lock. It needs the lock while it tries to reconnect
  (\<^verbatim>\<open>auto_reconnect_pending\<close>), and for a report of a lost connection that is still in its
  queue: then both threads wait for each other and the call never returns. The call is not
  made on the callback thread itself, and callbacks of the user do not wait for the lock.
\<close>

fun takes_lock :: "queue_item \<Rightarrow> bool" where
  "takes_lock (QUEUE_META function_id parameter sid) =
     (function_id = CALLBACK_DISCONNECTED \<and> parameter \<noteq> DISCONNECT_REASON_REQUEST)"
| "takes_lock _ = False"

definition callback_waits :: "nat \<Rightarrow> ipcon \<Rightarrow> bool" where
  "callback_waits c s = (auto_reconnect_pending s \<or> list_ex takes_lock (cb_queue (ctx_heap s c)))"

definition end_callback :: "bool \<Rightarrow> ipcon \<Rightarrow> unit res \<times> ipcon" where
  "end_callback is_auto_reconnect s =
     (if is_auto_reconnect then (Inr (), s)
      else case callback s of
             None \<Rightarrow> (Inl AttributeError, s)
           | Some c \<Rightarrow>
               if callback_waits c s then (Inl Blocked, ctx_put c QUEUE_EXIT s)
               else (Inr (), (ctx_put c QUEUE_EXIT s)\<lparr>callback := None\<rparr>))"

text \<open>\<^verbatim>\<open>thread.join()\<close> on an attribute that may be \<^verbatim>\<open>None\<close>.\<close>

definition join_ref :: "thread_ref option \<Rightarrow> ipcon \<Rightarrow> unit res \<times> ipcon" where
  "join_ref r s = (case r of
     None \<Rightarrow> (Inl AttributeError, s)
   | Some (Started _) \<Rightarrow> (Inr (), s)
   | Some (Unstarted _) \<Rightarrow> (Inl ThreadError, s))"

definition set_dispatch :: "bool \<Rightarrow> ipcon \<Rightarrow> unit res \<times> ipcon" where
  "set_dispatch b s = (case callback s of
     None \<Rightarrow> (Inl AttributeError, s)
   | Some c \<Rightarrow> (Inr (), upd_ctx c (\<lambda>x. x\<lparr>packet_dispatch_allowed := b\<rparr>) s))"

definition stop_probe :: "ipcon \<Rightarrow> unit res \<times> ipcon" where
  "stop_probe s = (case disconnect_probe_queue s of
     None \<Rightarrow> (Inl AttributeError, s)
   | Some q \<Rightarrow>
       sbind (join_ref (disconnect_probe_thread s) (s\<lparr>disconnect_probe_queue := Some (q @ [True])\<rparr>))
         (\<lambda>_ s. (Inr (), s\<lparr>disconnect_probe_thread := None\<rparr>)))"

definition disconnect_unlocked :: "ipcon \<Rightarrow> unit res \<times> ipcon" where
  "disconnect_unlocked s =
     sbind (stop_probe s) (\<lambda>_ s.
     sbind (set_dispatch False s) (\<lambda>_ s.
       let s = s\<lparr>receive_flag := False\<rparr> in
       if socket s = None then (Inl AttributeError, s)
       else sbind (case receive_thread s of
                     None \<Rightarrow> (Inr (), s)
                   | Some r \<Rightarrow> sbind (join_ref (Some r) s) (\<lambda>_ s. (Inr (), s\<lparr>receive_thread := None\<rparr>)))
              (\<lambda>_ s. (Inr (), s\<lparr>socket := None\<rparr>))))"

definition connect_unlocked :: "os_env \<Rightarrow> bool \<Rightarrow> ipcon \<Rightarrow> unit res \<times> ipcon" where
  "connect_unlocked env is_auto_reconnect s =
     sbind (start_callback env s) (\<lambda>_ s.
     case connect_error env of
       Some code \<Rightarrow> sbind (end_callback is_auto_reconnect s) (\<lambda>_ s. (Inl (SocketError code), s))
     | None \<Rightarrow>
       (case (host s, port s) of
          (Some h, Some p) \<Rightarrow>
            (let s = s\<lparr>socket := Some \<lparr>sock_peer = (h, p), sock_sent = []\<rparr>,
                       socket_id := socket_id s + 1\<rparr>;
                 s = s\<lparr>disconnect_probe_flag := True,
                       disconnect_probe_queue := Some [],
                       disconnect_probe_thread := Some (Started (Disconnect_Prober (socket_id s)))\<rparr>
             in
             if \<not> probe_starts env then
               sbind (end_callback is_auto_reconnect
                        (s\<lparr>disconnect_probe_thread := None, socket := None\<rparr>))
                 (\<lambda>_ s. (Inl ThreadError, s))
             else
               sbind (set_dispatch True s) (\<lambda>_ s.
                 if receive_starts env then
                   (let s = s\<lparr>receive_flag := True,
                              receive_thread := Some (Started (Brickd_Receiver (socket_id s))),
                              auto_reconnect_allowed := False,
                              auto_reconnect_pending := False\<rparr>
                    in callback_put (QUEUE_META CALLBACK_CONNECTED
                         (if is_auto_reconnect then CONNECT_REASON_AUTO_RECONNECT
                          else CONNECT_REASON_REQUEST) None) s)
                 else
                   sbind (disconnect_unlocked
                           (s\<lparr>receive_flag := True,
                              receive_thread := Some (Unstarted (Brickd_Receiver (socket_id s)))\<rparr>))
                     (\<lambda>_ s. sbind (end_callback is_auto_reconnect s) (\<lambda>_ s. (Inl ThreadError, s)))))
        | _ \<Rightarrow> sbind (end_callback is_auto_reconnect s) (\<lambda>_ s. (Inl TypeError, s))))"

definition connect :: "os_env \<Rightarrow> string \<Rightarrow> int \<Rightarrow> ipcon \<Rightarrow> unit res \<times> ipcon" where
  "connect env h p s =
     (if socket s \<noteq> None
      then (Inl (Error ALREADY_CONNECTED
              (''Already connected to '' @ opt_str id (host s) @ '':'' @ opt_str int_str (port s))), s)
      else connect_unlocked env False (s\<lparr>host := Some h, port := Some p\<rparr>))"

abbreviation not_connected :: pyexc where
  "not_connected \<equiv> Error NOT_CONNECTED ''Not connected''"

definition disconnect :: "ipcon \<Rightarrow> unit res \<times> ipcon" where
  "disconnect s =
     (let s = s\<lparr>auto_reconnect_allowed := False\<rparr> in
      sbind
        (if auto_reconnect_pending s then (Inr (), s\<lparr>auto_reconnect_pending := False\<rparr>)
         else if socket s = None then (Inl not_connected, s)
         else disconnect_unlocked s)
        (\<lambda>_ s.
           case callback s of
             None \<Rightarrow> (Inl AttributeError, s)
           | Some c \<Rightarrow>
               (Inr (), ctx_put c QUEUE_EXIT
                 (ctx_put c (QUEUE_META CALLBACK_DISCONNECTED DISCONNECT_REASON_REQUEST None)
                   (s\<lparr>callback := None\<rparr>)))))"

definition handle_disconnect_by_peer :: "int \<Rightarrow> int option \<Rightarrow> bool \<Rightarrow> ipcon \<Rightarrow> unit res \<times> ipcon" where
  "handle_disconnect_by_peer disconnect_reason sid disconnect_immediately s =
     (let s = s\<lparr>auto_reconnect_allowed := True\<rparr> in
      sbind (if disconnect_immediately then disconnect_unlocked s else (Inr (), s)) (\<lambda>_ s.
        callback_put (QUEUE_META CALLBACK_DISCONNECTED disconnect_reason sid) s))"

definition send :: "send_result \<Rightarrow> bytes \<Rightarrow> ipcon \<Rightarrow> unit res \<times> ipcon" where
  "send r packet s =
     (case socket s of
        None \<Rightarrow> (Inl not_connected, s)
      | Some k \<Rightarrow>
          (case r of
             Sent n \<Rightarrow> (Inr (), s\<lparr>socket := Some (k\<lparr>sock_sent := sock_sent k @ take n packet\<rparr>),
                                disconnect_probe_flag := False\<rparr>)
           | Send_Error \<Rightarrow>
               sbind (handle_disconnect_by_peer DISCONNECT_REASON_ERROR None True s)
                 (\<lambda>_ s. (Inl not_connected, s))))"

definition get_connection_state :: "ipcon \<Rightarrow> int" where
  "get_connection_state s =
     (if socket s \<noteq> None then CONNECTION_STATE_CONNECTED
      else if auto_reconnect_pending s then CONNECTION_STATE_PENDING
      else CONNECTION_STATE_DISCONNECTED)"

definition set_auto_reconnect :: "bool \<Rightarrow> ipcon \<Rightarrow> ipcon" where
  "set_auto_reconnect b s =
     (let s = s\<lparr>auto_reconnect := b\<rparr> in
      if \<not> auto_reconnect s then s\<lparr>auto_reconnect_allowed := False\<rparr> else s)"

definition get_auto_reconnect :: "ipcon \<Rightarrow> bool" where
  "get_auto_reconnect s = auto_reconnect s"

definition set_timeout :: "rat \<Rightarrow> ipcon \<Rightarrow> unit res \<times> ipcon" where
  "set_timeout t s = (if t < 0 then (Inl ValueError, s) else (Inr (), s\<lparr>timeout := t\<rparr>))"

definition get_timeout :: "ipcon \<Rightarrow> rat" where
  "get_timeout s = timeout s"

definition enumerate_devices :: "send_result \<Rightarrow> ipcon \<Rightarrow> unit res \<times> ipcon" where
  "enumerate_devices r s =
     sbind (create_packet_header None 8 FUNCTION_ENUMERATE s) (\<lambda>(request, _, _) s. send r request s)"

text \<open>\<^verbatim>\<open>wait\<close> blocks (\<open>None\<close>) while the semaphore is 0.\<close>

definition wait :: "ipcon \<Rightarrow> ipcon option" where
  "wait s = (case waiter s of 0 \<Rightarrow> None | Suc n \<Rightarrow> Some (s\<lparr>waiter := n\<rparr>))"

definition unwait :: "ipcon \<Rightarrow> ipcon" where
  "unwait s = s\<lparr>waiter := waiter s + 1\<rparr>"

definition register_callback :: "int \<Rightarrow> cb_handle \<Rightarrow> ipcon \<Rightarrow> ipcon" where
  "register_callback i cb s = s\<lparr>registered_callbacks := (registered_callbacks s)(i \<mapsto> cb)\<rparr>"

definition dev_register_callback :: "nat \<Rightarrow> int \<Rightarrow> cb_handle \<Rightarrow> ipcon \<Rightarrow> ipcon" where
  "dev_register_callback d i cb s =
     upd_dev d (\<lambda>x. x\<lparr>dev_registered_callbacks := (dev_registered_callbacks x)(i \<mapsto> cb)\<rparr>) s"

subsection \<open>Abstract specification\<close>

text \<open>
  What a user of the class sees: the connection is closed, open to a peer, trying to
  reconnect, or lost: without a socket, but with a callback thread, which may still have to
  handle the report of the loss (\<open>Lost True\<close>). An operation succeeds, fails with an exception,
  or never returns.
\<close>

datatype phase = Closed | Opened "string \<times> int" | Lost bool | Reconnecting

datatype outcome = Succeeds | Fails | Blocks

definition outcome_of :: "'a res \<Rightarrow> outcome" where
  "outcome_of r = (case r of Inr _ \<Rightarrow> Succeeds | Inl e \<Rightarrow> if e = Blocked then Blocks else Fails)"

definition phase_of :: "ipcon \<Rightarrow> phase" where
  "phase_of s = (case socket s of
     Some k \<Rightarrow> Opened (sock_peer k)
   | None \<Rightarrow> if auto_reconnect_pending s then Reconnecting
             else (case callback s of
                     None \<Rightarrow> Closed
                   | Some c \<Rightarrow> Lost (list_ex takes_lock (cb_queue (ctx_heap s c)))))"

text \<open>
  A failing \<^verbatim>\<open>connect\<close> ends the callback thread; it does not return if that thread waits for the
  lock the call holds.
\<close>

fun spec_connect :: "bool \<Rightarrow> string \<times> int \<Rightarrow> phase \<Rightarrow> outcome \<times> phase" where
  "spec_connect ok peer (Opened q) = (Fails, Opened q)"
| "spec_connect True peer ph = (Succeeds, Opened peer)"
| "spec_connect False peer Closed = (Fails, Closed)"
| "spec_connect False peer (Lost False) = (Fails, Closed)"
| "spec_connect False peer (Lost True) = (Blocks, Lost True)"
| "spec_connect False peer Reconnecting = (Blocks, Reconnecting)"

fun spec_disconnect :: "phase \<Rightarrow> outcome \<times> phase" where
  "spec_disconnect (Opened q) = (Succeeds, Closed)"
| "spec_disconnect Reconnecting = (Succeeds, Closed)"
| "spec_disconnect ph = (Fails, ph)"

fun spec_send :: "bool \<Rightarrow> phase \<Rightarrow> outcome \<times> phase" where
  "spec_send True (Opened q) = (Succeeds, Opened q)"
| "spec_send False (Opened q) = (Fails, Lost True)"
| "spec_send ok ph = (Fails, ph)"

subsection \<open>Invariant\<close>

text \<open>
  Between two calls: an open socket has a callback context, a probe queue, and started
  probe and receive threads; a pending reconnect has a callback context and no socket.
\<close>

definition conn_inv :: "ipcon \<Rightarrow> bool" where
  "conn_inv s =
     ((\<forall>c. callback s = Some c \<longrightarrow>
         c < next_ctx s \<and> cb_thread (ctx_heap s c) = Some (Callback_Processor c)) \<and>
      (\<forall>t. receive_thread s \<noteq> Some (Unstarted t)) \<and>
      (\<forall>t. disconnect_probe_thread s \<noteq> Some (Unstarted t)) \<and>
      (socket s \<noteq> None \<longrightarrow>
         callback s \<noteq> None \<and> disconnect_probe_queue s \<noteq> None \<and> disconnect_probe_thread s \<noteq> None \<and>
         receive_thread s \<noteq> None \<and> receive_flag s) \<and>
      (auto_reconnect_pending s \<longrightarrow> callback s \<noteq> None \<and> socket s = None))"

lemma conn_inv_open:
  assumes "conn_inv s" "socket s = Some k"
  obtains c q pt rt where "callback s = Some c" "disconnect_probe_queue s = Some q"
    "disconnect_probe_thread s = Some (Started pt)" "receive_thread s = Some (Started rt)"
    "\<not> auto_reconnect_pending s"
proof -
  from assms obtain c q p r where "callback s = Some c" "disconnect_probe_queue s = Some q"
    "disconnect_probe_thread s = Some p" "receive_thread s = Some r" "\<not> auto_reconnect_pending s"
    by (auto simp: conn_inv_def)
  moreover have "\<exists>pt. p = Started pt"
    using assms(1) calculation by (cases p) (auto simp: conn_inv_def)
  moreover have "\<exists>rt. r = Started rt"
    using assms(1) calculation by (cases r) (auto simp: conn_inv_def)
  ultimately show thesis using that by auto
qed

text \<open>What \<^verbatim>\<open>disconnect_unlocked\<close> does to an open connection.\<close>

definition closed_state :: "nat \<Rightarrow> bool list \<Rightarrow> ipcon \<Rightarrow> ipcon" where
  "closed_state c q s =
     (upd_ctx c (\<lambda>x. x\<lparr>packet_dispatch_allowed := False\<rparr>) s)
       \<lparr>disconnect_probe_queue := Some (q @ [True]), disconnect_probe_thread := None,
        receive_flag := False, receive_thread := None, socket := None\<rparr>"

lemma disconnect_unlocked_eq:
  assumes "callback s = Some c" "disconnect_probe_queue s = Some q"
    "disconnect_probe_thread s = Some (Started pt)" "receive_thread s = Some (Started rt)" "socket s \<noteq> None"
  shows "disconnect_unlocked s = (Inr (), closed_state c q s)"
  using assms
  by (simp add: disconnect_unlocked_def stop_probe_def join_ref_def set_dispatch_def closed_state_def
      upd_ctx_def Let_def)

lemma closed_state_simps [simp]:
  "socket (closed_state c q s) = None" "callback (closed_state c q s) = callback s"
  "auto_reconnect_pending (closed_state c q s) = auto_reconnect_pending s"
  "auto_reconnect_allowed (closed_state c q s) = auto_reconnect_allowed s"
  "receive_thread (closed_state c q s) = None" "disconnect_probe_thread (closed_state c q s) = None"
  "next_ctx (closed_state c q s) = next_ctx s"
  "cb_thread (ctx_heap (closed_state c q s) d) = cb_thread (ctx_heap s d)"
  "cb_queue (ctx_heap (closed_state c q s) d) = cb_queue (ctx_heap s d)"
  by (simp_all add: closed_state_def upd_ctx_def)

lemma ctx_put_simps [simp]:
  "socket (ctx_put c i s) = socket s" "callback (ctx_put c i s) = callback s"
  "auto_reconnect_pending (ctx_put c i s) = auto_reconnect_pending s"
  "auto_reconnect_allowed (ctx_put c i s) = auto_reconnect_allowed s"
  "receive_thread (ctx_put c i s) = receive_thread s" "receive_flag (ctx_put c i s) = receive_flag s"
  "disconnect_probe_thread (ctx_put c i s) = disconnect_probe_thread s"
  "disconnect_probe_queue (ctx_put c i s) = disconnect_probe_queue s"
  "next_ctx (ctx_put c i s) = next_ctx s"
  "cb_thread (ctx_heap (ctx_put c i s) d) = cb_thread (ctx_heap s d)"
  "cb_queue (ctx_heap (ctx_put c i s) d) = (if d = c then cb_queue (ctx_heap s c) @ [i] else cb_queue (ctx_heap s d))"
  by (simp_all add: ctx_put_def upd_ctx_def)

text \<open>All parts of an attempt to connect that the system decides, apart from the last thread.\<close>

definition os_connects :: "os_env \<Rightarrow> ipcon \<Rightarrow> bool" where
  "os_connects env s = ((callback s = None \<longrightarrow> callback_starts env) \<and> connect_error env = None \<and> probe_starts env)"

lemma connect_unlocked_success:
  assumes "os_connects env s" "receive_starts env" "host s = Some h" "port s = Some p"
  shows "\<exists>c s'. connect_unlocked env auto s = (Inr (), s') \<and> callback s' = Some c \<and>
           (callback s = None \<longrightarrow> c = next_ctx s) \<and> (\<forall>d. callback s = Some d \<longrightarrow> c = d) \<and>
           socket s' = Some \<lparr>sock_peer = (h, p), sock_sent = []\<rparr> \<and> socket_id s' = socket_id s + 1 \<and>
           \<not> auto_reconnect_pending s' \<and> \<not> auto_reconnect_allowed s' \<and>
           cb_queue (ctx_heap s' c) =
             (if callback s = None then [] else cb_queue (ctx_heap s c)) @
             [QUEUE_META CALLBACK_CONNECTED (if auto then CONNECT_REASON_AUTO_RECONNECT else CONNECT_REASON_REQUEST) None] \<and>
           packet_dispatch_allowed (ctx_heap s' c) \<and> receive_flag s' \<and> disconnect_probe_flag s' \<and>
           receive_thread s' = Some (Started (Brickd_Receiver (socket_id s'))) \<and>
           disconnect_probe_thread s' = Some (Started (Disconnect_Prober (socket_id s'))) \<and>
           disconnect_probe_queue s' = Some [] \<and>
           next_ctx s' = (if callback s = None then next_ctx s + 1 else next_ctx s) \<and>
           cb_thread (ctx_heap s' c) = (if callback s = None then Some (Callback_Processor c) else cb_thread (ctx_heap s c))"
  using assms
  by (cases "callback s")
     (auto simp: connect_unlocked_def start_callback_def os_connects_def set_dispatch_def callback_put_def
        ctx_put_def upd_ctx_def Let_def)

lemmas connect_defs =
  connect_unlocked_def start_callback_def end_callback_def set_dispatch_def callback_put_def
  ctx_put_def upd_ctx_def Let_def

lemma connect_unlocked_failure:
  assumes "\<not> os_connects env s" "socket s = None" "auto \<longrightarrow> callback s \<noteq> None"
    "host s = Some h" "port s = Some p" "auto_reconnect_pending s \<longrightarrow> callback s \<noteq> None"
  shows "\<exists>e s'. connect_unlocked env auto s = (Inl e, s') \<and> socket s' = None \<and>
           (e = Blocked \<longleftrightarrow> \<not> auto \<and> (\<exists>c. callback s = Some c \<and> callback_waits c s)) \<and>
           callback s' = (if auto \<or> e = Blocked then callback s else None) \<and>
           (\<forall>c. callback s = Some c \<longrightarrow> cb_queue (ctx_heap s' c) = cb_queue (ctx_heap s c) @ (if auto then [] else [QUEUE_EXIT])) \<and>
           auto_reconnect_pending s' = auto_reconnect_pending s \<and>
           auto_reconnect_allowed s' = auto_reconnect_allowed s"
  using assms
  by (cases "callback s") (auto simp: os_connects_def connect_defs callback_waits_def split: option.splits)

lemma connect_failure:
  assumes "\<not> os_connects env s" "socket s = None" "auto_reconnect_pending s \<longrightarrow> callback s \<noteq> None"
  shows "\<exists>e s'. connect env h p s = (Inl e, s') \<and> socket s' = None \<and>
           (e = Blocked \<longleftrightarrow> (\<exists>c. callback s = Some c \<and> callback_waits c s)) \<and>
           callback s' = (if e = Blocked then callback s else None) \<and>
           (\<forall>c. callback s = Some c \<longrightarrow> cb_queue (ctx_heap s' c) = cb_queue (ctx_heap s c) @ [QUEUE_EXIT]) \<and>
           auto_reconnect_pending s' = auto_reconnect_pending s"
  using assms
  by (cases "callback s") (auto simp: connect_def os_connects_def connect_defs callback_waits_def split: option.splits)

lemma connect_unlocked_failure_inv:
  assumes "\<not> os_connects env s" "socket s = None" "auto \<longrightarrow> callback s \<noteq> None"
    "host s = Some h" "port s = Some p" "conn_inv s"
  shows "conn_inv (snd (connect_unlocked env auto s))"
  using assms
  by (cases "callback s"; cases auto)
     (auto simp: os_connects_def connect_defs conn_inv_def callback_waits_def split: option.splits)

lemma connect_unlocked_success_inv:
  assumes "os_connects env s" "receive_starts env" "host s = Some h" "port s = Some p" "conn_inv s"
  shows "conn_inv (snd (connect_unlocked env auto s))"
  using assms
  by (cases "callback s") (auto simp: os_connects_def connect_defs conn_inv_def)

lemma connect_unlocked_inv:
  assumes "receive_starts env" "conn_inv s" "socket s = None" "auto \<longrightarrow> callback s \<noteq> None"
    "host s = Some h" "port s = Some p"
  shows "conn_inv (snd (connect_unlocked env auto s))"
  using connect_unlocked_failure_inv connect_unlocked_success_inv assms
  by (cases "os_connects env s") blast+

lemma connect_inv:
  assumes "receive_starts env" "conn_inv s"
  shows "conn_inv (snd (connect env h p s))"
proof (cases "socket s")
  case None
  have "conn_inv (s\<lparr>host := Some h, port := Some p\<rparr>)" using assms(2) by (simp add: conn_inv_def)
  with None assms connect_unlocked_inv [of env "s\<lparr>host := Some h, port := Some p\<rparr>" False h p]
  show ?thesis by (simp add: connect_def)
qed (use assms in \<open>simp add: connect_def\<close>)

lemma disconnect_open:
  assumes "conn_inv s" "socket s \<noteq> None" "callback s = Some c" "disconnect_probe_queue s = Some q"
  shows "disconnect s =
    (Inr (), ctx_put c QUEUE_EXIT
       (ctx_put c (QUEUE_META CALLBACK_DISCONNECTED DISCONNECT_REASON_REQUEST None)
          ((closed_state c q (s\<lparr>auto_reconnect_allowed := False\<rparr>))\<lparr>callback := None\<rparr>)))"
proof -
  obtain k where "socket s = Some k" using assms(2) by auto
  from conn_inv_open [OF assms(1) this] obtain pt rt where
    "disconnect_probe_thread s = Some (Started pt)" "receive_thread s = Some (Started rt)"
    "\<not> auto_reconnect_pending s" by metis
  with assms disconnect_unlocked_eq [of "s\<lparr>auto_reconnect_allowed := False\<rparr>" c q pt rt]
  show ?thesis by (simp add: disconnect_def Let_def)
qed

lemma disconnect_inv:
  assumes "conn_inv s"
  shows "conn_inv (snd (disconnect s))"
proof (cases "socket s")
  case None
  with assms show ?thesis
    by (auto simp: disconnect_def Let_def conn_inv_def split: option.splits)
next
  case (Some k)
  obtain c q where c: "callback s = Some c" "disconnect_probe_queue s = Some q"
    using conn_inv_open [OF assms Some] by metis
  with assms Some show ?thesis
    using conn_inv_open [OF assms Some]
    by (simp add: disconnect_open) (auto simp: conn_inv_def)
qed

text \<open>A lost connection seen by \<^verbatim>\<open>send\<close>: the socket is closed at once and the loss is queued.\<close>

lemma send_error_open:
  assumes "conn_inv s" "socket s \<noteq> None" "callback s = Some c" "disconnect_probe_queue s = Some q"
  shows "send Send_Error packet s =
    (Inl not_connected,
     ctx_put c (QUEUE_META CALLBACK_DISCONNECTED DISCONNECT_REASON_ERROR None)
       (closed_state c q (s\<lparr>auto_reconnect_allowed := True\<rparr>)))"
proof -
  obtain k where k: "socket s = Some k" using assms(2) by auto
  from conn_inv_open [OF assms(1) this] obtain pt rt where
    "disconnect_probe_thread s = Some (Started pt)" "receive_thread s = Some (Started rt)" by metis
  with assms k disconnect_unlocked_eq [of "s\<lparr>auto_reconnect_allowed := True\<rparr>" c q pt rt]
  show ?thesis by (simp add: send_def handle_disconnect_by_peer_def callback_put_def Let_def)
qed

lemma send_inv:
  assumes "conn_inv s"
  shows "conn_inv (snd (send r packet s))"
proof (cases "socket s")
  case None
  with assms show ?thesis by (simp add: send_def)
next
  case (Some k)
  obtain c q where c: "callback s = Some c" "disconnect_probe_queue s = Some q" "\<not> auto_reconnect_pending s"
    using conn_inv_open [OF assms Some] by metis
  show ?thesis
  proof (cases r)
    case (Sent n)
    with assms Some show ?thesis by (auto simp: send_def conn_inv_def)
  next
    case Send_Error
    with assms Some c show ?thesis by (simp add: send_error_open) (auto simp: conn_inv_def)
  qed
qed

subsection \<open>The life cycle\<close>

lemma disconnect_pending:
  assumes "auto_reconnect_pending s" "callback s = Some c"
  shows "disconnect s =
    (Inr (), ctx_put c QUEUE_EXIT
       (ctx_put c (QUEUE_META CALLBACK_DISCONNECTED DISCONNECT_REASON_REQUEST None)
          (s\<lparr>auto_reconnect_allowed := False, auto_reconnect_pending := False, callback := None\<rparr>)))"
  using assms by (simp add: disconnect_def Let_def)

lemma spec_connect_ok: "(\<forall>q. ph \<noteq> Opened q) \<Longrightarrow> spec_connect True peer ph = (Succeeds, Opened peer)"
  by (cases ph) auto

lemma connect_phase:
  assumes "conn_inv s" "receive_starts env"
  shows "(outcome_of (fst (connect env h p s)), phase_of (snd (connect env h p s))) =
         spec_connect (os_connects env s) (h, p) (phase_of s)"
proof (cases "socket s")
  case None
  let ?s = "s\<lparr>host := Some h, port := Some p\<rparr>"
  have c: "connect env h p s = connect_unlocked env False ?s" using None by (simp add: connect_def)
  show ?thesis
  proof (cases "os_connects env s")
    case True
    then have "os_connects env ?s" by (simp add: os_connects_def)
    from connect_unlocked_success [OF this assms(2), of h p False] c None True show ?thesis
      by (auto simp: phase_of_def outcome_of_def spec_connect_ok split: option.splits)
  next
    case False
    have "auto_reconnect_pending s \<longrightarrow> callback s \<noteq> None" using assms(1) by (simp add: conn_inv_def)
    from connect_failure [OF False None this, of h p] obtain e s' where
      e: "connect env h p s = (Inl e, s')" "socket s' = None"
        "e = Blocked \<longleftrightarrow> (\<exists>c. callback s = Some c \<and> callback_waits c s)"
        "callback s' = (if e = Blocked then callback s else None)"
        "\<forall>c. callback s = Some c \<longrightarrow> cb_queue (ctx_heap s' c) = cb_queue (ctx_heap s c) @ [QUEUE_EXIT]"
        "auto_reconnect_pending s' = auto_reconnect_pending s"
      by blast
    show ?thesis
    proof (cases "callback s")
      case None
      with e \<open>socket s = None\<close> assms(1) False show ?thesis by (simp add: phase_of_def outcome_of_def conn_inv_def)
    next
      case (Some c)
      with e \<open>socket s = None\<close> False show ?thesis
        by (cases "list_ex takes_lock (cb_queue (ctx_heap s c))")
           (simp_all add: phase_of_def outcome_of_def callback_waits_def)
    qed
  qed
qed (simp add: connect_def phase_of_def outcome_of_def)

lemma disconnect_phase:
  assumes "conn_inv s"
  shows "(outcome_of (fst (disconnect s)), phase_of (snd (disconnect s))) = spec_disconnect (phase_of s)"
proof (cases "socket s")
  case None
  show ?thesis
  proof (cases "auto_reconnect_pending s")
    case True
    then obtain c where "callback s = Some c" using assms by (auto simp: conn_inv_def)
    with None True show ?thesis by (simp add: disconnect_pending phase_of_def outcome_of_def)
  qed (use None in \<open>simp add: disconnect_def phase_of_def outcome_of_def Let_def split: option.splits\<close>)
next
  case (Some k)
  obtain c q where "callback s = Some c" "disconnect_probe_queue s = Some q" "\<not> auto_reconnect_pending s"
    using conn_inv_open [OF assms Some] by metis
  with assms Some show ?thesis by (simp add: disconnect_open phase_of_def outcome_of_def)
qed

lemma send_phase:
  assumes "conn_inv s"
  shows "(outcome_of (fst (send r packet s)), phase_of (snd (send r packet s))) =
         spec_send (r \<noteq> Send_Error) (phase_of s)"
proof (cases "socket s")
  case (Some k)
  obtain c q where "callback s = Some c" "disconnect_probe_queue s = Some q" "\<not> auto_reconnect_pending s"
    using conn_inv_open [OF assms Some] by metis
  with assms Some show ?thesis
    by (cases r) (simp_all add: send_error_open phase_of_def outcome_of_def, simp add: send_def)
qed (simp add: send_def phase_of_def outcome_of_def split: option.splits)

text \<open>
  C2. The life cycle implements its specification and keeps its invariant. On every state that
  satisfies \<open>conn_inv\<close> the calls \<^verbatim>\<open>connect\<close>, \<^verbatim>\<open>disconnect\<close> and \<^verbatim>\<open>send\<close> succeed, fail or block exactly
  when the abstract operation does and lead to the abstract next phase, whatever the
  operating system decides, as long as the receive thread can be started; and each of them
  leads to a state that satisfies \<open>conn_inv\<close> again. A \<^verbatim>\<open>connect\<close> that fails while a reconnect is
  pending or a reported loss is not yet handled does not return.
\<close>

theorem connection_refines_phases:
  assumes "conn_inv s" "receive_starts env"
  shows "(outcome_of (fst (connect env h p s)), phase_of (snd (connect env h p s))) =
           spec_connect (os_connects env s) (h, p) (phase_of s) \<and> conn_inv (snd (connect env h p s)) \<and>
         (outcome_of (fst (disconnect s)), phase_of (snd (disconnect s))) = spec_disconnect (phase_of s) \<and>
         conn_inv (snd (disconnect s)) \<and>
         (outcome_of (fst (send r packet s)), phase_of (snd (send r packet s))) =
           spec_send (r \<noteq> Send_Error) (phase_of s) \<and> conn_inv (snd (send r packet s))"
  by (intro conjI connect_phase disconnect_phase send_phase connect_inv disconnect_inv send_inv assms)

lemma conn_inv_ipcon0: "conn_inv ipcon0"
  by (simp add: ipcon0_eq ipcon_fields_def conn_inv_def)

text \<open>A connection that tries to reconnect, for the example.\<close>

definition pending0 :: ipcon where
  "pending0 = (snd (start_callback os_ok ipcon0))\<lparr>auto_reconnect_pending := True, auto_reconnect_allowed := True\<rparr>"

lemma pending0_facts:
  "conn_inv pending0" "socket pending0 = None" "auto_reconnect_pending pending0" "callback pending0 = Some 0"
  by (simp_all add: pending0_def start_callback_def os_ok_def ipcon0_eq ipcon_fields_def conn_inv_def Let_def)

theorem connection_refines_phases_witness:
  "outcome_of (fst (connect (os_ok\<lparr>connect_error := Some 111\<rparr>) ''localhost'' 4223 pending0)) = Blocks \<and>
   conn_inv (snd (connect (os_ok\<lparr>connect_error := Some 111\<rparr>) ''localhost'' 4223 pending0)) \<and>
   phase_of (snd (disconnect pending0)) = Closed"
proof -
  have p: "phase_of pending0 = Reconnecting" by (simp add: phase_of_def pending0_facts)
  have "receive_starts (os_ok\<lparr>connect_error := Some 111\<rparr>)" "\<not> os_connects (os_ok\<lparr>connect_error := Some 111\<rparr>) pending0"
    by (simp_all add: os_ok_def os_connects_def)
  with connection_refines_phases [OF pending0_facts(1), of "os_ok\<lparr>connect_error := Some 111\<rparr>" "''localhost''" 4223] p
  show ?thesis by simp
qed

text \<open>
  C28. A \<^verbatim>\<open>connect\<close> that fails on a connection without a callback thread leaves nothing behind,
  for each of the three causes that come before the receive thread: the callback thread
  cannot be started, the socket cannot be connected, or the prober cannot be started. It
  raises the exception of that cause; the connection is closed, without a callback context
  or socket and without a new prober, its receive thread and devices are what they were; the
  callback thread it had started finds only the exit mark in its queue; and a later \<^verbatim>\<open>connect\<close> under better conditions succeeds.
  On an open connection \<^verbatim>\<open>connect\<close> raises ALREADY_CONNECTED and changes nothing.
\<close>

theorem failing_connect_cleans_up:
  assumes "conn_inv s"
  shows "(socket s = None \<and> callback s = None \<and> \<not> os_connects env s \<longrightarrow>
      (\<exists>s'. connect env h p s =
          (Inl (if \<not> callback_starts env then ThreadError
                else case connect_error env of Some code \<Rightarrow> SocketError code | None \<Rightarrow> ThreadError), s') \<and>
         conn_inv s' \<and> phase_of s' = Closed \<and> disconnect_probe_thread s' \<in> {None, disconnect_probe_thread s} \<and>
         receive_thread s' = receive_thread s \<and> receive_flag s' = receive_flag s \<and>
         devices s' = devices s \<and> dev_heap s' = dev_heap s \<and>
         (callback_starts env \<longrightarrow> cb_queue (ctx_heap s' (next_ctx s)) = [QUEUE_EXIT]) \<and>
         (os_connects env2 s' \<and> receive_starts env2 \<longrightarrow>
            (\<exists>s2. connect env2 h2 p2 s' = (Inr (), s2) \<and> phase_of s2 = Opened (h2, p2))))) \<and>
    (socket s \<noteq> None \<longrightarrow> (\<exists>msg. connect env h p s = (Inl (Error ALREADY_CONNECTED msg), s)))"
proof (intro conjI impI)
  assume a: "socket s = None \<and> callback s = None \<and> \<not> os_connects env s"
  let ?s' = "snd (connect env h p s)"
  have pend: "\<not> auto_reconnect_pending s" using assms a by (auto simp: conn_inv_def)
  have c: "connect env h p s = (Inl (if \<not> callback_starts env then ThreadError
             else case connect_error env of Some code \<Rightarrow> SocketError code | None \<Rightarrow> ThreadError), ?s')"
    and f: "socket ?s' = None" "callback ?s' = None" "\<not> auto_reconnect_pending ?s'" "devices ?s' = devices s" "dev_heap ?s' = dev_heap s"
      "receive_thread ?s' = receive_thread s" "receive_flag ?s' = receive_flag s"
      "disconnect_probe_thread ?s' \<in> {None, disconnect_probe_thread s}"
      "callback_starts env \<longrightarrow> cb_queue (ctx_heap ?s' (next_ctx s)) = [QUEUE_EXIT]"
    using a pend by (cases "callback_starts env"; cases "connect_error env";
        simp add: connect_def os_connects_def connect_defs callback_waits_def)+
  have inv: "conn_inv ?s'" using assms f by (auto simp: conn_inv_def)
  have ph: "phase_of ?s' = Closed" using f(1-3) by (simp add: phase_of_def)
  have "\<exists>s2. connect env2 h2 p2 ?s' = (Inr (), s2) \<and> phase_of s2 = Opened (h2, p2)"
    if "os_connects env2 ?s' \<and> receive_starts env2"
    using connect_phase [OF inv, of env2 h2 p2] that ph
    by (cases "connect env2 h2 p2 ?s'") (auto simp: outcome_of_def split: sum.splits if_splits)
  with c f(4-9) inv ph show "\<exists>s'. connect env h p s =
          (Inl (if \<not> callback_starts env then ThreadError
                else case connect_error env of Some code \<Rightarrow> SocketError code | None \<Rightarrow> ThreadError), s') \<and>
         conn_inv s' \<and> phase_of s' = Closed \<and> disconnect_probe_thread s' \<in> {None, disconnect_probe_thread s} \<and>
         receive_thread s' = receive_thread s \<and> receive_flag s' = receive_flag s \<and>
         devices s' = devices s \<and> dev_heap s' = dev_heap s \<and>
         (callback_starts env \<longrightarrow> cb_queue (ctx_heap s' (next_ctx s)) = [QUEUE_EXIT]) \<and>
         (os_connects env2 s' \<and> receive_starts env2 \<longrightarrow>
            (\<exists>s2. connect env2 h2 p2 s' = (Inr (), s2) \<and> phase_of s2 = Opened (h2, p2)))" by blast
qed (simp add: connect_def)

theorem failing_connect_cleans_up_witness:
  "\<exists>s'. connect (os_ok\<lparr>connect_error := Some 111\<rparr>) ''localhost'' 4223 ipcon0 = (Inl (SocketError 111), s') \<and>
     phase_of s' = Closed \<and> (\<exists>s2. connect os_ok ''localhost'' 4223 s' = (Inr (), s2))"
proof -
  let ?env = "os_ok\<lparr>connect_error := Some 111\<rparr>"
  have "socket ipcon0 = None" "callback ipcon0 = None" "\<not> os_connects ?env ipcon0"
    by (simp_all add: ipcon0_eq ipcon_fields_def os_connects_def)
  moreover have "callback_starts ?env" "connect_error ?env = Some 111" "receive_starts os_ok" "os_connects os_ok s" for s
    by (simp_all add: os_ok_def os_connects_def)
  ultimately show ?thesis
    using failing_connect_cleans_up [OF conn_inv_ipcon0, of ?env "''localhost''" 4223 os_ok "''localhost''" 4223] by auto
qed

text \<open>
  C27. A whole session seen by the callback thread: a successful \<^verbatim>\<open>connect\<close> on a closed,
  fresh connection followed by \<^verbatim>\<open>disconnect\<close> leaves in the new context's queue exactly the
  connected event, the disconnected event with reason REQUEST, and the exit mark, in this
  order, and the connection closed without a context.
\<close>

theorem session_events:
  assumes "conn_inv s" "socket s = None" "callback s = None" "\<not> auto_reconnect_pending s"
    and "os_connects env s" "receive_starts env"
  shows "\<exists>s1 s2. connect env h p s = (Inr (), s1) \<and> disconnect s1 = (Inr (), s2) \<and>
           callback s1 = Some (next_ctx s) \<and> callback s2 = None \<and>
           get_connection_state s1 = CONNECTION_STATE_CONNECTED \<and>
           get_connection_state s2 = CONNECTION_STATE_DISCONNECTED \<and>
           cb_queue (ctx_heap s2 (next_ctx s)) =
             [QUEUE_META CALLBACK_CONNECTED CONNECT_REASON_REQUEST None,
              QUEUE_META CALLBACK_DISCONNECTED DISCONNECT_REASON_REQUEST None,
              QUEUE_EXIT]"
proof -
  let ?s = "s\<lparr>host := Some h, port := Some p\<rparr>"
  have "os_connects env ?s" using assms(5) by (simp add: os_connects_def)
  from connect_unlocked_success [OF this assms(6), of h p False] assms(2,3) obtain s1 where
    s1: "connect env h p s = (Inr (), s1)" "callback s1 = Some (next_ctx s)" "socket s1 \<noteq> None"
      "\<not> auto_reconnect_pending s1" "disconnect_probe_queue s1 = Some []"
      "cb_queue (ctx_heap s1 (next_ctx s)) = [QUEUE_META CALLBACK_CONNECTED CONNECT_REASON_REQUEST None]"
    by (auto simp: connect_def)
  have "conn_inv s1" using connect_inv [OF assms(6,1), of h p] s1(1) by simp
  with s1 disconnect_open [of s1 "next_ctx s" "[]"] show ?thesis
    by (simp add: get_connection_state_def)
qed

theorem session_events_witness:
  "\<exists>s1 s2. connect os_ok ''localhost'' 4223 ipcon0 = (Inr (), s1) \<and> disconnect s1 = (Inr (), s2) \<and>
     callback s1 = Some (next_ctx ipcon0) \<and> callback s2 = None \<and>
     get_connection_state s1 = CONNECTION_STATE_CONNECTED \<and>
     get_connection_state s2 = CONNECTION_STATE_DISCONNECTED \<and>
     cb_queue (ctx_heap s2 (next_ctx ipcon0)) =
       [QUEUE_META CALLBACK_CONNECTED CONNECT_REASON_REQUEST None,
        QUEUE_META CALLBACK_DISCONNECTED DISCONNECT_REASON_REQUEST None,
        QUEUE_EXIT]"
  by (rule session_events [OF conn_inv_ipcon0])
     (simp_all add: ipcon0_eq ipcon_fields_def os_connects_def os_ok_def)

text \<open>
  C35. A defect of the error path: when everything succeeds but the receive thread cannot be
  started, the cleanup of \<^verbatim>\<open>connect\<close> joins the thread that never started, which raises in
  turn. The socket attribute stays set and the probe thread is gone, so from then on
  \<^verbatim>\<open>connect\<close> raises ALREADY_CONNECTED and \<^verbatim>\<open>disconnect\<close> raises AttributeError.
\<close>

theorem receive_thread_failure_wedges:
  assumes "conn_inv s" "socket s = None" "os_connects env s" "\<not> receive_starts env" "\<not> auto_reconnect_pending s"
  shows "\<exists>s' msg. connect env h p s = (Inl ThreadError, s') \<and> socket s' \<noteq> None \<and>
           connect env2 h2 p2 s' = (Inl (Error ALREADY_CONNECTED msg), s') \<and>
           fst (disconnect s') = Inl AttributeError"
  using assms
  by (cases "callback s")
     (auto simp: connect_def os_connects_def connect_defs disconnect_unlocked_def stop_probe_def
        join_ref_def disconnect_def)

theorem receive_thread_failure_wedges_witness:
  "\<exists>s' msg. connect (os_ok\<lparr>receive_starts := False\<rparr>) ''localhost'' 4223 ipcon0 = (Inl ThreadError, s') \<and>
     socket s' \<noteq> None \<and> connect os_ok ''localhost'' 4223 s' = (Inl (Error ALREADY_CONNECTED msg), s') \<and>
     fst (disconnect s') = Inl AttributeError"
  by (rule receive_thread_failure_wedges [OF conn_inv_ipcon0])
     (simp_all add: ipcon0_eq ipcon_fields_def os_connects_def os_ok_def)

subsection \<open>The semaphore behind wait and unwait\<close>

text \<open>
  \<^verbatim>\<open>wait\<close> and \<^verbatim>\<open>unwait\<close> are acquire and release of a semaphore that starts at one: on a
  new connection the first \<^verbatim>\<open>wait\<close> returns at once, without any \<^verbatim>\<open>unwait\<close>, and only the
  second one blocks until an \<^verbatim>\<open>unwait\<close> is made.
\<close>

theorem first_wait_returns:
  "\<exists>s. wait ipcon0 = Some s \<and> wait s = None \<and> (\<exists>s'. wait (unwait s) = Some s')"
  by (simp add: wait_def unwait_def ipcon0_eq ipcon_fields_def)

end
