(* ===== verification/Receive.thy ===== *)
theory Receive
  imports Connection
begin

text \<open>
  The receiving side of \<^verbatim>\<open>IPConnection\<close>: \<^verbatim>\<open>handle_response\<close>, which routes one packet, and
  \<^verbatim>\<open>receive_loop\<close>, which cuts the byte stream into packets. What \<^verbatim>\<open>socket.recv\<close> delivers is
  an explicit list of events. The locale \<open>framer\<close> states what cutting a stream into frames
  needs so that the frames do not depend on how the stream was chunked; it is interpreted
  on the loop's own test.
\<close>

subsection \<open>Model\<close>

definition handle_response :: "bytes \<Rightarrow> ipcon \<Rightarrow> unit res \<times> ipcon" where
  "handle_response packet s =
     (let s = s\<lparr>disconnect_probe_flag := False\<rparr> in
      case get_function_id_from_data packet of Inl e \<Rightarrow> (Inl e, s) | Inr function_id \<Rightarrow>
      case get_sequence_number_from_data packet of Inl e \<Rightarrow> (Inl e, s) | Inr sequence_number \<Rightarrow>
      if sequence_number = 0 \<and> function_id = CALLBACK_ENUMERATE then
        (if registered_callbacks s CALLBACK_ENUMERATE \<noteq> None
         then callback_put (QUEUE_PACKET packet) s else (Inr (), s))
      else
        case get_uid_from_data packet of Inl e \<Rightarrow> (Inl e, s) | Inr u \<Rightarrow>
        case devices s u of
          None \<Rightarrow> (Inr (), s)
        | Some d \<Rightarrow>
            if sequence_number = 0 then
              (if dev_registered_callbacks (dev_heap s d) function_id \<noteq> None
               then callback_put (QUEUE_PACKET packet) s else (Inr (), s))
            else if expected_response_function_id (dev_heap s d) = Some function_id \<and>
                    expected_response_sequence_number (dev_heap s d) = Some sequence_number
            then (Inr (), upd_dev d (\<lambda>x. x\<lparr>response_queue := response_queue x @ [packet]\<rparr>) s)
            else (Inr (), s))"

text \<open>One turn of the test of the inner loop: the packet cut off, and the rest.\<close>

definition next_packet :: "bytes \<Rightarrow> (bytes \<times> bytes) option" where
  "next_packet pending_data =
     (if length pending_data < 8 then None
      else case get_length_from_data pending_data of
             Inl _ \<Rightarrow> None
           | Inr len \<Rightarrow>
               if int (length pending_data) < len then None
               else Some (take (nat len) pending_data, drop (nat len) pending_data))"

lemma handle_response_short: "handle_response packet s = (Inr (), s') \<Longrightarrow> 7 \<le> length packet"
  by (auto simp: handle_response_def Let_def header_reads split: sum.splits if_splits)

lemma next_packet_append: "next_packet p = Some (a, b) \<Longrightarrow> p = a @ b"
  by (auto simp: next_packet_def split: if_splits sum.splits)

text \<open>The inner loop: as long as the connection receives, handle every complete packet.\<close>

function receive_packets :: "bytes \<Rightarrow> ipcon \<Rightarrow> bytes res \<times> ipcon" where
  "receive_packets pending_data s =
     (if receive_flag s then
        (case next_packet pending_data of
           None \<Rightarrow> (Inr pending_data, s)
         | Some (packet, rest) \<Rightarrow>
             (case handle_response packet s of
                (Inl e, s') \<Rightarrow> (Inl e, s')
              | (Inr _, s') \<Rightarrow> receive_packets rest s'))
      else (Inr pending_data, s))"
  by pat_completeness auto
termination
proof (relation "measure (\<lambda>(p, s). length p)", goal_cases)
  case 1
  then show ?case by simp
next
  case (2 pending_data s a packet rest b s' u)
  then have "handle_response packet s = (Inr (), s')" by simp
  then have "7 \<le> length packet" by (rule handle_response_short)
  with 2 next_packet_append [of pending_data packet rest] show ?case by auto
qed

declare receive_packets.simps [simp del]

text \<open>
  What one call of \<^verbatim>\<open>recv(8192)\<close> gives: bytes (none at end of stream) or an error. The outer
  loop runs until the connection stops receiving, the peer closes, or an error other than
  EINTR occurs; it returns when the list of events ends, which is a receiver that waits.
\<close>

abbreviation (input) EINTR :: int where "EINTR \<equiv> 4"

datatype recv_event = Recv_Data bytes | Recv_Error int

fun receive_loop :: "int \<Rightarrow> recv_event list \<Rightarrow> bytes \<Rightarrow> ipcon \<Rightarrow> unit res \<times> ipcon" where
  "receive_loop sid [] pending_data s = (Inr (), s)"
| "receive_loop sid (ev # evs) pending_data s =
     (if receive_flag s then
        (case ev of
           Recv_Error errno \<Rightarrow>
             if errno = EINTR then receive_loop sid evs pending_data s
             else handle_disconnect_by_peer DISCONNECT_REASON_ERROR (Some sid) False s
         | Recv_Data data \<Rightarrow>
             if data = [] then handle_disconnect_by_peer DISCONNECT_REASON_SHUTDOWN (Some sid) False s
             else sbind (receive_packets (pending_data @ data) s) (\<lambda>rest s. receive_loop sid evs rest s))
      else (Inr (), s))"

subsection \<open>Cutting a stream into frames\<close>

function cut_frames :: "(bytes \<Rightarrow> (bytes \<times> bytes) option) \<Rightarrow> bytes \<Rightarrow> bytes list \<times> bytes" where
  "cut_frames snip p = (case snip p of
     None \<Rightarrow> ([], p)
   | Some (a, b) \<Rightarrow> if length b < length p then (let (fs, r) = cut_frames snip b in (a # fs, r)) else ([], p))"
  by pat_completeness auto
termination
  by (relation "measure (\<lambda>(snip, p). length p)") auto

declare cut_frames.simps [simp del]

text \<open>The frames of a stream that arrives in chunks, each appended to what was left over.\<close>

fun cut_chunks :: "(bytes \<Rightarrow> (bytes \<times> bytes) option) \<Rightarrow> bytes \<Rightarrow> bytes list \<Rightarrow> bytes list \<times> bytes" where
  "cut_chunks snip p [] = ([], p)"
| "cut_chunks snip p (c # cs) =
     (let (fs, r) = cut_frames snip (p @ c); (gs, r') = cut_chunks snip r cs in (fs @ gs, r'))"

locale framer =
  fixes snip :: "bytes \<Rightarrow> (bytes \<times> bytes) option"
  assumes snip_split: "snip p = Some (a, b) \<Longrightarrow> p = a @ b"
    and snip_extend: "snip p = Some (a, b) \<Longrightarrow> snip (p @ q) = Some (a, b @ q)"
begin

lemma frames_concat: "cut_frames snip p = (fs, r) \<Longrightarrow> concat fs @ r = p"
proof (induction p arbitrary: fs r rule: measure_induct_rule [of length])
  case (less p)
  show ?case
  proof (cases "snip p")
    case (Some ab)
    then obtain a b where ab: "snip p = Some (a, b)" by (cases ab) auto
    show ?thesis
    proof (cases "length b < length p")
      case True
      with ab less.prems obtain gs where gs: "cut_frames snip b = (gs, r)" "fs = a # gs"
        by (auto simp: cut_frames.simps [of snip p] Let_def split: prod.splits)
      with less.IH [OF True gs(1)] snip_split [OF ab] show ?thesis by simp
    qed (use less.prems ab in \<open>simp add: cut_frames.simps [of snip p]\<close>)
  qed (use less in \<open>simp add: cut_frames.simps [of snip p]\<close>)
qed

lemma frames_extend:
  "cut_frames snip p = (fs, r) \<Longrightarrow>
   cut_frames snip (p @ q) = (let (gs, r') = cut_frames snip (r @ q) in (fs @ gs, r'))"
proof (induction p arbitrary: fs r rule: measure_induct_rule [of length])
  case (less p)
  show ?case
  proof (cases "snip p")
    case None
    with less.prems show ?thesis by (simp add: cut_frames.simps [of snip p] case_prod_beta)
  next
    case (Some ab)
    then obtain a b where ab: "snip p = Some (a, b)" by (cases ab) auto
    show ?thesis
    proof (cases "length b < length p")
      case True
      with ab less.prems obtain gs where gs: "cut_frames snip b = (gs, r)" "fs = a # gs"
        by (auto simp: cut_frames.simps [of snip p] Let_def split: prod.splits)
      from less.IH [OF True gs(1)] ab True gs(2) snip_extend [OF ab, of q] show ?thesis
        by (simp add: cut_frames.simps [of snip "p @ q"] Let_def case_prod_beta)
    next
      case False
      with less.prems ab show ?thesis by (simp add: cut_frames.simps [of snip p] case_prod_beta)
    qed
  qed
qed

lemma frames_leftover: "cut_frames snip p = (fs, r) \<Longrightarrow> cut_frames snip r = ([], r)"
proof (induction p arbitrary: fs r rule: measure_induct_rule [of length])
  case (less p)
  show ?case
  proof (cases "snip p")
    case None
    with less.prems have "r = p" by (simp add: cut_frames.simps [of snip p])
    with None show ?thesis by (simp add: cut_frames.simps [of snip p])
  next
    case (Some ab)
    then obtain a b where ab: "snip p = Some (a, b)" by (cases ab) auto
    show ?thesis
    proof (cases "length b < length p")
      case True
      with ab less.prems obtain gs where "cut_frames snip b = (gs, r)"
        by (auto simp: cut_frames.simps [of snip p] Let_def split: prod.splits)
      with less.IH True show ?thesis by blast
    next
      case False
      with ab less.prems have "r = p" by (simp add: cut_frames.simps [of snip p])
      with ab False show ?thesis by (simp add: cut_frames.simps [of snip p])
    qed
  qed
qed

text \<open>However the stream is chunked, the frames and the leftover are those of the whole.\<close>

lemma chunks_independent:
  "cut_frames snip p = ([], p) \<Longrightarrow> cut_chunks snip p cs = cut_frames snip (p @ concat cs)"
proof (induction cs arbitrary: p)
  case (Cons c cs)
  obtain fs r where fr: "cut_frames snip (p @ c) = (fs, r)" by (cases "cut_frames snip (p @ c)")
  from Cons.IH [OF frames_leftover [OF fr]] frames_extend [OF fr, of "concat cs"] fr show ?case
    by (simp add: Let_def case_prod_beta)
qed simp

end

lemma next_packet_eq:
  "next_packet p = (if length p < 8 \<or> length p < unat (p ! 4) then None
                    else Some (take (unat (p ! 4)) p, drop (unat (p ! 4)) p))"
proof -
  have "uint (p ! 4) = int (unat (p ! 4))" by simp
  then have "int (length p) < uint (p ! 4) \<longleftrightarrow> length p < unat (p ! 4)" by linarith
  then show ?thesis by (simp add: next_packet_def get_length_from_data_eq)
qed

interpretation packets: framer next_packet
proof unfold_locales
  fix p a b q :: bytes
  assume snip: "next_packet p = Some (a, b)"
  then show "p = a @ b" by (rule next_packet_append)
  from snip show "next_packet (p @ q) = Some (a, b @ q)"
    by (auto simp: next_packet_eq nth_append split: if_splits)
qed

subsection \<open>What one packet changes\<close>

lemma handle_response_total:
  assumes "8 \<le> length packet" "callback s = Some c"
  shows "fst (handle_response packet s) = Inr ()"
  using assms
  by (auto simp: handle_response_def Let_def header_reads callback_put_def split: option.splits)

lemma handle_response_frame:
  "callback (snd (handle_response packet s)) = callback s"
  "receive_flag (snd (handle_response packet s)) = receive_flag s"
  "devices (snd (handle_response packet s)) = devices s"
  "socket (snd (handle_response packet s)) = socket s"
  "next_sequence_number (snd (handle_response packet s)) = next_sequence_number s"
  "next_dev (snd (handle_response packet s)) = next_dev s"
  "expected_response_function_id (dev_heap (snd (handle_response packet s)) d) =
     expected_response_function_id (dev_heap s d)"
  "expected_response_sequence_number (dev_heap (snd (handle_response packet s)) d) =
     expected_response_sequence_number (dev_heap s d)"
  "uid (dev_heap (snd (handle_response packet s)) d) = uid (dev_heap s d)"
  "response_expected (dev_heap (snd (handle_response packet s)) d) = response_expected (dev_heap s d)"
  by (auto simp: handle_response_def Let_def callback_put_def ctx_put_def upd_ctx_def upd_dev_def
      split: sum.splits option.splits)

text \<open>When a packet is a response the device \<open>d\<close> waits for, and when it is a callback to queue.\<close>

definition awaited_by :: "bytes \<Rightarrow> nat \<Rightarrow> ipcon \<Rightarrow> bool" where
  "awaited_by packet d s =
     (\<exists>u f q. get_uid_from_data packet = Inr u \<and> get_function_id_from_data packet = Inr f \<and>
        get_sequence_number_from_data packet = Inr q \<and> q \<noteq> 0 \<and> devices s u = Some d \<and>
        expected_response_function_id (dev_heap s d) = Some f \<and>
        expected_response_sequence_number (dev_heap s d) = Some q)"

definition callback_packet :: "bytes \<Rightarrow> ipcon \<Rightarrow> bool" where
  "callback_packet packet s =
     (\<exists>u f. get_uid_from_data packet = Inr u \<and> get_function_id_from_data packet = Inr f \<and>
        get_sequence_number_from_data packet = Inr 0 \<and>
        (if f = CALLBACK_ENUMERATE then registered_callbacks s CALLBACK_ENUMERATE \<noteq> None
         else \<exists>d. devices s u = Some d \<and> dev_registered_callbacks (dev_heap s d) f \<noteq> None))"

lemma handle_response_queues:
  assumes "8 \<le> length packet" "callback s = Some c"
  shows "response_queue (dev_heap (snd (handle_response packet s)) d) =
           response_queue (dev_heap s d) @ (if awaited_by packet d s then [packet] else [])"
    and "cb_queue (ctx_heap (snd (handle_response packet s)) k) =
           cb_queue (ctx_heap s k) @
             (if k = c \<and> callback_packet packet s then [QUEUE_PACKET packet] else [])"
  using assms
  by (auto simp: handle_response_def Let_def header_reads callback_put_def awaited_by_def
      callback_packet_def upd_dev_def ctx_put_def upd_ctx_def split: option.splits)

text \<open>
  C10. Routing of a packet: \<^verbatim>\<open>handle_response\<close> never raises on a packet with a full header. It
  hands the packet to a device's response queue if and only if the device is registered
  under the packet's identifier and waits for exactly this function and sequence number; it
  queues the packet for the callback thread if and only if its sequence number is 0 and
  somebody registered for it; every other queue of every other device and context is kept.
\<close>

theorem handle_response_routing:
  assumes "8 \<le> length packet" "callback s = Some c"
  shows "fst (handle_response packet s) = Inr () \<and>
    (\<forall>d. response_queue (dev_heap (snd (handle_response packet s)) d) =
           response_queue (dev_heap s d) @ (if awaited_by packet d s then [packet] else [])) \<and>
    (\<forall>k. cb_queue (ctx_heap (snd (handle_response packet s)) k) =
           cb_queue (ctx_heap s k) @
             (if k = c \<and> callback_packet packet s then [QUEUE_PACKET packet] else []))"
  using handle_response_total [OF assms] handle_response_queues [OF assms] by simp

theorem handle_response_routing_witness:
  "fst (handle_response [1, 0, 0, 0, 8, 1, 0x18, 0] (ipcon0\<lparr>callback := Some 0\<rparr>)) = Inr ()"
  using handle_response_routing [of "[1, 0, 0, 0, 8, 1, 0x18, 0]" "ipcon0\<lparr>callback := Some 0\<rparr>" 0] by simp

subsection \<open>The receive loop reassembles the stream\<close>

text \<open>Handling a list of packets one after the other.\<close>

definition deliver :: "bytes list \<Rightarrow> ipcon \<Rightarrow> ipcon" where
  "deliver ps s = fold (\<lambda>p s. snd (handle_response p s)) ps s"

lemma deliver_simps [simp]:
  "deliver [] s = s" "deliver (p # ps) s = deliver ps (snd (handle_response p s))"
  "deliver (ps @ qs) s = deliver qs (deliver ps s)"
  by (simp_all add: deliver_def)

lemma deliver_frame:
  "callback (deliver ps s) = callback s" "receive_flag (deliver ps s) = receive_flag s"
  by (induction ps arbitrary: s) (auto simp: handle_response_frame)

lemma cut_frames_Nil: "cut_frames next_packet p = ([], r) \<Longrightarrow> r = p"
  by (auto simp: cut_frames.simps [of _ p] Let_def split: option.splits if_splits prod.splits)

lemma cut_frames_Cons:
  "cut_frames next_packet p = (f # fs, r) \<Longrightarrow>
   \<exists>b. next_packet p = Some (f, b) \<and> cut_frames next_packet b = (fs, r)"
  by (auto simp: cut_frames.simps [of _ p] Let_def split: option.splits if_splits prod.splits)

lemma receive_packets_frames:
  "cut_frames next_packet p = (fs, r) \<Longrightarrow> next_packet r = None \<Longrightarrow> list_all (\<lambda>f. 8 \<le> length f) fs \<Longrightarrow>
   receive_flag s \<Longrightarrow> callback s = Some c \<Longrightarrow>
   receive_packets p s = (Inr r, deliver fs s)"
proof (induction fs arbitrary: p s)
  case Nil
  then show ?case using cut_frames_Nil by (fastforce simp: receive_packets.simps [of p])
next
  case (Cons f fs)
  then obtain b where b: "next_packet p = Some (f, b)" "cut_frames next_packet b = (fs, r)"
    using cut_frames_Cons by blast
  obtain s' where s': "handle_response f s = (Inr (), s')"
    using handle_response_total [of f s c] Cons.prems by (cases "handle_response f s") auto
  then have "receive_flag s'" "callback s' = Some c"
    using Cons.prems handle_response_frame(1,2) [of f s] by simp_all
  with Cons b s' show ?case by (simp add: receive_packets.simps [of p])
qed

lemma leftover_incomplete:
  assumes "cut_frames next_packet p = (fs, r)" "next_packet r \<noteq> None"
    "cut_frames next_packet (p @ q) = (gs, r')"
  shows "next_packet r' \<noteq> None"
proof -
  obtain a b where ab: "next_packet r = Some (a, b)" using assms(2) by auto
  have left: "cut_frames next_packet r = ([], r)" using packets.frames_leftover [OF assms(1)] .
  then have "\<not> length b < length r" using ab
    by (auto simp: cut_frames.simps [of _ r] Let_def split: prod.splits)
  then have "a = []" using packets.snip_split [OF ab] by simp
  then have "next_packet (r @ q) = Some ([], r @ q)"
    using packets.snip_extend [OF ab, of q] packets.snip_split [OF ab] by simp
  moreover from this have "cut_frames next_packet (r @ q) = ([], r @ q)"
    by (simp add: cut_frames.simps [of _ "r @ q"])
  ultimately show ?thesis
    using packets.frames_extend [OF assms(1), of q] assms(3) by auto
qed

lemma receive_loop_frames:
  assumes "cut_frames next_packet (p @ concat cs) = (fs, r)" "cut_frames next_packet p = ([], p)"
    "next_packet r = None" "list_all (\<lambda>f. 8 \<le> length f) fs" "[] \<notin> set cs"
    "receive_flag s" "callback s = Some c"
  shows "receive_loop sid (map Recv_Data cs) p s = (Inr (), deliver fs s)"
  using assms
proof (induction cs arbitrary: p fs s)
  case Nil
  then show ?case by simp
next
  case (Cons c1 cs)
  obtain f1 r1 where f1: "cut_frames next_packet (p @ c1) = (f1, r1)" by (cases "cut_frames next_packet (p @ c1)")
  obtain f2 where f2: "cut_frames next_packet (r1 @ concat cs) = (f2, r)" "fs = f1 @ f2"
    using packets.frames_extend [OF f1, of "concat cs"] Cons.prems(1) by (auto simp: Let_def split: prod.splits)
  have "next_packet r1 = None"
  proof (rule ccontr)
    assume "next_packet r1 \<noteq> None"
    from leftover_incomplete [OF f1 this, of "concat cs" fs r] Cons.prems(1,3) show False by simp
  qed
  then have "receive_packets (p @ c1) s = (Inr r1, deliver f1 s)"
    using receive_packets_frames [OF f1] Cons.prems f2 by simp
  moreover have "receive_loop sid (map Recv_Data cs) r1 (deliver f1 s) = (Inr (), deliver f2 (deliver f1 s))"
    using Cons.IH [OF f2(1) packets.frames_leftover [OF f1]] Cons.prems f2(2) by (simp add: deliver_frame)
  ultimately show ?case using Cons.prems f2 by auto
qed

definition wf_packet :: "bytes \<Rightarrow> bool" where
  "wf_packet p = (8 \<le> length p \<and> unat (p ! 4) = length p)"

lemma next_packet_wf: "wf_packet p \<Longrightarrow> next_packet (p @ q) = Some (p, q)"
  by (simp add: next_packet_eq wf_packet_def nth_append)

lemma cut_frames_wf:
  "list_all wf_packet ps \<Longrightarrow> next_packet rest = None \<Longrightarrow>
   cut_frames next_packet (concat ps @ rest) = (ps, rest)"
proof (induction ps)
  case Nil
  then show ?case by (simp add: cut_frames.simps [of _ rest])
next
  case (Cons p ps)
  then have "next_packet (p @ concat ps @ rest) = Some (p, concat ps @ rest)" "0 < length p"
    using next_packet_wf by (auto simp: wf_packet_def)
  with Cons show ?case by (simp add: cut_frames.simps [of _ "p @ concat ps @ rest"])
qed

text \<open>
  C3. The receive loop does not depend on how TCP chunks the stream: for any sequence of
  non-empty reads whose bytes are well-formed packets followed by an incomplete one, the
  loop handles exactly these packets, each once, whole and in order, and nothing else.
\<close>

theorem receive_loop_reassembles:
  assumes "list_all wf_packet ps" "next_packet rest = None"
    and "concat chunks = concat ps @ rest" "[] \<notin> set chunks"
    and "receive_flag s" "callback s = Some c"
  shows "receive_loop sid (map Recv_Data chunks) [] s = (Inr (), deliver ps s)"
proof (rule receive_loop_frames)
  show "cut_frames next_packet ([] @ concat chunks) = (ps, rest)"
    using assms(1-3) cut_frames_wf by simp
  show "cut_frames next_packet [] = ([], [])"
    by (simp add: cut_frames.simps [of _ "[]"] next_packet_def)
  show "list_all (\<lambda>f. 8 \<le> length f) ps"
    using assms(1) by (auto simp: list_all_iff wf_packet_def)
qed (use assms in auto)

theorem receive_loop_reassembles_witness:
  "receive_loop 1 (map Recv_Data [[1, 0, 0, 0, 8, 1], [0x18, 0, 1, 0], [0, 0, 8, 2, 0x28, 0, 7]]) []
      (ipcon0\<lparr>callback := Some 0, receive_flag := True\<rparr>) =
   (Inr (), deliver [[1, 0, 0, 0, 8, 1, 0x18, 0], [1, 0, 0, 0, 8, 2, 0x28, 0]]
      (ipcon0\<lparr>callback := Some 0, receive_flag := True\<rparr>))"
  by (rule receive_loop_reassembles [where rest = "[7]" and c = 0])
     (simp_all add: wf_packet_def next_packet_def)

text \<open>
  C36. A packet whose length byte is below 7 is not survived: the inner loop hands
  \<^verbatim>\<open>handle_response\<close> a packet too short for its header, the exception ends the receive
  thread, and no disconnect is reported to the callback thread.
\<close>

theorem short_length_ends_receiver:
  assumes "8 \<le> length data" "unat (data ! 4) < 7" "receive_flag s"
  shows "receive_loop sid (Recv_Data data # evs) [] s =
           (Inl StructError, s\<lparr>disconnect_probe_flag := False\<rparr>)"
proof -
  let ?n = "unat (data ! 4)"
  have "next_packet data = Some (take ?n data, drop ?n data)"
    using assms by (simp add: next_packet_eq)
  moreover have "handle_response (take ?n data) s = (Inl StructError, s\<lparr>disconnect_probe_flag := False\<rparr>)"
    using assms by (auto simp: handle_response_def Let_def header_reads split: sum.splits)
  ultimately have "receive_packets data s = (Inl StructError, s\<lparr>disconnect_probe_flag := False\<rparr>)"
    using assms(3) by (simp add: receive_packets.simps [of data])
  then show ?thesis using assms by auto
qed

theorem short_length_ends_receiver_witness:
  "receive_loop 1 [Recv_Data [1, 0, 0, 0, 0, 1, 0x18, 0]] [] (ipcon0\<lparr>receive_flag := True\<rparr>) =
     (Inl StructError, (ipcon0\<lparr>receive_flag := True\<rparr>)\<lparr>disconnect_probe_flag := False\<rparr>)"
  by (rule short_length_ends_receiver) simp_all

end
