(* ===== verification/Requests.thy ===== *)
theory Requests
  imports Receive
begin

text \<open>
  \<^verbatim>\<open>IPConnection.send_request\<close>, the one function through which every call of every device
  goes, and the methods built directly on it. The environment of a call is explicit: how
  \<^verbatim>\<open>socket.send\<close> ends, and the list of packets the receive thread handles while the caller
  waits in \<^verbatim>\<open>response_queue.get\<close> (the end of the list is the time out). Shown: a call with a
  matching response returns that response's data, whatever other traffic arrives before it;
  without one it ends with a time out; stale responses are skipped; the error codes of the
  protocol become the documented exceptions; the expectation is always withdrawn.
\<close>

subsection \<open>Model\<close>

lemma handle_response_queue_bound:
  "length (response_queue (dev_heap (snd (handle_response p s)) d)) \<le> Suc (length (response_queue (dev_heap s d)))"
  by (auto simp: handle_response_def Let_def callback_put_def ctx_put_def upd_ctx_def upd_dev_def
      split: sum.splits option.splits)

text \<open>The loop that waits for the response, with the packets that still arrive in time.\<close>

function wait_response :: "int \<Rightarrow> int \<Rightarrow> nat \<Rightarrow> bytes list \<Rightarrow> ipcon \<Rightarrow> bytes res \<times> ipcon" where
  "wait_response function_id sequence_number d arrivals s =
     (case response_queue (dev_heap s d) of
        response # rest \<Rightarrow>
          (let s = upd_dev d (\<lambda>x. x\<lparr>response_queue := rest\<rparr>) s in
           case get_function_id_from_data response of Inl e \<Rightarrow> (Inl e, s) | Inr f \<Rightarrow>
           if function_id = f then
             (case get_sequence_number_from_data response of Inl e \<Rightarrow> (Inl e, s) | Inr q \<Rightarrow>
              if sequence_number = q then (Inr response, s)
              else wait_response function_id sequence_number d arrivals s)
           else wait_response function_id sequence_number d arrivals s)
      | [] \<Rightarrow>
          (case arrivals of
             [] \<Rightarrow> (Inl Empty, s)
           | packet # packets \<Rightarrow>
               (case handle_response packet s of
                  (Inl _, s') \<Rightarrow> wait_response function_id sequence_number d [] s'
                | (Inr _, s') \<Rightarrow> wait_response function_id sequence_number d packets s')))"
  by pat_completeness auto
termination
proof (relation "measure (\<lambda>(f, q, d, ps, s). 2 * length ps + length (response_queue (dev_heap s d)))", goal_cases)
  case 1
  then show ?case by simp
next
  case (2 f q d ps s packet packets x s' u)
  then have "snd (handle_response packet s) = s'" by (metis snd_conv)
  with 2 show ?case using handle_response_queue_bound [of packet s d] by simp
next
  case (3 f q d ps s packet packets x s' u)
  then have "snd (handle_response packet s) = s'" by (metis snd_conv)
  with 3 show ?case using handle_response_queue_bound [of packet s d] by simp
next
  case (4 f q d ps s r rest x fa qa)
  then show ?case by (simp add: upd_dev_def)
next
  case (5 f q d ps s r rest x fa)
  then show ?case by (simp add: upd_dev_def)
qed

declare wait_response.simps [simp del]

text \<open>What follows the loop: the error code of the response, then its data.\<close>

definition check_response :: "int \<Rightarrow> int \<Rightarrow> string \<Rightarrow> bytes \<Rightarrow> pval res" where
  "check_response hexversion function_id form_ret response =
     rbind (get_error_code_from_data response) (\<lambda>error_code.
       if error_code = 0 then
         (if 0 < length form_ret then deserialize_data hexversion (drop 8 response) form_ret else Inr PNone)
       else if error_code = 1 then
         Inl (Error INVALID_PARAMETER (''Got invalid parameter for function '' @ int_str function_id))
       else if error_code = 2 then
         Inl (Error NOT_SUPPORTED (''Function '' @ int_str function_id @ '' is not supported''))
       else
         Inl (Error UNKNOWN_ERROR_CODE (''Function '' @ int_str function_id @ '' returned an unknown error'')))"

definition set_expected :: "int option \<Rightarrow> int option \<Rightarrow> nat \<Rightarrow> ipcon \<Rightarrow> ipcon" where
  "set_expected f q d s =
     upd_dev d (\<lambda>x. x\<lparr>expected_response_function_id := f, expected_response_sequence_number := q\<rparr>) s"

definition timeout_error :: "int \<Rightarrow> pyexc" where
  "timeout_error function_id =
     Error TIMEOUT (''Did not receive response for function '' @ int_str function_id @ '' in time'')"

definition send_request ::
    "int \<Rightarrow> send_result \<Rightarrow> bytes list \<Rightarrow> nat \<Rightarrow> int \<Rightarrow> pval list \<Rightarrow> string \<Rightarrow> string \<Rightarrow> ipcon \<Rightarrow> pval res \<times> ipcon" where
  "send_request hexversion r arrivals d function_id data form form_ret s =
     (case calcsize_le form of Inl e \<Rightarrow> (Inl e, s) | Inr n \<Rightarrow>
      sbind (create_packet_header (Some d) (8 + int n) function_id s)
       (\<lambda>(header, resp_expected, sequence_number) s.
          case pack_fields hexversion (zip (split_space form) data) header of
            Inl e \<Rightarrow> (Inl e, s)
          | Inr request \<Rightarrow>
              if resp_expected then
                (case sbind (send r request (set_expected (Some function_id) (Some sequence_number) d s))
                        (\<lambda>_ s. wait_response function_id sequence_number d arrivals s) of
                   (res, s) \<Rightarrow>
                     (case res of
                        Inl Empty \<Rightarrow> Inl (timeout_error function_id)
                      | Inl e \<Rightarrow> Inl e
                      | Inr response \<Rightarrow> check_response hexversion function_id form_ret response,
                      set_expected None None d s))
              else sbind (send r request s) (\<lambda>_ s. (Inr PNone, s))))"

subsection \<open>The first matching response\<close>

definition matches :: "int \<Rightarrow> int \<Rightarrow> bytes \<Rightarrow> bool" where
  "matches f q p = (get_function_id_from_data p = Inr f \<and> get_sequence_number_from_data p = Inr q)"

lemma awaited_frame: "awaited_by p d (snd (handle_response packet s)) = awaited_by p d s"
  by (simp add: awaited_by_def handle_response_frame)

lemma wait_response_first:
  assumes "list_all (\<lambda>p. 8 \<le> length p) arrivals" "list_all (\<lambda>p. 8 \<le> length p) (response_queue (dev_heap s d))"
    and "callback s = Some c"
  shows "fst (wait_response f q d arrivals s) =
     (case find (matches f q) (response_queue (dev_heap s d) @ filter (\<lambda>p. awaited_by p d s) arrivals) of
        None \<Rightarrow> Inl Empty | Some p \<Rightarrow> Inr p)"
  using assms
proof (induction f q d arrivals s rule: wait_response.induct)
  case (1 f q d arrivals s)
  show ?case
  proof (cases "response_queue (dev_heap s d)")
    case (Cons response rest)
    let ?s = "upd_dev d (\<lambda>x. x\<lparr>response_queue := rest\<rparr>) s"
    have s: "response_queue (dev_heap ?s d) = rest" "callback ?s = Some c"
      "\<And>p. awaited_by p d ?s = awaited_by p d s"
      using "1.prems" by (auto simp: upd_dev_def awaited_by_def)
    have len: "8 \<le> length response" "list_all (\<lambda>p. 8 \<le> length p) rest"
      using "1.prems"(2) Cons by auto
    then obtain g k where gk: "get_function_id_from_data response = Inr g"
        "get_sequence_number_from_data response = Inr k"
      by (auto simp: header_reads)
    show ?thesis
    proof (cases "f = g \<and> q = k")
      case True
      with Cons gk show ?thesis by (simp add: wait_response.simps [of g k d arrivals s] matches_def Let_def)
    next
      case False
      then have "wait_response f q d arrivals s = wait_response f q d arrivals ?s"
        using Cons gk by (auto simp: wait_response.simps [of f q d arrivals s] Let_def)
      moreover have "fst (wait_response f q d arrivals ?s) =
          (case find (matches f q) (rest @ filter (\<lambda>p. awaited_by p d s) arrivals) of
             None \<Rightarrow> Inl Empty | Some p \<Rightarrow> Inr p)"
        using "1.IH"(3) [OF Cons refl gk(1) _ gk(2)] "1.IH"(4) [OF Cons refl gk(1)] False "1.prems" s len
        by (cases "f = g") auto
      moreover have "\<not> matches f q response" using False gk by (auto simp: matches_def)
      ultimately show ?thesis using Cons by simp
    qed
  next
    case Nil
    show ?thesis
    proof (cases arrivals)
      case (Cons packet packets)
      obtain s' where s': "handle_response packet s = (Inr (), s')"
        using handle_response_total [of packet s c] "1.prems" Cons by (cases "handle_response packet s") auto
      have q': "response_queue (dev_heap s' d) = (if awaited_by packet d s then [packet] else [])"
        using handle_response_queues(1) [of packet s c d] "1.prems" Cons Nil s' by simp
      have "callback s' = Some c" "\<And>p. awaited_by p d s' = awaited_by p d s"
        using handle_response_frame(1) [of packet s] awaited_frame [of _ d packet s] s' "1.prems" by simp_all
      then have "fst (wait_response f q d packets s') =
          (case find (matches f q) ((if awaited_by packet d s then [packet] else []) @
                 filter (\<lambda>p. awaited_by p d s) packets) of
             None \<Rightarrow> Inl Empty | Some p \<Rightarrow> Inr p)"
        using "1.IH"(2) [OF Nil Cons s' [symmetric] refl] "1.prems" Cons q' by (simp split: if_splits)
      then show ?thesis using Nil Cons s' by (simp add: wait_response.simps [of f q d "packet # packets" s])
    qed (use Nil in \<open>simp add: wait_response.simps [of f q d "[]" s]\<close>)
  qed
qed

lemma wait_response_frame:
  "socket (snd (wait_response f q d arrivals s)) = socket s \<and>
   callback (snd (wait_response f q d arrivals s)) = callback s \<and>
   devices (snd (wait_response f q d arrivals s)) = devices s \<and>
   next_sequence_number (snd (wait_response f q d arrivals s)) = next_sequence_number s"
proof (induction f q d arrivals s rule: wait_response.induct)
  case (1 f q d arrivals s)
  show ?case
  proof (cases "response_queue (dev_heap s d)")
    case (Cons response rest)
    let ?s = "upd_dev d (\<lambda>x. x\<lparr>response_queue := rest\<rparr>) s"
    have [simp]: "socket ?s = socket s" "callback ?s = callback s" "devices ?s = devices s"
        "next_sequence_number ?s = next_sequence_number s"
      by (simp_all add: upd_dev_def)
    show ?thesis
      using "1.IH"(3) [OF Cons refl] "1.IH"(4) [OF Cons refl] Cons
      by (auto simp: wait_response.simps [of f q d arrivals s] Let_def split: sum.splits)
  next
    case Nil
    show ?thesis
    proof (cases arrivals)
      case (Cons packet packets)
      obtain res s' where s': "handle_response packet s = (res, s')" by (cases "handle_response packet s")
      then have "socket s' = socket s" "callback s' = callback s" "devices s' = devices s"
          "next_sequence_number s' = next_sequence_number s"
        using handle_response_frame [of packet s] by simp_all
      then show ?thesis
        using "1.IH"(1,2) [OF Nil Cons s' [symmetric]] Nil Cons s'
        by (cases res) (simp_all add: wait_response.simps [of f q d "packet # packets" s])
    qed (use Nil in \<open>simp add: wait_response.simps [of f q d "[]" s]\<close>)
  qed
qed

subsection \<open>The whole call\<close>

lemma pack_fields_prefix: "pack_fields hv fds r = rmap (append r) (pack_fields hv fds [])"
proof (induction fds arbitrary: r)
  case (Cons fd fds)
  obtain f d where fd: "fd = (f, d)" by (cases fd)
  show ?case
  proof (cases "pack_field hv f d")
    case (Inr bs)
    with fd show ?thesis using Cons.IH [of "r @ bs"] Cons.IH [of bs] by simp
  qed (simp add: fd)
qed simp

text \<open>A packet that answers function \<open>f\<close> with sequence number \<open>q\<close> on behalf of identifier \<open>u\<close>.\<close>

definition response_for :: "int \<Rightarrow> int \<Rightarrow> int \<Rightarrow> bytes \<Rightarrow> bool" where
  "response_for u f q p = (get_uid_from_data p = Inr u \<and> matches f q p)"

lemma awaited_by_expected:
  "awaited_by p d (set_expected (Some f) (Some q) d s) =
     (\<exists>u. get_uid_from_data p = Inr u \<and> devices s u = Some d \<and> matches f q p \<and> q \<noteq> 0)"
  by (auto simp: awaited_by_def set_expected_def upd_dev_def matches_def)

lemma set_expected_simps [simp]:
  "socket (set_expected a b d s) = socket s" "callback (set_expected a b d s) = callback s"
  "devices (set_expected a b d s) = devices s"
  "response_queue (dev_heap (set_expected a b d s) x) = response_queue (dev_heap s x)"
  "expected_response_function_id (dev_heap (set_expected a b d s) d) = a"
  "expected_response_sequence_number (dev_heap (set_expected a b d s) d) = b"
  by (simp_all add: set_expected_def upd_dev_def)

text \<open>The bytes of a request.\<close>

definition request_bytes :: "int \<Rightarrow> int \<Rightarrow> int \<Rightarrow> bool \<Rightarrow> bytes \<Rightarrow> bytes" where
  "request_bytes u f q e payload = header_bytes u (8 + int (length payload)) f q e @ payload"

text \<open>A connection on which a call can be made, and a call whose arguments can be packed.\<close>

definition ready :: "ipcon \<Rightarrow> nat \<Rightarrow> bool" where
  "ready s d = (seq_ok s \<and> device_ok (dev_heap s d) \<and> socket s \<noteq> None \<and> callback s \<noteq> None \<and>
     list_all (\<lambda>p. 8 \<le> length p) (response_queue (dev_heap s d)))"

definition call_ok :: "int \<Rightarrow> string \<Rightarrow> pval list \<Rightarrow> bytes \<Rightarrow> bool" where
  "call_ok hv form data payload =
     (\<exists>ks. form_fields form = Some ks \<and> length data = length ks \<and> form_size ks \<le> 247 \<and>
        pack_fields hv (zip (split_space form) data) [] = Inr payload)"

lemma call_ok_size:
  assumes "call_ok hv form data payload"
  shows "calcsize_le form = Inr (length payload) \<and> length payload \<le> 247"
proof -
  from assms obtain ks where ks: "form_fields form = Some ks" "length data = length ks" "form_size ks \<le> 247"
      "pack_fields hv (zip (split_space form) data) [] = Inr payload"
    by (auto simp: call_ok_def)
  obtain fs where fs: "zip (split_space form) data = zip fs data" "classify_all fs = Some ks"
    using form_fields_split [OF ks(1,2)] by blast
  have "length payload = form_size ks"
    using pack_fields_length [OF fs(2), of data hv "[]" payload] classify_all_length [OF fs(2)] ks fs by simp
  with form_fields_size [OF ks(1)] ks(3) show ?thesis by simp
qed

lemma header_for_call:
  assumes "ready s d" "call_ok hv form data payload" "get_response_expected (dev_heap s d) f = Inr e"
  shows "create_packet_header (Some d) (8 + int (length payload)) f s =
     (Inr (header_bytes (uid (dev_heap s d)) (8 + int (length payload)) f (next_sequence_number s + 1) e, e,
           next_sequence_number s + 1),
      s\<lparr>next_sequence_number := (next_sequence_number s + 1) mod 15\<rparr>)"
proof -
  have "uint_fits 1 (8 + int (length payload))"
    using call_ok_size [OF assms(2)] by (simp add: uint_fits_def)
  moreover have "uint_fits 4 (uid (dev_heap s d))" "uint_fits 1 f"
    using assms(1) known_function_range [OF _ assms(3)] by (auto simp: ready_def device_ok_def uint_fits_def)
  ultimately show ?thesis
    using create_packet_header_eq [of s "Some d" f "8 + int (length payload)"] assms
    by (simp add: ready_def known_function_def target_uid_def expects_def Let_def)
qed

lemma send_Sent:
  "socket s = Some k \<Longrightarrow> send (Sent n) packet s =
     (Inr (), s\<lparr>socket := Some (k\<lparr>sock_sent := sock_sent k @ take n packet\<rparr>), disconnect_probe_flag := False\<rparr>)"
  by (simp add: send_def)

lemma send_request_eq:
  assumes r: "ready s d" and c: "call_ok hv form data payload"
    and e: "get_response_expected (dev_heap s d) f = Inr e"
    and q: "q = next_sequence_number s + 1" and k: "socket s = Some k"
  shows "send_request hv (Sent n) arrivals d f data form form_ret s =
    (let s1 = s\<lparr>next_sequence_number := q mod 15\<rparr>;
         k' = k\<lparr>sock_sent := sock_sent k @ take n (request_bytes (uid (dev_heap s d)) f q e payload)\<rparr>
     in if e then
          (case wait_response f q d arrivals
              ((set_expected (Some f) (Some q) d s1)\<lparr>socket := Some k', disconnect_probe_flag := False\<rparr>) of
             (res, s2) \<Rightarrow>
               (case res of
                  Inl Empty \<Rightarrow> Inl (timeout_error f)
                | Inl x \<Rightarrow> Inl x
                | Inr response \<Rightarrow> check_response hv f form_ret response,
                set_expected None None d s2))
        else (Inr PNone, s1\<lparr>socket := Some k', disconnect_probe_flag := False\<rparr>))"
proof -
  let ?h = "header_bytes (uid (dev_heap s d)) (8 + int (length payload)) f q e"
  have "pack_fields hv (zip (split_space form) data) ?h = Inr (?h @ payload)"
    using c pack_fields_prefix [of hv "zip (split_space form) data" ?h] by (auto simp: call_ok_def)
  moreover have "calcsize_le form = Inr (length payload)" using call_ok_size [OF c] by simp
  ultimately show ?thesis
    using header_for_call [OF r c e] k
    by (cases e) (simp_all add: send_request_def send_Sent request_bytes_def q [symmetric] Let_def)
qed

text \<open>The queue of responses a call may look at: stale ones first, then those routed to it.\<close>

definition candidates :: "nat \<Rightarrow> int \<Rightarrow> int \<Rightarrow> bytes list \<Rightarrow> ipcon \<Rightarrow> bytes list" where
  "candidates d f q arrivals s =
     response_queue (dev_heap s d) @
     filter (\<lambda>p. \<exists>u. devices s u = Some d \<and> response_for u f q p) arrivals"

lemma send_request_result:
  assumes "ready s d" "call_ok hv form data payload" "get_response_expected (dev_heap s d) f = Inr True"
    "q = next_sequence_number s + 1" "list_all (\<lambda>p. 8 \<le> length p) arrivals"
  shows "fst (send_request hv (Sent n) arrivals d f data form form_ret s) =
     (case find (matches f q) (candidates d f q arrivals s) of
        None \<Rightarrow> Inl (timeout_error f)
      | Some response \<Rightarrow> check_response hv f form_ret response)"
proof -
  obtain k c where kc: "socket s = Some k" "callback s = Some c" using assms(1) by (auto simp: ready_def)
  let ?k = "k\<lparr>sock_sent := sock_sent k @ take n (request_bytes (uid (dev_heap s d)) f q True payload)\<rparr>"
  let ?s = "(set_expected (Some f) (Some q) d (s\<lparr>next_sequence_number := q mod 15\<rparr>))
              \<lparr>socket := Some ?k, disconnect_probe_flag := False\<rparr>"
  have "q \<noteq> 0" using assms(1,4) by (auto simp: ready_def seq_ok_def)
  then have "filter (\<lambda>p. awaited_by p d ?s) arrivals =
      filter (\<lambda>p. \<exists>u. devices s u = Some d \<and> response_for u f q p) arrivals"
    by (intro filter_cong) (auto simp: awaited_by_def set_expected_def upd_dev_def response_for_def matches_def)
  then have cand: "response_queue (dev_heap ?s d) @ filter (\<lambda>p. awaited_by p d ?s) arrivals =
      candidates d f q arrivals s"
    by (simp add: candidates_def)
  have "fst (wait_response f q d arrivals ?s) =
      (case find (matches f q) (candidates d f q arrivals s) of None \<Rightarrow> Inl Empty | Some p \<Rightarrow> Inr p)"
    using wait_response_first [of arrivals ?s d c f q] assms(1,5) kc(2) cand by (simp add: ready_def)
  then show ?thesis
    using send_request_eq [OF assms(1-4) kc(1), of n arrivals form_ret]
    by (auto simp: Let_def split: prod.splits option.splits)
qed

lemma find_matches_append:
  "list_all (\<lambda>p. \<not> matches f q p) xs \<Longrightarrow> matches f q r \<Longrightarrow> find (matches f q) (xs @ r # ys) = Some r"
  by (induction xs) auto

text \<open>
  C1. A call that expects a response returns the right one. Let a device registered under
  its identifier make a call whose arguments can be packed. If, while the caller waits, the
  receive thread handles any packets of other devices, functions or sequence numbers and
  callbacks, and then the response to this call, the call ends with what
  \<open>check_response\<close> makes of exactly that packet, even if stale responses of earlier calls
  were still queued; packets after it do not matter.
\<close>

theorem send_request_returns_response:
  assumes "ready s d" "call_ok hexversion form data payload"
    and "get_response_expected (dev_heap s d) function_id = Inr True"
    and "devices s (uid (dev_heap s d)) = Some d"
    and "q = next_sequence_number s + 1"
    and "list_all (\<lambda>p. 8 \<le> length p) (before @ response # after)"
    and "list_all (\<lambda>p. \<not> matches function_id q p) (response_queue (dev_heap s d))"
    and "list_all (\<lambda>p. \<not> (\<exists>u. devices s u = Some d \<and> response_for u function_id q p)) before"
    and "response_for (uid (dev_heap s d)) function_id q response"
  shows "fst (send_request hexversion (Sent n) (before @ response # after) d function_id data form form_ret s)
           = check_response hexversion function_id form_ret response"
proof -
  have "filter (\<lambda>p. \<exists>u. devices s u = Some d \<and> response_for u function_id q p) before = []"
    using assms(8) by (auto simp: list_all_iff filter_empty_conv)
  then have "\<exists>ys. candidates d function_id q (before @ response # after) s =
      response_queue (dev_heap s d) @ response # ys"
    using assms(4,9) by (auto simp: candidates_def)
  moreover have "matches function_id q response" using assms(9) by (simp add: response_for_def)
  ultimately have "find (matches function_id q) (candidates d function_id q (before @ response # after) s) =
      Some response"
    using find_matches_append [OF assms(7)] by auto
  then show ?thesis
    using send_request_result [OF assms(1-3,5,6), of n form_ret] by simp
qed

subsection \<open>An open connection for the examples\<close>

definition conn0 :: ipcon where
  "conn0 = ipcon0\<lparr>socket := Some \<lparr>sock_peer = (''localhost'', 4223), sock_sent = []\<rparr>, callback := Some 0\<rparr>"

lemma conn0_ready:
  "ready conn0 0" "devices conn0 (uid (dev_heap conn0 0)) = Some 0" "next_sequence_number conn0 = 0"
  "uid (dev_heap conn0 0) = 1" "response_queue (dev_heap conn0 0) = []"
  "get_response_expected (dev_heap conn0 0) 1 = Inr True"
  "devices conn0 u = Some 0 \<longleftrightarrow> u = 1"
  by (simp_all add: conn0_def ipcon0_eq ipcon_fields_def ready_def seq_ok_def device_ok_def new_device_def
      get_response_expected_def)

lemma call_ok_empty: "call_ok hv [] [] []"
  by (simp add: call_ok_def form_fields_def)

lemma example_reads:
  "response_for 1 1 1 [1, 0, 0, 0, 12, 1, 0x10, 0, 9, 8, 7, 6]"
  "\<not> response_for 1 1 1 [5, 0, 0, 0, 8, 1, 0x10, 0]"
  by code_simp+

theorem send_request_returns_response_witness:
  "fst (send_request 0x03000000 (Sent 8) ([[5, 0, 0, 0, 8, 1, 0x10, 0]] @ [1, 0, 0, 0, 12, 1, 0x10, 0, 9, 8, 7, 6] # [])
          0 1 [] [] ''4B'' conn0)
     = check_response 0x03000000 1 ''4B'' [1, 0, 0, 0, 12, 1, 0x10, 0, 9, 8, 7, 6]"
  by (rule send_request_returns_response [OF conn0_ready(1) call_ok_empty conn0_ready(6,2), where q = 1])
     (use example_reads in \<open>simp_all add: conn0_ready\<close>)

subsection \<open>What a call puts on the wire\<close>

lemma request_wf:
  assumes "ready s d" "call_ok hv form data payload" "get_response_expected (dev_heap s d) f = Inr e"
    "q = next_sequence_number s + 1"
  shows "wf_packet (request_bytes (uid (dev_heap s d)) f q e payload)"
proof -
  have "unat (header_bytes (uid (dev_heap s d)) (8 + int (length payload)) f q e ! 4) = 8 + length payload"
  proof -
    have "uint (header_bytes (uid (dev_heap s d)) (8 + int (length payload)) f q e ! 4) = 8 + int (length payload)"
      using header_bytes_nth(1) [of "8 + int (length payload)" f q] call_ok_size [OF assms(2)] assms(1,4)
        known_function_range [OF _ assms(3)]
      by (auto simp: ready_def seq_ok_def device_ok_def uint_fits_def)
    then show ?thesis by (simp add: unat_eq_nat_uint)
  qed
  then show ?thesis by (simp add: wf_packet_def request_bytes_def nth_append)
qed

lemma send_request_state:
  assumes "ready s d" "call_ok hv form data payload" "get_response_expected (dev_heap s d) f = Inr e"
    "q = next_sequence_number s + 1" "socket s = Some k"
    "send_request hv (Sent n) arrivals d f data form form_ret s = (res, s')"
  shows "socket s' = Some (k\<lparr>sock_sent := sock_sent k @
             take n (request_bytes (uid (dev_heap s d)) f q e payload)\<rparr>) \<and>
         next_sequence_number s' = q mod 15 \<and>
         (e \<longrightarrow> expected_response_function_id (dev_heap s' d) = None \<and>
              expected_response_sequence_number (dev_heap s' d) = None) \<and>
         (\<not> e \<longrightarrow> res = Inr PNone)"
proof (cases e)
  case True
  let ?k = "k\<lparr>sock_sent := sock_sent k @ take n (request_bytes (uid (dev_heap s d)) f q True payload)\<rparr>"
  let ?s = "(set_expected (Some f) (Some q) d (s\<lparr>next_sequence_number := q mod 15\<rparr>))
              \<lparr>socket := Some ?k, disconnect_probe_flag := False\<rparr>"
  have "s' = set_expected None None d (snd (wait_response f q d arrivals ?s))"
    using send_request_eq [OF assms(1-5), of n arrivals form_ret] assms(6) True
    by (simp add: Let_def split: prod.splits)
  moreover have "next_sequence_number ?s = q mod 15" by (simp add: set_expected_def upd_dev_def)
  ultimately show ?thesis
    using wait_response_frame [of f q d arrivals ?s] True
    by (simp add: set_expected_def upd_dev_def)
next
  case False
  with send_request_eq [OF assms(1-5), of n arrivals form_ret] assms(6) show ?thesis by (auto simp: Let_def)
qed

lemma unexpected_not_queued:
  assumes "expected_response_function_id (dev_heap s d) = None"
  shows "response_queue (dev_heap (snd (handle_response p s)) d) = response_queue (dev_heap s d)"
  using assms
  by (auto simp: handle_response_def Let_def callback_put_def ctx_put_def upd_ctx_def upd_dev_def
      split: sum.splits option.splits)

text \<open>
  C19. A call that expects a response ends with the TIMEOUT error when no packet it may look
  at answers it; in particular a device object that is no longer the one registered under
  its identifier, because a second object was created for the same identifier, times out
  even when the right response arrives. Before it raises, the call withdraws its
  expectation, so no packet that arrives later is put into the queue of the device.
\<close>

theorem send_request_times_out:
  assumes "ready s d" "call_ok hexversion form data payload"
    and "get_response_expected (dev_heap s d) function_id = Inr True"
    and "q = next_sequence_number s + 1"
    and "list_all (\<lambda>p. 8 \<le> length p) arrivals"
    and "list_all (\<lambda>p. \<not> matches function_id q p) (response_queue (dev_heap s d))"
    and "\<forall>u. devices s u = Some d \<longrightarrow> list_all (\<lambda>p. \<not> response_for u function_id q p) arrivals"
  shows "\<exists>s'. send_request hexversion (Sent n) arrivals d function_id data form form_ret s =
           (Inl (timeout_error function_id), s') \<and>
         expected_response_function_id (dev_heap s' d) = None \<and>
         expected_response_sequence_number (dev_heap s' d) = None \<and>
         (\<forall>p. response_queue (dev_heap (snd (handle_response p s')) d) = response_queue (dev_heap s' d))"
proof -
  obtain res s' where rs: "send_request hexversion (Sent n) arrivals d function_id data form form_ret s = (res, s')"
    by fastforce
  obtain k where k: "socket s = Some k" using assms(1) by (auto simp: ready_def)
  have "filter (\<lambda>p. \<exists>u. devices s u = Some d \<and> response_for u function_id q p) arrivals = []"
    using assms(7) by (auto simp: list_all_iff filter_empty_conv)
  then have "find (matches function_id q) (candidates d function_id q arrivals s) = None"
    using assms(6) by (auto simp: candidates_def find_None_iff list_all_iff)
  then have "res = Inl (timeout_error function_id)"
    using send_request_result [OF assms(1-5), of n form_ret] rs by simp
  moreover have "expected_response_function_id (dev_heap s' d) = None \<and> expected_response_sequence_number (dev_heap s' d) = None"
    using send_request_state [OF assms(1-4) k rs] by simp
  ultimately show ?thesis using rs unexpected_not_queued by blast
qed

theorem send_request_times_out_witness:
  "\<exists>s'. send_request 0x03000000 (Sent 8) [[5, 0, 0, 0, 8, 1, 0x10, 0]] 0 1 [] [] ''4B'' conn0 = (Inl (timeout_error 1), s') \<and>
     expected_response_function_id (dev_heap s' 0) = None"
proof -
  have "\<exists>s'. send_request 0x03000000 (Sent 8) [[5, 0, 0, 0, 8, 1, 0x10, 0]] 0 1 [] [] ''4B'' conn0 = (Inl (timeout_error 1), s') \<and>
     expected_response_function_id (dev_heap s' 0) = None \<and> expected_response_sequence_number (dev_heap s' 0) = None \<and>
     (\<forall>p. response_queue (dev_heap (snd (handle_response p s')) 0) = response_queue (dev_heap s' 0))"
    by (rule send_request_times_out [OF conn0_ready(1) call_ok_empty conn0_ready(6), where q = 1])
       (use example_reads in \<open>simp_all add: conn0_ready\<close>)
  then show ?thesis by blast
qed

text \<open>
  C7. Every call whose arguments can be packed writes exactly one packet, provided the
  operating system takes it whole: the header with the device's identifier, the function
  and the next sequence number, then the payload. The packet is well formed, so a receiver
  cuts it off where it ends; afterwards no response is expected any more, and a call that
  expects none returns None at once.
\<close>

theorem send_request_writes_one_packet:
  assumes "ready s d" "call_ok hexversion form data payload"
    and "get_response_expected (dev_heap s d) function_id = Inr e"
    and "q = next_sequence_number s + 1" "socket s = Some k" "8 + length payload \<le> n"
    and "send_request hexversion (Sent n) arrivals d function_id data form form_ret s = (res, s')"
  shows "let request = request_bytes (uid (dev_heap s d)) function_id q e payload in
         socket s' = Some (k\<lparr>sock_sent := sock_sent k @ request\<rparr>) \<and>
         wf_packet request \<and> drop 8 request = payload \<and>
         (e \<longrightarrow> expected_response_function_id (dev_heap s' d) = None \<and>
              expected_response_sequence_number (dev_heap s' d) = None) \<and>
         (\<not> e \<longrightarrow> res = Inr PNone)"
  using send_request_state [OF assms(1-5,7)] request_wf [OF assms(1-4)] assms(6)
  by (simp add: Let_def request_bytes_def)

theorem send_request_writes_one_packet_witness:
  "socket (snd (send_request 0x03000000 (Sent 8) [] 0 1 [] [] ''4B'' conn0)) =
     Some \<lparr>sock_peer = (''localhost'', 4223), sock_sent = request_bytes 1 1 1 True []\<rparr> \<and>
   wf_packet (request_bytes 1 1 1 True [])"
proof -
  have k: "socket conn0 = Some \<lparr>sock_peer = (''localhost'', 4223), sock_sent = []\<rparr>"
    by (simp add: conn0_def)
  have q: "1 = next_sequence_number conn0 + 1" by (simp add: conn0_ready)
  show ?thesis
    using send_request_writes_one_packet [OF conn0_ready(1) call_ok_empty conn0_ready(6) q k,
        where n = 8 and hexversion = "0x03000000" and arrivals = "[]" and form_ret = "''4B''"
          and res = "fst (send_request 0x03000000 (Sent 8) [] 0 1 [] [] ''4B'' conn0)"
          and s' = "snd (send_request 0x03000000 (Sent 8) [] 0 1 [] [] ''4B'' conn0)"]
    by (simp add: conn0_ready Let_def)
qed

text \<open>
  C37. The number of bytes \<^verbatim>\<open>socket.send\<close> accepted is not looked at: when the operating
  system takes only a part of the packet, a call that expects no response still returns as
  if it had succeeded, and the stream is left with a packet cut short.
\<close>

theorem partial_send_goes_unnoticed:
  assumes "ready s d" "call_ok hexversion form data payload"
    and "get_response_expected (dev_heap s d) function_id = Inr False"
    and "q = next_sequence_number s + 1" "socket s = Some k" "n < 8 + length payload"
  shows "\<exists>s'. send_request hexversion (Sent n) arrivals d function_id data form form_ret s = (Inr PNone, s') \<and>
           socket s' = Some (k\<lparr>sock_sent := sock_sent k @
             take n (request_bytes (uid (dev_heap s d)) function_id q False payload)\<rparr>) \<and>
           \<not> wf_packet (take n (request_bytes (uid (dev_heap s d)) function_id q False payload))"
proof -
  obtain res s' where rs: "send_request hexversion (Sent n) arrivals d function_id data form form_ret s = (res, s')"
    by fastforce
  let ?r = "request_bytes (uid (dev_heap s d)) function_id q False payload"
  have "unat (?r ! 4) = 8 + length payload" "length ?r = 8 + length payload"
    using request_wf [OF assms(1-4)] by (simp_all add: wf_packet_def request_bytes_def)
  then have "\<not> wf_packet (take n ?r)" using assms(6) by (auto simp: wf_packet_def)
  with send_request_state [OF assms(1-5) rs] rs show ?thesis by simp
qed

theorem partial_send_goes_unnoticed_witness:
  "let s = conn0\<lparr>dev_heap := (dev_heap conn0)(0 := set_response_expected_all (dev_heap conn0 0) False)\<rparr> in
   \<exists>s'. send_request 0x03000000 (Sent 3) [] 0 2 [] [] [] s = (Inr PNone, s')"
proof -
  let ?s = "conn0\<lparr>dev_heap := (dev_heap conn0)(0 := set_response_expected_all (dev_heap conn0 0) False)\<rparr>"
  have r: "ready ?s 0"
    using conn0_ready(1) set_response_expected_all_ok [of "dev_heap conn0 0" False]
    by (auto simp: ready_def seq_ok_def set_response_expected_all_def Let_def)
  have "adjustable (dev_heap conn0 0) 2"
    by (simp add: conn0_def ipcon0_eq adjustable_def new_device_def)
  then have e: "get_response_expected (dev_heap ?s 0) 2 = Inr False"
    by (simp add: lookup_assign_all_flag)
  have k: "socket ?s = Some \<lparr>sock_peer = (''localhost'', 4223), sock_sent = []\<rparr>" by (simp add: conn0_def)
  from partial_send_goes_unnoticed [OF r call_ok_empty e refl k,
      where n = 3 and hexversion = "0x03000000" and arrivals = "[]" and form_ret = "[]"]
  show ?thesis by (auto simp: Let_def)
qed

end
