(* ===== verification/Dispatch.thy ===== *)
theory Dispatch
  imports Requests
begin

text \<open>
  The callback thread and the disconnect prober of \<^verbatim>\<open>IPConnection\<close>: \<^verbatim>\<open>dispatch_packet\<close>,
  \<^verbatim>\<open>dispatch_meta\<close> with the automatic reconnect, \<^verbatim>\<open>callback_loop\<close> and
  \<^verbatim>\<open>disconnect_probe_loop\<close>. The functions users register are not part of the program: a
  call of the callback with handle \<open>cb\<close> is \<open>run cb args\<close>, an argument of the model that may
  change the connection and may raise. The outcome of each attempt to reconnect, and of each
  period of the prober, is an explicit list.
\<close>

type_synonym user_code = "nat \<Rightarrow> pval list \<Rightarrow> ipcon \<Rightarrow> unit res \<times> ipcon"

subsection \<open>Model\<close>

text \<open>Calling a registered callback; calling \<^verbatim>\<open>None\<close> raises TypeError.\<close>

definition call_handle :: "user_code \<Rightarrow> cb_handle \<Rightarrow> pval list \<Rightarrow> ipcon \<Rightarrow> unit res \<times> ipcon" where
  "call_handle run h args s = (case h of None \<Rightarrow> (Inl TypeError, s) | Some cb \<Rightarrow> run cb args s)"

definition enumerate_form :: string where
  "enumerate_form = ''8s 8s c 3B 3B H B''"

definition dispatch_packet :: "int \<Rightarrow> user_code \<Rightarrow> bytes \<Rightarrow> ipcon \<Rightarrow> unit res \<times> ipcon" where
  "dispatch_packet hexversion run packet s =
     (case get_uid_from_data packet of Inl e \<Rightarrow> (Inl e, s) | Inr u \<Rightarrow>
      case get_length_from_data packet of Inl e \<Rightarrow> (Inl e, s) | Inr _ \<Rightarrow>
      case get_function_id_from_data packet of Inl e \<Rightarrow> (Inl e, s) | Inr function_id \<Rightarrow>
      let payload = drop 8 packet in
      case (if function_id = CALLBACK_ENUMERATE then registered_callbacks s CALLBACK_ENUMERATE else None) of
        Some cb \<Rightarrow>
          (case rbind (deserialize_data hexversion payload enumerate_form) (star_args hexversion) of
             Inl e \<Rightarrow> (Inl e, s)
           | Inr args \<Rightarrow> if length args = 7 then call_handle run cb args s else (Inl ValueError, s))
      | None \<Rightarrow>
          (case devices s u of
             None \<Rightarrow> (Inr (), s)
           | Some d \<Rightarrow>
               (case dev_registered_callbacks (dev_heap s d) function_id of
                  Some (Some cb) \<Rightarrow>
                    (case callback_formats (dev_heap s d) function_id of
                       None \<Rightarrow> (Inl KeyError, s)
                     | Some form \<Rightarrow>
                         if length form = 0 then run cb [] s
                         else if length form = 1 then
                           (case deserialize_data hexversion payload form of
                              Inl e \<Rightarrow> (Inl e, s) | Inr v \<Rightarrow> run cb [v] s)
                         else
                           (case rbind (deserialize_data hexversion payload form) (star_args hexversion) of
                              Inl e \<Rightarrow> (Inl e, s) | Inr args \<Rightarrow> run cb args s))
                | _ \<Rightarrow> (Inr (), s))))"

text \<open>
  The loop that reconnects, one outcome of the operating system per attempt. The result says
  whether the loop has ended; if not, it is waiting for its next attempt.
\<close>

fun reconnect_loop :: "os_env list \<Rightarrow> ipcon \<Rightarrow> bool \<times> ipcon" where
  "reconnect_loop [] s = (False, s)"
| "reconnect_loop (env # envs) s =
     (if auto_reconnect_allowed s \<and> socket s = None then
        (case connect_unlocked env True s of
           (Inr _, s') \<Rightarrow> (True, s')
         | (Inl _, s') \<Rightarrow> reconnect_loop envs s')
      else (True, s\<lparr>auto_reconnect_pending := False\<rparr>))"

definition close_lost_socket :: "int option \<Rightarrow> ipcon \<Rightarrow> unit res \<times> ipcon" where
  "close_lost_socket sid s =
     (if socket s \<noteq> None \<and> Some (socket_id s) = sid
      then sbind (stop_probe s) (\<lambda>_ s. (Inr (), s\<lparr>socket := None\<rparr>))
      else (Inr (), s))"

definition dispatch_meta ::
    "user_code \<Rightarrow> os_env list \<Rightarrow> int \<Rightarrow> int \<Rightarrow> int option \<Rightarrow> ipcon \<Rightarrow> unit res \<times> ipcon" where
  "dispatch_meta run attempts function_id parameter sid s =
     (if function_id = CALLBACK_CONNECTED then
        (case registered_callbacks s CALLBACK_CONNECTED of
           Some (Some cb) \<Rightarrow> run cb [PInt parameter] s
         | _ \<Rightarrow> (Inr (), s))
      else if function_id = CALLBACK_DISCONNECTED then
        sbind (if parameter \<noteq> DISCONNECT_REASON_REQUEST then close_lost_socket sid s else (Inr (), s)) (\<lambda>_ s.
        sbind (case registered_callbacks s CALLBACK_DISCONNECTED of
                 Some (Some cb) \<Rightarrow> run cb [PInt parameter] s
               | _ \<Rightarrow> (Inr (), s)) (\<lambda>_ s.
          if parameter \<noteq> DISCONNECT_REASON_REQUEST \<and> auto_reconnect s \<and> auto_reconnect_allowed s
          then (Inr (), snd (reconnect_loop attempts (s\<lparr>auto_reconnect_pending := True\<rparr>)))
          else (Inr (), s)))
      else (Inr (), s))"

text \<open>
  One turn of \<^verbatim>\<open>callback_loop\<close> for context \<open>c\<close>, and at most \<open>n\<close> turns. A turn on an empty queue
  waits; the exit mark and an exception end the thread.
\<close>

datatype loop_end = Waiting | Ended | Died pyexc | Running

definition callback_turn ::
    "int \<Rightarrow> user_code \<Rightarrow> os_env list \<Rightarrow> nat \<Rightarrow> ipcon \<Rightarrow> loop_end \<times> ipcon" where
  "callback_turn hexversion run attempts c s =
     (case cb_queue (ctx_heap s c) of
        [] \<Rightarrow> (Waiting, s)
      | item # items \<Rightarrow>
          (let s = upd_ctx c (\<lambda>x. x\<lparr>cb_queue := items\<rparr>) s;
               continue = (\<lambda>r. case r of (Inl e, s) \<Rightarrow> (Died e, s) | (Inr _, s) \<Rightarrow> (Running, s))
           in case item of
                QUEUE_EXIT \<Rightarrow> (Ended, s)
              | QUEUE_META function_id parameter sid \<Rightarrow>
                  continue (dispatch_meta run attempts function_id parameter sid s)
              | QUEUE_PACKET packet \<Rightarrow>
                  if packet_dispatch_allowed (ctx_heap s c)
                  then continue (dispatch_packet hexversion run packet s)
                  else (Running, s)))"

fun callback_loop ::
    "nat \<Rightarrow> int \<Rightarrow> user_code \<Rightarrow> os_env list \<Rightarrow> nat \<Rightarrow> ipcon \<Rightarrow> loop_end \<times> ipcon" where
  "callback_loop 0 hexversion run attempts c s = (Running, s)"
| "callback_loop (Suc n) hexversion run attempts c s =
     (case callback_turn hexversion run attempts c s of
        (Running, s') \<Rightarrow> callback_loop n hexversion run attempts c s'
      | r \<Rightarrow> r)"

text \<open>
  The prober: every period either the queue got the stop mark or the period passed, with the
  result \<^verbatim>\<open>socket.send\<close> would have.
\<close>

datatype probe_event = Probe_Stop | Probe_Period send_result

fun probe_periods :: "bytes \<Rightarrow> probe_event list \<Rightarrow> ipcon \<Rightarrow> unit res \<times> ipcon" where
  "probe_periods request [] s = (Inr (), s)"
| "probe_periods request (Probe_Stop # evs) s = (Inr (), s)"
| "probe_periods request (Probe_Period r # evs) s =
     (if disconnect_probe_flag s then
        (case socket s of
           None \<Rightarrow> (Inl AttributeError, s)
         | Some k \<Rightarrow>
             (case r of
                Sent n \<Rightarrow> probe_periods request evs
                            (s\<lparr>socket := Some (k\<lparr>sock_sent := sock_sent k @ take n request\<rparr>)\<rparr>)
              | Send_Error \<Rightarrow>
                  handle_disconnect_by_peer DISCONNECT_REASON_ERROR (Some (socket_id s)) False s))
      else probe_periods request evs (s\<lparr>disconnect_probe_flag := True\<rparr>))"

definition disconnect_probe_loop :: "probe_event list \<Rightarrow> ipcon \<Rightarrow> unit res \<times> ipcon" where
  "disconnect_probe_loop evs s =
     sbind (create_packet_header None 8 FUNCTION_DISCONNECT_PROBE s) (\<lambda>(request, _, _) s.
       probe_periods request evs s)"

subsection \<open>Losing and regaining the connection\<close>

lemma auto_failure:
  assumes "\<not> os_connects env s" "socket s = None" "callback s = Some c" "host s = Some h" "port s = Some p"
  shows "\<exists>e s'. connect_unlocked env True s = (Inl e, s') \<and> socket s' = None \<and> callback s' = Some c \<and>
           host s' = Some h \<and> port s' = Some p \<and> auto_reconnect_allowed s' = auto_reconnect_allowed s \<and>
           socket_id s \<le> socket_id s' \<and> ctx_heap s' = ctx_heap s"
  using assms by (auto simp: os_connects_def connect_defs split: option.splits)

lemma os_connects_cong: "callback s \<noteq> None \<Longrightarrow> callback t \<noteq> None \<Longrightarrow> os_connects env s = os_connects env t"
  by (auto simp: os_connects_def)

text \<open>An attempt that cannot succeed, and one that does, when the callback context exists.\<close>

definition attempt_fails :: "os_env \<Rightarrow> bool" where
  "attempt_fails env = (connect_error env \<noteq> None \<or> \<not> probe_starts env)"

definition attempt_succeeds :: "os_env \<Rightarrow> bool" where
  "attempt_succeeds env = (connect_error env = None \<and> probe_starts env \<and> receive_starts env)"

lemma reconnect_loop_recovers:
  assumes "list_all attempt_fails fails" "attempt_succeeds env"
    "auto_reconnect_allowed s" "socket s = None" "callback s = Some c" "host s = Some h" "port s = Some p"
  shows "\<exists>s'. reconnect_loop (fails @ env # rest) s = (True, s') \<and>
           socket s' = Some \<lparr>sock_peer = (h, p), sock_sent = []\<rparr> \<and> callback s' = Some c \<and>
           \<not> auto_reconnect_pending s' \<and> \<not> auto_reconnect_allowed s' \<and> socket_id s < socket_id s' \<and>
           cb_queue (ctx_heap s' c) = cb_queue (ctx_heap s c) @
             [QUEUE_META CALLBACK_CONNECTED CONNECT_REASON_AUTO_RECONNECT None]"
  using assms
proof (induction fails arbitrary: s)
  case Nil
  then have "os_connects env s" "receive_starts env"
    by (auto simp: os_connects_def attempt_succeeds_def)
  from connect_unlocked_success [OF this Nil.prems(6,7), of True] Nil.prems show ?case by auto
next
  case (Cons f fails)
  have "\<not> os_connects f s" using Cons.prems by (auto simp: os_connects_def attempt_fails_def)
  from auto_failure [OF this Cons.prems(4-7)] obtain e s1 where
    s1: "connect_unlocked f True s = (Inl e, s1)" "socket s1 = None" "callback s1 = Some c" "host s1 = Some h"
      "port s1 = Some p" "auto_reconnect_allowed s1" "socket_id s \<le> socket_id s1" "ctx_heap s1 = ctx_heap s"
    using Cons.prems(3) by auto
  from Cons.IH [of s1] Cons.prems s1 show ?case by (fastforce simp: list_all_iff)
qed

text \<open>No callback for lost connections.\<close>

definition silent_loss :: "ipcon \<Rightarrow> bool" where
  "silent_loss s = (registered_callbacks s CALLBACK_DISCONNECTED = None \<or>
                    registered_callbacks s CALLBACK_DISCONNECTED = Some None)"

lemma silent_loss_case:
  "silent_loss s \<Longrightarrow> (case registered_callbacks s CALLBACK_DISCONNECTED of
     Some (Some cb) \<Rightarrow> run cb args s | _ \<Rightarrow> (Inr (), s)) = (Inr (), s)"
  by (auto simp: silent_loss_def)

text \<open>
  C6. A lost connection is regained: when the callback thread handles the loss of the
  current socket with automatic reconnect on, then after any number of failing attempts the
  first one that succeeds reopens the connection to the same host and port under a new
  socket number, no reconnect stays pending, and the same callback context is told about
  the new connection with reason AUTO_RECONNECT.
\<close>

theorem lost_connection_recovers:
  assumes "conn_inv s" "socket s = Some k" "callback s = Some c" "auto_reconnect s" "auto_reconnect_allowed s"
    and "host s = Some h" "port s = Some p" "silent_loss s" "reason \<noteq> DISCONNECT_REASON_REQUEST"
    and "list_all attempt_fails fails" "attempt_succeeds env"
  shows "\<exists>s'. dispatch_meta run (fails @ env # rest) CALLBACK_DISCONNECTED reason (Some (socket_id s)) s = (Inr (), s') \<and>
           phase_of s' = Opened (h, p) \<and> socket_id s < socket_id s' \<and> \<not> auto_reconnect_pending s' \<and>
           callback s' = Some c \<and>
           cb_queue (ctx_heap s' c) = cb_queue (ctx_heap s c) @
             [QUEUE_META CALLBACK_CONNECTED CONNECT_REASON_AUTO_RECONNECT None]"
proof -
  obtain q pt where q: "disconnect_probe_queue s = Some q" "disconnect_probe_thread s = Some (Started pt)"
    using conn_inv_open [OF assms(1,2)] by metis
  let ?s = "s\<lparr>disconnect_probe_queue := Some (q @ [True]), disconnect_probe_thread := None, socket := None\<rparr>"
  have close: "close_lost_socket (Some (socket_id s)) s = (Inr (), ?s)"
    using assms(2) q by (simp add: close_lost_socket_def stop_probe_def join_ref_def)
  have "silent_loss ?s" using assms(8) by (simp add: silent_loss_def)
  then have "dispatch_meta run (fails @ env # rest) CALLBACK_DISCONNECTED reason (Some (socket_id s)) s =
      (Inr (), snd (reconnect_loop (fails @ env # rest) (?s\<lparr>auto_reconnect_pending := True\<rparr>)))"
    using assms(4,5,9) close silent_loss_case [of ?s run "[PInt reason]"] by (simp add: dispatch_meta_def)
  with reconnect_loop_recovers [of fails env "?s\<lparr>auto_reconnect_pending := True\<rparr>" c h p rest] assms
  show ?thesis by (auto simp: phase_of_def)
qed

text \<open>A connection opened by \<^verbatim>\<open>connect\<close> whose receiver then saw the peer close it.\<close>

definition lost0 :: ipcon where
  "lost0 = snd (handle_disconnect_by_peer DISCONNECT_REASON_SHUTDOWN (Some 1) False
                  (snd (connect os_ok ''localhost'' 4223 ipcon0)))"

lemmas lost0_unfold = lost0_def connect_def connect_defs handle_disconnect_by_peer_def os_ok_def
  ipcon0_eq ipcon_fields_def

lemma lost0_facts:
  "conn_inv lost0" "socket lost0 = Some \<lparr>sock_peer = (''localhost'', 4223), sock_sent = []\<rparr>"
  "callback lost0 = Some 0" "auto_reconnect lost0" "auto_reconnect_allowed lost0" "host lost0 = Some ''localhost''"
  "port lost0 = Some 4223" "silent_loss lost0" "socket_id lost0 = 1" "\<not> auto_reconnect_pending lost0"
  by (simp_all add: lost0_unfold conn_inv_def silent_loss_def)

theorem lost_connection_recovers_witness:
  "\<exists>s'. dispatch_meta (\<lambda>_ _ s. (Inr (), s)) ([os_ok\<lparr>connect_error := Some 111\<rparr>] @ os_ok # [])
           CALLBACK_DISCONNECTED DISCONNECT_REASON_SHUTDOWN (Some (socket_id lost0)) lost0 = (Inr (), s') \<and>
     phase_of s' = Opened (''localhost'', 4223) \<and> socket_id lost0 < socket_id s'"
proof -
  have "list_all attempt_fails [os_ok\<lparr>connect_error := Some 111\<rparr>]" "attempt_succeeds os_ok"
    by (simp_all add: attempt_fails_def attempt_succeeds_def os_ok_def)
  from lost_connection_recovers [OF lost0_facts(1-8) _ this, of DISCONNECT_REASON_SHUTDOWN "\<lambda>_ _ s. (Inr (), s)" "[]"]
  show ?thesis by auto
qed

text \<open>
  C30. A loss report that is out of date does no harm: if the connection was closed and
  opened again in the meantime (the report carries another socket number), handling it
  neither closes the new socket nor touches its threads, and leaves no reconnect pending.
\<close>

theorem stale_loss_keeps_new_socket:
  assumes "socket s = Some k" "sid \<noteq> Some (socket_id s)" "silent_loss s" "\<not> auto_reconnect_pending s"
    and "attempts \<noteq> []"
  shows "\<exists>s'. dispatch_meta run attempts CALLBACK_DISCONNECTED reason sid s = (Inr (), s') \<and>
           socket s' = Some k \<and> socket_id s' = socket_id s \<and> \<not> auto_reconnect_pending s' \<and>
           disconnect_probe_thread s' = disconnect_probe_thread s \<and> receive_thread s' = receive_thread s \<and>
           callback s' = callback s \<and> ctx_heap s' = ctx_heap s"
proof -
  obtain env envs where "attempts = env # envs" using assms(5) by (cases attempts) auto
  with assms silent_loss_case [OF assms(3), of run "[PInt reason]"] show ?thesis
    by (auto simp: dispatch_meta_def close_lost_socket_def)
qed

theorem stale_loss_keeps_new_socket_witness:
  "\<exists>s'. dispatch_meta (\<lambda>_ _ s. (Inr (), s)) [os_ok] CALLBACK_DISCONNECTED DISCONNECT_REASON_ERROR (Some 0) lost0 = (Inr (), s') \<and>
     socket s' = Some \<lparr>sock_peer = (''localhost'', 4223), sock_sent = []\<rparr>"
proof -
  have "Some 0 \<noteq> Some (socket_id lost0)" by (simp add: lost0_facts)
  from stale_loss_keeps_new_socket [OF lost0_facts(2) this lost0_facts(8,10), of "[os_ok]"] show ?thesis by auto
qed

text \<open>
  C29. \<^verbatim>\<open>disconnect\<close> aborts a pending reconnect: it succeeds although there is no socket, and
  the reconnect loop ends at its next turn without connecting, so the connection is closed.
\<close>

theorem disconnect_aborts_reconnect:
  assumes "auto_reconnect_pending s" "socket s = None" "callback s = Some c"
  shows "\<exists>s'. disconnect s = (Inr (), s') \<and> phase_of s' = Closed \<and>
           reconnect_loop (env # envs) s' = (True, s')"
proof -
  let ?s = "ctx_put c QUEUE_EXIT
       (ctx_put c (QUEUE_META CALLBACK_DISCONNECTED DISCONNECT_REASON_REQUEST None)
          (s\<lparr>auto_reconnect_allowed := False, auto_reconnect_pending := False, callback := None\<rparr>))"
  have "?s\<lparr>auto_reconnect_pending := False\<rparr> = ?s" by (simp add: ctx_put_def upd_ctx_def)
  then show ?thesis using disconnect_pending [OF assms(1,3)] assms(2) by (simp add: phase_of_def)
qed

theorem disconnect_aborts_reconnect_witness:
  "let s = lost0\<lparr>socket := None, auto_reconnect_pending := True\<rparr> in
   \<exists>s'. disconnect s = (Inr (), s') \<and> phase_of s' = Closed \<and> reconnect_loop [os_ok] s' = (True, s')"
  using disconnect_aborts_reconnect [of "lost0\<lparr>socket := None, auto_reconnect_pending := True\<rparr>" 0 os_ok "[]"]
  by (simp add: lost0_facts)

subsection \<open>The callback thread ends after disconnect\<close>

text \<open>User code that returns and leaves the connection machinery alone.\<close>

definition benign :: "user_code \<Rightarrow> bool" where
  "benign run = (\<forall>cb args s. \<exists>s'. run cb args s = (Inr (), s') \<and> ctx_heap s' = ctx_heap s \<and>
     socket s' = socket s \<and> auto_reconnect_allowed s' = auto_reconnect_allowed s)"

lemma dispatch_meta_closed:
  assumes "benign run" "\<not> auto_reconnect_allowed s" "socket s = None"
  shows "\<exists>s'. dispatch_meta run attempts f par sid s = (Inr (), s') \<and> ctx_heap s' = ctx_heap s \<and>
           socket s' = None \<and> \<not> auto_reconnect_allowed s'"
proof -
  have r: "\<exists>s'. run cb args s = (Inr (), s') \<and> ctx_heap s' = ctx_heap s \<and>
     socket s' = socket s \<and> auto_reconnect_allowed s' = auto_reconnect_allowed s" for cb args s
    using assms(1) by (auto simp: benign_def)
  have c: "\<exists>s'. (case h of Some (Some cb) \<Rightarrow> run cb [PInt par] s | _ \<Rightarrow> (Inr (), s)) = (Inr (), s') \<and>
      ctx_heap s' = ctx_heap s \<and> socket s' = None \<and> \<not> auto_reconnect_allowed s'" for h
    using r [of _ "[PInt par]" s] assms(2,3) by (auto split: option.splits)
  from c [of "registered_callbacks s CALLBACK_CONNECTED"] c [of "registered_callbacks s CALLBACK_DISCONNECTED"] assms(2,3)
  show ?thesis by (auto simp: dispatch_meta_def close_lost_socket_def)
qed

lemma callback_loop_drains:
  assumes "benign run"
  shows "cb_queue (ctx_heap s c) = items @ [QUEUE_EXIT] \<Longrightarrow> \<not> packet_dispatch_allowed (ctx_heap s c) \<Longrightarrow>
    \<not> auto_reconnect_allowed s \<Longrightarrow> socket s = None \<Longrightarrow>
    fst (callback_loop (Suc (length items)) hv run attempts c s) = Ended"
proof (induction items arbitrary: s)
  case Nil
  then show ?case by (simp add: callback_turn_def Let_def)
next
  case (Cons item items)
  let ?s = "upd_ctx c (\<lambda>x. x\<lparr>cb_queue := items @ [QUEUE_EXIT]\<rparr>) s"
  have s: "cb_queue (ctx_heap ?s c) = items @ [QUEUE_EXIT]" "\<not> packet_dispatch_allowed (ctx_heap ?s c)"
      "\<not> auto_reconnect_allowed ?s" "socket ?s = None"
    using Cons.prems by (simp_all add: upd_ctx_def)
  show ?case
  proof (cases item)
    case QUEUE_EXIT
    with Cons.prems show ?thesis by (simp add: callback_turn_def Let_def)
  next
    case (QUEUE_META f par sid)
    obtain s' where s': "dispatch_meta run attempts f par sid ?s = (Inr (), s')" "ctx_heap s' = ctx_heap ?s"
        "socket s' = None" "\<not> auto_reconnect_allowed s'"
      using dispatch_meta_closed [OF assms s(3,4)] by blast
    have "callback_turn hv run attempts c s = (Running, s')"
      using Cons.prems(1) QUEUE_META s'(1) by (simp add: callback_turn_def Let_def)
    with Cons.IH [of s'] s s' show ?thesis by simp
  next
    case (QUEUE_PACKET packet)
    have "callback_turn hv run attempts c s = (Running, ?s)"
      using Cons.prems(1) QUEUE_PACKET s(2) by (simp add: callback_turn_def Let_def)
    with Cons.IH [OF s] show ?thesis by simp
  qed
qed

text \<open>
  C11. The join at the end of \<^verbatim>\<open>disconnect\<close> is passed: after a disconnect from an open
  connection the callback thread works through whatever its queue holds, dispatches no more
  packets, does not reconnect, and ends, within one turn per queued item and one for the
  exit mark, if the user's callbacks return.
\<close>

theorem callback_thread_ends_after_disconnect:
  assumes "conn_inv s" "socket s \<noteq> None" "callback s = Some c" "benign run"
  shows "\<exists>s'. disconnect s = (Inr (), s') \<and>
     fst (callback_loop (length (cb_queue (ctx_heap s c)) + 2) hexversion run attempts c s') = Ended"
proof -
  obtain q where q: "disconnect_probe_queue s = Some q" using assms(1,2) conn_inv_open by (metis not_None_eq)
  let ?s = "ctx_put c QUEUE_EXIT
       (ctx_put c (QUEUE_META CALLBACK_DISCONNECTED DISCONNECT_REASON_REQUEST None)
          ((closed_state c q (s\<lparr>auto_reconnect_allowed := False\<rparr>))\<lparr>callback := None\<rparr>))"
  have "cb_queue (ctx_heap ?s c) = (cb_queue (ctx_heap s c) @
      [QUEUE_META CALLBACK_DISCONNECTED DISCONNECT_REASON_REQUEST None]) @ [QUEUE_EXIT]" by simp
  moreover have "\<not> packet_dispatch_allowed (ctx_heap ?s c)" by (simp add: closed_state_def ctx_put_def upd_ctx_def)
  moreover have "\<not> auto_reconnect_allowed ?s" "socket ?s = None" by simp_all
  ultimately have "fst (callback_loop (Suc (Suc (length (cb_queue (ctx_heap s c))))) hexversion run attempts c ?s) = Ended"
    using callback_loop_drains [OF assms(4), of ?s c _ hexversion attempts] by (metis length_append_singleton)
  with disconnect_open [OF assms(1-3) q] show ?thesis by (simp add: numeral_2_eq_2)
qed

theorem callback_thread_ends_after_disconnect_witness:
  "\<exists>s'. disconnect lost0 = (Inr (), s') \<and>
     fst (callback_loop (length (cb_queue (ctx_heap lost0 0)) + 2) 0x03000000 (\<lambda>_ _ s. (Inr (), s)) [] 0 s') = Ended"
  by (rule callback_thread_ends_after_disconnect [OF lost0_facts(1) _ lost0_facts(3)])
     (simp_all add: lost0_facts benign_def)

subsection \<open>The prober\<close>

lemma probe_periods_up:
  "socket s = Some k \<Longrightarrow> disconnect_probe_flag s \<Longrightarrow>
     \<exists>s'. probe_periods request (replicate n (Probe_Period (Sent (length request)))) s = (Inr (), s') \<and>
       socket s' = Some (k\<lparr>sock_sent := sock_sent k @ concat (replicate n request)\<rparr>) \<and> disconnect_probe_flag s'"
proof (induction n arbitrary: s k)
  case (Suc n)
  let ?k = "k\<lparr>sock_sent := sock_sent k @ request\<rparr>"
  from Suc.IH [of "s\<lparr>socket := Some ?k\<rparr>" ?k] Suc.prems show ?case by auto
qed auto

text \<open>
  The prober writes only into silence: over \<open>n\<close> periods in which nothing else is sent or
  received it writes one probe per period, except that the first period is skipped when
  there was traffic since the last one (the flag is down).
\<close>

theorem probes_fill_silence:
  assumes "socket s = Some k"
  shows "\<exists>s'. probe_periods request (replicate n (Probe_Period (Sent (length request)))) s = (Inr (), s') \<and>
     socket s' = Some (k\<lparr>sock_sent := sock_sent k @
        concat (replicate (if disconnect_probe_flag s then n else n - 1) request)\<rparr>) \<and>
     (0 < n \<longrightarrow> disconnect_probe_flag s')"
proof -
  show ?thesis
  proof (cases "disconnect_probe_flag s \<or> n = 0")
    case True
    with probe_periods_up [of s k request n] assms show ?thesis by (cases "n = 0") auto
  next
    case False
    then obtain m where "n = Suc m" by (cases n) auto
    with probe_periods_up [of "s\<lparr>disconnect_probe_flag := True\<rparr>" k request m] assms False show ?thesis by auto
  qed
qed

theorem probes_fill_silence_witness:
  "\<exists>s'. probe_periods [7, 7] (replicate 3 (Probe_Period (Sent (length [7, 7])))) lost0 = (Inr (), s') \<and>
     disconnect_probe_flag s'"
  using probes_fill_silence [OF lost0_facts(2), of "[7, 7]" 3] by auto

subsection \<open>Delivering a callback packet\<close>

text \<open>
  A callback form that \<^verbatim>\<open>dispatch_packet\<close> treats right: it tells one field from several by the
  length of the format string, so a single field must be written with a single character.
\<close>

definition callback_form_ok :: "string \<Rightarrow> bool" where
  "callback_form_ok form = (case form_fields form of
     None \<Rightarrow> False | Some ks \<Rightarrow> length ks = 1 \<longrightarrow> length form = 1)"

lemma deserialize_values:
  assumes "form_fields form = Some ks" "form \<noteq> []" "form_size ks \<le> length data" "texts_ok hv ks data"
  shows "\<exists>vs. length vs = length ks \<and> deserialize_data hv data form = Inr (collapse vs)"
  using assms deserialize_fields_total [of "split_space form" ks data hv]
  by (auto simp: form_fields_def deserialize_data_collapse)

lemma classify_empty: "classify [] = None"
  by code_simp

lemma length_one_form: "form_fields form = Some ks \<Longrightarrow> length form = 1 \<Longrightarrow> length ks = 1"
  by (auto simp: form_fields_def length_Suc_conv classify_empty split: if_splits option.splits)

lemma star_collapse: "length vs \<noteq> 1 \<Longrightarrow> star_args hv (collapse vs) = Inr vs"
  by (simp add: collapse_def)

lemma deliver_callback:
  assumes "get_uid_from_data packet = Inr u" "get_length_from_data packet = Inr l"
    and "get_function_id_from_data packet = Inr f" "f \<noteq> CALLBACK_ENUMERATE \<or> registered_callbacks s CALLBACK_ENUMERATE = None"
    and "devices s u = Some d" "dev_registered_callbacks (dev_heap s d) f = Some (Some cb)"
    and "callback_formats (dev_heap s d) f = Some form" "form_fields form = Some ks" "callback_form_ok form"
    and "form_size ks \<le> length (drop 8 packet)" "texts_ok hexversion ks (drop 8 packet)"
  shows "\<exists>vs. length vs = length ks \<and> dispatch_packet hexversion run packet s = run cb vs s \<and>
           (form \<noteq> [] \<longrightarrow> deserialize_data hexversion (drop 8 packet) form = Inr (collapse vs))"
proof (cases "form = []")
  case True
  then show ?thesis using assms by (auto simp: dispatch_packet_def form_fields_def)
next
  case False
  obtain vs where vs: "length vs = length ks" "deserialize_data hexversion (drop 8 packet) form = Inr (collapse vs)"
    using deserialize_values [OF assms(8) False assms(10,11)] by blast
  have "length form = 1 \<longleftrightarrow> length vs = 1"
    using assms(8,9) vs(1) length_one_form [OF assms(8)] by (auto simp: callback_form_ok_def)
  then show ?thesis
    using assms vs False star_collapse [of vs hexversion]
    by (intro exI [of _ vs]) (auto simp: dispatch_packet_def collapse_def length_Suc_conv)
qed

text \<open>
  C9. A callback packet reaches its user function with one argument per field: for a known
  device with a registered callback and a form as above, a payload that holds the fields,
  with readable text, makes \<^verbatim>\<open>dispatch_packet\<close> call exactly that function, with the values
  \<^verbatim>\<open>deserialize_data\<close> read, and do nothing else.
\<close>

theorem callback_gets_one_argument_per_field:
  assumes "get_uid_from_data packet = Inr u" "get_length_from_data packet = Inr l"
    and "get_function_id_from_data packet = Inr f" "f \<noteq> CALLBACK_ENUMERATE \<or> registered_callbacks s CALLBACK_ENUMERATE = None"
    and "devices s u = Some d" "dev_registered_callbacks (dev_heap s d) f = Some (Some cb)"
    and "callback_formats (dev_heap s d) f = Some form" "form_fields form = Some ks" "callback_form_ok form"
    and "form_size ks \<le> length (drop 8 packet)" "texts_ok hexversion ks (drop 8 packet)"
  shows "\<exists>vs. length vs = length ks \<and> dispatch_packet hexversion run packet s = run cb vs s \<and>
           (form \<noteq> [] \<longrightarrow> deserialize_data hexversion (drop 8 packet) form = Inr (collapse vs))"
  by (rule deliver_callback [OF assms])

text \<open>A device with an enumerated position callback, and a packet for it.\<close>

definition listening0 :: ipcon where
  "listening0 = dev_register_callback 0 8 (Some 5)
     (upd_dev 0 (\<lambda>x. x\<lparr>callback_formats := [8 \<mapsto> ''H B'']\<rparr>) conn0)"

definition packet0 :: bytes where
  "packet0 = [1, 0, 0, 0, 11, 8, 0, 0, 44, 1, 7]"

lemma packet0_reads:
  "get_uid_from_data packet0 = Inr 1" "get_length_from_data packet0 = Inr 11"
  "get_function_id_from_data packet0 = Inr 8" "form_fields ''H B'' = Some [FNum (UInt 2), FNum (UInt 1)]"
  "deserialize_data 0x03000000 (drop 8 packet0) ''H B'' = Inr (PList [PInt 300, PInt 7])"
  by code_simp+

theorem callback_gets_one_argument_per_field_witness:
  "dispatch_packet 0x03000000 (\<lambda>cb args s. (if cb = 5 then Inr () else Inl KeyError, s\<lparr>waiter := length args\<rparr>)) packet0 listening0
     = (Inr (), listening0\<lparr>waiter := 2\<rparr>)"
proof -
  have "callback_form_ok ''H B''" by code_simp
  moreover have "form_size [FNum (UInt 2), FNum (UInt 1)] \<le> length (drop 8 packet0)"
    "texts_ok 0x03000000 [FNum (UInt 2), FNum (UInt 1)] (drop 8 packet0)"
    by (simp_all add: packet0_def text_ok_def)
  ultimately show ?thesis
    using callback_gets_one_argument_per_field [OF packet0_reads(1-3) _ _ _ _ packet0_reads(4), where s = listening0 and d = 0 and cb = 5
        and hexversion = "0x03000000" and run = "\<lambda>cb args s. (if cb = 5 then Inr () else Inl KeyError, s\<lparr>waiter := length args\<rparr>)"]
      conn0_ready(7) [of 1]
    by (auto simp: listening0_def dev_register_callback_def upd_dev_def)
qed

text \<open>
  C38. Removing the enumerate callback the way the other callbacks are removed, by registering
  \<^verbatim>\<open>None\<close>, ends the callback thread: unlike for device callbacks, \<^verbatim>\<open>dispatch_packet\<close> does not
  look whether the registered value is \<^verbatim>\<open>None\<close>, so the next readable enumerate packet raises
  TypeError in \<^verbatim>\<open>callback_loop\<close>, which nothing catches.
\<close>

theorem unregistering_enumerate_kills_callback_thread:
  assumes "cb_queue (ctx_heap s c) = QUEUE_PACKET packet # items" "packet_dispatch_allowed (ctx_heap s c)"
    and "get_uid_from_data packet = Inr u" "get_length_from_data packet = Inr l"
    and "get_function_id_from_data packet = Inr CALLBACK_ENUMERATE"
    and "form_fields enumerate_form = Some ks" "form_size ks \<le> length (drop 8 packet)"
    and "texts_ok hexversion ks (drop 8 packet)"
  shows "fst (callback_loop (Suc n) hexversion run attempts c (register_callback CALLBACK_ENUMERATE None s)) = Died TypeError"
proof -
  have ks: "length ks = 7" using assms(6) classify_all_length [of "split_space enumerate_form" ks]
    by (simp add: enumerate_form_def form_fields_def)
  obtain vs where "length vs = 7" "deserialize_data hexversion (drop 8 packet) enumerate_form = Inr (collapse vs)"
    using deserialize_values [OF assms(6) _ assms(7,8)] ks by (auto simp: enumerate_form_def)
  moreover from this star_collapse [of vs hexversion] have "star_args hexversion (collapse vs) = Inr vs" by simp
  ultimately show ?thesis
    using assms(1-5)
    by (simp add: callback_turn_def Let_def register_callback_def upd_ctx_def dispatch_packet_def call_handle_def)
qed

text \<open>An enumerate packet: 26 bytes of payload, all zero but the first identifier.\<close>

definition enumerate0 :: bytes where
  "enumerate0 = [1, 0, 0, 0, 34, 253, 0, 0] @ 49 # replicate 25 0"

theorem unregistering_enumerate_kills_callback_thread_witness:
  "fst (callback_loop 1 0x03000000 (\<lambda>_ _ s. (Inr (), s)) [] 0
     (register_callback CALLBACK_ENUMERATE None
       (ctx_put 0 (QUEUE_PACKET enumerate0) (upd_ctx 0 (\<lambda>x. x\<lparr>cb_queue := [], packet_dispatch_allowed := True\<rparr>) conn0))))
   = Died TypeError"
proof -
  have r: "get_uid_from_data enumerate0 = Inr 1" "get_length_from_data enumerate0 = Inr 34"
      "get_function_id_from_data enumerate0 = Inr CALLBACK_ENUMERATE"
      "form_fields enumerate_form = Some [FStr 8, FStr 8, FChr, FNums 3 (UInt 1), FNums 3 (UInt 1), FNum (UInt 2), FNum (UInt 1)]"
      "form_size [FStr 8, FStr 8, FChr, FNums 3 (UInt 1), FNums 3 (UInt 1), FNum (UInt 2), FNum (UInt 1)] \<le> length (drop 8 enumerate0)"
      "texts_ok 0x03000000 [FStr 8, FStr 8, FChr, FNums 3 (UInt 1), FNums 3 (UInt 1), FNum (UInt 2), FNum (UInt 1)] (drop 8 enumerate0)"
    by code_simp+
  show ?thesis
    using unregistering_enumerate_kills_callback_thread [OF _ _ r, where n = 0 and c = 0 and items = "[]"
        and s = "ctx_put 0 (QUEUE_PACKET enumerate0) (upd_ctx 0 (\<lambda>x. x\<lparr>cb_queue := [], packet_dispatch_allowed := True\<rparr>) conn0)"
        and run = "\<lambda>_ _ s. (Inr (), s)" and attempts = "[]"]
    by (simp add: ctx_put_def upd_ctx_def)
qed

end
