(* ===== verification/Sha1.thy ===== *)
theory Sha1
  imports Prelude
begin

text \<open>
  The two functions of the Python standard library the authentication handshake uses:
  \<^verbatim>\<open>hashlib.sha1\<close> (FIPS 180-4) on 32-bit words and \<^verbatim>\<open>hmac.new(key, digestmod=hashlib.sha1)\<close>
  (RFC 2104) followed by updates, as functions on byte lists. Shown: a digest has 20 bytes
  whatever the key and the message, the padded message is cut into whole blocks, and the
  published test vector is met.
\<close>

unbundle bit_operations_syntax

subsection \<open>SHA-1\<close>

text \<open>A 32-bit word is an integer below \<open>2 ^ 32\<close>; sums and rotations wrap around by \<open>mod\<close>.\<close>

definition be32 :: "int \<Rightarrow> bytes" where
  "be32 w = map (\<lambda>n. word_of_int (drop_bit n w)) [24, 16, 8, 0]"

definition be64 :: "nat \<Rightarrow> bytes" where
  "be64 n = be32 (int n div 2 ^ 32) @ be32 (int n)"

text \<open>Padding to a multiple of 64 bytes: a one bit, zeros, and the length in bits.\<close>

definition sha1_pad :: "bytes \<Rightarrow> bytes" where
  "sha1_pad m = m @ [0x80] @ replicate ((119 - length m mod 64) mod 64) 0 @ be64 (8 * length m)"

fun be_words :: "bytes \<Rightarrow> int list" where
  "be_words (a # b # c # d # bs) =
     (uint a * 2 ^ 24 + uint b * 2 ^ 16 + uint c * 2 ^ 8 + uint d) # be_words bs"
| "be_words _ = []"

fun blocks :: "'a list \<Rightarrow> 'a list list" where
  "blocks [] = []"
| "blocks (x # xs) = take 16 (x # xs) # blocks (drop 15 xs)"

type_synonym hash_state = "int \<times> int \<times> int \<times> int \<times> int"

definition sha1_f :: "nat \<Rightarrow> int \<Rightarrow> int \<Rightarrow> int \<Rightarrow> int" where
  "sha1_f t b c d =
     (if t < 20 then (b AND c) OR ((0xFFFFFFFF XOR b) AND d)
      else if t < 40 then b XOR c XOR d
      else if t < 60 then (b AND c) OR (b AND d) OR (c AND d)
      else b XOR c XOR d)"

definition sha1_k :: "nat \<Rightarrow> int" where
  "sha1_k t = (if t < 20 then 0x5A827999 else if t < 40 then 0x6ED9EBA1
               else if t < 60 then 0x8F1BBCDC else 0xCA62C1D6)"

definition rotl32 :: "nat \<Rightarrow> int \<Rightarrow> int" where
  "rotl32 n w = (w * 2 ^ n) mod 2 ^ 32 + w div 2 ^ (32 - n)"

text \<open>One round: it uses the first word of the window of 16 and appends the next one.\<close>

fun sha1_round :: "nat \<Rightarrow> int list \<times> hash_state \<Rightarrow> int list \<times> hash_state" where
  "sha1_round t (win, a, b, c, d, e) =
     (tl win @ [rotl32 1 (win ! 13 XOR win ! 8 XOR win ! 2 XOR win ! 0)],
      (rotl32 5 a + sha1_f t b c d + e + sha1_k t + win ! 0) mod 2 ^ 32, a, rotl32 30 b, c, d)"

fun add_state :: "hash_state \<Rightarrow> hash_state \<Rightarrow> hash_state" where
  "add_state (a, b, c, d, e) (a', b', c', d', e') =
     ((a + a') mod 2 ^ 32, (b + b') mod 2 ^ 32, (c + c') mod 2 ^ 32, (d + d') mod 2 ^ 32, (e + e') mod 2 ^ 32)"

definition sha1_block :: "int list \<Rightarrow> hash_state \<Rightarrow> hash_state" where
  "sha1_block win h = add_state h (snd (fold sha1_round [0..<80] (win, h)))"

fun state_bytes :: "hash_state \<Rightarrow> bytes" where
  "state_bytes (a, b, c, d, e) = be32 a @ be32 b @ be32 c @ be32 d @ be32 e"

definition sha1 :: "bytes \<Rightarrow> bytes" where
  "sha1 m = state_bytes (fold sha1_block (blocks (be_words (sha1_pad m)))
     (0x67452301, 0xEFCDAB89, 0x98BADCFE, 0x10325476, 0xC3D2E1F0))"

subsection \<open>HMAC\<close>

definition hmac_key :: "bytes \<Rightarrow> bytes" where
  "hmac_key key = (let k = (if 64 < length key then sha1 key else key) in k @ replicate (64 - length k) 0)"

definition hmac_sha1 :: "bytes \<Rightarrow> bytes \<Rightarrow> bytes" where
  "hmac_sha1 key m =
     sha1 (map ((XOR) 0x5C) (hmac_key key) @ sha1 (map ((XOR) 0x36) (hmac_key key) @ m))"

subsection \<open>Sizes\<close>

lemma be32_length [simp]: "length (be32 w) = 4"
  by (simp add: be32_def)

lemma state_bytes_length [simp]: "length (state_bytes h) = 20"
  by (cases h) simp

lemma sha1_length [simp]: "length (sha1 m) = 20"
  by (simp add: sha1_def)

lemma hmac_sha1_length [simp]: "length (hmac_sha1 key m) = 20"
  by (simp add: hmac_sha1_def)

lemma hmac_key_length [simp]: "length (hmac_key key) = 64"
  by (simp add: hmac_key_def Let_def)

lemma pad_sums:
  "q * 64 + r = l \<Longrightarrow> r \<le> 55 \<Longrightarrow> l + (9 + (55 - r)) = 64 * (q + 1)"
  "q * 64 + r = l \<Longrightarrow> r < 64 \<Longrightarrow> l + (9 + (119 - r)) = 64 * (q + (2 :: nat))"
  by simp_all

lemma pad_arith: "(l + (9 + (119 - l mod 64) mod 64)) mod 64 = (0 :: nat)"
proof (cases "l mod 64 \<le> 55")
  case True
  then have "(119 - l mod 64) mod 64 = 55 - l mod 64" by (simp add: le_mod_geq)
  with pad_sums(1) [OF div_mult_mod_eq True] show ?thesis by (metis mod_mult_self1_is_0)
next
  case False
  moreover have "l mod 64 < 64" by simp
  ultimately have "(119 - l mod 64) mod 64 = 119 - l mod 64" by simp
  with pad_sums(2) [OF div_mult_mod_eq \<open>l mod 64 < 64\<close>] show ?thesis by (metis mod_mult_self1_is_0)
qed

lemma sha1_pad_length: "length (sha1_pad m) mod 64 = 0"
  using pad_arith [of "length m"] by (simp add: sha1_pad_def be64_def ac_simps)

lemma be_words_length: "length (be_words bs) = length bs div 4"
  by (induction bs rule: be_words.induct) auto

lemma blocks_whole: "length ws mod 16 = 0 \<Longrightarrow> b \<in> set (blocks ws) \<Longrightarrow> length b = 16"
proof (induction ws rule: blocks.induct)
  case (2 x xs)
  then have "15 \<le> length xs" by (cases "15 \<le> length xs") (auto simp: mod_Suc)
  moreover from this "2.prems"(1) have "length (drop 15 xs) mod 16 = 0" by (simp add: mod_Suc) presburger
  ultimately show ?case using 2 by auto
qed simp

text \<open>Every block the compression function sees has exactly its 16 words.\<close>

lemma sha1_blocks_whole: "b \<in> set (blocks (be_words (sha1_pad m))) \<Longrightarrow> length b = 16"
  using blocks_whole [of "be_words (sha1_pad m)" b] sha1_pad_length [of m]
  by (simp add: be_words_length) presburger

text \<open>The test vector ``abc'' of FIPS 180-4.\<close>

lemma sha1_abc:
  "sha1 [0x61, 0x62, 0x63] =
     [0xA9, 0x99, 0x3E, 0x36, 0x47, 0x06, 0x81, 0x6A, 0xBA, 0x3E,
      0x25, 0x71, 0x78, 0x50, 0xC2, 0x6C, 0x9C, 0xD0, 0xD8, 0x9D]"
  by code_simp

end
