(* ===== verification/Authentication.thy ===== *)
theory Authentication
  imports Dispatch Sha1
begin

text \<open>
  The methods of \<^verbatim>\<open>BrickDaemon\<close>, the authentication handshake of \<^verbatim>\<open>IPConnection\<close>, and the
  methods of \<^verbatim>\<open>IPConnection\<close> that reach the flash memory and the calibration of a device.
  Each is built on \<^verbatim>\<open>send_request\<close>; the environment of one request is a pair: how
  \<^verbatim>\<open>socket.send\<close> ends, and the packets that arrive while the call waits. \<^verbatim>\<open>os.urandom\<close> and, where
  it is missing, the clock and the process number are an argument.
\<close>

unbundle bit_operations_syntax

type_synonym req_env = "send_result \<times> bytes list"

abbreviation (input) PLUGIN_CHUNK_SIZE :: nat where "PLUGIN_CHUNK_SIZE \<equiv> 32"

subsection \<open>Model\<close>

definition get_authentication_nonce :: "int \<Rightarrow> req_env \<Rightarrow> nat \<Rightarrow> ipcon \<Rightarrow> pval res \<times> ipcon" where
  "get_authentication_nonce hexversion env d s =
     send_request hexversion (fst env) (snd env) d 1 [] [] ''4B'' s"

definition BrickDaemon_authenticate ::
    "int \<Rightarrow> req_env \<Rightarrow> nat \<Rightarrow> pval \<Rightarrow> pval \<Rightarrow> ipcon \<Rightarrow> pval res \<times> ipcon" where
  "BrickDaemon_authenticate hexversion env d client_nonce digest s =
     sbind (send_request hexversion (fst env) (snd env) d 2 [client_nonce, digest] ''4B 20B'' [] s)
       (\<lambda>_ s. (Inr PNone, s))"

text \<open>
  Where the first client nonce comes from: the four bytes of \<^verbatim>\<open>os.urandom(4)\<close>, or, when that
  raises NotImplementedError, the whole seconds and the microseconds of \<^verbatim>\<open>time.time()\<close> and
  the number \<^verbatim>\<open>os.getpid()\<close>.
\<close>

datatype entropy = Urandom bytes | Clock int int int

fun first_nonce :: "entropy \<Rightarrow> int res" where
  "first_nonce (Urandom bs) = unpack_int ''I'' bs"
| "first_nonce (Clock seconds subseconds pid) =
     Inr (((push_bit 26 seconds OR drop_bit 6 seconds) AND 0xFFFFFFFF) + subseconds + pid)"

definition encode_ascii :: "nat list \<Rightarrow> bytes res" where
  "encode_ascii cs = (if list_all (\<lambda>c. c < 128) cs then Inr (map of_nat cs) else Inl UnicodeError)"

text \<open>A computation without effect on the connection, within a method.\<close>

definition sres :: "'a res \<Rightarrow> 's \<Rightarrow> 'a res \<times> 's" where
  "sres m s = (m, s)"

definition choose_nonce :: "entropy \<Rightarrow> ipcon \<Rightarrow> unit res \<times> ipcon" where
  "choose_nonce ent s =
     (if next_authentication_nonce s = 0
      then sbind (sres (first_nonce ent) s) (\<lambda>n s. (Inr (), s\<lparr>next_authentication_nonce := n\<rparr>))
      else (Inr (), s))"

definition authenticate ::
    "int \<Rightarrow> entropy \<Rightarrow> req_env \<Rightarrow> req_env \<Rightarrow> nat list \<Rightarrow> ipcon \<Rightarrow> pval res \<times> ipcon" where
  "authenticate hexversion ent env1 env2 secret s =
     sbind (sres (encode_ascii secret) s) (\<lambda>secret_bytes s.
     sbind (choose_nonce ent s) (\<lambda>_ s.
     sbind (get_authentication_nonce hexversion env1 (brickd s) s) (\<lambda>server_nonce s.
     sbind (sres (rbind (pack_le ''I'' [PInt (next_authentication_nonce s)]) (unpack_le ''4B'')) s) (\<lambda>client_nonce s.
       let s = s\<lparr>next_authentication_nonce := (next_authentication_nonce s + 1) mod 2 ^ 32\<rparr> in
     sbind (sres (rbind (star_args hexversion server_nonce) (pack_le ''4B'')) s) (\<lambda>server_bytes s.
     sbind (sres (pack_le ''4B'' client_nonce) s) (\<lambda>client_bytes s.
     sbind (sres (unpack_le ''20B'' (hmac_sha1 secret_bytes (server_bytes @ client_bytes))) s) (\<lambda>digest s.
       BrickDaemon_authenticate hexversion env2 (brickd s) (PTuple client_nonce) (PTuple digest) s)))))))"

definition write_bricklet_plugin ::
    "int \<Rightarrow> req_env \<Rightarrow> nat \<Rightarrow> pval \<Rightarrow> pval \<Rightarrow> pval \<Rightarrow> ipcon \<Rightarrow> pval res \<times> ipcon" where
  "write_bricklet_plugin hexversion env d prt position plugin_chunk s =
     sbind (send_request hexversion (fst env) (snd env) d FUNCTION_WRITE_BRICKLET_PLUGIN
              [prt, position, plugin_chunk] ''c B 32B'' [] s) (\<lambda>_ s. (Inr PNone, s))"

definition read_bricklet_plugin ::
    "int \<Rightarrow> req_env \<Rightarrow> nat \<Rightarrow> pval \<Rightarrow> pval \<Rightarrow> ipcon \<Rightarrow> pval res \<times> ipcon" where
  "read_bricklet_plugin hexversion env d prt position s =
     send_request hexversion (fst env) (snd env) d FUNCTION_READ_BRICKLET_PLUGIN [prt, position] ''c B'' ''32B'' s"

definition get_adc_calibration :: "int \<Rightarrow> req_env \<Rightarrow> nat \<Rightarrow> ipcon \<Rightarrow> pval res \<times> ipcon" where
  "get_adc_calibration hexversion env d s =
     send_request hexversion (fst env) (snd env) d FUNCTION_GET_ADC_CALIBRATION [] [] ''h h'' s"

definition adc_calibrate :: "int \<Rightarrow> req_env \<Rightarrow> nat \<Rightarrow> pval \<Rightarrow> ipcon \<Rightarrow> pval res \<times> ipcon" where
  "adc_calibrate hexversion env d prt s =
     sbind (send_request hexversion (fst env) (snd env) d FUNCTION_ADC_CALIBRATE [prt] ''c'' [] s)
       (\<lambda>_ s. (Inr PNone, s))"

definition write_bricklet_uid ::
    "int \<Rightarrow> req_env \<Rightarrow> nat \<Rightarrow> pval \<Rightarrow> string \<Rightarrow> ipcon \<Rightarrow> pval res \<times> ipcon" where
  "write_bricklet_uid hexversion env d prt u s =
     sbind (sres (base58decode u) s) (\<lambda>uid_int s.
     sbind (send_request hexversion (fst env) (snd env) d FUNCTION_WRITE_BRICKLET_UID
              [prt, PInt uid_int] ''c I'' [] s) (\<lambda>_ s. (Inr PNone, s)))"

text \<open>The response to \<open>FUNCTION_READ_BRICKLET_UID\<close> is one unsigned integer.\<close>

definition read_bricklet_uid :: "int \<Rightarrow> req_env \<Rightarrow> nat \<Rightarrow> pval \<Rightarrow> ipcon \<Rightarrow> string res \<times> ipcon" where
  "read_bricklet_uid hexversion env d prt s =
     sbind (send_request hexversion (fst env) (snd env) d FUNCTION_READ_BRICKLET_UID [prt] ''c'' ''I'' s)
       (\<lambda>uid_int s. case uid_int of PInt n \<Rightarrow> (base58encode n, s) | _ \<Rightarrow> (Inl TypeError, s))"

subsection \<open>One request and its response\<close>

lemma sres_bind [simp]: "sbind (sres (Inr x) s) f = f x s" "sbind (sres (Inl e) s) f = (Inl e, s)"
  by (simp_all add: sres_def)

text \<open>
  The state after a call whose response is the only packet that arrives: one sequence
  number used, one packet written, everything else as before.
\<close>

definition called :: "nat \<Rightarrow> int \<Rightarrow> int \<Rightarrow> bytes \<Rightarrow> ipcon \<Rightarrow> ipcon" where
  "called d f q payload s =
     s\<lparr>next_sequence_number := q mod 15, disconnect_probe_flag := False,
       socket := map_option (\<lambda>k. k\<lparr>sock_sent := sock_sent k @ request_bytes (uid (dev_heap s d)) f q True payload\<rparr>) (socket s)\<rparr>"

text \<open>No call of the device is under way.\<close>

definition idle :: "ipcon \<Rightarrow> nat \<Rightarrow> bool" where
  "idle s d = (devices s (uid (dev_heap s d)) = Some d \<and> response_queue (dev_heap s d) = [] \<and>
     expected_response_function_id (dev_heap s d) = None \<and> expected_response_sequence_number (dev_heap s d) = None)"

lemma wait_response_single:
  assumes "response_queue (dev_heap s d) = []" "awaited_by p d s"
    "expected_response_function_id (dev_heap s d) = Some f" "expected_response_sequence_number (dev_heap s d) = Some q"
  shows "wait_response f q d [p] s = (Inr p, s\<lparr>disconnect_probe_flag := False\<rparr>)"
proof -
  have "handle_response p s = (Inr (), upd_dev d (\<lambda>x. x\<lparr>response_queue := [p]\<rparr>) (s\<lparr>disconnect_probe_flag := False\<rparr>))"
    using assms by (auto simp: handle_response_def awaited_by_def upd_dev_def Let_def)
  moreover have "(dev_heap s)(d := dev_heap s d\<lparr>response_queue := []\<rparr>) = dev_heap s"
    using assms(1) by (intro fun_upd_idem) simp
  ultimately show ?thesis
    using assms
    by (auto simp: wait_response.simps [of _ _ _ "[p]"] wait_response.simps [of _ _ _ "[]"] awaited_by_def upd_dev_def Let_def)
qed

lemma send_request_single:
  assumes r: "ready s d" and c: "call_ok hv form data payload"
    and e: "get_response_expected (dev_heap s d) f = Inr True" and i: "idle s d"
    and q: "q = next_sequence_number s + 1" and p: "response_for (uid (dev_heap s d)) f q p"
    and n: "8 + length payload \<le> n"
  shows "send_request hv (Sent n) [p] d f data form form_ret s =
    (check_response hv f form_ret p, called d f q payload s)"
proof -
  obtain k where k: "socket s = Some k" using r by (auto simp: ready_def)
  let ?k = "k\<lparr>sock_sent := sock_sent k @ request_bytes (uid (dev_heap s d)) f q True payload\<rparr>"
  let ?s = "(set_expected (Some f) (Some q) d (s\<lparr>next_sequence_number := q mod 15\<rparr>))
              \<lparr>socket := Some ?k, disconnect_probe_flag := False\<rparr>"
  have "take n (request_bytes (uid (dev_heap s d)) f q True payload) = request_bytes (uid (dev_heap s d)) f q True payload"
    using n by (simp add: request_bytes_def)
  moreover have "q \<noteq> 0" using r q by (auto simp: ready_def seq_ok_def)
  then have "awaited_by p d ?s"
    using p i by (auto simp: awaited_by_def set_expected_def upd_dev_def response_for_def matches_def idle_def)
  then have "wait_response f q d [p] ?s = (Inr p, ?s\<lparr>disconnect_probe_flag := False\<rparr>)"
    using i by (intro wait_response_single) (auto simp: idle_def)
  moreover have "(dev_heap s)(d := dev_heap s d\<lparr>expected_response_function_id := None, expected_response_sequence_number := None\<rparr>) = dev_heap s"
    using i by (intro fun_upd_idem) (simp add: idle_def)
  ultimately show ?thesis
    using send_request_eq [OF r c e q k, of n "[p]" form_ret] k
    by (simp add: Let_def set_expected_def upd_dev_def called_def)
qed

lemma called_keeps:
  "dev_heap (called d f q payload s) = dev_heap s" "devices (called d f q payload s) = devices s"
  "next_sequence_number (called d f q payload s) = q mod 15" "brickd (called d f q payload s) = brickd s"
  "next_authentication_nonce (called d f q payload s) = next_authentication_nonce s"
  "idle (called d f q payload s) x = idle s x"
  "ready s x \<Longrightarrow> ready (called d f q payload s) x"
  by (auto simp: called_def idle_def ready_def seq_ok_def)

subsection \<open>Byte arrays\<close>

definition byte_values :: "bytes \<Rightarrow> pval list" where
  "byte_values bs = map (\<lambda>b. PInt (uint b)) bs"

lemma byte_values_length [simp]: "length (byte_values bs) = length bs"
  by (simp add: byte_values_def)

lemma unpack_bytes: "unpack_atoms (replicate (length bs) (UInt 1)) bs = byte_values bs"
  by (induction bs) (auto simp: byte_values_def)

lemma pack_bytes: "pack_atoms (replicate (length bs) (UInt 1)) (byte_values bs) = Inr bs"
proof (induction bs)
  case (Cons b bs)
  have "uint_fits 1 (uint b)" using uint_bounded [of b] by (simp add: uint_fits_def)
  with Cons show ?case by (simp add: byte_values_def numeral_eq_Suc)
qed (simp add: byte_values_def)

lemma byte_formats:
  "atoms_of ''4B'' = Inr (replicate 4 (UInt 1))" "atoms_of ''20B'' = Inr (replicate 20 (UInt 1))"
  "atoms_of ''I'' = Inr [UInt 4]" "form_fields ''4B 20B'' = Some [FNums 4 (UInt 1), FNums 20 (UInt 1)]"
  by code_simp+

lemma byte_codecs:
  "length bs = 4 \<Longrightarrow> unpack_le ''4B'' bs = Inr (byte_values bs)"
  "length bs = 4 \<Longrightarrow> pack_le ''4B'' (byte_values bs) = Inr bs"
  "length bs = 20 \<Longrightarrow> unpack_le ''20B'' bs = Inr (byte_values bs)"
  "length bs = 20 \<Longrightarrow> pack_le ''20B'' (byte_values bs) = Inr bs"
  using unpack_bytes [of bs] pack_bytes [of bs]
  by (auto simp: unpack_le_def pack_le_def byte_formats)

lemma read_four_bytes: "length bs = 4 \<Longrightarrow> deserialize_data hv bs ''4B'' = Inr (PTuple (byte_values bs))"
  by (simp add: deserialize_data_def calcsize_le_def byte_codecs convert_field_def byte_formats)

lemma authenticate_call_ok:
  assumes "length a = 4" "length b = 20"
  shows "call_ok hv ''4B 20B'' [PTuple (byte_values a), PTuple (byte_values b)] (a @ b)"
  using assms by (simp add: call_ok_def byte_formats pack_field_def byte_codecs)

subsection \<open>The handshake\<close>

lemma get_nonce_step:
  assumes "ready s d" "idle s d" "get_response_expected (dev_heap s d) 1 = Inr True"
    "q = next_sequence_number s + 1" "response_for (uid (dev_heap s d)) 1 q p"
    "get_error_code_from_data p = Inr 0" "length p = 12" "8 \<le> n"
  shows "get_authentication_nonce hv (Sent n, [p]) d s =
    (Inr (PTuple (byte_values (drop 8 p))), called d 1 q [] s)"
  using send_request_single [OF assms(1) call_ok_empty assms(3,2,4,5), of n hv "''4B''"] assms(6-8)
    read_four_bytes [of "drop 8 p" hv]
  by (simp add: get_authentication_nonce_def check_response_def)

lemma authenticate_step:
  assumes "ready s d" "idle s d" "get_response_expected (dev_heap s d) 2 = Inr True"
    "q = next_sequence_number s + 1" "response_for (uid (dev_heap s d)) 2 q p" "32 \<le> n"
    "length a = 4" "length b = 20"
  shows "BrickDaemon_authenticate hv (Sent n, [p]) d (PTuple (byte_values a)) (PTuple (byte_values b)) s =
    (rmap (\<lambda>_. PNone) (check_response hv 2 [] p), called d 2 q (a @ b) s)"
  using send_request_single [OF assms(1) authenticate_call_ok [OF assms(7,8)] assms(3,2,4,5), of n hv "[]"] assms(6-8)
  by (simp add: BrickDaemon_authenticate_def sbind_def rmap_def split: sum.splits)

text \<open>
  The nonce a handshake uses: the first one of a connection comes from \<^verbatim>\<open>os.urandom\<close> or the
  clock, every other from the counter.
\<close>

definition handshake_nonce :: "entropy \<Rightarrow> ipcon \<Rightarrow> int res" where
  "handshake_nonce ent s = (if next_authentication_nonce s = 0 then first_nonce ent else Inr (next_authentication_nonce s))"

lemma choose_nonce_step:
  "handshake_nonce ent s = Inr n \<Longrightarrow> choose_nonce ent s = (Inr (), s\<lparr>next_authentication_nonce := n\<rparr>)"
  by (auto simp: handshake_nonce_def choose_nonce_def sres_def split: if_splits)

lemma urandom_nonce: "length bs = 4 \<Longrightarrow> first_nonce (Urandom bs) = Inr (le_uint bs)"
  by (simp add: unpack_int_def unpack_le_def byte_formats)

text \<open>
  C12. The authentication handshake, byte by byte, the first of a connection and every later
  one. With both responses arriving, \<^verbatim>\<open>authenticate\<close> asks the daemon for its nonce, answers with its
  own nonce \<open>n\<close> (four bytes, little-endian) and the HMAC-SHA1 of both nonces under the secret,
  and ends with the outcome the second response carries; nothing else is written, the client
  nonce counts up and wraps around after 32 bits, and no expectation is left behind. On a
  connection whose counter is 0, as on every new one, \<open>n\<close> is the nonce \<^verbatim>\<open>os.urandom\<close> or the clock
  gives; otherwise it is the counter.
\<close>

theorem authenticate_handshake:
  assumes "ready s d" "idle s d" "brickd s = d"
    and "get_response_expected (dev_heap s d) 1 = Inr True" "get_response_expected (dev_heap s d) 2 = Inr True"
    and "handshake_nonce ent s = Inr n" "0 \<le> n" "n < 2 ^ 32" "list_all (\<lambda>c. c < 128) secret"
    and "q1 = next_sequence_number s + 1" "response_for (uid (dev_heap s d)) 1 q1 p1"
    and "get_error_code_from_data p1 = Inr 0" "length p1 = 12"
    and "q2 = q1 mod 15 + 1" "response_for (uid (dev_heap s d)) 2 q2 p2" "8 \<le> n1" "32 \<le> n2"
  shows "authenticate hexversion ent (Sent n1, [p1]) (Sent n2, [p2]) secret s =
    (rmap (\<lambda>_. PNone) (check_response hexversion 2 [] p2),
     called d 2 q2 (le_bytes 4 n @ hmac_sha1 (map of_nat secret) (drop 8 p1 @ le_bytes 4 n))
       ((called d 1 q1 [] s)\<lparr>next_authentication_nonce := (n + 1) mod 2 ^ 32\<rparr>))"
proof -
  let ?s0 = "s\<lparr>next_authentication_nonce := n\<rparr>"
  let ?s1 = "called d 1 q1 [] ?s0"
  let ?s2 = "?s1\<lparr>next_authentication_nonce := (n + 1) mod 2 ^ 32\<rparr>"
  let ?digest = "hmac_sha1 (map of_nat secret) (drop 8 p1 @ le_bytes 4 n)"
  have s2: "?s2 = (called d 1 q1 [] s)\<lparr>next_authentication_nonce := (n + 1) mod 2 ^ 32\<rparr>" by (simp add: called_def)
  have r0: "ready ?s0 d" "idle ?s0 d" using assms(1,2) by (simp_all add: ready_def seq_ok_def idle_def)
  have nonce: "get_authentication_nonce hexversion (Sent n1, [p1]) d ?s0 = (Inr (PTuple (byte_values (drop 8 p1))), ?s1)"
    using get_nonce_step [OF r0, of q1 p1 n1 hexversion] assms(4,10-13,16) by simp
  have client: "rbind (pack_le ''I'' [PInt n]) (unpack_le ''4B'') = Inr (byte_values (le_bytes 4 n))"
    using assms(7,8) byte_codecs(1) [of "le_bytes 4 n"] by (simp add: pack_le_def byte_formats uint_fits_def)
  have "ready ?s2 d" using called_keeps(7) [OF r0(1)] by (auto simp: ready_def seq_ok_def)
  moreover have "idle ?s2 d" using r0(2) called_keeps(6) [of d 1 q1 "[]" ?s0 d] by (simp add: idle_def)
  ultimately have auth: "BrickDaemon_authenticate hexversion (Sent n2, [p2]) d
      (PTuple (byte_values (le_bytes 4 n))) (PTuple (byte_values ?digest)) ?s2 =
      (rmap (\<lambda>_. PNone) (check_response hexversion 2 [] p2), called d 2 q2 (le_bytes 4 n @ ?digest) ?s2)"
    using authenticate_step [of ?s2 d q2 p2 n2 "le_bytes 4 n" ?digest hexversion] assms(5,14,15,17)
    by (simp add: called_keeps)
  show ?thesis
    unfolding s2 [symmetric]
    using assms(3,9,13) choose_nonce_step [OF assms(6)] nonce client auth byte_codecs [of "drop 8 p1"]
      byte_codecs [of "le_bytes 4 n"] byte_codecs(3) [of ?digest]
    by (simp add: authenticate_def encode_ascii_def called_keeps Let_def)
qed

lemma conn0_idle: "idle conn0 0" "brickd conn0 = 0" "get_response_expected (dev_heap conn0 0) 2 = Inr True"
    "next_authentication_nonce conn0 = 0"
  by (simp_all add: conn0_def ipcon0_eq ipcon_fields_def new_device_def get_response_expected_def idle_def)

lemma first_handshake_reads:
  "handshake_nonce (Urandom [1, 2, 3, 4]) conn0 = Inr 0x04030201" "le_bytes 4 0x04030201 = [1, 2, 3, 4]"
proof -
  have "le_uint [1, 2, 3, 4] = 0x04030201" by code_simp
  with urandom_nonce [of "[1, 2, 3, 4]"] show "handshake_nonce (Urandom [1, 2, 3, 4]) conn0 = Inr 0x04030201"
    by (simp add: handshake_nonce_def conn0_idle)
qed code_simp

text \<open>The first handshake of a connection, with the nonce \<open>01 02 03 04\<close> from \<^verbatim>\<open>os.urandom\<close>.\<close>

theorem authenticate_handshake_witness:
  "\<exists>s'. authenticate 0x03000000 (Urandom [1, 2, 3, 4]) (Sent 8, [[1, 0, 0, 0, 12, 1, 0x10, 0, 9, 8, 7, 6]])
      (Sent 32, [[1, 0, 0, 0, 8, 2, 0x20, 0]]) [97, 98] conn0 = (Inr PNone, s') \<and>
   next_authentication_nonce s' = 0x04030202 \<and>
   socket s' = Some \<lparr>sock_peer = (''localhost'', 4223), sock_sent = request_bytes 1 1 1 True [] @
     request_bytes 1 2 2 True ([1, 2, 3, 4] @ hmac_sha1 [97, 98] [9, 8, 7, 6, 1, 2, 3, 4])\<rparr>"
proof -
  have reads: "response_for 1 1 1 [1, 0, 0, 0, 12, 1, 0x10, 0, 9, 8, 7, 6]"
      "get_error_code_from_data [1, 0, 0, 0, 12, 1, 0x10, 0, 9, 8, 7, 6] = Inr 0"
      "response_for 1 2 2 [1, 0, 0, 0, 8, 2, 0x20, 0]"
      "check_response 0x03000000 2 [] [1, 0, 0, 0, 8, 2, 0x20, 0] = Inr PNone"
    by code_simp+
  have n: "(0 :: int) \<le> 0x04030201" "(0x04030201 :: int) < 2 ^ 32" "list_all (\<lambda>c. c < 128) [97, 98 :: nat]"
      "length [1, 0, 0, 0, 12, 1, 0x10, 0, 9, 8, 7, 6 :: byte] = 12" "(2 :: int) = 1 mod 15 + 1" "(8 :: nat) \<le> 8" "(32 :: nat) \<le> 32"
      "((0x04030201 :: int) + 1) mod 2 ^ 32 = 0x04030202" "1 = next_sequence_number conn0 + 1"
    by (simp_all add: conn0_ready)
  have k: "socket conn0 = Some \<lparr>sock_peer = (''localhost'', 4223), sock_sent = []\<rparr>" by (simp add: conn0_def)
  note h = authenticate_handshake [OF conn0_ready(1) conn0_idle(1,2) conn0_ready(6) conn0_idle(3) first_handshake_reads(1)
      n(1-3,9) _ reads(2) n(4,5) _ n(6,7), unfolded conn0_ready(4), OF reads(1,3), of "0x03000000"]
  show ?thesis
    unfolding h reads(4) first_handshake_reads(2) n(8)
    by (simp add: called_def k conn0_ready(4) rmap_def)
qed

subsection \<open>The nonce taken from the clock\<close>

lemma rotated_seconds:
  assumes "0 \<le> (v :: int)" "v < 2 ^ 31"
  shows "((push_bit 26 v OR drop_bit 6 v) AND 0xFFFFFFFF) + 2 ^ 25 < 2 ^ 32"
    and "0 \<le> (push_bit 26 v OR drop_bit 6 v) AND (0xFFFFFFFF :: int)"
proof -
  let ?x = "(push_bit 26 v OR drop_bit 6 v) AND (0xFFFFFFFF :: int)"
  have m: "0xFFFFFFFF = (mask 32 :: int)" by (simp add: mask_eq_exp_minus_1)
  show pos: "0 \<le> ?x" by simp
  have lt: "?x < 2 ^ 32" unfolding m take_bit_eq_mask [symmetric] by (rule take_bit_int_less_exp)
  have v: "v = take_bit 31 v" using assms by (simp add: take_bit_int_eq_self)
  have "\<not> bit v 31" by (subst v) (simp only: bit_take_bit_iff, simp)
  then have "\<not> bit ?x 25" by (simp add: bit_simps)
  then have "\<not> bit ?x k \<or> \<not> bit (2 ^ 25 :: int) k" for k by (auto simp: bit_exp_iff simp del: power_numeral)
  then have "?x + 2 ^ 25 = (?x OR 2 ^ 25)" by (intro disjunctive_add) blast
  also have "\<dots> < 2 ^ 32" using pos lt by (intro OR_upper) simp_all
  finally show "?x + 2 ^ 25 < 2 ^ 32" .
qed

text \<open>
  Where \<^verbatim>\<open>os.urandom\<close> is missing, the nonce made from the clock and the process number fits
  the 32 bits it is packed into, for every time of day until 2038 and every process number
  up to \<open>2 ^ 22\<close>, although microseconds and process number are added after the cut to 32 bits:
  \<^verbatim>\<open>struct.pack\<close> does not raise in \<^verbatim>\<open>authenticate\<close>.
\<close>

theorem clock_nonce_fits:
  assumes "0 \<le> seconds" "seconds < 2 ^ 31" "0 \<le> subseconds" "subseconds < 10 ^ 6" "0 \<le> pid" "pid \<le> 2 ^ 22"
  shows "\<exists>n. first_nonce (Clock seconds subseconds pid) = Inr n \<and> is_ok (pack_le ''I'' [PInt n])"
  using rotated_seconds [OF assms(1,2)] assms(3-6)
  by (simp add: pack_le_def byte_formats uint_fits_def is_ok_def)

theorem clock_nonce_fits_witness:
  "\<exists>n. first_nonce (Clock 1420070400 999999 4194304) = Inr n \<and> is_ok (pack_le ''I'' [PInt n])"
  by (rule clock_nonce_fits) simp_all

end
