(* ===== verification/Bindings.thy ===== *)
theory Bindings
  imports Authentication
begin

text \<open>
  What the generated device classes (\<^verbatim>\<open>brick_*.py\<close>, \<^verbatim>\<open>bricklet_*.py\<close>) have in common. Each
  class assigns the response expected flags and the callback formats of its functions in
  \<^verbatim>\<open>__init__\<close>, and each of its methods is one call of \<^verbatim>\<open>send_request\<close>, whose result is dropped,
  returned, or spread over the fields of a named tuple. A class is a value of \<open>binding\<close>, a
  method a value of \<open>dev_method\<close>; \<open>binding_init\<close> and \<open>call_method\<close> are the code they share.
  The locale \<open>device_class\<close> states what a class must promise (\<open>binding_ok\<close>, which computes),
  and derives what its users get; the theories of the classes interpret it.
\<close>

subsection \<open>Model\<close>

text \<open>What a method does with the value of \<^verbatim>\<open>send_request\<close>; a named tuple has its field names.\<close>

datatype shape = Discarded | Returned | Named string "string list"

datatype py_result = RValue pval | RNamed string "(string \<times> pval) list"

record dev_method =
  m_name :: string
  m_params :: "string list"
  m_function :: int
  m_form :: string
  m_form_ret :: string
  m_result :: shape

definition make_result :: "int \<Rightarrow> shape \<Rightarrow> pval \<Rightarrow> py_result res" where
  "make_result hexversion sh v = (case sh of
     Discarded \<Rightarrow> Inr (RValue PNone)
   | Returned \<Rightarrow> Inr (RValue v)
   | Named n fs \<Rightarrow> rbind (star_args hexversion v) (\<lambda>xs.
       if length xs = length fs then Inr (RNamed n (zip fs xs)) else Inl TypeError))"

text \<open>Calling a method with a list of arguments; a wrong number of them raises TypeError.\<close>

definition call_method ::
    "int \<Rightarrow> req_env \<Rightarrow> dev_method \<Rightarrow> nat \<Rightarrow> pval list \<Rightarrow> ipcon \<Rightarrow> py_result res \<times> ipcon" where
  "call_method hexversion env m d args s =
     (if length args \<noteq> length (m_params m) then (Inl TypeError, s)
      else sbind (send_request hexversion (fst env) (snd env) d (m_function m) args (m_form m) (m_form_ret m) s)
             (\<lambda>v s. (make_result hexversion (m_result m) v, s)))"

text \<open>
  A class: its name, \<^verbatim>\<open>DEVICE_IDENTIFIER\<close>, the constants \<^verbatim>\<open>CALLBACK_*\<close> and \<^verbatim>\<open>FUNCTION_*\<close>, the
  version, the assignments to \<^verbatim>\<open>response_expected\<close> and \<^verbatim>\<open>callback_formats\<close>, the methods.
\<close>

record binding =
  b_class :: string
  b_identifier :: int
  b_ids :: "(string \<times> int) list"
  b_api_version :: "int \<times> int \<times> int"
  b_flags :: "(int \<times> resp_flag) list"
  b_formats :: "(int \<times> string) list"
  b_methods :: "dev_method list"

fun put_flags :: "(int \<times> resp_flag) list \<Rightarrow> resp_flag list \<Rightarrow> resp_flag list" where
  "put_flags [] tab = tab"
| "put_flags ((i, f) # fs) tab = put_flags fs (tab[nat i := f])"

fun put_formats :: "(int \<times> string) list \<Rightarrow> (int \<rightharpoonup> string) \<Rightarrow> (int \<rightharpoonup> string)" where
  "put_formats [] m = m"
| "put_formats ((i, form) # fs) m = put_formats fs (m(i \<mapsto> form))"

definition binding_init :: "binding \<Rightarrow> string \<Rightarrow> ipcon \<Rightarrow> nat res \<times> ipcon" where
  "binding_init b u s = sbind (Device_init u s) (\<lambda>d s.
     (Inr d, upd_dev d (\<lambda>dev. dev\<lparr>api_version := b_api_version b,
        response_expected := put_flags (b_flags b) (response_expected dev),
        callback_formats := put_formats (b_formats b) (callback_formats dev)\<rparr>) s))"

subsection \<open>What a class must promise\<close>

fun upper :: "char \<Rightarrow> char" where
  "upper (Char b0 b1 b2 b3 b4 b5 b6 b7) = Char b0 b1 b2 b3 b4 (if b5 \<and> b6 then False else b5) b6 b7"

definition sized_form :: "string \<Rightarrow> field list option" where
  "sized_form form = (case form_fields form of
     Some ks \<Rightarrow> if form_size ks \<le> 64 then Some ks else None | None \<Rightarrow> None)"

fun shape_ok :: "shape \<Rightarrow> nat \<Rightarrow> bool" where
  "shape_ok Discarded n = (n = 0)"
| "shape_ok Returned n = (n = 1)"
| "shape_ok (Named nm fs) n = (2 \<le> n \<and> length fs = n)"

text \<open>
  A method has a parameter for each field of its format; both payloads fit the 64 bytes of
  a packet; a method that reads a response is a getter (its response is always expected),
  the others are setters; the result is spread over as many names as the response has
  fields.
\<close>

definition method_ok :: "(int \<times> resp_flag) list \<Rightarrow> dev_method \<Rightarrow> bool" where
  "method_ok flags m =
     ((case sized_form (m_form m) of None \<Rightarrow> False | Some ks \<Rightarrow> length (m_params m) = length ks) \<and>
      (case sized_form (m_form_ret m) of None \<Rightarrow> False | Some ks \<Rightarrow> shape_ok (m_result m) (length ks)) \<and>
      (case map_of flags (m_function m) of None \<Rightarrow> False | Some f \<Rightarrow>
         if m_form_ret m = [] then f = RE_TRUE \<or> f = RE_FALSE else f = ALWAYS_TRUE))"

text \<open>Function numbers the base class \<^verbatim>\<open>Device\<close> uses itself.\<close>

definition reserved_ids :: "int list" where
  "reserved_ids = [246, 247, 248, 249, 250, 251, 253, 254]"

text \<open>
  A class: its constants are the numbers of its callbacks followed by those of its methods,
  each \<^verbatim>\<open>FUNCTION_\<close> constant named after its method; the numbers are distinct, one byte, and
  not those of the base class; each has exactly one flag; exactly the callbacks have a
  format, and it is one \<^verbatim>\<open>dispatch_packet\<close> delivers.
\<close>

definition function_constant :: "dev_method \<Rightarrow> string \<times> int" where
  "function_constant m = (''FUNCTION_'' @ map upper (m_name m), m_function m)"

definition binding_ok :: "binding \<Rightarrow> bool" where
  "binding_ok b =
     (let n = length (b_formats b); nums = map snd (b_ids b); flags = b_flags b in
      take n nums = map fst (b_formats b) \<and>
      drop n (b_ids b) = map function_constant (b_methods b) \<and>
      distinct nums \<and> list_all (\<lambda>i. 0 < i \<and> i < 256 \<and> \<not> List.member reserved_ids i) nums \<and>
      distinct (map fst flags) \<and> list_all (\<lambda>i. map_of flags i \<noteq> None) nums \<and> length flags = length nums \<and>
      list_all (method_ok flags) (b_methods b) \<and>
      list_all (\<lambda>(i, form). map_of flags i = Some ALWAYS_FALSE \<and> callback_form_ok form \<and> sized_form form \<noteq> None)
        (b_formats b))"

subsection \<open>The tables a constructor fills\<close>

lemma put_flags_length [simp]: "length (put_flags fs tab) = length tab"
  by (induction fs tab rule: put_flags.induct) auto

lemma put_flags_other:
  "list_all (\<lambda>j. 0 \<le> j) (map fst fs) \<Longrightarrow> 0 \<le> i \<Longrightarrow> i \<notin> set (map fst fs) \<Longrightarrow> put_flags fs tab ! nat i = tab ! nat i"
  by (induction fs tab rule: put_flags.induct) (auto simp: nat_eq_iff)

lemma put_flags_lookup:
  "distinct (map fst fs) \<Longrightarrow> list_all (\<lambda>j. 0 \<le> j \<and> j < int (length tab)) (map fst fs) \<Longrightarrow>
   map_of fs i = Some f \<Longrightarrow> put_flags fs tab ! nat i = f"
proof (induction fs tab rule: put_flags.induct)
  case (2 j g fs tab)
  show ?case
  proof (cases "i = j")
    case True
    with 2 put_flags_other [of fs j "tab[nat j := g]"] show ?thesis by (auto simp: list_all_iff)
  next
    case False
    with 2 show ?thesis by simp
  qed
qed simp

lemma put_formats_lookup:
  "distinct (map fst fs) \<Longrightarrow> put_formats fs m i = (case map_of fs i of None \<Rightarrow> m i | Some form \<Rightarrow> Some form)"
proof (induction fs arbitrary: m)
  case (Cons p fs)
  obtain j form where p: "p = (j, form)" by (cases p)
  with Cons.prems have "map_of fs j = None" by (simp add: map_of_eq_None_iff image_iff)
  moreover have "put_formats fs m' i = (case map_of fs i of None \<Rightarrow> m' i | Some form \<Rightarrow> Some form)" for m'
    using Cons.IH Cons.prems by simp
  ultimately show ?case by (cases "i = j") (simp_all add: p split: option.split)
qed simp

text \<open>
  The instances of a class: objects with the tables of the constructor, in which the
  adjustable flags may have been switched since.
\<close>

fun flag_like :: "resp_flag \<Rightarrow> resp_flag \<Rightarrow> bool" where
  "flag_like RE_TRUE g = (g = RE_TRUE \<or> g = RE_FALSE)"
| "flag_like RE_FALSE g = (g = RE_TRUE \<or> g = RE_FALSE)"
| "flag_like f g = (g = f)"

definition is_instance :: "binding \<Rightarrow> device \<Rightarrow> bool" where
  "is_instance b dev =
     (device_ok dev \<and>
      (\<forall>i f. map_of (b_flags b) i = Some f \<longrightarrow> 0 \<le> i \<and> i < 256 \<and> flag_like f (response_expected dev ! nat i)) \<and>
      (\<forall>i form. map_of (b_formats b) i = Some form \<longrightarrow> callback_formats dev i = Some form))"

lemma instance_flag:
  "is_instance b dev \<Longrightarrow> map_of (b_flags b) i = Some f \<Longrightarrow> 0 \<le> i \<and> i < 256 \<and> flag_like f (response_expected dev ! nat i)"
  unfolding is_instance_def by blast

lemma instance_ok: "is_instance b dev \<Longrightarrow> device_ok dev"
  by (simp add: is_instance_def)

lemma flag_like_refl: "flag_like f f"
  by (cases f) auto

lemma flag_like_switch: "flag_like f g \<Longrightarrow> flag_like f (switch_flag x g) \<or> x \<notin> {RE_TRUE, RE_FALSE}"
  by (cases f) (auto simp: switch_flag_def)

locale device_class =
  fixes b :: binding
  assumes ok: "binding_ok b"
begin

lemma ok_facts:
  "take (length (b_formats b)) (map snd (b_ids b)) = map fst (b_formats b)"
  "drop (length (b_formats b)) (b_ids b) = map function_constant (b_methods b)"
  "distinct (map snd (b_ids b))"
  "list_all (\<lambda>i. 0 < i \<and> i < 256 \<and> \<not> List.member reserved_ids i) (map snd (b_ids b))"
  "distinct (map fst (b_flags b))" "list_all (\<lambda>i. map_of (b_flags b) i \<noteq> None) (map snd (b_ids b))"
  "length (b_flags b) = length (b_ids b)" "list_all (method_ok (b_flags b)) (b_methods b)"
  "list_all (\<lambda>(i, form). map_of (b_flags b) i = Some ALWAYS_FALSE \<and> callback_form_ok form \<and> sized_form form \<noteq> None)
     (b_formats b)"
  using ok unfolding binding_ok_def Let_def by (simp_all only: length_map)

lemma flag_keys: "map_of (b_flags b) i = Some f \<Longrightarrow> i \<in> set (map snd (b_ids b))"
proof -
  assume f: "map_of (b_flags b) i = Some f"
  let ?F = "set (map fst (b_flags b))" and ?N = "set (map snd (b_ids b))"
  have "n \<in> ?F" if "n \<in> ?N" for n
    using ok_facts(6) that map_of_eq_None_iff [of "b_flags b" n] by (simp only: list_all_iff set_map) blast
  then have "?N \<subseteq> ?F" by blast
  moreover have "card ?F = card ?N"
    using distinct_card [OF ok_facts(5)] distinct_card [OF ok_facts(3)] ok_facts(7) by simp
  ultimately have "?F = ?N" using card_subset_eq [of ?F ?N] by (simp only: List.finite_set)
  moreover have "i \<in> ?F" using map_of_SomeD [OF f] by force
  ultimately show ?thesis by simp
qed

lemma flag_range: "map_of (b_flags b) i = Some f \<Longrightarrow> 0 \<le> i \<and> i < 256"
  using flag_keys [of i f] ok_facts(4) by (auto simp: list_all_iff)

lemma all_flags_range: "list_all (\<lambda>j. 0 \<le> j \<and> j < 256) (map fst (b_flags b))"
proof -
  have "0 \<le> i \<and> i < 256" if i: "i \<in> set (map fst (b_flags b))" for i
  proof -
    obtain f where "map_of (b_flags b) i = Some f" using i map_of_eq_None_iff [of "b_flags b" i]
      by (cases "map_of (b_flags b) i") auto
    then show ?thesis by (rule flag_range)
  qed
  then show ?thesis by (auto simp: list_all_iff)
qed

lemma tables_instance:
  assumes "device_ok dev"
  shows "is_instance b (dev\<lparr>api_version := v, response_expected := put_flags (b_flags b) (response_expected dev),
           callback_formats := put_formats (b_formats b) (callback_formats dev)\<rparr>)"
proof -
  have len: "length (response_expected dev) = 256" using assms by (simp add: device_ok_def)
  have d: "distinct (map fst (b_formats b))"
    using ok_facts(1) distinct_take [OF ok_facts(3), of "length (b_formats b)"] by simp
  have "put_flags (b_flags b) (response_expected dev) ! nat i = f" if "map_of (b_flags b) i = Some f" for i f
    using put_flags_lookup [OF ok_facts(5) _ that, of "response_expected dev"] all_flags_range len by simp
  with assms flag_range put_formats_lookup [OF d] flag_like_refl show ?thesis
    by (simp add: is_instance_def device_ok_def)
qed

lemma init_instance:
  assumes "binding_init b u s = (Inr d, s')"
  shows "is_instance b (dev_heap s' d) \<and> api_version (dev_heap s' d) = b_api_version b \<and>
     devices s' (uid (dev_heap s' d)) = Some d \<and> d = next_dev s"
proof -
  obtain x where x: "device_uid u = Inr x" using assms
    by (auto simp: binding_init_def Device_init_def split: sum.splits)
  with assms tables_instance [OF new_device_ok [OF x], of "b_api_version b"] show ?thesis
    by (auto simp: binding_init_def Device_init_def upd_dev_def Let_def new_device_def)
qed

end

subsection \<open>Switching flags keeps an instance an instance\<close>

lemma instance_set:
  assumes "is_instance b dev" "set_response_expected dev i v = Inr dev'"
  shows "is_instance b dev'"
proof -
  have i: "0 \<le> i" "i < int (length (response_expected dev))" "response_expected dev ! nat i \<in> {RE_TRUE, RE_FALSE}"
    and dev': "dev' = dev\<lparr>response_expected := (response_expected dev)[nat i := if v then RE_TRUE else RE_FALSE]\<rparr>"
    using assms(2) by (cases "response_expected dev ! nat i";
        auto simp: set_response_expected_def Let_def split: if_splits)+
  have "flag_like f (response_expected dev' ! nat j)"
    if "flag_like f (response_expected dev ! nat j)" "0 \<le> j" for f j
    using that i by (cases f) (auto simp: dev' nth_list_update nat_eq_iff)
  with assms(1) dev' show ?thesis by (auto simp: is_instance_def device_ok_def)
qed

lemma instance_set_all: "is_instance b dev \<Longrightarrow> is_instance b (set_response_expected_all dev v)"
proof -
  assume a: "is_instance b dev"
  have "flag_like f (switch_flag (if v then RE_TRUE else RE_FALSE) g)" if "flag_like f g" for f g
    using that by (cases f) (auto simp: switch_flag_def)
  moreover have "response_expected (set_response_expected_all dev v) ! nat i =
      switch_flag (if v then RE_TRUE else RE_FALSE) (response_expected dev ! nat i)" if "0 \<le> i" "i < 256" for i
    using that a by (simp add: set_all_table is_instance_def device_ok_def nat_less_iff)
  ultimately show ?thesis
    using a set_response_expected_all_ok [of dev v]
    by (simp add: is_instance_def set_response_expected_all_def Let_def)
qed

lemma instance_run_ops: "is_instance b dev \<Longrightarrow> is_instance b (run_ops ops dev)"
proof (induction ops arbitrary: dev)
  case (Cons op ops)
  then show ?case
    by (cases op) (auto intro!: Cons.IH simp: instance_set_all split: sum.splits dest: instance_set)
qed simp

subsection \<open>Arguments and results\<close>

lemma sized_form_Some: "sized_form form = Some ks \<longleftrightarrow> form_fields form = Some ks \<and> form_size ks \<le> 64"
  by (auto simp: sized_form_def split: option.splits)

lemma args_pack:
  assumes "0x03000000 \<le> hv" "form_fields form = Some ks" "form_size ks \<le> 64" "list_all2 arg_ok ks args"
  shows "\<exists>payload. call_ok hv form args payload \<and> length payload \<le> 64"
proof -
  have len: "length args = length ks" using assms(4) by (simp add: list_all2_lengthD)
  obtain fs where fs: "zip (split_space form) args = zip fs args" "classify_all fs = Some ks"
    using form_fields_split [OF assms(2) len] by blast
  obtain payload where p: "pack_fields hv (zip fs args) [] = Inr payload"
    using fields_roundtrip [OF assms(1) fs(2) assms(4), of "[]" "[]"] by auto
  have c: "call_ok hv form args payload" using assms(2,3) len fs(1) p by (auto simp: call_ok_def)
  moreover have "length payload \<le> 64"
    using call_ok_size [OF c] form_fields_size [OF assms(2)] assms(3) by simp
  ultimately show ?thesis by blast
qed

text \<open>The result of a method for the values of the fields of its response.\<close>

fun shaped :: "shape \<Rightarrow> pval list \<Rightarrow> py_result" where
  "shaped Discarded vs = RValue PNone"
| "shaped Returned vs = RValue (hd vs)"
| "shaped (Named n fs) vs = RNamed n (zip fs vs)"

lemma make_shaped: "shape_ok sh (length vs) \<Longrightarrow> sh \<noteq> Discarded \<Longrightarrow> make_result hv sh (collapse vs) = Inr (shaped sh vs)"
  by (cases sh) (auto simp: make_result_def collapse_def)

context device_class
begin

lemma method_facts:
  assumes "m \<in> set (b_methods b)"
  shows "\<exists>ks rs f. form_fields (m_form m) = Some ks \<and> form_size ks \<le> 64 \<and> length (m_params m) = length ks \<and>
     form_fields (m_form_ret m) = Some rs \<and> form_size rs \<le> 64 \<and> shape_ok (m_result m) (length rs) \<and>
     map_of (b_flags b) (m_function m) = Some f \<and>
     (if m_form_ret m = [] then f = RE_TRUE \<or> f = RE_FALSE else f = ALWAYS_TRUE)"
proof -
  have "method_ok (b_flags b) m" using ok_facts(8) assms by (simp add: list_all_iff)
  then show ?thesis by (auto simp: method_ok_def sized_form_Some split: option.splits)
qed

lemma flag_lookup:
  assumes "is_instance b dev" "map_of (b_flags b) i = Some f"
  shows "get_response_expected dev i = (let g = response_expected dev ! nat i in
           if g = INVALID_FUNCTION_ID then Inl ValueError else Inr (g = ALWAYS_TRUE \<or> g = RE_TRUE))"
  using instance_flag [OF assms] instance_ok [OF assms(1)]
  by (simp add: device_ok_def get_response_expected_def Let_def)

lemma getter_expected:
  assumes "is_instance b dev" "m \<in> set (b_methods b)" "m_form_ret m \<noteq> []"
  shows "get_response_expected dev (m_function m) = Inr True"
proof -
  have f: "map_of (b_flags b) (m_function m) = Some ALWAYS_TRUE" using method_facts [OF assms(2)] assms(3) by auto
  then have "response_expected dev ! nat (m_function m) = ALWAYS_TRUE" using instance_flag [OF assms(1) f] by simp
  with flag_lookup [OF assms(1) f] show ?thesis by simp
qed

lemma setter_expected:
  assumes "is_instance b dev" "m \<in> set (b_methods b)" "m_form_ret m = []"
  shows "\<exists>e. get_response_expected dev (m_function m) = Inr e"
proof -
  obtain f where f: "map_of (b_flags b) (m_function m) = Some f" "f = RE_TRUE \<or> f = RE_FALSE"
    using method_facts [OF assms(2)] assms(3) by auto
  then have "flag_like f (response_expected dev ! nat (m_function m))" using instance_flag [OF assms(1) f(1)] by simp
  with f(2) flag_lookup [OF assms(1) f(1)] show ?thesis by (auto simp: Let_def)
qed

lemma discarded_iff: "m \<in> set (b_methods b) \<Longrightarrow> m_result m = Discarded \<longleftrightarrow> m_form_ret m = []"
proof -
  assume "m \<in> set (b_methods b)"
  from method_facts [OF this] obtain rs where rs: "form_fields (m_form_ret m) = Some rs" "shape_ok (m_result m) (length rs)"
    by blast
  have "rs = [] \<longleftrightarrow> m_form_ret m = []"
    using rs(1) classify_all_length [of "split_space (m_form_ret m)" rs] by (auto simp: form_fields_def split: if_splits)
  with rs(2) show ?thesis by (cases "m_result m") auto
qed

end

subsection \<open>What the users of a class get\<close>

context device_class
begin

lemma getter_returns:
  assumes m: "m \<in> set (b_methods b)" "m_form_ret m \<noteq> []" and i: "is_instance b (dev_heap s d)"
    and r: "ready s d" "idle s d" and hv: "0x03000000 \<le> hexversion"
    and ks: "form_fields (m_form m) = Some ks" "list_all2 arg_ok ks args"
    and q: "q = next_sequence_number s + 1"
    and p: "response_for (uid (dev_heap s d)) (m_function m) q p" "get_error_code_from_data p = Inr 0"
    and rs: "form_fields (m_form_ret m) = Some rs" "form_size rs \<le> length (drop 8 p)" "texts_ok hexversion rs (drop 8 p)"
    and n: "72 \<le> n"
  shows "\<exists>payload vs. call_method hexversion (Sent n, [p]) m d args s =
       (Inr (shaped (m_result m) vs), called d (m_function m) q payload s) \<and>
     call_ok hexversion (m_form m) args payload \<and> length vs = length rs \<and>
     deserialize_data hexversion (drop 8 p) (m_form_ret m) = Inr (collapse vs)"
proof -
  from method_facts [OF m(1)] ks(1) rs(1) have
    f: "form_size ks \<le> 64" "length (m_params m) = length ks" "shape_ok (m_result m) (length rs)" by auto
  obtain payload where pl: "call_ok hexversion (m_form m) args payload" "length payload \<le> 64"
    using args_pack [OF hv ks(1) f(1) ks(2)] by blast
  obtain vs where vs: "length vs = length rs" "deserialize_data hexversion (drop 8 p) (m_form_ret m) = Inr (collapse vs)"
    using deserialize_values [OF rs(1) m(2) rs(2,3)] by blast
  have "m_result m \<noteq> Discarded" using discarded_iff [OF m(1)] m(2) by simp
  then have "make_result hexversion (m_result m) (collapse vs) = Inr (shaped (m_result m) vs)"
    using make_shaped f(3) vs(1) by simp
  moreover have "length args = length (m_params m)" using f(2) ks(2) by (simp add: list_all2_lengthD)
  moreover have "send_request hexversion (Sent n) [p] d (m_function m) args (m_form m) (m_form_ret m) s =
      (check_response hexversion (m_function m) (m_form_ret m) p, called d (m_function m) q payload s)"
    using send_request_single [OF r(1) pl(1) getter_expected [OF i m] r(2) q p(1)] pl(2) n by simp
  ultimately have "call_method hexversion (Sent n, [p]) m d args s =
      (Inr (shaped (m_result m) vs), called d (m_function m) q payload s)"
    using p(2) m(2) vs(2) by (simp add: call_method_def check_response_def)
  with pl(1) vs show ?thesis by blast
qed

lemma setter_writes:
  assumes m: "m \<in> set (b_methods b)" "m_form_ret m = []" and i: "is_instance b (dev_heap s d)"
    and r: "ready s d" and hv: "0x03000000 \<le> hexversion" and k: "socket s = Some k"
    and ks: "form_fields (m_form m) = Some ks" "list_all2 arg_ok ks args"
    and q: "q = next_sequence_number s + 1" and n: "72 \<le> n" and a: "list_all (\<lambda>p. 8 \<le> length p) arrivals"
  shows "\<exists>e payload res s'. get_response_expected (dev_heap s d) (m_function m) = Inr e \<and>
     call_ok hexversion (m_form m) args payload \<and>
     call_method hexversion (Sent n, arrivals) m d args s = (res, s') \<and>
     socket s' = Some (k\<lparr>sock_sent := sock_sent k @ request_bytes (uid (dev_heap s d)) (m_function m) q e payload\<rparr>) \<and>
     wf_packet (request_bytes (uid (dev_heap s d)) (m_function m) q e payload) \<and>
     res = (if e then case find (matches (m_function m) q) (candidates d (m_function m) q arrivals s) of
                        None \<Rightarrow> Inl (timeout_error (m_function m))
                      | Some response \<Rightarrow> rmap (\<lambda>_. RValue PNone) (check_response hexversion (m_function m) [] response)
            else Inr (RValue PNone)) \<and>
     (e \<longrightarrow> expected_response_function_id (dev_heap s' d) = None \<and>
          expected_response_sequence_number (dev_heap s' d) = None)"
proof -
  from method_facts [OF m(1)] ks(1) have f: "form_size ks \<le> 64" "length (m_params m) = length ks" by auto
  obtain payload where pl: "call_ok hexversion (m_form m) args payload" "length payload \<le> 64"
    using args_pack [OF hv ks(1) f(1) ks(2)] by blast
  obtain e where e: "get_response_expected (dev_heap s d) (m_function m) = Inr e" using setter_expected [OF i m] by blast
  obtain res s' where rs: "send_request hexversion (Sent n) arrivals d (m_function m) args (m_form m) [] s = (res, s')"
    by fastforce
  have len: "length args = length (m_params m)" using f(2) ks(2) by (simp add: list_all2_lengthD)
  have "m_result m = Discarded" using discarded_iff [OF m(1)] m(2) by simp
  then have call: "call_method hexversion (Sent n, arrivals) m d args s = (rmap (\<lambda>_. RValue PNone) res, s')"
    using len rs m(2) by (cases res) (simp_all add: call_method_def make_result_def)
  have "take n (request_bytes (uid (dev_heap s d)) (m_function m) q e payload) =
      request_bytes (uid (dev_heap s d)) (m_function m) q e payload"
    using pl(2) n by (simp add: request_bytes_def)
  moreover have "res = (case find (matches (m_function m) q) (candidates d (m_function m) q arrivals s) of
        None \<Rightarrow> Inl (timeout_error (m_function m)) | Some response \<Rightarrow> check_response hexversion (m_function m) [] response)"
    if e
    using send_request_result [OF r pl(1) _ q a, of "m_function m" n "[]"] e that rs by simp
  ultimately show ?thesis
    using send_request_state [OF r pl(1) e q k rs] request_wf [OF r pl(1) e q] e pl(1) call
    by (intro exI [of _ e] exI [of _ payload] exI [of _ "rmap (\<lambda>_. RValue PNone) res"] exI [of _ s'])
       (auto split: option.splits)
qed

lemma callback_delivered:
  assumes cb: "map_of (b_formats b) i = Some form" and inst: "is_instance b (dev_heap s d)"
    and u: "get_uid_from_data packet = Inr u" "get_length_from_data packet = Inr l"
      "get_function_id_from_data packet = Inr i" "devices s u = Some d"
    and h: "dev_registered_callbacks (dev_heap s d) i = Some (Some h)"
    and ks: "form_fields form = Some ks" "form_size ks \<le> length (drop 8 packet)" "texts_ok hexversion ks (drop 8 packet)"
  shows "\<exists>vs. length vs = length ks \<and> dispatch_packet hexversion run packet s = run h vs s"
proof -
  have mem: "(i, form) \<in> set (b_formats b)" by (rule map_of_SomeD [OF cb])
  have form: "callback_formats (dev_heap s d) i = Some form" using inst cb by (simp add: is_instance_def)
  have "i \<in> set (map fst (b_formats b))" using mem by force
  then have "i \<in> set (map snd (b_ids b))"
    using ok_facts(1) in_set_takeD [of i "length (b_formats b)" "map snd (b_ids b)"] by simp
  then have "i \<noteq> CALLBACK_ENUMERATE" using ok_facts(4) by (auto simp: list_all_iff reserved_ids_def)
  moreover have "callback_form_ok form" using ok_facts(9) mem by (auto simp: list_all_iff)
  ultimately show ?thesis using deliver_callback [OF u(1-3) _ u(4) h form ks(1) _ ks(2,3)] by blast
qed

end

end
