(* ===== verification/Brick_Master_Class.thy ===== *)
theory Brick_Master_Class
  imports Bindings
begin

text \<open>
  The device classes of the Master Brick. For each class: its
  named tuples, its constants, the assignments of its constructor, one definition per
  method, and the class itself, on which \<open>device_class\<close> is interpreted.
\<close>

section \<open>The class BrickMaster (\<^verbatim>\<open>brick_master.py\<close>)\<close>

definition BrickMaster_GetChibiErrorLog :: shape where
  "BrickMaster_GetChibiErrorLog = Named ''ChibiErrorLog''
     [''underrun'', ''crc_error'', ''no_ack'', ''overflow'']"

definition BrickMaster_GetRS485Configuration :: shape where
  "BrickMaster_GetRS485Configuration = Named ''RS485Configuration''
     [''speed'', ''parity'', ''stopbits'']"

definition BrickMaster_GetWifiConfiguration :: shape where
  "BrickMaster_GetWifiConfiguration = Named ''WifiConfiguration''
     [''ssid'', ''connection'', ''ip'', ''subnet_mask'', ''gateway'', ''port'']"

definition BrickMaster_GetWifiEncryption :: shape where
  "BrickMaster_GetWifiEncryption = Named ''WifiEncryption''
     [''encryption'', ''key'', ''key_index'', ''eap_options'', ''ca_certificate_length'',
      ''client_certificate_length'', ''private_key_length'']"

definition BrickMaster_GetWifiStatus :: shape where
  "BrickMaster_GetWifiStatus = Named ''WifiStatus''
     [''mac_address'', ''bssid'', ''channel'', ''rssi'', ''ip'', ''subnet_mask'', ''gateway'',
      ''rx_count'', ''tx_count'', ''state'']"

definition BrickMaster_GetWifiCertificate :: shape where
  "BrickMaster_GetWifiCertificate = Named ''WifiCertificate''
     [''data'', ''data_length'']"

definition BrickMaster_GetWifiBufferInfo :: shape where
  "BrickMaster_GetWifiBufferInfo = Named ''WifiBufferInfo''
     [''overflow'', ''low_watermark'', ''used'']"

definition BrickMaster_GetStackCurrentCallbackThreshold :: shape where
  "BrickMaster_GetStackCurrentCallbackThreshold = Named ''StackCurrentCallbackThreshold''
     [''option'', ''min'', ''max'']"

definition BrickMaster_GetStackVoltageCallbackThreshold :: shape where
  "BrickMaster_GetStackVoltageCallbackThreshold = Named ''StackVoltageCallbackThreshold''
     [''option'', ''min'', ''max'']"

definition BrickMaster_GetUSBVoltageCallbackThreshold :: shape where
  "BrickMaster_GetUSBVoltageCallbackThreshold = Named ''USBVoltageCallbackThreshold''
     [''option'', ''min'', ''max'']"

definition BrickMaster_GetEthernetConfiguration :: shape where
  "BrickMaster_GetEthernetConfiguration = Named ''EthernetConfiguration''
     [''connection'', ''ip'', ''subnet_mask'', ''gateway'', ''port'']"

definition BrickMaster_GetEthernetStatus :: shape where
  "BrickMaster_GetEthernetStatus = Named ''EthernetStatus''
     [''mac_address'', ''ip'', ''subnet_mask'', ''gateway'', ''rx_count'', ''tx_count'',
      ''hostname'']"

definition BrickMaster_GetEthernetWebsocketConfiguration :: shape where
  "BrickMaster_GetEthernetWebsocketConfiguration = Named ''EthernetWebsocketConfiguration''
     [''sockets'', ''port'']"

definition BrickMaster_GetProtocol1BrickletName :: shape where
  "BrickMaster_GetProtocol1BrickletName = Named ''Protocol1BrickletName''
     [''protocol_version'', ''firmware_version'', ''name'']"

definition BrickMaster_GetIdentity :: shape where
  "BrickMaster_GetIdentity = Named ''Identity''
     [''uid'', ''connected_uid'', ''position'', ''hardware_version'', ''firmware_version'',
      ''device_identifier'']"

definition BrickMaster_ids :: "(string \<times> int) list" where
  "BrickMaster_ids =
     [(''CALLBACK_STACK_CURRENT'', 59), (''CALLBACK_STACK_VOLTAGE'', 60),
      (''CALLBACK_USB_VOLTAGE'', 61), (''CALLBACK_STACK_CURRENT_REACHED'', 62),
      (''CALLBACK_STACK_VOLTAGE_REACHED'', 63), (''CALLBACK_USB_VOLTAGE_REACHED'', 64),
      (''FUNCTION_GET_STACK_VOLTAGE'', 1), (''FUNCTION_GET_STACK_CURRENT'', 2),
      (''FUNCTION_SET_EXTENSION_TYPE'', 3), (''FUNCTION_GET_EXTENSION_TYPE'', 4),
      (''FUNCTION_IS_CHIBI_PRESENT'', 5), (''FUNCTION_SET_CHIBI_ADDRESS'', 6),
      (''FUNCTION_GET_CHIBI_ADDRESS'', 7), (''FUNCTION_SET_CHIBI_MASTER_ADDRESS'', 8),
      (''FUNCTION_GET_CHIBI_MASTER_ADDRESS'', 9), (''FUNCTION_SET_CHIBI_SLAVE_ADDRESS'', 10),
      (''FUNCTION_GET_CHIBI_SLAVE_ADDRESS'', 11), (''FUNCTION_GET_CHIBI_SIGNAL_STRENGTH'', 12),
      (''FUNCTION_GET_CHIBI_ERROR_LOG'', 13), (''FUNCTION_SET_CHIBI_FREQUENCY'', 14),
      (''FUNCTION_GET_CHIBI_FREQUENCY'', 15), (''FUNCTION_SET_CHIBI_CHANNEL'', 16),
      (''FUNCTION_GET_CHIBI_CHANNEL'', 17), (''FUNCTION_IS_RS485_PRESENT'', 18),
      (''FUNCTION_SET_RS485_ADDRESS'', 19), (''FUNCTION_GET_RS485_ADDRESS'', 20),
      (''FUNCTION_SET_RS485_SLAVE_ADDRESS'', 21), (''FUNCTION_GET_RS485_SLAVE_ADDRESS'', 22),
      (''FUNCTION_GET_RS485_ERROR_LOG'', 23), (''FUNCTION_SET_RS485_CONFIGURATION'', 24),
      (''FUNCTION_GET_RS485_CONFIGURATION'', 25), (''FUNCTION_IS_WIFI_PRESENT'', 26),
      (''FUNCTION_SET_WIFI_CONFIGURATION'', 27), (''FUNCTION_GET_WIFI_CONFIGURATION'', 28),
      (''FUNCTION_SET_WIFI_ENCRYPTION'', 29), (''FUNCTION_GET_WIFI_ENCRYPTION'', 30),
      (''FUNCTION_GET_WIFI_STATUS'', 31), (''FUNCTION_REFRESH_WIFI_STATUS'', 32),
      (''FUNCTION_SET_WIFI_CERTIFICATE'', 33), (''FUNCTION_GET_WIFI_CERTIFICATE'', 34),
      (''FUNCTION_SET_WIFI_POWER_MODE'', 35), (''FUNCTION_GET_WIFI_POWER_MODE'', 36),
      (''FUNCTION_GET_WIFI_BUFFER_INFO'', 37), (''FUNCTION_SET_WIFI_REGULATORY_DOMAIN'', 38),
      (''FUNCTION_GET_WIFI_REGULATORY_DOMAIN'', 39), (''FUNCTION_GET_USB_VOLTAGE'', 40),
      (''FUNCTION_SET_LONG_WIFI_KEY'', 41), (''FUNCTION_GET_LONG_WIFI_KEY'', 42),
      (''FUNCTION_SET_WIFI_HOSTNAME'', 43), (''FUNCTION_GET_WIFI_HOSTNAME'', 44),
      (''FUNCTION_SET_STACK_CURRENT_CALLBACK_PERIOD'', 45),
      (''FUNCTION_GET_STACK_CURRENT_CALLBACK_PERIOD'', 46),
      (''FUNCTION_SET_STACK_VOLTAGE_CALLBACK_PERIOD'', 47),
      (''FUNCTION_GET_STACK_VOLTAGE_CALLBACK_PERIOD'', 48),
      (''FUNCTION_SET_USB_VOLTAGE_CALLBACK_PERIOD'', 49),
      (''FUNCTION_GET_USB_VOLTAGE_CALLBACK_PERIOD'', 50),
      (''FUNCTION_SET_STACK_CURRENT_CALLBACK_THRESHOLD'', 51),
      (''FUNCTION_GET_STACK_CURRENT_CALLBACK_THRESHOLD'', 52),
      (''FUNCTION_SET_STACK_VOLTAGE_CALLBACK_THRESHOLD'', 53),
      (''FUNCTION_GET_STACK_VOLTAGE_CALLBACK_THRESHOLD'', 54),
      (''FUNCTION_SET_USB_VOLTAGE_CALLBACK_THRESHOLD'', 55),
      (''FUNCTION_GET_USB_VOLTAGE_CALLBACK_THRESHOLD'', 56),
      (''FUNCTION_SET_DEBOUNCE_PERIOD'', 57), (''FUNCTION_GET_DEBOUNCE_PERIOD'', 58),
      (''FUNCTION_IS_ETHERNET_PRESENT'', 65), (''FUNCTION_SET_ETHERNET_CONFIGURATION'', 66),
      (''FUNCTION_GET_ETHERNET_CONFIGURATION'', 67), (''FUNCTION_GET_ETHERNET_STATUS'', 68),
      (''FUNCTION_SET_ETHERNET_HOSTNAME'', 69), (''FUNCTION_SET_ETHERNET_MAC_ADDRESS'', 70),
      (''FUNCTION_SET_ETHERNET_WEBSOCKET_CONFIGURATION'', 71),
      (''FUNCTION_GET_ETHERNET_WEBSOCKET_CONFIGURATION'', 72),
      (''FUNCTION_SET_ETHERNET_AUTHENTICATION_SECRET'', 73),
      (''FUNCTION_GET_ETHERNET_AUTHENTICATION_SECRET'', 74),
      (''FUNCTION_SET_WIFI_AUTHENTICATION_SECRET'', 75),
      (''FUNCTION_GET_WIFI_AUTHENTICATION_SECRET'', 76), (''FUNCTION_ENABLE_STATUS_LED'', 238),
      (''FUNCTION_DISABLE_STATUS_LED'', 239), (''FUNCTION_IS_STATUS_LED_ENABLED'', 240),
      (''FUNCTION_GET_PROTOCOL1_BRICKLET_NAME'', 241), (''FUNCTION_GET_CHIP_TEMPERATURE'', 242),
      (''FUNCTION_RESET'', 243), (''FUNCTION_GET_IDENTITY'', 255)]"

definition BrickMaster_flags :: "(int \<times> resp_flag) list" where
  "BrickMaster_flags =
     [(1, ALWAYS_TRUE), (2, ALWAYS_TRUE), (3, RE_FALSE), (4, ALWAYS_TRUE), (5, ALWAYS_TRUE),
      (6, RE_FALSE), (7, ALWAYS_TRUE), (8, RE_FALSE), (9, ALWAYS_TRUE), (10, RE_FALSE),
      (11, ALWAYS_TRUE), (12, ALWAYS_TRUE), (13, ALWAYS_TRUE), (14, RE_FALSE), (15, ALWAYS_TRUE),
      (16, RE_FALSE), (17, ALWAYS_TRUE), (18, ALWAYS_TRUE), (19, RE_FALSE), (20, ALWAYS_TRUE),
      (21, RE_FALSE), (22, ALWAYS_TRUE), (23, ALWAYS_TRUE), (24, RE_FALSE), (25, ALWAYS_TRUE),
      (26, ALWAYS_TRUE), (27, RE_FALSE), (28, ALWAYS_TRUE), (29, RE_FALSE), (30, ALWAYS_TRUE),
      (31, ALWAYS_TRUE), (32, RE_FALSE), (33, RE_FALSE), (34, ALWAYS_TRUE), (35, RE_FALSE),
      (36, ALWAYS_TRUE), (37, ALWAYS_TRUE), (38, RE_FALSE), (39, ALWAYS_TRUE), (40, ALWAYS_TRUE),
      (41, RE_FALSE), (42, ALWAYS_TRUE), (43, RE_FALSE), (44, ALWAYS_TRUE), (45, RE_TRUE),
      (46, ALWAYS_TRUE), (47, RE_TRUE), (48, ALWAYS_TRUE), (49, RE_TRUE), (50, ALWAYS_TRUE),
      (51, RE_TRUE), (52, ALWAYS_TRUE), (53, RE_TRUE), (54, ALWAYS_TRUE), (55, RE_TRUE),
      (56, ALWAYS_TRUE), (57, RE_TRUE), (58, ALWAYS_TRUE), (59, ALWAYS_FALSE), (60, ALWAYS_FALSE),
      (61, ALWAYS_FALSE), (62, ALWAYS_FALSE), (63, ALWAYS_FALSE), (64, ALWAYS_FALSE),
      (65, ALWAYS_TRUE), (66, RE_FALSE), (67, ALWAYS_TRUE), (68, ALWAYS_TRUE), (69, RE_FALSE),
      (70, RE_FALSE), (71, RE_FALSE), (72, ALWAYS_TRUE), (73, RE_FALSE), (74, ALWAYS_TRUE),
      (75, RE_FALSE), (76, ALWAYS_TRUE), (238, RE_FALSE), (239, RE_FALSE), (240, ALWAYS_TRUE),
      (241, ALWAYS_TRUE), (242, ALWAYS_TRUE), (243, RE_FALSE), (255, ALWAYS_TRUE)]"

definition BrickMaster_formats :: "(int \<times> string) list" where
  "BrickMaster_formats =
     [(59, ''H''), (60, ''H''), (61, ''H''), (62, ''H''), (63, ''H''), (64, ''H'')]"

definition BrickMaster_get_stack_voltage :: dev_method where
  "BrickMaster_get_stack_voltage =
     \<lparr>m_name = ''get_stack_voltage'', m_params = [],
      m_function = 1, m_form = [], m_form_ret = ''H'',
      m_result = Returned\<rparr>"

definition BrickMaster_get_stack_current :: dev_method where
  "BrickMaster_get_stack_current =
     \<lparr>m_name = ''get_stack_current'', m_params = [],
      m_function = 2, m_form = [], m_form_ret = ''H'',
      m_result = Returned\<rparr>"

definition BrickMaster_set_extension_type :: dev_method where
  "BrickMaster_set_extension_type =
     \<lparr>m_name = ''set_extension_type'', m_params = [''extension'', ''exttype''],
      m_function = 3, m_form = ''B I'', m_form_ret = [],
      m_result = Discarded\<rparr>"

definition BrickMaster_get_extension_type :: dev_method where
  "BrickMaster_get_extension_type =
     \<lparr>m_name = ''get_extension_type'', m_params = [''extension''],
      m_function = 4, m_form = ''B'', m_form_ret = ''I'',
      m_result = Returned\<rparr>"

definition BrickMaster_is_chibi_present :: dev_method where
  "BrickMaster_is_chibi_present =
     \<lparr>m_name = ''is_chibi_present'', m_params = [],
      m_function = 5, m_form = [], m_form_ret = ''?'',
      m_result = Returned\<rparr>"

definition BrickMaster_set_chibi_address :: dev_method where
  "BrickMaster_set_chibi_address =
     \<lparr>m_name = ''set_chibi_address'', m_params = [''address''],
      m_function = 6, m_form = ''B'', m_form_ret = [],
      m_result = Discarded\<rparr>"

definition BrickMaster_get_chibi_address :: dev_method where
  "BrickMaster_get_chibi_address =
     \<lparr>m_name = ''get_chibi_address'', m_params = [],
      m_function = 7, m_form = [], m_form_ret = ''B'',
      m_result = Returned\<rparr>"

definition BrickMaster_set_chibi_master_address :: dev_method where
  "BrickMaster_set_chibi_master_address =
     \<lparr>m_name = ''set_chibi_master_address'', m_params = [''address''],
      m_function = 8, m_form = ''B'', m_form_ret = [],
      m_result = Discarded\<rparr>"

definition BrickMaster_get_chibi_master_address :: dev_method where
  "BrickMaster_get_chibi_master_address =
     \<lparr>m_name = ''get_chibi_master_address'', m_params = [],
      m_function = 9, m_form = [], m_form_ret = ''B'',
      m_result = Returned\<rparr>"

definition BrickMaster_set_chibi_slave_address :: dev_method where
  "BrickMaster_set_chibi_slave_address =
     \<lparr>m_name = ''set_chibi_slave_address'', m_params = [''num'', ''address''],
      m_function = 10, m_form = ''B B'', m_form_ret = [],
      m_result = Discarded\<rparr>"

definition BrickMaster_get_chibi_slave_address :: dev_method where
  "BrickMaster_get_chibi_slave_address =
     \<lparr>m_name = ''get_chibi_slave_address'', m_params = [''num''],
      m_function = 11, m_form = ''B'', m_form_ret = ''B'',
      m_result = Returned\<rparr>"

definition BrickMaster_get_chibi_signal_strength :: dev_method where
  "BrickMaster_get_chibi_signal_strength =
     \<lparr>m_name = ''get_chibi_signal_strength'', m_params = [],
      m_function = 12, m_form = [], m_form_ret = ''B'',
      m_result = Returned\<rparr>"

definition BrickMaster_get_chibi_error_log :: dev_method where
  "BrickMaster_get_chibi_error_log =
     \<lparr>m_name = ''get_chibi_error_log'', m_params = [],
      m_function = 13, m_form = [], m_form_ret = ''H H H H'',
      m_result = BrickMaster_GetChibiErrorLog\<rparr>"

definition BrickMaster_set_chibi_frequency :: dev_method where
  "BrickMaster_set_chibi_frequency =
     \<lparr>m_name = ''set_chibi_frequency'', m_params = [''frequency''],
      m_function = 14, m_form = ''B'', m_form_ret = [],
      m_result = Discarded\<rparr>"

definition BrickMaster_get_chibi_frequency :: dev_method where
  "BrickMaster_get_chibi_frequency =
     \<lparr>m_name = ''get_chibi_frequency'', m_params = [],
      m_function = 15, m_form = [], m_form_ret = ''B'',
      m_result = Returned\<rparr>"

definition BrickMaster_set_chibi_channel :: dev_method where
  "BrickMaster_set_chibi_channel =
     \<lparr>m_name = ''set_chibi_channel'', m_params = [''channel''],
      m_function = 16, m_form = ''B'', m_form_ret = [],
      m_result = Discarded\<rparr>"

definition BrickMaster_get_chibi_channel :: dev_method where
  "BrickMaster_get_chibi_channel =
     \<lparr>m_name = ''get_chibi_channel'', m_params = [],
      m_function = 17, m_form = [], m_form_ret = ''B'',
      m_result = Returned\<rparr>"

definition BrickMaster_is_rs485_present :: dev_method where
  "BrickMaster_is_rs485_present =
     \<lparr>m_name = ''is_rs485_present'', m_params = [],
      m_function = 18, m_form = [], m_form_ret = ''?'',
      m_result = Returned\<rparr>"

definition BrickMaster_set_rs485_address :: dev_method where
  "BrickMaster_set_rs485_address =
     \<lparr>m_name = ''set_rs485_address'', m_params = [''address''],
      m_function = 19, m_form = ''B'', m_form_ret = [],
      m_result = Discarded\<rparr>"

definition BrickMaster_get_rs485_address :: dev_method where
  "BrickMaster_get_rs485_address =
     \<lparr>m_name = ''get_rs485_address'', m_params = [],
      m_function = 20, m_form = [], m_form_ret = ''B'',
      m_result = Returned\<rparr>"

definition BrickMaster_set_rs485_slave_address :: dev_method where
  "BrickMaster_set_rs485_slave_address =
     \<lparr>m_name = ''set_rs485_slave_address'', m_params = [''num'', ''address''],
      m_function = 21, m_form = ''B B'', m_form_ret = [],
      m_result = Discarded\<rparr>"

definition BrickMaster_get_rs485_slave_address :: dev_method where
  "BrickMaster_get_rs485_slave_address =
     \<lparr>m_name = ''get_rs485_slave_address'', m_params = [''num''],
      m_function = 22, m_form = ''B'', m_form_ret = ''B'',
      m_result = Returned\<rparr>"

definition BrickMaster_get_rs485_error_log :: dev_method where
  "BrickMaster_get_rs485_error_log =
     \<lparr>m_name = ''get_rs485_error_log'', m_params = [],
      m_function = 23, m_form = [], m_form_ret = ''H'',
      m_result = Returned\<rparr>"

definition BrickMaster_set_rs485_configuration :: dev_method where
  "BrickMaster_set_rs485_configuration =
     \<lparr>m_name = ''set_rs485_configuration'', m_params = [''speed'', ''parity'', ''stopbits''],
      m_function = 24, m_form = ''I c B'', m_form_ret = [],
      m_result = Discarded\<rparr>"

definition BrickMaster_get_rs485_configuration :: dev_method where
  "BrickMaster_get_rs485_configuration =
     \<lparr>m_name = ''get_rs485_configuration'', m_params = [],
      m_function = 25, m_form = [], m_form_ret = ''I c B'',
      m_result = BrickMaster_GetRS485Configuration\<rparr>"

definition BrickMaster_is_wifi_present :: dev_method where
  "BrickMaster_is_wifi_present =
     \<lparr>m_name = ''is_wifi_present'', m_params = [],
      m_function = 26, m_form = [], m_form_ret = ''?'',
      m_result = Returned\<rparr>"

definition BrickMaster_set_wifi_configuration :: dev_method where
  "BrickMaster_set_wifi_configuration =
     \<lparr>m_name = ''set_wifi_configuration'', m_params = [''ssid'', ''connection'', ''ip'', ''subnet_mask'', ''gateway'', ''port''],
      m_function = 27, m_form = ''32s B 4B 4B 4B H'', m_form_ret = [],
      m_result = Discarded\<rparr>"

definition BrickMaster_get_wifi_configuration :: dev_method where
  "BrickMaster_get_wifi_configuration =
     \<lparr>m_name = ''get_wifi_configuration'', m_params = [],
      m_function = 28, m_form = [], m_form_ret = ''32s B 4B 4B 4B H'',
      m_result = BrickMaster_GetWifiConfiguration\<rparr>"

definition BrickMaster_set_wifi_encryption :: dev_method where
  "BrickMaster_set_wifi_encryption =
     \<lparr>m_name = ''set_wifi_encryption'', m_params = [''encryption'', ''key'', ''key_index'', ''eap_options'', ''ca_certificate_length'',
         ''client_certificate_length'', ''private_key_length''],
      m_function = 29, m_form = ''B 50s B B H H H'', m_form_ret = [],
      m_result = Discarded\<rparr>"

definition BrickMaster_get_wifi_encryption :: dev_method where
  "BrickMaster_get_wifi_encryption =
     \<lparr>m_name = ''get_wifi_encryption'', m_params = [],
      m_function = 30, m_form = [], m_form_ret = ''B 50s B B H H H'',
      m_result = BrickMaster_GetWifiEncryption\<rparr>"

definition BrickMaster_get_wifi_status :: dev_method where
  "BrickMaster_get_wifi_status =
     \<lparr>m_name = ''get_wifi_status'', m_params = [],
      m_function = 31, m_form = [], m_form_ret = ''6B 6B B h 4B 4B 4B I I B'',
      m_result = BrickMaster_GetWifiStatus\<rparr>"

definition BrickMaster_refresh_wifi_status :: dev_method where
  "BrickMaster_refresh_wifi_status =
     \<lparr>m_name = ''refresh_wifi_status'', m_params = [],
      m_function = 32, m_form = [], m_form_ret = [],
      m_result = Discarded\<rparr>"

definition BrickMaster_set_wifi_certificate :: dev_method where
  "BrickMaster_set_wifi_certificate =
     \<lparr>m_name = ''set_wifi_certificate'', m_params = [''index'', ''data'', ''data_length''],
      m_function = 33, m_form = ''H 32B B'', m_form_ret = [],
      m_result = Discarded\<rparr>"

definition BrickMaster_get_wifi_certificate :: dev_method where
  "BrickMaster_get_wifi_certificate =
     \<lparr>m_name = ''get_wifi_certificate'', m_params = [''index''],
      m_function = 34, m_form = ''H'', m_form_ret = ''32B B'',
      m_result = BrickMaster_GetWifiCertificate\<rparr>"

definition BrickMaster_set_wifi_power_mode :: dev_method where
  "BrickMaster_set_wifi_power_mode =
     \<lparr>m_name = ''set_wifi_power_mode'', m_params = [''mode''],
      m_function = 35, m_form = ''B'', m_form_ret = [],
      m_result = Discarded\<rparr>"

definition BrickMaster_get_wifi_power_mode :: dev_method where
  "BrickMaster_get_wifi_power_mode =
     \<lparr>m_name = ''get_wifi_power_mode'', m_params = [],
      m_function = 36, m_form = [], m_form_ret = ''B'',
      m_result = Returned\<rparr>"

definition BrickMaster_get_wifi_buffer_info :: dev_method where
  "BrickMaster_get_wifi_buffer_info =
     \<lparr>m_name = ''get_wifi_buffer_info'', m_params = [],
      m_function = 37, m_form = [], m_form_ret = ''I H H'',
      m_result = BrickMaster_GetWifiBufferInfo\<rparr>"

definition BrickMaster_set_wifi_regulatory_domain :: dev_method where
  "BrickMaster_set_wifi_regulatory_domain =
     \<lparr>m_name = ''set_wifi_regulatory_domain'', m_params = [''domain''],
      m_function = 38, m_form = ''B'', m_form_ret = [],
      m_result = Discarded\<rparr>"

definition BrickMaster_get_wifi_regulatory_domain :: dev_method where
  "BrickMaster_get_wifi_regulatory_domain =
     \<lparr>m_name = ''get_wifi_regulatory_domain'', m_params = [],
      m_function = 39, m_form = [], m_form_ret = ''B'',
      m_result = Returned\<rparr>"

definition BrickMaster_get_usb_voltage :: dev_method where
  "BrickMaster_get_usb_voltage =
     \<lparr>m_name = ''get_usb_voltage'', m_params = [],
      m_function = 40, m_form = [], m_form_ret = ''H'',
      m_result = Returned\<rparr>"

definition BrickMaster_set_long_wifi_key :: dev_method where
  "BrickMaster_set_long_wifi_key =
     \<lparr>m_name = ''set_long_wifi_key'', m_params = [''key''],
      m_function = 41, m_form = ''64s'', m_form_ret = [],
      m_result = Discarded\<rparr>"

definition BrickMaster_get_long_wifi_key :: dev_method where
  "BrickMaster_get_long_wifi_key =
     \<lparr>m_name = ''get_long_wifi_key'', m_params = [],
      m_function = 42, m_form = [], m_form_ret = ''64s'',
      m_result = Returned\<rparr>"

definition BrickMaster_set_wifi_hostname :: dev_method where
  "BrickMaster_set_wifi_hostname =
     \<lparr>m_name = ''set_wifi_hostname'', m_params = [''hostname''],
      m_function = 43, m_form = ''16s'', m_form_ret = [],
      m_result = Discarded\<rparr>"

definition BrickMaster_get_wifi_hostname :: dev_method where
  "BrickMaster_get_wifi_hostname =
     \<lparr>m_name = ''get_wifi_hostname'', m_params = [],
      m_function = 44, m_form = [], m_form_ret = ''16s'',
      m_result = Returned\<rparr>"

definition BrickMaster_set_stack_current_callback_period :: dev_method where
  "BrickMaster_set_stack_current_callback_period =
     \<lparr>m_name = ''set_stack_current_callback_period'', m_params = [''period''],
      m_function = 45, m_form = ''I'', m_form_ret = [],
      m_result = Discarded\<rparr>"

definition BrickMaster_get_stack_current_callback_period :: dev_method where
  "BrickMaster_get_stack_current_callback_period =
     \<lparr>m_name = ''get_stack_current_callback_period'', m_params = [],
      m_function = 46, m_form = [], m_form_ret = ''I'',
      m_result = Returned\<rparr>"

definition BrickMaster_set_stack_voltage_callback_period :: dev_method where
  "BrickMaster_set_stack_voltage_callback_period =
     \<lparr>m_name = ''set_stack_voltage_callback_period'', m_params = [''period''],
      m_function = 47, m_form = ''I'', m_form_ret = [],
      m_result = Discarded\<rparr>"

definition BrickMaster_get_stack_voltage_callback_period :: dev_method where
  "BrickMaster_get_stack_voltage_callback_period =
     \<lparr>m_name = ''get_stack_voltage_callback_period'', m_params = [],
      m_function = 48, m_form = [], m_form_ret = ''I'',
      m_result = Returned\<rparr>"

definition BrickMaster_set_usb_voltage_callback_period :: dev_method where
  "BrickMaster_set_usb_voltage_callback_period =
     \<lparr>m_name = ''set_usb_voltage_callback_period'', m_params = [''period''],
      m_function = 49, m_form = ''I'', m_form_ret = [],
      m_result = Discarded\<rparr>"

definition BrickMaster_get_usb_voltage_callback_period :: dev_method where
  "BrickMaster_get_usb_voltage_callback_period =
     \<lparr>m_name = ''get_usb_voltage_callback_period'', m_params = [],
      m_function = 50, m_form = [], m_form_ret = ''I'',
      m_result = Returned\<rparr>"

definition BrickMaster_set_stack_current_callback_threshold :: dev_method where
  "BrickMaster_set_stack_current_callback_threshold =
     \<lparr>m_name = ''set_stack_current_callback_threshold'', m_params = [''option'', ''min'', ''max''],
      m_function = 51, m_form = ''c H H'', m_form_ret = [],
      m_result = Discarded\<rparr>"

definition BrickMaster_get_stack_current_callback_threshold :: dev_method where
  "BrickMaster_get_stack_current_callback_threshold =
     \<lparr>m_name = ''get_stack_current_callback_threshold'', m_params = [],
      m_function = 52, m_form = [], m_form_ret = ''c H H'',
      m_result = BrickMaster_GetStackCurrentCallbackThreshold\<rparr>"

definition BrickMaster_set_stack_voltage_callback_threshold :: dev_method where
  "BrickMaster_set_stack_voltage_callback_threshold =
     \<lparr>m_name = ''set_stack_voltage_callback_threshold'', m_params = [''option'', ''min'', ''max''],
      m_function = 53, m_form = ''c H H'', m_form_ret = [],
      m_result = Discarded\<rparr>"

definition BrickMaster_get_stack_voltage_callback_threshold :: dev_method where
  "BrickMaster_get_stack_voltage_callback_threshold =
     \<lparr>m_name = ''get_stack_voltage_callback_threshold'', m_params = [],
      m_function = 54, m_form = [], m_form_ret = ''c H H'',
      m_result = BrickMaster_GetStackVoltageCallbackThreshold\<rparr>"

definition BrickMaster_set_usb_voltage_callback_threshold :: dev_method where
  "BrickMaster_set_usb_voltage_callback_threshold =
     \<lparr>m_name = ''set_usb_voltage_callback_threshold'', m_params = [''option'', ''min'', ''max''],
      m_function = 55, m_form = ''c H H'', m_form_ret = [],
      m_result = Discarded\<rparr>"

definition BrickMaster_get_usb_voltage_callback_threshold :: dev_method where
  "BrickMaster_get_usb_voltage_callback_threshold =
     \<lparr>m_name = ''get_usb_voltage_callback_threshold'', m_params = [],
      m_function = 56, m_form = [], m_form_ret = ''c H H'',
      m_result = BrickMaster_GetUSBVoltageCallbackThreshold\<rparr>"

definition BrickMaster_set_debounce_period :: dev_method where
  "BrickMaster_set_debounce_period =
     \<lparr>m_name = ''set_debounce_period'', m_params = [''debounce''],
      m_function = 57, m_form = ''I'', m_form_ret = [],
      m_result = Discarded\<rparr>"

definition BrickMaster_get_debounce_period :: dev_method where
  "BrickMaster_get_debounce_period =
     \<lparr>m_name = ''get_debounce_period'', m_params = [],
      m_function = 58, m_form = [], m_form_ret = ''I'',
      m_result = Returned\<rparr>"

definition BrickMaster_is_ethernet_present :: dev_method where
  "BrickMaster_is_ethernet_present =
     \<lparr>m_name = ''is_ethernet_present'', m_params = [],
      m_function = 65, m_form = [], m_form_ret = ''?'',
      m_result = Returned\<rparr>"

definition BrickMaster_set_ethernet_configuration :: dev_method where
  "BrickMaster_set_ethernet_configuration =
     \<lparr>m_name = ''set_ethernet_configuration'', m_params = [''connection'', ''ip'', ''subnet_mask'', ''gateway'', ''port''],
      m_function = 66, m_form = ''B 4B 4B 4B H'', m_form_ret = [],
      m_result = Discarded\<rparr>"

definition BrickMaster_get_ethernet_configuration :: dev_method where
  "BrickMaster_get_ethernet_configuration =
     \<lparr>m_name = ''get_ethernet_configuration'', m_params = [],
      m_function = 67, m_form = [], m_form_ret = ''B 4B 4B 4B H'',
      m_result = BrickMaster_GetEthernetConfiguration\<rparr>"

definition BrickMaster_get_ethernet_status :: dev_method where
  "BrickMaster_get_ethernet_status =
     \<lparr>m_name = ''get_ethernet_status'', m_params = [],
      m_function = 68, m_form = [], m_form_ret = ''6B 4B 4B 4B I I 32s'',
      m_result = BrickMaster_GetEthernetStatus\<rparr>"

definition BrickMaster_set_ethernet_hostname :: dev_method where
  "BrickMaster_set_ethernet_hostname =
     \<lparr>m_name = ''set_ethernet_hostname'', m_params = [''hostname''],
      m_function = 69, m_form = ''32s'', m_form_ret = [],
      m_result = Discarded\<rparr>"

definition BrickMaster_set_ethernet_mac_address :: dev_method where
  "BrickMaster_set_ethernet_mac_address =
     \<lparr>m_name = ''set_ethernet_mac_address'', m_params = [''mac_address''],
      m_function = 70, m_form = ''6B'', m_form_ret = [],
      m_result = Discarded\<rparr>"

definition BrickMaster_set_ethernet_websocket_configuration :: dev_method where
  "BrickMaster_set_ethernet_websocket_configuration =
     \<lparr>m_name = ''set_ethernet_websocket_configuration'', m_params = [''sockets'', ''port''],
      m_function = 71, m_form = ''B H'', m_form_ret = [],
      m_result = Discarded\<rparr>"

definition BrickMaster_get_ethernet_websocket_configuration :: dev_method where
  "BrickMaster_get_ethernet_websocket_configuration =
     \<lparr>m_name = ''get_ethernet_websocket_configuration'', m_params = [],
      m_function = 72, m_form = [], m_form_ret = ''B H'',
      m_result = BrickMaster_GetEthernetWebsocketConfiguration\<rparr>"

definition BrickMaster_set_ethernet_authentication_secret :: dev_method where
  "BrickMaster_set_ethernet_authentication_secret =
     \<lparr>m_name = ''set_ethernet_authentication_secret'', m_params = [''secret''],
      m_function = 73, m_form = ''64s'', m_form_ret = [],
      m_result = Discarded\<rparr>"

definition BrickMaster_get_ethernet_authentication_secret :: dev_method where
  "BrickMaster_get_ethernet_authentication_secret =
     \<lparr>m_name = ''get_ethernet_authentication_secret'', m_params = [],
      m_function = 74, m_form = [], m_form_ret = ''64s'',
      m_result = Returned\<rparr>"

definition BrickMaster_set_wifi_authentication_secret :: dev_method where
  "BrickMaster_set_wifi_authentication_secret =
     \<lparr>m_name = ''set_wifi_authentication_secret'', m_params = [''secret''],
      m_function = 75, m_form = ''64s'', m_form_ret = [],
      m_result = Discarded\<rparr>"

definition BrickMaster_get_wifi_authentication_secret :: dev_method where
  "BrickMaster_get_wifi_authentication_secret =
     \<lparr>m_name = ''get_wifi_authentication_secret'', m_params = [],
      m_function = 76, m_form = [], m_form_ret = ''64s'',
      m_result = Returned\<rparr>"

definition BrickMaster_enable_status_led :: dev_method where
  "BrickMaster_enable_status_led =
     \<lparr>m_name = ''enable_status_led'', m_params = [],
      m_function = 238, m_form = [], m_form_ret = [],
      m_result = Discarded\<rparr>"

definition BrickMaster_disable_status_led :: dev_method where
  "BrickMaster_disable_status_led =
     \<lparr>m_name = ''disable_status_led'', m_params = [],
      m_function = 239, m_form = [], m_form_ret = [],
      m_result = Discarded\<rparr>"

definition BrickMaster_is_status_led_enabled :: dev_method where
  "BrickMaster_is_status_led_enabled =
     \<lparr>m_name = ''is_status_led_enabled'', m_params = [],
      m_function = 240, m_form = [], m_form_ret = ''?'',
      m_result = Returned\<rparr>"

definition BrickMaster_get_protocol1_bricklet_name :: dev_method where
  "BrickMaster_get_protocol1_bricklet_name =
     \<lparr>m_name = ''get_protocol1_bricklet_name'', m_params = [''port''],
      m_function = 241, m_form = ''c'', m_form_ret = ''B 3B 40s'',
      m_result = BrickMaster_GetProtocol1BrickletName\<rparr>"

definition BrickMaster_get_chip_temperature :: dev_method where
  "BrickMaster_get_chip_temperature =
     \<lparr>m_name = ''get_chip_temperature'', m_params = [],
      m_function = 242, m_form = [], m_form_ret = ''h'',
      m_result = Returned\<rparr>"

definition BrickMaster_reset :: dev_method where
  "BrickMaster_reset =
     \<lparr>m_name = ''reset'', m_params = [],
      m_function = 243, m_form = [], m_form_ret = [],
      m_result = Discarded\<rparr>"

definition BrickMaster_get_identity :: dev_method where
  "BrickMaster_get_identity =
     \<lparr>m_name = ''get_identity'', m_params = [],
      m_function = 255, m_form = [], m_form_ret = ''8s 8s c 3B 3B H'',
      m_result = BrickMaster_GetIdentity\<rparr>"

definition BrickMaster :: binding where
  "BrickMaster =
     \<lparr>b_class = ''BrickMaster'', b_identifier = 13, b_ids = BrickMaster_ids,
      b_api_version = (2, 0, 3), b_flags = BrickMaster_flags, b_formats = BrickMaster_formats,
      b_methods =
       [BrickMaster_get_stack_voltage, BrickMaster_get_stack_current,
        BrickMaster_set_extension_type, BrickMaster_get_extension_type,
        BrickMaster_is_chibi_present, BrickMaster_set_chibi_address, BrickMaster_get_chibi_address,
        BrickMaster_set_chibi_master_address, BrickMaster_get_chibi_master_address,
        BrickMaster_set_chibi_slave_address, BrickMaster_get_chibi_slave_address,
        BrickMaster_get_chibi_signal_strength, BrickMaster_get_chibi_error_log,
        BrickMaster_set_chibi_frequency, BrickMaster_get_chibi_frequency,
        BrickMaster_set_chibi_channel, BrickMaster_get_chibi_channel, BrickMaster_is_rs485_present,
        BrickMaster_set_rs485_address, BrickMaster_get_rs485_address,
        BrickMaster_set_rs485_slave_address, BrickMaster_get_rs485_slave_address,
        BrickMaster_get_rs485_error_log, BrickMaster_set_rs485_configuration,
        BrickMaster_get_rs485_configuration, BrickMaster_is_wifi_present,
        BrickMaster_set_wifi_configuration, BrickMaster_get_wifi_configuration,
        BrickMaster_set_wifi_encryption, BrickMaster_get_wifi_encryption,
        BrickMaster_get_wifi_status, BrickMaster_refresh_wifi_status,
        BrickMaster_set_wifi_certificate, BrickMaster_get_wifi_certificate,
        BrickMaster_set_wifi_power_mode, BrickMaster_get_wifi_power_mode,
        BrickMaster_get_wifi_buffer_info, BrickMaster_set_wifi_regulatory_domain,
        BrickMaster_get_wifi_regulatory_domain, BrickMaster_get_usb_voltage,
        BrickMaster_set_long_wifi_key, BrickMaster_get_long_wifi_key,
        BrickMaster_set_wifi_hostname, BrickMaster_get_wifi_hostname,
        BrickMaster_set_stack_current_callback_period,
        BrickMaster_get_stack_current_callback_period,
        BrickMaster_set_stack_voltage_callback_period,
        BrickMaster_get_stack_voltage_callback_period, BrickMaster_set_usb_voltage_callback_period,
        BrickMaster_get_usb_voltage_callback_period,
        BrickMaster_set_stack_current_callback_threshold,
        BrickMaster_get_stack_current_callback_threshold,
        BrickMaster_set_stack_voltage_callback_threshold,
        BrickMaster_get_stack_voltage_callback_threshold,
        BrickMaster_set_usb_voltage_callback_threshold,
        BrickMaster_get_usb_voltage_callback_threshold, BrickMaster_set_debounce_period,
        BrickMaster_get_debounce_period, BrickMaster_is_ethernet_present,
        BrickMaster_set_ethernet_configuration, BrickMaster_get_ethernet_configuration,
        BrickMaster_get_ethernet_status, BrickMaster_set_ethernet_hostname,
        BrickMaster_set_ethernet_mac_address, BrickMaster_set_ethernet_websocket_configuration,
        BrickMaster_get_ethernet_websocket_configuration,
        BrickMaster_set_ethernet_authentication_secret,
        BrickMaster_get_ethernet_authentication_secret, BrickMaster_set_wifi_authentication_secret,
        BrickMaster_get_wifi_authentication_secret, BrickMaster_enable_status_led,
        BrickMaster_disable_status_led, BrickMaster_is_status_led_enabled,
        BrickMaster_get_protocol1_bricklet_name, BrickMaster_get_chip_temperature,
        BrickMaster_reset, BrickMaster_get_identity]\<rparr>"

interpretation Master: device_class BrickMaster
  by unfold_locales code_simp

end
