(* ===== verification/Brick_RED_Class.thy ===== *)
theory Brick_RED_Class
  imports Bindings
begin

text \<open>
  The device classes of the RED Brick. For each class: its
  named tuples, its constants, the assignments of its constructor, one definition per
  method, and the class itself, on which \<open>device_class\<close> is interpreted.
\<close>

section \<open>The class BrickRED (\<^verbatim>\<open>brick_red.py\<close>)\<close>

definition BrickRED_CreateSession :: shape where
  "BrickRED_CreateSession = Named ''CreateSession''
     [''error_code'', ''session_id'']"

definition BrickRED_AllocateString :: shape where
  "BrickRED_AllocateString = Named ''AllocateString''
     [''error_code'', ''string_id'']"

definition BrickRED_GetStringLength :: shape where
  "BrickRED_GetStringLength = Named ''StringLength''
     [''error_code'', ''length'']"

definition BrickRED_GetStringChunk :: shape where
  "BrickRED_GetStringChunk = Named ''StringChunk''
     [''error_code'', ''buffer'']"

definition BrickRED_AllocateList :: shape where
  "BrickRED_AllocateList = Named ''AllocateList''
     [''error_code'', ''list_id'']"

definition BrickRED_GetListLength :: shape where
  "BrickRED_GetListLength = Named ''ListLength''
     [''error_code'', ''length'']"

definition BrickRED_GetListItem :: shape where
  "BrickRED_GetListItem = Named ''ListItem''
     [''error_code'', ''item_object_id'', ''type'']"

definition BrickRED_OpenFile :: shape where
  "BrickRED_OpenFile = Named ''OpenFile''
     [''error_code'', ''file_id'']"

definition BrickRED_CreatePipe :: shape where
  "BrickRED_CreatePipe = Named ''CreatePipe''
     [''error_code'', ''file_id'']"

definition BrickRED_GetFileInfo :: shape where
  "BrickRED_GetFileInfo = Named ''FileInfo''
     [''error_code'', ''type'', ''name_string_id'', ''flags'', ''permissions'', ''uid'', ''gid'',
      ''length'', ''access_timestamp'', ''modification_timestamp'', ''status_change_timestamp'']"

definition BrickRED_ReadFile :: shape where
  "BrickRED_ReadFile = Named ''ReadFile''
     [''error_code'', ''buffer'', ''length_read'']"

definition BrickRED_WriteFile :: shape where
  "BrickRED_WriteFile = Named ''WriteFile''
     [''error_code'', ''length_written'']"

definition BrickRED_SetFilePosition :: shape where
  "BrickRED_SetFilePosition = Named ''SetFilePosition''
     [''error_code'', ''position'']"

definition BrickRED_GetFilePosition :: shape where
  "BrickRED_GetFilePosition = Named ''FilePosition''
     [''error_code'', ''position'']"

definition BrickRED_GetFileEvents :: shape where
  "BrickRED_GetFileEvents = Named ''FileEvents''
     [''error_code'', ''events'']"

definition BrickRED_OpenDirectory :: shape where
  "BrickRED_OpenDirectory = Named ''OpenDirectory''
     [''error_code'', ''directory_id'']"

definition BrickRED_GetDirectoryName :: shape where
  "BrickRED_GetDirectoryName = Named ''DirectoryName''
     [''error_code'', ''name_string_id'']"

definition BrickRED_GetNextDirectoryEntry :: shape where
  "BrickRED_GetNextDirectoryEntry = Named ''NextDirectoryEntry''
     [''error_code'', ''name_string_id'', ''type'']"

definition BrickRED_GetProcesses :: shape where
  "BrickRED_GetProcesses = Named ''Processes''
     [''error_code'', ''processes_list_id'']"

definition BrickRED_SpawnProcess :: shape where
  "BrickRED_SpawnProcess = Named ''SpawnProcess''
     [''error_code'', ''process_id'']"

definition BrickRED_GetProcessCommand :: shape where
  "BrickRED_GetProcessCommand = Named ''ProcessCommand''
     [''error_code'', ''executable_string_id'', ''arguments_list_id'', ''environment_list_id'',
      ''working_directory_string_id'']"

definition BrickRED_GetProcessIdentity :: shape where
  "BrickRED_GetProcessIdentity = Named ''ProcessIdentity''
     [''error_code'', ''pid'', ''uid'', ''gid'']"

definition BrickRED_GetProcessStdio :: shape where
  "BrickRED_GetProcessStdio = Named ''ProcessStdio''
     [''error_code'', ''stdin_file_id'', ''stdout_file_id'', ''stderr_file_id'']"

definition BrickRED_GetProcessState :: shape where
  "BrickRED_GetProcessState = Named ''ProcessState''
     [''error_code'', ''state'', ''timestamp'', ''exit_code'']"

definition BrickRED_GetPrograms :: shape where
  "BrickRED_GetPrograms = Named ''Programs''
     [''error_code'', ''programs_list_id'']"

definition BrickRED_DefineProgram :: shape where
  "BrickRED_DefineProgram = Named ''DefineProgram''
     [''error_code'', ''program_id'']"

definition BrickRED_GetProgramIdentifier :: shape where
  "BrickRED_GetProgramIdentifier = Named ''ProgramIdentifier''
     [''error_code'', ''identifier_string_id'']"

definition BrickRED_GetProgramRootDirectory :: shape where
  "BrickRED_GetProgramRootDirectory = Named ''ProgramRootDirectory''
     [''error_code'', ''root_directory_string_id'']"

definition BrickRED_GetProgramCommand :: shape where
  "BrickRED_GetProgramCommand = Named ''ProgramCommand''
     [''error_code'', ''executable_string_id'', ''arguments_list_id'', ''environment_list_id'',
      ''working_directory_string_id'']"

definition BrickRED_GetProgramStdioRedirection :: shape where
  "BrickRED_GetProgramStdioRedirection = Named ''ProgramStdioRedirection''
     [''error_code'', ''stdin_redirection'', ''stdin_file_name_string_id'', ''stdout_redirection'',
      ''stdout_file_name_string_id'', ''stderr_redirection'', ''stderr_file_name_string_id'']"

definition BrickRED_GetProgramSchedule :: shape where
  "BrickRED_GetProgramSchedule = Named ''ProgramSchedule''
     [''error_code'', ''start_mode'', ''continue_after_error'', ''start_interval'',
      ''start_fields_string_id'']"

definition BrickRED_GetProgramSchedulerState :: shape where
  "BrickRED_GetProgramSchedulerState = Named ''ProgramSchedulerState''
     [''error_code'', ''state'', ''timestamp'', ''message_string_id'']"

definition BrickRED_GetLastSpawnedProgramProcess :: shape where
  "BrickRED_GetLastSpawnedProgramProcess = Named ''LastSpawnedProgramProcess''
     [''error_code'', ''process_id'', ''timestamp'']"

definition BrickRED_GetCustomProgramOptionNames :: shape where
  "BrickRED_GetCustomProgramOptionNames = Named ''CustomProgramOptionNames''
     [''error_code'', ''names_list_id'']"

definition BrickRED_GetCustomProgramOptionValue :: shape where
  "BrickRED_GetCustomProgramOptionValue = Named ''CustomProgramOptionValue''
     [''error_code'', ''value_string_id'']"

definition BrickRED_GetIdentity :: shape where
  "BrickRED_GetIdentity = Named ''Identity''
     [''uid'', ''connected_uid'', ''position'', ''hardware_version'', ''firmware_version'',
      ''device_identifier'']"

definition BrickRED_ids :: "(string \<times> int) list" where
  "BrickRED_ids =
     [(''CALLBACK_ASYNC_FILE_READ'', 30), (''CALLBACK_ASYNC_FILE_WRITE'', 31),
      (''CALLBACK_FILE_EVENTS_OCCURRED'', 32), (''CALLBACK_PROCESS_STATE_CHANGED'', 45),
      (''CALLBACK_PROGRAM_SCHEDULER_STATE_CHANGED'', 65),
      (''CALLBACK_PROGRAM_PROCESS_SPAWNED'', 66), (''FUNCTION_CREATE_SESSION'', 1),
      (''FUNCTION_EXPIRE_SESSION'', 2), (''FUNCTION_EXPIRE_SESSION_UNCHECKED'', 3),
      (''FUNCTION_KEEP_SESSION_ALIVE'', 4), (''FUNCTION_RELEASE_OBJECT'', 5),
      (''FUNCTION_RELEASE_OBJECT_UNCHECKED'', 6), (''FUNCTION_ALLOCATE_STRING'', 7),
      (''FUNCTION_TRUNCATE_STRING'', 8), (''FUNCTION_GET_STRING_LENGTH'', 9),
      (''FUNCTION_SET_STRING_CHUNK'', 10), (''FUNCTION_GET_STRING_CHUNK'', 11),
      (''FUNCTION_ALLOCATE_LIST'', 12), (''FUNCTION_GET_LIST_LENGTH'', 13),
      (''FUNCTION_GET_LIST_ITEM'', 14), (''FUNCTION_APPEND_TO_LIST'', 15),
      (''FUNCTION_REMOVE_FROM_LIST'', 16), (''FUNCTION_OPEN_FILE'', 17),
      (''FUNCTION_CREATE_PIPE'', 18), (''FUNCTION_GET_FILE_INFO'', 19),
      (''FUNCTION_READ_FILE'', 20), (''FUNCTION_READ_FILE_ASYNC'', 21),
      (''FUNCTION_ABORT_ASYNC_FILE_READ'', 22), (''FUNCTION_WRITE_FILE'', 23),
      (''FUNCTION_WRITE_FILE_UNCHECKED'', 24), (''FUNCTION_WRITE_FILE_ASYNC'', 25),
      (''FUNCTION_SET_FILE_POSITION'', 26), (''FUNCTION_GET_FILE_POSITION'', 27),
      (''FUNCTION_SET_FILE_EVENTS'', 28), (''FUNCTION_GET_FILE_EVENTS'', 29),
      (''FUNCTION_OPEN_DIRECTORY'', 33), (''FUNCTION_GET_DIRECTORY_NAME'', 34),
      (''FUNCTION_GET_NEXT_DIRECTORY_ENTRY'', 35), (''FUNCTION_REWIND_DIRECTORY'', 36),
      (''FUNCTION_CREATE_DIRECTORY'', 37), (''FUNCTION_GET_PROCESSES'', 38),
      (''FUNCTION_SPAWN_PROCESS'', 39), (''FUNCTION_KILL_PROCESS'', 40),
      (''FUNCTION_GET_PROCESS_COMMAND'', 41), (''FUNCTION_GET_PROCESS_IDENTITY'', 42),
      (''FUNCTION_GET_PROCESS_STDIO'', 43), (''FUNCTION_GET_PROCESS_STATE'', 44),
      (''FUNCTION_GET_PROGRAMS'', 46), (''FUNCTION_DEFINE_PROGRAM'', 47),
      (''FUNCTION_PURGE_PROGRAM'', 48), (''FUNCTION_GET_PROGRAM_IDENTIFIER'', 49),
      (''FUNCTION_GET_PROGRAM_ROOT_DIRECTORY'', 50), (''FUNCTION_SET_PROGRAM_COMMAND'', 51),
      (''FUNCTION_GET_PROGRAM_COMMAND'', 52), (''FUNCTION_SET_PROGRAM_STDIO_REDIRECTION'', 53),
      (''FUNCTION_GET_PROGRAM_STDIO_REDIRECTION'', 54), (''FUNCTION_SET_PROGRAM_SCHEDULE'', 55),
      (''FUNCTION_GET_PROGRAM_SCHEDULE'', 56), (''FUNCTION_GET_PROGRAM_SCHEDULER_STATE'', 57),
      (''FUNCTION_CONTINUE_PROGRAM_SCHEDULE'', 58), (''FUNCTION_START_PROGRAM'', 59),
      (''FUNCTION_GET_LAST_SPAWNED_PROGRAM_PROCESS'', 60),
      (''FUNCTION_GET_CUSTOM_PROGRAM_OPTION_NAMES'', 61),
      (''FUNCTION_SET_CUSTOM_PROGRAM_OPTION_VALUE'', 62),
      (''FUNCTION_GET_CUSTOM_PROGRAM_OPTION_VALUE'', 63),
      (''FUNCTION_REMOVE_CUSTOM_PROGRAM_OPTION'', 64), (''FUNCTION_GET_IDENTITY'', 255)]"

definition BrickRED_flags :: "(int \<times> resp_flag) list" where
  "BrickRED_flags =
     [(1, ALWAYS_TRUE), (2, ALWAYS_TRUE), (3, RE_FALSE), (4, ALWAYS_TRUE), (5, ALWAYS_TRUE),
      (6, RE_FALSE), (7, ALWAYS_TRUE), (8, ALWAYS_TRUE), (9, ALWAYS_TRUE), (10, ALWAYS_TRUE),
      (11, ALWAYS_TRUE), (12, ALWAYS_TRUE), (13, ALWAYS_TRUE), (14, ALWAYS_TRUE),
      (15, ALWAYS_TRUE), (16, ALWAYS_TRUE), (17, ALWAYS_TRUE), (18, ALWAYS_TRUE),
      (19, ALWAYS_TRUE), (20, ALWAYS_TRUE), (21, RE_FALSE), (22, ALWAYS_TRUE), (23, ALWAYS_TRUE),
      (24, RE_FALSE), (25, RE_FALSE), (26, ALWAYS_TRUE), (27, ALWAYS_TRUE), (28, ALWAYS_TRUE),
      (29, ALWAYS_TRUE), (30, ALWAYS_FALSE), (31, ALWAYS_FALSE), (32, ALWAYS_FALSE),
      (33, ALWAYS_TRUE), (34, ALWAYS_TRUE), (35, ALWAYS_TRUE), (36, ALWAYS_TRUE),
      (37, ALWAYS_TRUE), (38, ALWAYS_TRUE), (39, ALWAYS_TRUE), (40, ALWAYS_TRUE),
      (41, ALWAYS_TRUE), (42, ALWAYS_TRUE), (43, ALWAYS_TRUE), (44, ALWAYS_TRUE),
      (45, ALWAYS_FALSE), (46, ALWAYS_TRUE), (47, ALWAYS_TRUE), (48, ALWAYS_TRUE),
      (49, ALWAYS_TRUE), (50, ALWAYS_TRUE), (51, ALWAYS_TRUE), (52, ALWAYS_TRUE),
      (53, ALWAYS_TRUE), (54, ALWAYS_TRUE), (55, ALWAYS_TRUE), (56, ALWAYS_TRUE),
      (57, ALWAYS_TRUE), (58, ALWAYS_TRUE), (59, ALWAYS_TRUE), (60, ALWAYS_TRUE),
      (61, ALWAYS_TRUE), (62, ALWAYS_TRUE), (63, ALWAYS_TRUE), (64, ALWAYS_TRUE),
      (65, ALWAYS_FALSE), (66, ALWAYS_FALSE), (255, ALWAYS_TRUE)]"

definition BrickRED_formats :: "(int \<times> string) list" where
  "BrickRED_formats =
     [(30, ''H B 60B B''), (31, ''H B B''), (32, ''H H''), (45, ''H B Q B''), (65, ''H''),
      (66, ''H'')]"

definition BrickRED_create_session :: dev_method where
  "BrickRED_create_session =
     \<lparr>m_name = ''create_session'', m_params = [''lifetime''],
      m_function = 1, m_form = ''I'', m_form_ret = ''B H'',
      m_result = BrickRED_CreateSession\<rparr>"

definition BrickRED_expire_session :: dev_method where
  "BrickRED_expire_session =
     \<lparr>m_name = ''expire_session'', m_params = [''session_id''],
      m_function = 2, m_form = ''H'', m_form_ret = ''B'',
      m_result = Returned\<rparr>"

definition BrickRED_expire_session_unchecked :: dev_method where
  "BrickRED_expire_session_unchecked =
     \<lparr>m_name = ''expire_session_unchecked'', m_params = [''session_id''],
      m_function = 3, m_form = ''H'', m_form_ret = [],
      m_result = Discarded\<rparr>"

definition BrickRED_keep_session_alive :: dev_method where
  "BrickRED_keep_session_alive =
     \<lparr>m_name = ''keep_session_alive'', m_params = [''session_id'', ''lifetime''],
      m_function = 4, m_form = ''H I'', m_form_ret = ''B'',
      m_result = Returned\<rparr>"

definition BrickRED_release_object :: dev_method where
  "BrickRED_release_object =
     \<lparr>m_name = ''release_object'', m_params = [''object_id'', ''session_id''],
      m_function = 5, m_form = ''H H'', m_form_ret = ''B'',
      m_result = Returned\<rparr>"

definition BrickRED_release_object_unchecked :: dev_method where
  "BrickRED_release_object_unchecked =
     \<lparr>m_name = ''release_object_unchecked'', m_params = [''object_id'', ''session_id''],
      m_function = 6, m_form = ''H H'', m_form_ret = [],
      m_result = Discarded\<rparr>"

definition BrickRED_allocate_string :: dev_method where
  "BrickRED_allocate_string =
     \<lparr>m_name = ''allocate_string'', m_params = [''length_to_reserve'', ''buffer'', ''session_id''],
      m_function = 7, m_form = ''I 58s H'', m_form_ret = ''B H'',
      m_result = BrickRED_AllocateString\<rparr>"

definition BrickRED_truncate_string :: dev_method where
  "BrickRED_truncate_string =
     \<lparr>m_name = ''truncate_string'', m_params = [''string_id'', ''length''],
      m_function = 8, m_form = ''H I'', m_form_ret = ''B'',
      m_result = Returned\<rparr>"

definition BrickRED_get_string_length :: dev_method where
  "BrickRED_get_string_length =
     \<lparr>m_name = ''get_string_length'', m_params = [''string_id''],
      m_function = 9, m_form = ''H'', m_form_ret = ''B I'',
      m_result = BrickRED_GetStringLength\<rparr>"

definition BrickRED_set_string_chunk :: dev_method where
  "BrickRED_set_string_chunk =
     \<lparr>m_name = ''set_string_chunk'', m_params = [''string_id'', ''offset'', ''buffer''],
      m_function = 10, m_form = ''H I 58s'', m_form_ret = ''B'',
      m_result = Returned\<rparr>"

definition BrickRED_get_string_chunk :: dev_method where
  "BrickRED_get_string_chunk =
     \<lparr>m_name = ''get_string_chunk'', m_params = [''string_id'', ''offset''],
      m_function = 11, m_form = ''H I'', m_form_ret = ''B 63s'',
      m_result = BrickRED_GetStringChunk\<rparr>"

definition BrickRED_allocate_list :: dev_method where
  "BrickRED_allocate_list =
     \<lparr>m_name = ''allocate_list'', m_params = [''length_to_reserve'', ''session_id''],
      m_function = 12, m_form = ''H H'', m_form_ret = ''B H'',
      m_result = BrickRED_AllocateList\<rparr>"

definition BrickRED_get_list_length :: dev_method where
  "BrickRED_get_list_length =
     \<lparr>m_name = ''get_list_length'', m_params = [''list_id''],
      m_function = 13, m_form = ''H'', m_form_ret = ''B H'',
      m_result = BrickRED_GetListLength\<rparr>"

definition BrickRED_get_list_item :: dev_method where
  "BrickRED_get_list_item =
     \<lparr>m_name = ''get_list_item'', m_params = [''list_id'', ''index'', ''session_id''],
      m_function = 14, m_form = ''H H H'', m_form_ret = ''B H B'',
      m_result = BrickRED_GetListItem\<rparr>"

definition BrickRED_append_to_list :: dev_method where
  "BrickRED_append_to_list =
     \<lparr>m_name = ''append_to_list'', m_params = [''list_id'', ''item_object_id''],
      m_function = 15, m_form = ''H H'', m_form_ret = ''B'',
      m_result = Returned\<rparr>"

definition BrickRED_remove_from_list :: dev_method where
  "BrickRED_remove_from_list =
     \<lparr>m_name = ''remove_from_list'', m_params = [''list_id'', ''index''],
      m_function = 16, m_form = ''H H'', m_form_ret = ''B'',
      m_result = Returned\<rparr>"

definition BrickRED_open_file :: dev_method where
  "BrickRED_open_file =
     \<lparr>m_name = ''open_file'', m_params = [''name_string_id'', ''flags'', ''permissions'', ''uid'', ''gid'', ''session_id''],
      m_function = 17, m_form = ''H I H I I H'', m_form_ret = ''B H'',
      m_result = BrickRED_OpenFile\<rparr>"

definition BrickRED_create_pipe :: dev_method where
  "BrickRED_create_pipe =
     \<lparr>m_name = ''create_pipe'', m_params = [''flags'', ''length'', ''session_id''],
      m_function = 18, m_form = ''I Q H'', m_form_ret = ''B H'',
      m_result = BrickRED_CreatePipe\<rparr>"

definition BrickRED_get_file_info :: dev_method where
  "BrickRED_get_file_info =
     \<lparr>m_name = ''get_file_info'', m_params = [''file_id'', ''session_id''],
      m_function = 19, m_form = ''H H'', m_form_ret = ''B B H I H I I Q Q Q Q'',
      m_result = BrickRED_GetFileInfo\<rparr>"

definition BrickRED_read_file :: dev_method where
  "BrickRED_read_file =
     \<lparr>m_name = ''read_file'', m_params = [''file_id'', ''length_to_read''],
      m_function = 20, m_form = ''H B'', m_form_ret = ''B 62B B'',
      m_result = BrickRED_ReadFile\<rparr>"

definition BrickRED_read_file_async :: dev_method where
  "BrickRED_read_file_async =
     \<lparr>m_name = ''read_file_async'', m_params = [''file_id'', ''length_to_read''],
      m_function = 21, m_form = ''H Q'', m_form_ret = [],
      m_result = Discarded\<rparr>"

definition BrickRED_abort_async_file_read :: dev_method where
  "BrickRED_abort_async_file_read =
     \<lparr>m_name = ''abort_async_file_read'', m_params = [''file_id''],
      m_function = 22, m_form = ''H'', m_form_ret = ''B'',
      m_result = Returned\<rparr>"

definition BrickRED_write_file :: dev_method where
  "BrickRED_write_file =
     \<lparr>m_name = ''write_file'', m_params = [''file_id'', ''buffer'', ''length_to_write''],
      m_function = 23, m_form = ''H 61B B'', m_form_ret = ''B B'',
      m_result = BrickRED_WriteFile\<rparr>"

definition BrickRED_write_file_unchecked :: dev_method where
  "BrickRED_write_file_unchecked =
     \<lparr>m_name = ''write_file_unchecked'', m_params = [''file_id'', ''buffer'', ''length_to_write''],
      m_function = 24, m_form = ''H 61B B'', m_form_ret = [],
      m_result = Discarded\<rparr>"

definition BrickRED_write_file_async :: dev_method where
  "BrickRED_write_file_async =
     \<lparr>m_name = ''write_file_async'', m_params = [''file_id'', ''buffer'', ''length_to_write''],
      m_function = 25, m_form = ''H 61B B'', m_form_ret = [],
      m_result = Discarded\<rparr>"

definition BrickRED_set_file_position :: dev_method where
  "BrickRED_set_file_position =
     \<lparr>m_name = ''set_file_position'', m_params = [''file_id'', ''offset'', ''origin''],
      m_function = 26, m_form = ''H q B'', m_form_ret = ''B Q'',
      m_result = BrickRED_SetFilePosition\<rparr>"

definition BrickRED_get_file_position :: dev_method where
  "BrickRED_get_file_position =
     \<lparr>m_name = ''get_file_position'', m_params = [''file_id''],
      m_function = 27, m_form = ''H'', m_form_ret = ''B Q'',
      m_result = BrickRED_GetFilePosition\<rparr>"

definition BrickRED_set_file_events :: dev_method where
  "BrickRED_set_file_events =
     \<lparr>m_name = ''set_file_events'', m_params = [''file_id'', ''events''],
      m_function = 28, m_form = ''H H'', m_form_ret = ''B'',
      m_result = Returned\<rparr>"

definition BrickRED_get_file_events :: dev_method where
  "BrickRED_get_file_events =
     \<lparr>m_name = ''get_file_events'', m_params = [''file_id''],
      m_function = 29, m_form = ''H'', m_form_ret = ''B H'',
      m_result = BrickRED_GetFileEvents\<rparr>"

definition BrickRED_open_directory :: dev_method where
  "BrickRED_open_directory =
     \<lparr>m_name = ''open_directory'', m_params = [''name_string_id'', ''session_id''],
      m_function = 33, m_form = ''H H'', m_form_ret = ''B H'',
      m_result = BrickRED_OpenDirectory\<rparr>"

definition BrickRED_get_directory_name :: dev_method where
  "BrickRED_get_directory_name =
     \<lparr>m_name = ''get_directory_name'', m_params = [''directory_id'', ''session_id''],
      m_function = 34, m_form = ''H H'', m_form_ret = ''B H'',
      m_result = BrickRED_GetDirectoryName\<rparr>"

definition BrickRED_get_next_directory_entry :: dev_method where
  "BrickRED_get_next_directory_entry =
     \<lparr>m_name = ''get_next_directory_entry'', m_params = [''directory_id'', ''session_id''],
      m_function = 35, m_form = ''H H'', m_form_ret = ''B H B'',
      m_result = BrickRED_GetNextDirectoryEntry\<rparr>"

definition BrickRED_rewind_directory :: dev_method where
  "BrickRED_rewind_directory =
     \<lparr>m_name = ''rewind_directory'', m_params = [''directory_id''],
      m_function = 36, m_form = ''H'', m_form_ret = ''B'',
      m_result = Returned\<rparr>"

definition BrickRED_create_directory :: dev_method where
  "BrickRED_create_directory =
     \<lparr>m_name = ''create_directory'', m_params = [''name_string_id'', ''flags'', ''permissions'', ''uid'', ''gid''],
      m_function = 37, m_form = ''H I H I I'', m_form_ret = ''B'',
      m_result = Returned\<rparr>"

definition BrickRED_get_processes :: dev_method where
  "BrickRED_get_processes =
     \<lparr>m_name = ''get_processes'', m_params = [''session_id''],
      m_function = 38, m_form = ''H'', m_form_ret = ''B H'',
      m_result = BrickRED_GetProcesses\<rparr>"

definition BrickRED_spawn_process :: dev_method where
  "BrickRED_spawn_process =
     \<lparr>m_name = ''spawn_process'', m_params = [''executable_string_id'', ''arguments_list_id'', ''environment_list_id'',
         ''working_directory_string_id'', ''uid'', ''gid'', ''stdin_file_id'', ''stdout_file_id'',
         ''stderr_file_id'', ''session_id''],
      m_function = 39, m_form = ''H H H H I I H H H H'', m_form_ret = ''B H'',
      m_result = BrickRED_SpawnProcess\<rparr>"

definition BrickRED_kill_process :: dev_method where
  "BrickRED_kill_process =
     \<lparr>m_name = ''kill_process'', m_params = [''process_id'', ''signal''],
      m_function = 40, m_form = ''H B'', m_form_ret = ''B'',
      m_result = Returned\<rparr>"

definition BrickRED_get_process_command :: dev_method where
  "BrickRED_get_process_command =
     \<lparr>m_name = ''get_process_command'', m_params = [''process_id'', ''session_id''],
      m_function = 41, m_form = ''H H'', m_form_ret = ''B H H H H'',
      m_result = BrickRED_GetProcessCommand\<rparr>"

definition BrickRED_get_process_identity :: dev_method where
  "BrickRED_get_process_identity =
     \<lparr>m_name = ''get_process_identity'', m_params = [''process_id''],
      m_function = 42, m_form = ''H'', m_form_ret = ''B I I I'',
      m_result = BrickRED_GetProcessIdentity\<rparr>"

definition BrickRED_get_process_stdio :: dev_method where
  "BrickRED_get_process_stdio =
     \<lparr>m_name = ''get_process_stdio'', m_params = [''process_id'', ''session_id''],
      m_function = 43, m_form = ''H H'', m_form_ret = ''B H H H'',
      m_result = BrickRED_GetProcessStdio\<rparr>"

definition BrickRED_get_process_state :: dev_method where
  "BrickRED_get_process_state =
     \<lparr>m_name = ''get_process_state'', m_params = [''process_id''],
      m_function = 44, m_form = ''H'', m_form_ret = ''B B Q B'',
      m_result = BrickRED_GetProcessState\<rparr>"

definition BrickRED_get_programs :: dev_method where
  "BrickRED_get_programs =
     \<lparr>m_name = ''get_programs'', m_params = [''session_id''],
      m_function = 46, m_form = ''H'', m_form_ret = ''B H'',
      m_result = BrickRED_GetPrograms\<rparr>"

definition BrickRED_define_program :: dev_method where
  "BrickRED_define_program =
     \<lparr>m_name = ''define_program'', m_params = [''identifier_string_id'', ''session_id''],
      m_function = 47, m_form = ''H H'', m_form_ret = ''B H'',
      m_result = BrickRED_DefineProgram\<rparr>"

definition BrickRED_purge_program :: dev_method where
  "BrickRED_purge_program =
     \<lparr>m_name = ''purge_program'', m_params = [''program_id'', ''cookie''],
      m_function = 48, m_form = ''H I'', m_form_ret = ''B'',
      m_result = Returned\<rparr>"

definition BrickRED_get_program_identifier :: dev_method where
  "BrickRED_get_program_identifier =
     \<lparr>m_name = ''get_program_identifier'', m_params = [''program_id'', ''session_id''],
      m_function = 49, m_form = ''H H'', m_form_ret = ''B H'',
      m_result = BrickRED_GetProgramIdentifier\<rparr>"

definition BrickRED_get_program_root_directory :: dev_method where
  "BrickRED_get_program_root_directory =
     \<lparr>m_name = ''get_program_root_directory'', m_params = [''program_id'', ''session_id''],
      m_function = 50, m_form = ''H H'', m_form_ret = ''B H'',
      m_result = BrickRED_GetProgramRootDirectory\<rparr>"

definition BrickRED_set_program_command :: dev_method where
  "BrickRED_set_program_command =
     \<lparr>m_name = ''set_program_command'', m_params = [''program_id'', ''executable_string_id'', ''arguments_list_id'', ''environment_list_id'',
         ''working_directory_string_id''],
      m_function = 51, m_form = ''H H H H H'', m_form_ret = ''B'',
      m_result = Returned\<rparr>"

definition BrickRED_get_program_command :: dev_method where
  "BrickRED_get_program_command =
     \<lparr>m_name = ''get_program_command'', m_params = [''program_id'', ''session_id''],
      m_function = 52, m_form = ''H H'', m_form_ret = ''B H H H H'',
      m_result = BrickRED_GetProgramCommand\<rparr>"

definition BrickRED_set_program_stdio_redirection :: dev_method where
  "BrickRED_set_program_stdio_redirection =
     \<lparr>m_name = ''set_program_stdio_redirection'', m_params = [''program_id'', ''stdin_redirection'', ''stdin_file_name_string_id'',
         ''stdout_redirection'', ''stdout_file_name_string_id'', ''stderr_redirection'',
         ''stderr_file_name_string_id''],
      m_function = 53, m_form = ''H B H B H B H'', m_form_ret = ''B'',
      m_result = Returned\<rparr>"

definition BrickRED_get_program_stdio_redirection :: dev_method where
  "BrickRED_get_program_stdio_redirection =
     \<lparr>m_name = ''get_program_stdio_redirection'', m_params = [''program_id'', ''session_id''],
      m_function = 54, m_form = ''H H'', m_form_ret = ''B B H B H B H'',
      m_result = BrickRED_GetProgramStdioRedirection\<rparr>"

definition BrickRED_set_program_schedule :: dev_method where
  "BrickRED_set_program_schedule =
     \<lparr>m_name = ''set_program_schedule'', m_params = [''program_id'', ''start_mode'', ''continue_after_error'', ''start_interval'',
         ''start_fields_string_id''],
      m_function = 55, m_form = ''H B ? I H'', m_form_ret = ''B'',
      m_result = Returned\<rparr>"

definition BrickRED_get_program_schedule :: dev_method where
  "BrickRED_get_program_schedule =
     \<lparr>m_name = ''get_program_schedule'', m_params = [''program_id'', ''session_id''],
      m_function = 56, m_form = ''H H'', m_form_ret = ''B B ? I H'',
      m_result = BrickRED_GetProgramSchedule\<rparr>"

definition BrickRED_get_program_scheduler_state :: dev_method where
  "BrickRED_get_program_scheduler_state =
     \<lparr>m_name = ''get_program_scheduler_state'', m_params = [''program_id'', ''session_id''],
      m_function = 57, m_form = ''H H'', m_form_ret = ''B B Q H'',
      m_result = BrickRED_GetProgramSchedulerState\<rparr>"

definition BrickRED_continue_program_schedule :: dev_method where
  "BrickRED_continue_program_schedule =
     \<lparr>m_name = ''continue_program_schedule'', m_params = [''program_id''],
      m_function = 58, m_form = ''H'', m_form_ret = ''B'',
      m_result = Returned\<rparr>"

definition BrickRED_start_program :: dev_method where
  "BrickRED_start_program =
     \<lparr>m_name = ''start_program'', m_params = [''program_id''],
      m_function = 59, m_form = ''H'', m_form_ret = ''B'',
      m_result = Returned\<rparr>"

definition BrickRED_get_last_spawned_program_process :: dev_method where
  "BrickRED_get_last_spawned_program_process =
     \<lparr>m_name = ''get_last_spawned_program_process'', m_params = [''program_id'', ''session_id''],
      m_function = 60, m_form = ''H H'', m_form_ret = ''B H Q'',
      m_result = BrickRED_GetLastSpawnedProgramProcess\<rparr>"

definition BrickRED_get_custom_program_option_names :: dev_method where
  "BrickRED_get_custom_program_option_names =
     \<lparr>m_name = ''get_custom_program_option_names'', m_params = [''program_id'', ''session_id''],
      m_function = 61, m_form = ''H H'', m_form_ret = ''B H'',
      m_result = BrickRED_GetCustomProgramOptionNames\<rparr>"

definition BrickRED_set_custom_program_option_value :: dev_method where
  "BrickRED_set_custom_program_option_value =
     \<lparr>m_name = ''set_custom_program_option_value'', m_params = [''program_id'', ''name_string_id'', ''value_string_id''],
      m_function = 62, m_form = ''H H H'', m_form_ret = ''B'',
      m_result = Returned\<rparr>"

definition BrickRED_get_custom_program_option_value :: dev_method where
  "BrickRED_get_custom_program_option_value =
     \<lparr>m_name = ''get_custom_program_option_value'', m_params = [''program_id'', ''name_string_id'', ''session_id''],
      m_function = 63, m_form = ''H H H'', m_form_ret = ''B H'',
      m_result = BrickRED_GetCustomProgramOptionValue\<rparr>"

definition BrickRED_remove_custom_program_option :: dev_method where
  "BrickRED_remove_custom_program_option =
     \<lparr>m_name = ''remove_custom_program_option'', m_params = [''program_id'', ''name_string_id''],
      m_function = 64, m_form = ''H H'', m_form_ret = ''B'',
      m_result = Returned\<rparr>"

definition BrickRED_get_identity :: dev_method where
  "BrickRED_get_identity =
     \<lparr>m_name = ''get_identity'', m_params = [],
      m_function = 255, m_form = [], m_form_ret = ''8s 8s c 3B 3B H'',
      m_result = BrickRED_GetIdentity\<rparr>"

definition BrickRED :: binding where
  "BrickRED =
     \<lparr>b_class = ''BrickRED'', b_identifier = 17, b_ids = BrickRED_ids,
      b_api_version = (2, 0, 0), b_flags = BrickRED_flags, b_formats = BrickRED_formats,
      b_methods =
       [BrickRED_create_session, BrickRED_expire_session, BrickRED_expire_session_unchecked,
        BrickRED_keep_session_alive, BrickRED_release_object, BrickRED_release_object_unchecked,
        BrickRED_allocate_string, BrickRED_truncate_string, BrickRED_get_string_length,
        BrickRED_set_string_chunk, BrickRED_get_string_chunk, BrickRED_allocate_list,
        BrickRED_get_list_length, BrickRED_get_list_item, BrickRED_append_to_list,
        BrickRED_remove_from_list, BrickRED_open_file, BrickRED_create_pipe,
        BrickRED_get_file_info, BrickRED_read_file, BrickRED_read_file_async,
        BrickRED_abort_async_file_read, BrickRED_write_file, BrickRED_write_file_unchecked,
        BrickRED_write_file_async, BrickRED_set_file_position, BrickRED_get_file_position,
        BrickRED_set_file_events, BrickRED_get_file_events, BrickRED_open_directory,
        BrickRED_get_directory_name, BrickRED_get_next_directory_entry, BrickRED_rewind_directory,
        BrickRED_create_directory, BrickRED_get_processes, BrickRED_spawn_process,
        BrickRED_kill_process, BrickRED_get_process_command, BrickRED_get_process_identity,
        BrickRED_get_process_stdio, BrickRED_get_process_state, BrickRED_get_programs,
        BrickRED_define_program, BrickRED_purge_program, BrickRED_get_program_identifier,
        BrickRED_get_program_root_directory, BrickRED_set_program_command,
        BrickRED_get_program_command, BrickRED_set_program_stdio_redirection,
        BrickRED_get_program_stdio_redirection, BrickRED_set_program_schedule,
        BrickRED_get_program_schedule, BrickRED_get_program_scheduler_state,
        BrickRED_continue_program_schedule, BrickRED_start_program,
        BrickRED_get_last_spawned_program_process, BrickRED_get_custom_program_option_names,
        BrickRED_set_custom_program_option_value, BrickRED_get_custom_program_option_value,
        BrickRED_remove_custom_program_option, BrickRED_get_identity]\<rparr>"

interpretation RED: device_class BrickRED
  by unfold_locales code_simp

end
