(* ===== verification/Bricks_Motor.thy ===== *)
theory Bricks_Motor
  imports Bindings
begin

text \<open>
  The device classes of the DC, Servo and Stepper Bricks. For each class: its
  named tuples, its constants, the assignments of its constructor, one definition per
  method, and the class itself, on which \<open>device_class\<close> is interpreted.
\<close>

section \<open>The class BrickDC (\<^verbatim>\<open>brick_dc.py\<close>)\<close>

definition BrickDC_GetProtocol1BrickletName :: shape where
  "BrickDC_GetProtocol1BrickletName = Named ''Protocol1BrickletName''
     [''protocol_version'', ''firmware_version'', ''name'']"

definition BrickDC_GetIdentity :: shape where
  "BrickDC_GetIdentity = Named ''Identity''
     [''uid'', ''connected_uid'', ''position'', ''hardware_version'', ''firmware_version'',
      ''device_identifier'']"

definition BrickDC_ids :: "(string \<times> int) list" where
  "BrickDC_ids =
     [(''CALLBACK_UNDER_VOLTAGE'', 21), (''CALLBACK_EMERGENCY_SHUTDOWN'', 22),
      (''CALLBACK_VELOCITY_REACHED'', 23), (''CALLBACK_CURRENT_VELOCITY'', 24),
      (''FUNCTION_SET_VELOCITY'', 1), (''FUNCTION_GET_VELOCITY'', 2),
      (''FUNCTION_GET_CURRENT_VELOCITY'', 3), (''FUNCTION_SET_ACCELERATION'', 4),
      (''FUNCTION_GET_ACCELERATION'', 5), (''FUNCTION_SET_PWM_FREQUENCY'', 6),
      (''FUNCTION_GET_PWM_FREQUENCY'', 7), (''FUNCTION_FULL_BRAKE'', 8),
      (''FUNCTION_GET_STACK_INPUT_VOLTAGE'', 9), (''FUNCTION_GET_EXTERNAL_INPUT_VOLTAGE'', 10),
      (''FUNCTION_GET_CURRENT_CONSUMPTION'', 11), (''FUNCTION_ENABLE'', 12),
      (''FUNCTION_DISABLE'', 13), (''FUNCTION_IS_ENABLED'', 14),
      (''FUNCTION_SET_MINIMUM_VOLTAGE'', 15), (''FUNCTION_GET_MINIMUM_VOLTAGE'', 16),
      (''FUNCTION_SET_DRIVE_MODE'', 17), (''FUNCTION_GET_DRIVE_MODE'', 18),
      (''FUNCTION_SET_CURRENT_VELOCITY_PERIOD'', 19),
      (''FUNCTION_GET_CURRENT_VELOCITY_PERIOD'', 20), (''FUNCTION_ENABLE_STATUS_LED'', 238),
      (''FUNCTION_DISABLE_STATUS_LED'', 239), (''FUNCTION_IS_STATUS_LED_ENABLED'', 240),
      (''FUNCTION_GET_PROTOCOL1_BRICKLET_NAME'', 241), (''FUNCTION_GET_CHIP_TEMPERATURE'', 242),
      (''FUNCTION_RESET'', 243), (''FUNCTION_GET_IDENTITY'', 255)]"

definition BrickDC_flags :: "(int \<times> resp_flag) list" where
  "BrickDC_flags =
     [(1, RE_FALSE), (2, ALWAYS_TRUE), (3, ALWAYS_TRUE), (4, RE_FALSE), (5, ALWAYS_TRUE),
      (6, RE_FALSE), (7, ALWAYS_TRUE), (8, RE_FALSE), (9, ALWAYS_TRUE), (10, ALWAYS_TRUE),
      (11, ALWAYS_TRUE), (12, RE_FALSE), (13, RE_FALSE), (14, ALWAYS_TRUE), (15, RE_TRUE),
      (16, ALWAYS_TRUE), (17, RE_FALSE), (18, ALWAYS_TRUE), (19, RE_TRUE), (20, ALWAYS_TRUE),
      (21, ALWAYS_FALSE), (22, ALWAYS_FALSE), (23, ALWAYS_FALSE), (24, ALWAYS_FALSE),
      (238, RE_FALSE), (239, RE_FALSE), (240, ALWAYS_TRUE), (241, ALWAYS_TRUE), (242, ALWAYS_TRUE),
      (243, RE_FALSE), (255, ALWAYS_TRUE)]"

definition BrickDC_formats :: "(int \<times> string) list" where
  "BrickDC_formats =
     [(21, ''H''), (22, []), (23, ''h''), (24, ''h'')]"

definition BrickDC_set_velocity :: dev_method where
  "BrickDC_set_velocity =
     \<lparr>m_name = ''set_velocity'', m_params = [''velocity''],
      m_function = 1, m_form = ''h'', m_form_ret = [],
      m_result = Discarded\<rparr>"

definition BrickDC_get_velocity :: dev_method where
  "BrickDC_get_velocity =
     \<lparr>m_name = ''get_velocity'', m_params = [],
      m_function = 2, m_form = [], m_form_ret = ''h'',
      m_result = Returned\<rparr>"

definition BrickDC_get_current_velocity :: dev_method where
  "BrickDC_get_current_velocity =
     \<lparr>m_name = ''get_current_velocity'', m_params = [],
      m_function = 3, m_form = [], m_form_ret = ''h'',
      m_result = Returned\<rparr>"

definition BrickDC_set_acceleration :: dev_method where
  "BrickDC_set_acceleration =
     \<lparr>m_name = ''set_acceleration'', m_params = [''acceleration''],
      m_function = 4, m_form = ''H'', m_form_ret = [],
      m_result = Discarded\<rparr>"

definition BrickDC_get_acceleration :: dev_method where
  "BrickDC_get_acceleration =
     \<lparr>m_name = ''get_acceleration'', m_params = [],
      m_function = 5, m_form = [], m_form_ret = ''H'',
      m_result = Returned\<rparr>"

definition BrickDC_set_pwm_frequency :: dev_method where
  "BrickDC_set_pwm_frequency =
     \<lparr>m_name = ''set_pwm_frequency'', m_params = [''frequency''],
      m_function = 6, m_form = ''H'', m_form_ret = [],
      m_result = Discarded\<rparr>"

definition BrickDC_get_pwm_frequency :: dev_method where
  "BrickDC_get_pwm_frequency =
     \<lparr>m_name = ''get_pwm_frequency'', m_params = [],
      m_function = 7, m_form = [], m_form_ret = ''H'',
      m_result = Returned\<rparr>"

definition BrickDC_full_brake :: dev_method where
  "BrickDC_full_brake =
     \<lparr>m_name = ''full_brake'', m_params = [],
      m_function = 8, m_form = [], m_form_ret = [],
      m_result = Discarded\<rparr>"

definition BrickDC_get_stack_input_voltage :: dev_method where
  "BrickDC_get_stack_input_voltage =
     \<lparr>m_name = ''get_stack_input_voltage'', m_params = [],
      m_function = 9, m_form = [], m_form_ret = ''H'',
      m_result = Returned\<rparr>"

definition BrickDC_get_external_input_voltage :: dev_method where
  "BrickDC_get_external_input_voltage =
     \<lparr>m_name = ''get_external_input_voltage'', m_params = [],
      m_function = 10, m_form = [], m_form_ret = ''H'',
      m_result = Returned\<rparr>"

definition BrickDC_get_current_consumption :: dev_method where
  "BrickDC_get_current_consumption =
     \<lparr>m_name = ''get_current_consumption'', m_params = [],
      m_function = 11, m_form = [], m_form_ret = ''H'',
      m_result = Returned\<rparr>"

definition BrickDC_enable :: dev_method where
  "BrickDC_enable =
     \<lparr>m_name = ''enable'', m_params = [],
      m_function = 12, m_form = [], m_form_ret = [],
      m_result = Discarded\<rparr>"

definition BrickDC_disable :: dev_method where
  "BrickDC_disable =
     \<lparr>m_name = ''disable'', m_params = [],
      m_function = 13, m_form = [], m_form_ret = [],
      m_result = Discarded\<rparr>"

definition BrickDC_is_enabled :: dev_method where
  "BrickDC_is_enabled =
     \<lparr>m_name = ''is_enabled'', m_params = [],
      m_function = 14, m_form = [], m_form_ret = ''?'',
      m_result = Returned\<rparr>"

definition BrickDC_set_minimum_voltage :: dev_method where
  "BrickDC_set_minimum_voltage =
     \<lparr>m_name = ''set_minimum_voltage'', m_params = [''voltage''],
      m_function = 15, m_form = ''H'', m_form_ret = [],
      m_result = Discarded\<rparr>"

definition BrickDC_get_minimum_voltage :: dev_method where
  "BrickDC_get_minimum_voltage =
     \<lparr>m_name = ''get_minimum_voltage'', m_params = [],
      m_function = 16, m_form = [], m_form_ret = ''H'',
      m_result = Returned\<rparr>"

definition BrickDC_set_drive_mode :: dev_method where
  "BrickDC_set_drive_mode =
     \<lparr>m_name = ''set_drive_mode'', m_params = [''mode''],
      m_function = 17, m_form = ''B'', m_form_ret = [],
      m_result = Discarded\<rparr>"

definition BrickDC_get_drive_mode :: dev_method where
  "BrickDC_get_drive_mode =
     \<lparr>m_name = ''get_drive_mode'', m_params = [],
      m_function = 18, m_form = [], m_form_ret = ''B'',
      m_result = Returned\<rparr>"

definition BrickDC_set_current_velocity_period :: dev_method where
  "BrickDC_set_current_velocity_period =
     \<lparr>m_name = ''set_current_velocity_period'', m_params = [''period''],
      m_function = 19, m_form = ''H'', m_form_ret = [],
      m_result = Discarded\<rparr>"

definition BrickDC_get_current_velocity_period :: dev_method where
  "BrickDC_get_current_velocity_period =
     \<lparr>m_name = ''get_current_velocity_period'', m_params = [],
      m_function = 20, m_form = [], m_form_ret = ''H'',
      m_result = Returned\<rparr>"

definition BrickDC_enable_status_led :: dev_method where
  "BrickDC_enable_status_led =
     \<lparr>m_name = ''enable_status_led'', m_params = [],
      m_function = 238, m_form = [], m_form_ret = [],
      m_result = Discarded\<rparr>"

definition BrickDC_disable_status_led :: dev_method where
  "BrickDC_disable_status_led =
     \<lparr>m_name = ''disable_status_led'', m_params = [],
      m_function = 239, m_form = [], m_form_ret = [],
      m_result = Discarded\<rparr>"

definition BrickDC_is_status_led_enabled :: dev_method where
  "BrickDC_is_status_led_enabled =
     \<lparr>m_name = ''is_status_led_enabled'', m_params = [],
      m_function = 240, m_form = [], m_form_ret = ''?'',
      m_result = Returned\<rparr>"

definition BrickDC_get_protocol1_bricklet_name :: dev_method where
  "BrickDC_get_protocol1_bricklet_name =
     \<lparr>m_name = ''get_protocol1_bricklet_name'', m_params = [''port''],
      m_function = 241, m_form = ''c'', m_form_ret = ''B 3B 40s'',
      m_result = BrickDC_GetProtocol1BrickletName\<rparr>"

definition BrickDC_get_chip_temperature :: dev_method where
  "BrickDC_get_chip_temperature =
     \<lparr>m_name = ''get_chip_temperature'', m_params = [],
      m_function = 242, m_form = [], m_form_ret = ''h'',
      m_result = Returned\<rparr>"

definition BrickDC_reset :: dev_method where
  "BrickDC_reset =
     \<lparr>m_name = ''reset'', m_params = [],
      m_function = 243, m_form = [], m_form_ret = [],
      m_result = Discarded\<rparr>"

definition BrickDC_get_identity :: dev_method where
  "BrickDC_get_identity =
     \<lparr>m_name = ''get_identity'', m_params = [],
      m_function = 255, m_form = [], m_form_ret = ''8s 8s c 3B 3B H'',
      m_result = BrickDC_GetIdentity\<rparr>"

definition BrickDC :: binding where
  "BrickDC =
     \<lparr>b_class = ''BrickDC'', b_identifier = 11, b_ids = BrickDC_ids,
      b_api_version = (2, 0, 0), b_flags = BrickDC_flags, b_formats = BrickDC_formats,
      b_methods =
       [BrickDC_set_velocity, BrickDC_get_velocity, BrickDC_get_current_velocity,
        BrickDC_set_acceleration, BrickDC_get_acceleration, BrickDC_set_pwm_frequency,
        BrickDC_get_pwm_frequency, BrickDC_full_brake, BrickDC_get_stack_input_voltage,
        BrickDC_get_external_input_voltage, BrickDC_get_current_consumption, BrickDC_enable,
        BrickDC_disable, BrickDC_is_enabled, BrickDC_set_minimum_voltage,
        BrickDC_get_minimum_voltage, BrickDC_set_drive_mode, BrickDC_get_drive_mode,
        BrickDC_set_current_velocity_period, BrickDC_get_current_velocity_period,
        BrickDC_enable_status_led, BrickDC_disable_status_led, BrickDC_is_status_led_enabled,
        BrickDC_get_protocol1_bricklet_name, BrickDC_get_chip_temperature, BrickDC_reset,
        BrickDC_get_identity]\<rparr>"

interpretation DC: device_class BrickDC
  by unfold_locales code_simp

section \<open>The class BrickServo (\<^verbatim>\<open>brick_servo.py\<close>)\<close>

definition BrickServo_GetPulseWidth :: shape where
  "BrickServo_GetPulseWidth = Named ''PulseWidth''
     [''min'', ''max'']"

definition BrickServo_GetDegree :: shape where
  "BrickServo_GetDegree = Named ''Degree''
     [''min'', ''max'']"

definition BrickServo_GetProtocol1BrickletName :: shape where
  "BrickServo_GetProtocol1BrickletName = Named ''Protocol1BrickletName''
     [''protocol_version'', ''firmware_version'', ''name'']"

definition BrickServo_GetIdentity :: shape where
  "BrickServo_GetIdentity = Named ''Identity''
     [''uid'', ''connected_uid'', ''position'', ''hardware_version'', ''firmware_version'',
      ''device_identifier'']"

definition BrickServo_ids :: "(string \<times> int) list" where
  "BrickServo_ids =
     [(''CALLBACK_UNDER_VOLTAGE'', 26), (''CALLBACK_POSITION_REACHED'', 27),
      (''CALLBACK_VELOCITY_REACHED'', 28), (''FUNCTION_ENABLE'', 1), (''FUNCTION_DISABLE'', 2),
      (''FUNCTION_IS_ENABLED'', 3), (''FUNCTION_SET_POSITION'', 4), (''FUNCTION_GET_POSITION'', 5),
      (''FUNCTION_GET_CURRENT_POSITION'', 6), (''FUNCTION_SET_VELOCITY'', 7),
      (''FUNCTION_GET_VELOCITY'', 8), (''FUNCTION_GET_CURRENT_VELOCITY'', 9),
      (''FUNCTION_SET_ACCELERATION'', 10), (''FUNCTION_GET_ACCELERATION'', 11),
      (''FUNCTION_SET_OUTPUT_VOLTAGE'', 12), (''FUNCTION_GET_OUTPUT_VOLTAGE'', 13),
      (''FUNCTION_SET_PULSE_WIDTH'', 14), (''FUNCTION_GET_PULSE_WIDTH'', 15),
      (''FUNCTION_SET_DEGREE'', 16), (''FUNCTION_GET_DEGREE'', 17), (''FUNCTION_SET_PERIOD'', 18),
      (''FUNCTION_GET_PERIOD'', 19), (''FUNCTION_GET_SERVO_CURRENT'', 20),
      (''FUNCTION_GET_OVERALL_CURRENT'', 21), (''FUNCTION_GET_STACK_INPUT_VOLTAGE'', 22),
      (''FUNCTION_GET_EXTERNAL_INPUT_VOLTAGE'', 23), (''FUNCTION_SET_MINIMUM_VOLTAGE'', 24),
      (''FUNCTION_GET_MINIMUM_VOLTAGE'', 25), (''FUNCTION_ENABLE_POSITION_REACHED_CALLBACK'', 29),
      (''FUNCTION_DISABLE_POSITION_REACHED_CALLBACK'', 30),
      (''FUNCTION_IS_POSITION_REACHED_CALLBACK_ENABLED'', 31),
      (''FUNCTION_ENABLE_VELOCITY_REACHED_CALLBACK'', 32),
      (''FUNCTION_DISABLE_VELOCITY_REACHED_CALLBACK'', 33),
      (''FUNCTION_IS_VELOCITY_REACHED_CALLBACK_ENABLED'', 34),
      (''FUNCTION_ENABLE_STATUS_LED'', 238), (''FUNCTION_DISABLE_STATUS_LED'', 239),
      (''FUNCTION_IS_STATUS_LED_ENABLED'', 240), (''FUNCTION_GET_PROTOCOL1_BRICKLET_NAME'', 241),
      (''FUNCTION_GET_CHIP_TEMPERATURE'', 242), (''FUNCTION_RESET'', 243),
      (''FUNCTION_GET_IDENTITY'', 255)]"

definition BrickServo_flags :: "(int \<times> resp_flag) list" where
  "BrickServo_flags =
     [(1, RE_FALSE), (2, RE_FALSE), (3, ALWAYS_TRUE), (4, RE_FALSE), (5, ALWAYS_TRUE),
      (6, ALWAYS_TRUE), (7, RE_FALSE), (8, ALWAYS_TRUE), (9, ALWAYS_TRUE), (10, RE_FALSE),
      (11, ALWAYS_TRUE), (12, RE_FALSE), (13, ALWAYS_TRUE), (14, RE_FALSE), (15, ALWAYS_TRUE),
      (16, RE_FALSE), (17, ALWAYS_TRUE), (18, RE_FALSE), (19, ALWAYS_TRUE), (20, ALWAYS_TRUE),
      (21, ALWAYS_TRUE), (22, ALWAYS_TRUE), (23, ALWAYS_TRUE), (24, RE_TRUE), (25, ALWAYS_TRUE),
      (26, ALWAYS_FALSE), (27, ALWAYS_FALSE), (28, ALWAYS_FALSE), (29, RE_TRUE), (30, RE_TRUE),
      (31, ALWAYS_TRUE), (32, RE_TRUE), (33, RE_TRUE), (34, ALWAYS_TRUE), (238, RE_FALSE),
      (239, RE_FALSE), (240, ALWAYS_TRUE), (241, ALWAYS_TRUE), (242, ALWAYS_TRUE), (243, RE_FALSE),
      (255, ALWAYS_TRUE)]"

definition BrickServo_formats :: "(int \<times> string) list" where
  "BrickServo_formats =
     [(26, ''H''), (27, ''B h''), (28, ''B h'')]"

definition BrickServo_enable :: dev_method where
  "BrickServo_enable =
     \<lparr>m_name = ''enable'', m_params = [''servo_num''],
      m_function = 1, m_form = ''B'', m_form_ret = [],
      m_result = Discarded\<rparr>"

definition BrickServo_disable :: dev_method where
  "BrickServo_disable =
     \<lparr>m_name = ''disable'', m_params = [''servo_num''],
      m_function = 2, m_form = ''B'', m_form_ret = [],
      m_result = Discarded\<rparr>"

definition BrickServo_is_enabled :: dev_method where
  "BrickServo_is_enabled =
     \<lparr>m_name = ''is_enabled'', m_params = [''servo_num''],
      m_function = 3, m_form = ''B'', m_form_ret = ''?'',
      m_result = Returned\<rparr>"

definition BrickServo_set_position :: dev_method where
  "BrickServo_set_position =
     \<lparr>m_name = ''set_position'', m_params = [''servo_num'', ''position''],
      m_function = 4, m_form = ''B h'', m_form_ret = [],
      m_result = Discarded\<rparr>"

definition BrickServo_get_position :: dev_method where
  "BrickServo_get_position =
     \<lparr>m_name = ''get_position'', m_params = [''servo_num''],
      m_function = 5, m_form = ''B'', m_form_ret = ''h'',
      m_result = Returned\<rparr>"

definition BrickServo_get_current_position :: dev_method where
  "BrickServo_get_current_position =
     \<lparr>m_name = ''get_current_position'', m_params = [''servo_num''],
      m_function = 6, m_form = ''B'', m_form_ret = ''h'',
      m_result = Returned\<rparr>"

definition BrickServo_set_velocity :: dev_method where
  "BrickServo_set_velocity =
     \<lparr>m_name = ''set_velocity'', m_params = [''servo_num'', ''velocity''],
      m_function = 7, m_form = ''B H'', m_form_ret = [],
      m_result = Discarded\<rparr>"

definition BrickServo_get_velocity :: dev_method where
  "BrickServo_get_velocity =
     \<lparr>m_name = ''get_velocity'', m_params = [''servo_num''],
      m_function = 8, m_form = ''B'', m_form_ret = ''H'',
      m_result = Returned\<rparr>"

definition BrickServo_get_current_velocity :: dev_method where
  "BrickServo_get_current_velocity =
     \<lparr>m_name = ''get_current_velocity'', m_params = [''servo_num''],
      m_function = 9, m_form = ''B'', m_form_ret = ''H'',
      m_result = Returned\<rparr>"

definition BrickServo_set_acceleration :: dev_method where
  "BrickServo_set_acceleration =
     \<lparr>m_name = ''set_acceleration'', m_params = [''servo_num'', ''acceleration''],
      m_function = 10, m_form = ''B H'', m_form_ret = [],
      m_result = Discarded\<rparr>"

definition BrickServo_get_acceleration :: dev_method where
  "BrickServo_get_acceleration =
     \<lparr>m_name = ''get_acceleration'', m_params = [''servo_num''],
      m_function = 11, m_form = ''B'', m_form_ret = ''H'',
      m_result = Returned\<rparr>"

definition BrickServo_set_output_voltage :: dev_method where
  "BrickServo_set_output_voltage =
     \<lparr>m_name = ''set_output_voltage'', m_params = [''voltage''],
      m_function = 12, m_form = ''H'', m_form_ret = [],
      m_result = Discarded\<rparr>"

definition BrickServo_get_output_voltage :: dev_method where
  "BrickServo_get_output_voltage =
     \<lparr>m_name = ''get_output_voltage'', m_params = [],
      m_function = 13, m_form = [], m_form_ret = ''H'',
      m_result = Returned\<rparr>"

definition BrickServo_set_pulse_width :: dev_method where
  "BrickServo_set_pulse_width =
     \<lparr>m_name = ''set_pulse_width'', m_params = [''servo_num'', ''min'', ''max''],
      m_function = 14, m_form = ''B H H'', m_form_ret = [],
      m_result = Discarded\<rparr>"

definition BrickServo_get_pulse_width :: dev_method where
  "BrickServo_get_pulse_width =
     \<lparr>m_name = ''get_pulse_width'', m_params = [''servo_num''],
      m_function = 15, m_form = ''B'', m_form_ret = ''H H'',
      m_result = BrickServo_GetPulseWidth\<rparr>"

definition BrickServo_set_degree :: dev_method where
  "BrickServo_set_degree =
     \<lparr>m_name = ''set_degree'', m_params = [''servo_num'', ''min'', ''max''],
      m_function = 16, m_form = ''B h h'', m_form_ret = [],
      m_result = Discarded\<rparr>"

definition BrickServo_get_degree :: dev_method where
  "BrickServo_get_degree =
     \<lparr>m_name = ''get_degree'', m_params = [''servo_num''],
      m_function = 17, m_form = ''B'', m_form_ret = ''h h'',
      m_result = BrickServo_GetDegree\<rparr>"

definition BrickServo_set_period :: dev_method where
  "BrickServo_set_period =
     \<lparr>m_name = ''set_period'', m_params = [''servo_num'', ''period''],
      m_function = 18, m_form = ''B H'', m_form_ret = [],
      m_result = Discarded\<rparr>"

definition BrickServo_get_period :: dev_method where
  "BrickServo_get_period =
     \<lparr>m_name = ''get_period'', m_params = [''servo_num''],
      m_function = 19, m_form = ''B'', m_form_ret = ''H'',
      m_result = Returned\<rparr>"

definition BrickServo_get_servo_current :: dev_method where
  "BrickServo_get_servo_current =
     \<lparr>m_name = ''get_servo_current'', m_params = [''servo_num''],
      m_function = 20, m_form = ''B'', m_form_ret = ''H'',
      m_result = Returned\<rparr>"

definition BrickServo_get_overall_current :: dev_method where
  "BrickServo_get_overall_current =
     \<lparr>m_name = ''get_overall_current'', m_params = [],
      m_function = 21, m_form = [], m_form_ret = ''H'',
      m_result = Returned\<rparr>"

definition BrickServo_get_stack_input_voltage :: dev_method where
  "BrickServo_get_stack_input_voltage =
     \<lparr>m_name = ''get_stack_input_voltage'', m_params = [],
      m_function = 22, m_form = [], m_form_ret = ''H'',
      m_result = Returned\<rparr>"

definition BrickServo_get_external_input_voltage :: dev_method where
  "BrickServo_get_external_input_voltage =
     \<lparr>m_name = ''get_external_input_voltage'', m_params = [],
      m_function = 23, m_form = [], m_form_ret = ''H'',
      m_result = Returned\<rparr>"

definition BrickServo_set_minimum_voltage :: dev_method where
  "BrickServo_set_minimum_voltage =
     \<lparr>m_name = ''set_minimum_voltage'', m_params = [''voltage''],
      m_function = 24, m_form = ''H'', m_form_ret = [],
      m_result = Discarded\<rparr>"

definition BrickServo_get_minimum_voltage :: dev_method where
  "BrickServo_get_minimum_voltage =
     \<lparr>m_name = ''get_minimum_voltage'', m_params = [],
      m_function = 25, m_form = [], m_form_ret = ''H'',
      m_result = Returned\<rparr>"

definition BrickServo_enable_position_reached_callback :: dev_method where
  "BrickServo_enable_position_reached_callback =
     \<lparr>m_name = ''enable_position_reached_callback'', m_params = [],
      m_function = 29, m_form = [], m_form_ret = [],
      m_result = Discarded\<rparr>"

definition BrickServo_disable_position_reached_callback :: dev_method where
  "BrickServo_disable_position_reached_callback =
     \<lparr>m_name = ''disable_position_reached_callback'', m_params = [],
      m_function = 30, m_form = [], m_form_ret = [],
      m_result = Discarded\<rparr>"

definition BrickServo_is_position_reached_callback_enabled :: dev_method where
  "BrickServo_is_position_reached_callback_enabled =
     \<lparr>m_name = ''is_position_reached_callback_enabled'', m_params = [],
      m_function = 31, m_form = [], m_form_ret = ''B'',
      m_result = Returned\<rparr>"

definition BrickServo_enable_velocity_reached_callback :: dev_method where
  "BrickServo_enable_velocity_reached_callback =
     \<lparr>m_name = ''enable_velocity_reached_callback'', m_params = [],
      m_function = 32, m_form = [], m_form_ret = [],
      m_result = Discarded\<rparr>"

definition BrickServo_disable_velocity_reached_callback :: dev_method where
  "BrickServo_disable_velocity_reached_callback =
     \<lparr>m_name = ''disable_velocity_reached_callback'', m_params = [],
      m_function = 33, m_form = [], m_form_ret = [],
      m_result = Discarded\<rparr>"

definition BrickServo_is_velocity_reached_callback_enabled :: dev_method where
  "BrickServo_is_velocity_reached_callback_enabled =
     \<lparr>m_name = ''is_velocity_reached_callback_enabled'', m_params = [],
      m_function = 34, m_form = [], m_form_ret = ''B'',
      m_result = Returned\<rparr>"

definition BrickServo_enable_status_led :: dev_method where
  "BrickServo_enable_status_led =
     \<lparr>m_name = ''enable_status_led'', m_params = [],
      m_function = 238, m_form = [], m_form_ret = [],
      m_result = Discarded\<rparr>"

definition BrickServo_disable_status_led :: dev_method where
  "BrickServo_disable_status_led =
     \<lparr>m_name = ''disable_status_led'', m_params = [],
      m_function = 239, m_form = [], m_form_ret = [],
      m_result = Discarded\<rparr>"

definition BrickServo_is_status_led_enabled :: dev_method where
  "BrickServo_is_status_led_enabled =
     \<lparr>m_name = ''is_status_led_enabled'', m_params = [],
      m_function = 240, m_form = [], m_form_ret = ''?'',
      m_result = Returned\<rparr>"

definition BrickServo_get_protocol1_bricklet_name :: dev_method where
  "BrickServo_get_protocol1_bricklet_name =
     \<lparr>m_name = ''get_protocol1_bricklet_name'', m_params = [''port''],
      m_function = 241, m_form = ''c'', m_form_ret = ''B 3B 40s'',
      m_result = BrickServo_GetProtocol1BrickletName\<rparr>"

definition BrickServo_get_chip_temperature :: dev_method where
  "BrickServo_get_chip_temperature =
     \<lparr>m_name = ''get_chip_temperature'', m_params = [],
      m_function = 242, m_form = [], m_form_ret = ''h'',
      m_result = Returned\<rparr>"

definition BrickServo_reset :: dev_method where
  "BrickServo_reset =
     \<lparr>m_name = ''reset'', m_params = [],
      m_function = 243, m_form = [], m_form_ret = [],
      m_result = Discarded\<rparr>"

definition BrickServo_get_identity :: dev_method where
  "BrickServo_get_identity =
     \<lparr>m_name = ''get_identity'', m_params = [],
      m_function = 255, m_form = [], m_form_ret = ''8s 8s c 3B 3B H'',
      m_result = BrickServo_GetIdentity\<rparr>"

definition BrickServo :: binding where
  "BrickServo =
     \<lparr>b_class = ''BrickServo'', b_identifier = 14, b_ids = BrickServo_ids,
      b_api_version = (2, 0, 0), b_flags = BrickServo_flags, b_formats = BrickServo_formats,
      b_methods =
       [BrickServo_enable, BrickServo_disable, BrickServo_is_enabled, BrickServo_set_position,
        BrickServo_get_position, BrickServo_get_current_position, BrickServo_set_velocity,
        BrickServo_get_velocity, BrickServo_get_current_velocity, BrickServo_set_acceleration,
        BrickServo_get_acceleration, BrickServo_set_output_voltage, BrickServo_get_output_voltage,
        BrickServo_set_pulse_width, BrickServo_get_pulse_width, BrickServo_set_degree,
        BrickServo_get_degree, BrickServo_set_period, BrickServo_get_period,
        BrickServo_get_servo_current, BrickServo_get_overall_current,
        BrickServo_get_stack_input_voltage, BrickServo_get_external_input_voltage,
        BrickServo_set_minimum_voltage, BrickServo_get_minimum_voltage,
        BrickServo_enable_position_reached_callback, BrickServo_disable_position_reached_callback,
        BrickServo_is_position_reached_callback_enabled,
        BrickServo_enable_velocity_reached_callback, BrickServo_disable_velocity_reached_callback,
        BrickServo_is_velocity_reached_callback_enabled, BrickServo_enable_status_led,
        BrickServo_disable_status_led, BrickServo_is_status_led_enabled,
        BrickServo_get_protocol1_bricklet_name, BrickServo_get_chip_temperature, BrickServo_reset,
        BrickServo_get_identity]\<rparr>"

interpretation Servo: device_class BrickServo
  by unfold_locales code_simp

section \<open>The class BrickStepper (\<^verbatim>\<open>brick_stepper.py\<close>)\<close>

definition BrickStepper_GetSpeedRamping :: shape where
  "BrickStepper_GetSpeedRamping = Named ''SpeedRamping''
     [''acceleration'', ''deacceleration'']"

definition BrickStepper_GetAllData :: shape where
  "BrickStepper_GetAllData = Named ''AllData''
     [''current_velocity'', ''current_position'', ''remaining_steps'', ''stack_voltage'',
      ''external_voltage'', ''current_consumption'']"

definition BrickStepper_GetProtocol1BrickletName :: shape where
  "BrickStepper_GetProtocol1BrickletName = Named ''Protocol1BrickletName''
     [''protocol_version'', ''firmware_version'', ''name'']"

definition BrickStepper_GetIdentity :: shape where
  "BrickStepper_GetIdentity = Named ''Identity''
     [''uid'', ''connected_uid'', ''position'', ''hardware_version'', ''firmware_version'',
      ''device_identifier'']"

definition BrickStepper_ids :: "(string \<times> int) list" where
  "BrickStepper_ids =
     [(''CALLBACK_UNDER_VOLTAGE'', 31), (''CALLBACK_POSITION_REACHED'', 32),
      (''CALLBACK_ALL_DATA'', 40), (''CALLBACK_NEW_STATE'', 41),
      (''FUNCTION_SET_MAX_VELOCITY'', 1), (''FUNCTION_GET_MAX_VELOCITY'', 2),
      (''FUNCTION_GET_CURRENT_VELOCITY'', 3), (''FUNCTION_SET_SPEED_RAMPING'', 4),
      (''FUNCTION_GET_SPEED_RAMPING'', 5), (''FUNCTION_FULL_BRAKE'', 6),
      (''FUNCTION_SET_CURRENT_POSITION'', 7), (''FUNCTION_GET_CURRENT_POSITION'', 8),
      (''FUNCTION_SET_TARGET_POSITION'', 9), (''FUNCTION_GET_TARGET_POSITION'', 10),
      (''FUNCTION_SET_STEPS'', 11), (''FUNCTION_GET_STEPS'', 12),
      (''FUNCTION_GET_REMAINING_STEPS'', 13), (''FUNCTION_SET_STEP_MODE'', 14),
      (''FUNCTION_GET_STEP_MODE'', 15), (''FUNCTION_DRIVE_FORWARD'', 16),
      (''FUNCTION_DRIVE_BACKWARD'', 17), (''FUNCTION_STOP'', 18),
      (''FUNCTION_GET_STACK_INPUT_VOLTAGE'', 19), (''FUNCTION_GET_EXTERNAL_INPUT_VOLTAGE'', 20),
      (''FUNCTION_GET_CURRENT_CONSUMPTION'', 21), (''FUNCTION_SET_MOTOR_CURRENT'', 22),
      (''FUNCTION_GET_MOTOR_CURRENT'', 23), (''FUNCTION_ENABLE'', 24), (''FUNCTION_DISABLE'', 25),
      (''FUNCTION_IS_ENABLED'', 26), (''FUNCTION_SET_DECAY'', 27), (''FUNCTION_GET_DECAY'', 28),
      (''FUNCTION_SET_MINIMUM_VOLTAGE'', 29), (''FUNCTION_GET_MINIMUM_VOLTAGE'', 30),
      (''FUNCTION_SET_SYNC_RECT'', 33), (''FUNCTION_IS_SYNC_RECT'', 34),
      (''FUNCTION_SET_TIME_BASE'', 35), (''FUNCTION_GET_TIME_BASE'', 36),
      (''FUNCTION_GET_ALL_DATA'', 37), (''FUNCTION_SET_ALL_DATA_PERIOD'', 38),
      (''FUNCTION_GET_ALL_DATA_PERIOD'', 39), (''FUNCTION_ENABLE_STATUS_LED'', 238),
      (''FUNCTION_DISABLE_STATUS_LED'', 239), (''FUNCTION_IS_STATUS_LED_ENABLED'', 240),
      (''FUNCTION_GET_PROTOCOL1_BRICKLET_NAME'', 241), (''FUNCTION_GET_CHIP_TEMPERATURE'', 242),
      (''FUNCTION_RESET'', 243), (''FUNCTION_GET_IDENTITY'', 255)]"

definition BrickStepper_flags :: "(int \<times> resp_flag) list" where
  "BrickStepper_flags =
     [(1, RE_FALSE), (2, ALWAYS_TRUE), (3, ALWAYS_TRUE), (4, RE_FALSE), (5, ALWAYS_TRUE),
      (6, RE_FALSE), (7, RE_FALSE), (8, ALWAYS_TRUE), (9, RE_FALSE), (10, ALWAYS_TRUE),
      (11, RE_FALSE), (12, ALWAYS_TRUE), (13, ALWAYS_TRUE), (14, RE_FALSE), (15, ALWAYS_TRUE),
      (16, RE_FALSE), (17, RE_FALSE), (18, RE_FALSE), (19, ALWAYS_TRUE), (20, ALWAYS_TRUE),
      (21, ALWAYS_TRUE), (22, RE_FALSE), (23, ALWAYS_TRUE), (24, RE_FALSE), (25, RE_FALSE),
      (26, ALWAYS_TRUE), (27, RE_FALSE), (28, ALWAYS_TRUE), (29, RE_TRUE), (30, ALWAYS_TRUE),
      (31, ALWAYS_FALSE), (32, ALWAYS_FALSE), (33, RE_FALSE), (34, ALWAYS_TRUE), (35, RE_FALSE),
      (36, ALWAYS_TRUE), (37, ALWAYS_TRUE), (38, RE_TRUE), (39, ALWAYS_TRUE), (40, ALWAYS_FALSE),
      (41, ALWAYS_FALSE), (238, RE_FALSE), (239, RE_FALSE), (240, ALWAYS_TRUE), (241, ALWAYS_TRUE),
      (242, ALWAYS_TRUE), (243, RE_FALSE), (255, ALWAYS_TRUE)]"

definition BrickStepper_formats :: "(int \<times> string) list" where
  "BrickStepper_formats =
     [(31, ''H''), (32, ''i''), (40, ''H i i H H H''), (41, ''B B'')]"

definition BrickStepper_set_max_velocity :: dev_method where
  "BrickStepper_set_max_velocity =
     \<lparr>m_name = ''set_max_velocity'', m_params = [''velocity''],
      m_function = 1, m_form = ''H'', m_form_ret = [],
      m_result = Discarded\<rparr>"

definition BrickStepper_get_max_velocity :: dev_method where
  "BrickStepper_get_max_velocity =
     \<lparr>m_name = ''get_max_velocity'', m_params = [],
      m_function = 2, m_form = [], m_form_ret = ''H'',
      m_result = Returned\<rparr>"

definition BrickStepper_get_current_velocity :: dev_method where
  "BrickStepper_get_current_velocity =
     \<lparr>m_name = ''get_current_velocity'', m_params = [],
      m_function = 3, m_form = [], m_form_ret = ''H'',
      m_result = Returned\<rparr>"

definition BrickStepper_set_speed_ramping :: dev_method where
  "BrickStepper_set_speed_ramping =
     \<lparr>m_name = ''set_speed_ramping'', m_params = [''acceleration'', ''deacceleration''],
      m_function = 4, m_form = ''H H'', m_form_ret = [],
      m_result = Discarded\<rparr>"

definition BrickStepper_get_speed_ramping :: dev_method where
  "BrickStepper_get_speed_ramping =
     \<lparr>m_name = ''get_speed_ramping'', m_params = [],
      m_function = 5, m_form = [], m_form_ret = ''H H'',
      m_result = BrickStepper_GetSpeedRamping\<rparr>"

definition BrickStepper_full_brake :: dev_method where
  "BrickStepper_full_brake =
     \<lparr>m_name = ''full_brake'', m_params = [],
      m_function = 6, m_form = [], m_form_ret = [],
      m_result = Discarded\<rparr>"

definition BrickStepper_set_current_position :: dev_method where
  "BrickStepper_set_current_position =
     \<lparr>m_name = ''set_current_position'', m_params = [''position''],
      m_function = 7, m_form = ''i'', m_form_ret = [],
      m_result = Discarded\<rparr>"

definition BrickStepper_get_current_position :: dev_method where
  "BrickStepper_get_current_position =
     \<lparr>m_name = ''get_current_position'', m_params = [],
      m_function = 8, m_form = [], m_form_ret = ''i'',
      m_result = Returned\<rparr>"

definition BrickStepper_set_target_position :: dev_method where
  "BrickStepper_set_target_position =
     \<lparr>m_name = ''set_target_position'', m_params = [''position''],
      m_function = 9, m_form = ''i'', m_form_ret = [],
      m_result = Discarded\<rparr>"

definition BrickStepper_get_target_position :: dev_method where
  "BrickStepper_get_target_position =
     \<lparr>m_name = ''get_target_position'', m_params = [],
      m_function = 10, m_form = [], m_form_ret = ''i'',
      m_result = Returned\<rparr>"

definition BrickStepper_set_steps :: dev_method where
  "BrickStepper_set_steps =
     \<lparr>m_name = ''set_steps'', m_params = [''steps''],
      m_function = 11, m_form = ''i'', m_form_ret = [],
      m_result = Discarded\<rparr>"

definition BrickStepper_get_steps :: dev_method where
  "BrickStepper_get_steps =
     \<lparr>m_name = ''get_steps'', m_params = [],
      m_function = 12, m_form = [], m_form_ret = ''i'',
      m_result = Returned\<rparr>"

definition BrickStepper_get_remaining_steps :: dev_method where
  "BrickStepper_get_remaining_steps =
     \<lparr>m_name = ''get_remaining_steps'', m_params = [],
      m_function = 13, m_form = [], m_form_ret = ''i'',
      m_result = Returned\<rparr>"

definition BrickStepper_set_step_mode :: dev_method where
  "BrickStepper_set_step_mode =
     \<lparr>m_name = ''set_step_mode'', m_params = [''mode''],
      m_function = 14, m_form = ''B'', m_form_ret = [],
      m_result = Discarded\<rparr>"

definition BrickStepper_get_step_mode :: dev_method where
  "BrickStepper_get_step_mode =
     \<lparr>m_name = ''get_step_mode'', m_params = [],
      m_function = 15, m_form = [], m_form_ret = ''B'',
      m_result = Returned\<rparr>"

definition BrickStepper_drive_forward :: dev_method where
  "BrickStepper_drive_forward =
     \<lparr>m_name = ''drive_forward'', m_params = [],
      m_function = 16, m_form = [], m_form_ret = [],
      m_result = Discarded\<rparr>"

definition BrickStepper_drive_backward :: dev_method where
  "BrickStepper_drive_backward =
     \<lparr>m_name = ''drive_backward'', m_params = [],
      m_function = 17, m_form = [], m_form_ret = [],
      m_result = Discarded\<rparr>"

definition BrickStepper_stop :: dev_method where
  "BrickStepper_stop =
     \<lparr>m_name = ''stop'', m_params = [],
      m_function = 18, m_form = [], m_form_ret = [],
      m_result = Discarded\<rparr>"

definition BrickStepper_get_stack_input_voltage :: dev_method where
  "BrickStepper_get_stack_input_voltage =
     \<lparr>m_name = ''get_stack_input_voltage'', m_params = [],
      m_function = 19, m_form = [], m_form_ret = ''H'',
      m_result = Returned\<rparr>"

definition BrickStepper_get_external_input_voltage :: dev_method where
  "BrickStepper_get_external_input_voltage =
     \<lparr>m_name = ''get_external_input_voltage'', m_params = [],
      m_function = 20, m_form = [], m_form_ret = ''H'',
      m_result = Returned\<rparr>"

definition BrickStepper_get_current_consumption :: dev_method where
  "BrickStepper_get_current_consumption =
     \<lparr>m_name = ''get_current_consumption'', m_params = [],
      m_function = 21, m_form = [], m_form_ret = ''H'',
      m_result = Returned\<rparr>"

definition BrickStepper_set_motor_current :: dev_method where
  "BrickStepper_set_motor_current =
     \<lparr>m_name = ''set_motor_current'', m_params = [''current''],
      m_function = 22, m_form = ''H'', m_form_ret = [],
      m_result = Discarded\<rparr>"

definition BrickStepper_get_motor_current :: dev_method where
  "BrickStepper_get_motor_current =
     \<lparr>m_name = ''get_motor_current'', m_params = [],
      m_function = 23, m_form = [], m_form_ret = ''H'',
      m_result = Returned\<rparr>"

definition BrickStepper_enable :: dev_method where
  "BrickStepper_enable =
     \<lparr>m_name = ''enable'', m_params = [],
      m_function = 24, m_form = [], m_form_ret = [],
      m_result = Discarded\<rparr>"

definition BrickStepper_disable :: dev_method where
  "BrickStepper_disable =
     \<lparr>m_name = ''disable'', m_params = [],
      m_function = 25, m_form = [], m_form_ret = [],
      m_result = Discarded\<rparr>"

definition BrickStepper_is_enabled :: dev_method where
  "BrickStepper_is_enabled =
     \<lparr>m_name = ''is_enabled'', m_params = [],
      m_function = 26, m_form = [], m_form_ret = ''?'',
      m_result = Returned\<rparr>"

definition BrickStepper_set_decay :: dev_method where
  "BrickStepper_set_decay =
     \<lparr>m_name = ''set_decay'', m_params = [''decay''],
      m_function = 27, m_form = ''H'', m_form_ret = [],
      m_result = Discarded\<rparr>"

definition BrickStepper_get_decay :: dev_method where
  "BrickStepper_get_decay =
     \<lparr>m_name = ''get_decay'', m_params = [],
      m_function = 28, m_form = [], m_form_ret = ''H'',
      m_result = Returned\<rparr>"

definition BrickStepper_set_minimum_voltage :: dev_method where
  "BrickStepper_set_minimum_voltage =
     \<lparr>m_name = ''set_minimum_voltage'', m_params = [''voltage''],
      m_function = 29, m_form = ''H'', m_form_ret = [],
      m_result = Discarded\<rparr>"

definition BrickStepper_get_minimum_voltage :: dev_method where
  "BrickStepper_get_minimum_voltage =
     \<lparr>m_name = ''get_minimum_voltage'', m_params = [],
      m_function = 30, m_form = [], m_form_ret = ''H'',
      m_result = Returned\<rparr>"

definition BrickStepper_set_sync_rect :: dev_method where
  "BrickStepper_set_sync_rect =
     \<lparr>m_name = ''set_sync_rect'', m_params = [''sync_rect''],
      m_function = 33, m_form = ''?'', m_form_ret = [],
      m_result = Discarded\<rparr>"

definition BrickStepper_is_sync_rect :: dev_method where
  "BrickStepper_is_sync_rect =
     \<lparr>m_name = ''is_sync_rect'', m_params = [],
      m_function = 34, m_form = [], m_form_ret = ''?'',
      m_result = Returned\<rparr>"

definition BrickStepper_set_time_base :: dev_method where
  "BrickStepper_set_time_base =
     \<lparr>m_name = ''set_time_base'', m_params = [''time_base''],
      m_function = 35, m_form = ''I'', m_form_ret = [],
      m_result = Discarded\<rparr>"

definition BrickStepper_get_time_base :: dev_method where
  "BrickStepper_get_time_base =
     \<lparr>m_name = ''get_time_base'', m_params = [],
      m_function = 36, m_form = [], m_form_ret = ''I'',
      m_result = Returned\<rparr>"

definition BrickStepper_get_all_data :: dev_method where
  "BrickStepper_get_all_data =
     \<lparr>m_name = ''get_all_data'', m_params = [],
      m_function = 37, m_form = [], m_form_ret = ''H i i H H H'',
      m_result = BrickStepper_GetAllData\<rparr>"

definition BrickStepper_set_all_data_period :: dev_method where
  "BrickStepper_set_all_data_period =
     \<lparr>m_name = ''set_all_data_period'', m_params = [''period''],
      m_function = 38, m_form = ''I'', m_form_ret = [],
      m_result = Discarded\<rparr>"

definition BrickStepper_get_all_data_period :: dev_method where
  "BrickStepper_get_all_data_period =
     \<lparr>m_name = ''get_all_data_period'', m_params = [],
      m_function = 39, m_form = [], m_form_ret = ''I'',
      m_result = Returned\<rparr>"

definition BrickStepper_enable_status_led :: dev_method where
  "BrickStepper_enable_status_led =
     \<lparr>m_name = ''enable_status_led'', m_params = [],
      m_function = 238, m_form = [], m_form_ret = [],
      m_result = Discarded\<rparr>"

definition BrickStepper_disable_status_led :: dev_method where
  "BrickStepper_disable_status_led =
     \<lparr>m_name = ''disable_status_led'', m_params = [],
      m_function = 239, m_form = [], m_form_ret = [],
      m_result = Discarded\<rparr>"

definition BrickStepper_is_status_led_enabled :: dev_method where
  "BrickStepper_is_status_led_enabled =
     \<lparr>m_name = ''is_status_led_enabled'', m_params = [],
      m_function = 240, m_form = [], m_form_ret = ''?'',
      m_result = Returned\<rparr>"

definition BrickStepper_get_protocol1_bricklet_name :: dev_method where
  "BrickStepper_get_protocol1_bricklet_name =
     \<lparr>m_name = ''get_protocol1_bricklet_name'', m_params = [''port''],
      m_function = 241, m_form = ''c'', m_form_ret = ''B 3B 40s'',
      m_result = BrickStepper_GetProtocol1BrickletName\<rparr>"

definition BrickStepper_get_chip_temperature :: dev_method where
  "BrickStepper_get_chip_temperature =
     \<lparr>m_name = ''get_chip_temperature'', m_params = [],
      m_function = 242, m_form = [], m_form_ret = ''h'',
      m_result = Returned\<rparr>"

definition BrickStepper_reset :: dev_method where
  "BrickStepper_reset =
     \<lparr>m_name = ''reset'', m_params = [],
      m_function = 243, m_form = [], m_form_ret = [],
      m_result = Discarded\<rparr>"

definition BrickStepper_get_identity :: dev_method where
  "BrickStepper_get_identity =
     \<lparr>m_name = ''get_identity'', m_params = [],
      m_function = 255, m_form = [], m_form_ret = ''8s 8s c 3B 3B H'',
      m_result = BrickStepper_GetIdentity\<rparr>"

definition BrickStepper :: binding where
  "BrickStepper =
     \<lparr>b_class = ''BrickStepper'', b_identifier = 15, b_ids = BrickStepper_ids,
      b_api_version = (2, 0, 0), b_flags = BrickStepper_flags, b_formats = BrickStepper_formats,
      b_methods =
       [BrickStepper_set_max_velocity, BrickStepper_get_max_velocity,
        BrickStepper_get_current_velocity, BrickStepper_set_speed_ramping,
        BrickStepper_get_speed_ramping, BrickStepper_full_brake, BrickStepper_set_current_position,
        BrickStepper_get_current_position, BrickStepper_set_target_position,
        BrickStepper_get_target_position, BrickStepper_set_steps, BrickStepper_get_steps,
        BrickStepper_get_remaining_steps, BrickStepper_set_step_mode, BrickStepper_get_step_mode,
        BrickStepper_drive_forward, BrickStepper_drive_backward, BrickStepper_stop,
        BrickStepper_get_stack_input_voltage, BrickStepper_get_external_input_voltage,
        BrickStepper_get_current_consumption, BrickStepper_set_motor_current,
        BrickStepper_get_motor_current, BrickStepper_enable, BrickStepper_disable,
        BrickStepper_is_enabled, BrickStepper_set_decay, BrickStepper_get_decay,
        BrickStepper_set_minimum_voltage, BrickStepper_get_minimum_voltage,
        BrickStepper_set_sync_rect, BrickStepper_is_sync_rect, BrickStepper_set_time_base,
        BrickStepper_get_time_base, BrickStepper_get_all_data, BrickStepper_set_all_data_period,
        BrickStepper_get_all_data_period, BrickStepper_enable_status_led,
        BrickStepper_disable_status_led, BrickStepper_is_status_led_enabled,
        BrickStepper_get_protocol1_bricklet_name, BrickStepper_get_chip_temperature,
        BrickStepper_reset, BrickStepper_get_identity]\<rparr>"

interpretation Stepper: device_class BrickStepper
  by unfold_locales code_simp

end
