(* ===== verification/Bricks_Motion.thy ===== *)
theory Bricks_Motion
  imports Bindings
begin

text \<open>
  The device classes of the two IMU Bricks. For each class: its
  named tuples, its constants, the assignments of its constructor, one definition per
  method, and the class itself, on which \<open>device_class\<close> is interpreted.
\<close>

section \<open>The class BrickIMU (\<^verbatim>\<open>brick_imu.py\<close>)\<close>

definition BrickIMU_GetAcceleration :: shape where
  "BrickIMU_GetAcceleration = Named ''Acceleration''
     [''x'', ''y'', ''z'']"

definition BrickIMU_GetMagneticField :: shape where
  "BrickIMU_GetMagneticField = Named ''MagneticField''
     [''x'', ''y'', ''z'']"

definition BrickIMU_GetAngularVelocity :: shape where
  "BrickIMU_GetAngularVelocity = Named ''AngularVelocity''
     [''x'', ''y'', ''z'']"

definition BrickIMU_GetAllData :: shape where
  "BrickIMU_GetAllData = Named ''AllData''
     [''acc_x'', ''acc_y'', ''acc_z'', ''mag_x'', ''mag_y'', ''mag_z'', ''ang_x'', ''ang_y'',
      ''ang_z'', ''temperature'']"

definition BrickIMU_GetOrientation :: shape where
  "BrickIMU_GetOrientation = Named ''Orientation''
     [''roll'', ''pitch'', ''yaw'']"

definition BrickIMU_GetQuaternion :: shape where
  "BrickIMU_GetQuaternion = Named ''Quaternion''
     [''x'', ''y'', ''z'', ''w'']"

definition BrickIMU_GetProtocol1BrickletName :: shape where
  "BrickIMU_GetProtocol1BrickletName = Named ''Protocol1BrickletName''
     [''protocol_version'', ''firmware_version'', ''name'']"

definition BrickIMU_GetIdentity :: shape where
  "BrickIMU_GetIdentity = Named ''Identity''
     [''uid'', ''connected_uid'', ''position'', ''hardware_version'', ''firmware_version'',
      ''device_identifier'']"

definition BrickIMU_ids :: "(string \<times> int) list" where
  "BrickIMU_ids =
     [(''CALLBACK_ACCELERATION'', 31), (''CALLBACK_MAGNETIC_FIELD'', 32),
      (''CALLBACK_ANGULAR_VELOCITY'', 33), (''CALLBACK_ALL_DATA'', 34),
      (''CALLBACK_ORIENTATION'', 35), (''CALLBACK_QUATERNION'', 36),
      (''FUNCTION_GET_ACCELERATION'', 1), (''FUNCTION_GET_MAGNETIC_FIELD'', 2),
      (''FUNCTION_GET_ANGULAR_VELOCITY'', 3), (''FUNCTION_GET_ALL_DATA'', 4),
      (''FUNCTION_GET_ORIENTATION'', 5), (''FUNCTION_GET_QUATERNION'', 6),
      (''FUNCTION_GET_IMU_TEMPERATURE'', 7), (''FUNCTION_LEDS_ON'', 8), (''FUNCTION_LEDS_OFF'', 9),
      (''FUNCTION_ARE_LEDS_ON'', 10), (''FUNCTION_SET_ACCELERATION_RANGE'', 11),
      (''FUNCTION_GET_ACCELERATION_RANGE'', 12), (''FUNCTION_SET_MAGNETOMETER_RANGE'', 13),
      (''FUNCTION_GET_MAGNETOMETER_RANGE'', 14), (''FUNCTION_SET_CONVERGENCE_SPEED'', 15),
      (''FUNCTION_GET_CONVERGENCE_SPEED'', 16), (''FUNCTION_SET_CALIBRATION'', 17),
      (''FUNCTION_GET_CALIBRATION'', 18), (''FUNCTION_SET_ACCELERATION_PERIOD'', 19),
      (''FUNCTION_GET_ACCELERATION_PERIOD'', 20), (''FUNCTION_SET_MAGNETIC_FIELD_PERIOD'', 21),
      (''FUNCTION_GET_MAGNETIC_FIELD_PERIOD'', 22), (''FUNCTION_SET_ANGULAR_VELOCITY_PERIOD'', 23),
      (''FUNCTION_GET_ANGULAR_VELOCITY_PERIOD'', 24), (''FUNCTION_SET_ALL_DATA_PERIOD'', 25),
      (''FUNCTION_GET_ALL_DATA_PERIOD'', 26), (''FUNCTION_SET_ORIENTATION_PERIOD'', 27),
      (''FUNCTION_GET_ORIENTATION_PERIOD'', 28), (''FUNCTION_SET_QUATERNION_PERIOD'', 29),
      (''FUNCTION_GET_QUATERNION_PERIOD'', 30), (''FUNCTION_ORIENTATION_CALCULATION_ON'', 37),
      (''FUNCTION_ORIENTATION_CALCULATION_OFF'', 38),
      (''FUNCTION_IS_ORIENTATION_CALCULATION_ON'', 39), (''FUNCTION_ENABLE_STATUS_LED'', 238),
      (''FUNCTION_DISABLE_STATUS_LED'', 239), (''FUNCTION_IS_STATUS_LED_ENABLED'', 240),
      (''FUNCTION_GET_PROTOCOL1_BRICKLET_NAME'', 241), (''FUNCTION_GET_CHIP_TEMPERATURE'', 242),
      (''FUNCTION_RESET'', 243), (''FUNCTION_GET_IDENTITY'', 255)]"

definition BrickIMU_flags :: "(int \<times> resp_flag) list" where
  "BrickIMU_flags =
     [(1, ALWAYS_TRUE), (2, ALWAYS_TRUE), (3, ALWAYS_TRUE), (4, ALWAYS_TRUE), (5, ALWAYS_TRUE),
      (6, ALWAYS_TRUE), (7, ALWAYS_TRUE), (8, RE_FALSE), (9, RE_FALSE), (10, ALWAYS_TRUE),
      (11, RE_FALSE), (12, ALWAYS_TRUE), (13, RE_FALSE), (14, ALWAYS_TRUE), (15, RE_FALSE),
      (16, ALWAYS_TRUE), (17, RE_FALSE), (18, ALWAYS_TRUE), (19, RE_TRUE), (20, ALWAYS_TRUE),
      (21, RE_TRUE), (22, ALWAYS_TRUE), (23, RE_TRUE), (24, ALWAYS_TRUE), (25, RE_TRUE),
      (26, ALWAYS_TRUE), (27, RE_TRUE), (28, ALWAYS_TRUE), (29, RE_TRUE), (30, ALWAYS_TRUE),
      (31, ALWAYS_FALSE), (32, ALWAYS_FALSE), (33, ALWAYS_FALSE), (34, ALWAYS_FALSE),
      (35, ALWAYS_FALSE), (36, ALWAYS_FALSE), (37, RE_FALSE), (38, RE_FALSE), (39, ALWAYS_TRUE),
      (238, RE_FALSE), (239, RE_FALSE), (240, ALWAYS_TRUE), (241, ALWAYS_TRUE), (242, ALWAYS_TRUE),
      (243, RE_FALSE), (255, ALWAYS_TRUE)]"

definition BrickIMU_formats :: "(int \<times> string) list" where
  "BrickIMU_formats =
     [(31, ''h h h''), (32, ''h h h''), (33, ''h h h''), (34, ''h h h h h h h h h h''),
      (35, ''h h h''), (36, ''f f f f'')]"

definition BrickIMU_get_acceleration :: dev_method where
  "BrickIMU_get_acceleration =
     \<lparr>m_name = ''get_acceleration'', m_params = [],
      m_function = 1, m_form = [], m_form_ret = ''h h h'',
      m_result = BrickIMU_GetAcceleration\<rparr>"

definition BrickIMU_get_magnetic_field :: dev_method where
  "BrickIMU_get_magnetic_field =
     \<lparr>m_name = ''get_magnetic_field'', m_params = [],
      m_function = 2, m_form = [], m_form_ret = ''h h h'',
      m_result = BrickIMU_GetMagneticField\<rparr>"

definition BrickIMU_get_angular_velocity :: dev_method where
  "BrickIMU_get_angular_velocity =
     \<lparr>m_name = ''get_angular_velocity'', m_params = [],
      m_function = 3, m_form = [], m_form_ret = ''h h h'',
      m_result = BrickIMU_GetAngularVelocity\<rparr>"

definition BrickIMU_get_all_data :: dev_method where
  "BrickIMU_get_all_data =
     \<lparr>m_name = ''get_all_data'', m_params = [],
      m_function = 4, m_form = [], m_form_ret = ''h h h h h h h h h h'',
      m_result = BrickIMU_GetAllData\<rparr>"

definition BrickIMU_get_orientation :: dev_method where
  "BrickIMU_get_orientation =
     \<lparr>m_name = ''get_orientation'', m_params = [],
      m_function = 5, m_form = [], m_form_ret = ''h h h'',
      m_result = BrickIMU_GetOrientation\<rparr>"

definition BrickIMU_get_quaternion :: dev_method where
  "BrickIMU_get_quaternion =
     \<lparr>m_name = ''get_quaternion'', m_params = [],
      m_function = 6, m_form = [], m_form_ret = ''f f f f'',
      m_result = BrickIMU_GetQuaternion\<rparr>"

definition BrickIMU_get_imu_temperature :: dev_method where
  "BrickIMU_get_imu_temperature =
     \<lparr>m_name = ''get_imu_temperature'', m_params = [],
      m_function = 7, m_form = [], m_form_ret = ''h'',
      m_result = Returned\<rparr>"

definition BrickIMU_leds_on :: dev_method where
  "BrickIMU_leds_on =
     \<lparr>m_name = ''leds_on'', m_params = [],
      m_function = 8, m_form = [], m_form_ret = [],
      m_result = Discarded\<rparr>"

definition BrickIMU_leds_off :: dev_method where
  "BrickIMU_leds_off =
     \<lparr>m_name = ''leds_off'', m_params = [],
      m_function = 9, m_form = [], m_form_ret = [],
      m_result = Discarded\<rparr>"

definition BrickIMU_are_leds_on :: dev_method where
  "BrickIMU_are_leds_on =
     \<lparr>m_name = ''are_leds_on'', m_params = [],
      m_function = 10, m_form = [], m_form_ret = ''?'',
      m_result = Returned\<rparr>"

definition BrickIMU_set_acceleration_range :: dev_method where
  "BrickIMU_set_acceleration_range =
     \<lparr>m_name = ''set_acceleration_range'', m_params = [''range''],
      m_function = 11, m_form = ''B'', m_form_ret = [],
      m_result = Discarded\<rparr>"

definition BrickIMU_get_acceleration_range :: dev_method where
  "BrickIMU_get_acceleration_range =
     \<lparr>m_name = ''get_acceleration_range'', m_params = [],
      m_function = 12, m_form = [], m_form_ret = ''B'',
      m_result = Returned\<rparr>"

definition BrickIMU_set_magnetometer_range :: dev_method where
  "BrickIMU_set_magnetometer_range =
     \<lparr>m_name = ''set_magnetometer_range'', m_params = [''range''],
      m_function = 13, m_form = ''B'', m_form_ret = [],
      m_result = Discarded\<rparr>"

definition BrickIMU_get_magnetometer_range :: dev_method where
  "BrickIMU_get_magnetometer_range =
     \<lparr>m_name = ''get_magnetometer_range'', m_params = [],
      m_function = 14, m_form = [], m_form_ret = ''B'',
      m_result = Returned\<rparr>"

definition BrickIMU_set_convergence_speed :: dev_method where
  "BrickIMU_set_convergence_speed =
     \<lparr>m_name = ''set_convergence_speed'', m_params = [''speed''],
      m_function = 15, m_form = ''H'', m_form_ret = [],
      m_result = Discarded\<rparr>"

definition BrickIMU_get_convergence_speed :: dev_method where
  "BrickIMU_get_convergence_speed =
     \<lparr>m_name = ''get_convergence_speed'', m_params = [],
      m_function = 16, m_form = [], m_form_ret = ''H'',
      m_result = Returned\<rparr>"

definition BrickIMU_set_calibration :: dev_method where
  "BrickIMU_set_calibration =
     \<lparr>m_name = ''set_calibration'', m_params = [''typ'', ''data''],
      m_function = 17, m_form = ''B 10h'', m_form_ret = [],
      m_result = Discarded\<rparr>"

definition BrickIMU_get_calibration :: dev_method where
  "BrickIMU_get_calibration =
     \<lparr>m_name = ''get_calibration'', m_params = [''typ''],
      m_function = 18, m_form = ''B'', m_form_ret = ''10h'',
      m_result = Returned\<rparr>"

definition BrickIMU_set_acceleration_period :: dev_method where
  "BrickIMU_set_acceleration_period =
     \<lparr>m_name = ''set_acceleration_period'', m_params = [''period''],
      m_function = 19, m_form = ''I'', m_form_ret = [],
      m_result = Discarded\<rparr>"

definition BrickIMU_get_acceleration_period :: dev_method where
  "BrickIMU_get_acceleration_period =
     \<lparr>m_name = ''get_acceleration_period'', m_params = [],
      m_function = 20, m_form = [], m_form_ret = ''I'',
      m_result = Returned\<rparr>"

definition BrickIMU_set_magnetic_field_period :: dev_method where
  "BrickIMU_set_magnetic_field_period =
     \<lparr>m_name = ''set_magnetic_field_period'', m_params = [''period''],
      m_function = 21, m_form = ''I'', m_form_ret = [],
      m_result = Discarded\<rparr>"

definition BrickIMU_get_magnetic_field_period :: dev_method where
  "BrickIMU_get_magnetic_field_period =
     \<lparr>m_name = ''get_magnetic_field_period'', m_params = [],
      m_function = 22, m_form = [], m_form_ret = ''I'',
      m_result = Returned\<rparr>"

definition BrickIMU_set_angular_velocity_period :: dev_method where
  "BrickIMU_set_angular_velocity_period =
     \<lparr>m_name = ''set_angular_velocity_period'', m_params = [''period''],
      m_function = 23, m_form = ''I'', m_form_ret = [],
      m_result = Discarded\<rparr>"

definition BrickIMU_get_angular_velocity_period :: dev_method where
  "BrickIMU_get_angular_velocity_period =
     \<lparr>m_name = ''get_angular_velocity_period'', m_params = [],
      m_function = 24, m_form = [], m_form_ret = ''I'',
      m_result = Returned\<rparr>"

definition BrickIMU_set_all_data_period :: dev_method where
  "BrickIMU_set_all_data_period =
     \<lparr>m_name = ''set_all_data_period'', m_params = [''period''],
      m_function = 25, m_form = ''I'', m_form_ret = [],
      m_result = Discarded\<rparr>"

definition BrickIMU_get_all_data_period :: dev_method where
  "BrickIMU_get_all_data_period =
     \<lparr>m_name = ''get_all_data_period'', m_params = [],
      m_function = 26, m_form = [], m_form_ret = ''I'',
      m_result = Returned\<rparr>"

definition BrickIMU_set_orientation_period :: dev_method where
  "BrickIMU_set_orientation_period =
     \<lparr>m_name = ''set_orientation_period'', m_params = [''period''],
      m_function = 27, m_form = ''I'', m_form_ret = [],
      m_result = Discarded\<rparr>"

definition BrickIMU_get_orientation_period :: dev_method where
  "BrickIMU_get_orientation_period =
     \<lparr>m_name = ''get_orientation_period'', m_params = [],
      m_function = 28, m_form = [], m_form_ret = ''I'',
      m_result = Returned\<rparr>"

definition BrickIMU_set_quaternion_period :: dev_method where
  "BrickIMU_set_quaternion_period =
     \<lparr>m_name = ''set_quaternion_period'', m_params = [''period''],
      m_function = 29, m_form = ''I'', m_form_ret = [],
      m_result = Discarded\<rparr>"

definition BrickIMU_get_quaternion_period :: dev_method where
  "BrickIMU_get_quaternion_period =
     \<lparr>m_name = ''get_quaternion_period'', m_params = [],
      m_function = 30, m_form = [], m_form_ret = ''I'',
      m_result = Returned\<rparr>"

definition BrickIMU_orientation_calculation_on :: dev_method where
  "BrickIMU_orientation_calculation_on =
     \<lparr>m_name = ''orientation_calculation_on'', m_params = [],
      m_function = 37, m_form = [], m_form_ret = [],
      m_result = Discarded\<rparr>"

definition BrickIMU_orientation_calculation_off :: dev_method where
  "BrickIMU_orientation_calculation_off =
     \<lparr>m_name = ''orientation_calculation_off'', m_params = [],
      m_function = 38, m_form = [], m_form_ret = [],
      m_result = Discarded\<rparr>"

definition BrickIMU_is_orientation_calculation_on :: dev_method where
  "BrickIMU_is_orientation_calculation_on =
     \<lparr>m_name = ''is_orientation_calculation_on'', m_params = [],
      m_function = 39, m_form = [], m_form_ret = ''?'',
      m_result = Returned\<rparr>"

definition BrickIMU_enable_status_led :: dev_method where
  "BrickIMU_enable_status_led =
     \<lparr>m_name = ''enable_status_led'', m_params = [],
      m_function = 238, m_form = [], m_form_ret = [],
      m_result = Discarded\<rparr>"

definition BrickIMU_disable_status_led :: dev_method where
  "BrickIMU_disable_status_led =
     \<lparr>m_name = ''disable_status_led'', m_params = [],
      m_function = 239, m_form = [], m_form_ret = [],
      m_result = Discarded\<rparr>"

definition BrickIMU_is_status_led_enabled :: dev_method where
  "BrickIMU_is_status_led_enabled =
     \<lparr>m_name = ''is_status_led_enabled'', m_params = [],
      m_function = 240, m_form = [], m_form_ret = ''?'',
      m_result = Returned\<rparr>"

definition BrickIMU_get_protocol1_bricklet_name :: dev_method where
  "BrickIMU_get_protocol1_bricklet_name =
     \<lparr>m_name = ''get_protocol1_bricklet_name'', m_params = [''port''],
      m_function = 241, m_form = ''c'', m_form_ret = ''B 3B 40s'',
      m_result = BrickIMU_GetProtocol1BrickletName\<rparr>"

definition BrickIMU_get_chip_temperature :: dev_method where
  "BrickIMU_get_chip_temperature =
     \<lparr>m_name = ''get_chip_temperature'', m_params = [],
      m_function = 242, m_form = [], m_form_ret = ''h'',
      m_result = Returned\<rparr>"

definition BrickIMU_reset :: dev_method where
  "BrickIMU_reset =
     \<lparr>m_name = ''reset'', m_params = [],
      m_function = 243, m_form = [], m_form_ret = [],
      m_result = Discarded\<rparr>"

definition BrickIMU_get_identity :: dev_method where
  "BrickIMU_get_identity =
     \<lparr>m_name = ''get_identity'', m_params = [],
      m_function = 255, m_form = [], m_form_ret = ''8s 8s c 3B 3B H'',
      m_result = BrickIMU_GetIdentity\<rparr>"

definition BrickIMU :: binding where
  "BrickIMU =
     \<lparr>b_class = ''BrickIMU'', b_identifier = 16, b_ids = BrickIMU_ids,
      b_api_version = (2, 0, 1), b_flags = BrickIMU_flags, b_formats = BrickIMU_formats,
      b_methods =
       [BrickIMU_get_acceleration, BrickIMU_get_magnetic_field, BrickIMU_get_angular_velocity,
        BrickIMU_get_all_data, BrickIMU_get_orientation, BrickIMU_get_quaternion,
        BrickIMU_get_imu_temperature, BrickIMU_leds_on, BrickIMU_leds_off, BrickIMU_are_leds_on,
        BrickIMU_set_acceleration_range, BrickIMU_get_acceleration_range,
        BrickIMU_set_magnetometer_range, BrickIMU_get_magnetometer_range,
        BrickIMU_set_convergence_speed, BrickIMU_get_convergence_speed, BrickIMU_set_calibration,
        BrickIMU_get_calibration, BrickIMU_set_acceleration_period,
        BrickIMU_get_acceleration_period, BrickIMU_set_magnetic_field_period,
        BrickIMU_get_magnetic_field_period, BrickIMU_set_angular_velocity_period,
        BrickIMU_get_angular_velocity_period, BrickIMU_set_all_data_period,
        BrickIMU_get_all_data_period, BrickIMU_set_orientation_period,
        BrickIMU_get_orientation_period, BrickIMU_set_quaternion_period,
        BrickIMU_get_quaternion_period, BrickIMU_orientation_calculation_on,
        BrickIMU_orientation_calculation_off, BrickIMU_is_orientation_calculation_on,
        BrickIMU_enable_status_led, BrickIMU_disable_status_led, BrickIMU_is_status_led_enabled,
        BrickIMU_get_protocol1_bricklet_name, BrickIMU_get_chip_temperature, BrickIMU_reset,
        BrickIMU_get_identity]\<rparr>"

interpretation IMU: device_class BrickIMU
  by unfold_locales code_simp

section \<open>The class BrickIMUV2 (\<^verbatim>\<open>brick_imu_v2.py\<close>)\<close>

definition BrickIMUV2_GetAcceleration :: shape where
  "BrickIMUV2_GetAcceleration = Named ''Acceleration''
     [''x'', ''y'', ''z'']"

definition BrickIMUV2_GetMagneticField :: shape where
  "BrickIMUV2_GetMagneticField = Named ''MagneticField''
     [''x'', ''y'', ''z'']"

definition BrickIMUV2_GetAngularVelocity :: shape where
  "BrickIMUV2_GetAngularVelocity = Named ''AngularVelocity''
     [''x'', ''y'', ''z'']"

definition BrickIMUV2_GetOrientation :: shape where
  "BrickIMUV2_GetOrientation = Named ''Orientation''
     [''heading'', ''roll'', ''pitch'']"

definition BrickIMUV2_GetLinearAcceleration :: shape where
  "BrickIMUV2_GetLinearAcceleration = Named ''LinearAcceleration''
     [''x'', ''y'', ''z'']"

definition BrickIMUV2_GetGravityVector :: shape where
  "BrickIMUV2_GetGravityVector = Named ''GravityVector''
     [''x'', ''y'', ''z'']"

definition BrickIMUV2_GetQuaternion :: shape where
  "BrickIMUV2_GetQuaternion = Named ''Quaternion''
     [''w'', ''x'', ''y'', ''z'']"

definition BrickIMUV2_GetAllData :: shape where
  "BrickIMUV2_GetAllData = Named ''AllData''
     [''acceleration'', ''magnetic_field'', ''angular_velocity'', ''euler_angle'', ''quaternion'',
      ''linear_acceleration'', ''gravity_vector'', ''temperature'', ''calibration_status'']"

definition BrickIMUV2_GetProtocol1BrickletName :: shape where
  "BrickIMUV2_GetProtocol1BrickletName = Named ''Protocol1BrickletName''
     [''protocol_version'', ''firmware_version'', ''name'']"

definition BrickIMUV2_GetIdentity :: shape where
  "BrickIMUV2_GetIdentity = Named ''Identity''
     [''uid'', ''connected_uid'', ''position'', ''hardware_version'', ''firmware_version'',
      ''device_identifier'']"

definition BrickIMUV2_ids :: "(string \<times> int) list" where
  "BrickIMUV2_ids =
     [(''CALLBACK_ACCELERATION'', 32), (''CALLBACK_MAGNETIC_FIELD'', 33),
      (''CALLBACK_ANGULAR_VELOCITY'', 34), (''CALLBACK_TEMPERATURE'', 35),
      (''CALLBACK_LINEAR_ACCELERATION'', 36), (''CALLBACK_GRAVITY_VECTOR'', 37),
      (''CALLBACK_ORIENTATION'', 38), (''CALLBACK_QUATERNION'', 39), (''CALLBACK_ALL_DATA'', 40),
      (''FUNCTION_GET_ACCELERATION'', 1), (''FUNCTION_GET_MAGNETIC_FIELD'', 2),
      (''FUNCTION_GET_ANGULAR_VELOCITY'', 3), (''FUNCTION_GET_TEMPERATURE'', 4),
      (''FUNCTION_GET_ORIENTATION'', 5), (''FUNCTION_GET_LINEAR_ACCELERATION'', 6),
      (''FUNCTION_GET_GRAVITY_VECTOR'', 7), (''FUNCTION_GET_QUATERNION'', 8),
      (''FUNCTION_GET_ALL_DATA'', 9), (''FUNCTION_LEDS_ON'', 10), (''FUNCTION_LEDS_OFF'', 11),
      (''FUNCTION_ARE_LEDS_ON'', 12), (''FUNCTION_SAVE_CALIBRATION'', 13),
      (''FUNCTION_SET_ACCELERATION_PERIOD'', 14), (''FUNCTION_GET_ACCELERATION_PERIOD'', 15),
      (''FUNCTION_SET_MAGNETIC_FIELD_PERIOD'', 16), (''FUNCTION_GET_MAGNETIC_FIELD_PERIOD'', 17),
      (''FUNCTION_SET_ANGULAR_VELOCITY_PERIOD'', 18),
      (''FUNCTION_GET_ANGULAR_VELOCITY_PERIOD'', 19), (''FUNCTION_SET_TEMPERATURE_PERIOD'', 20),
      (''FUNCTION_GET_TEMPERATURE_PERIOD'', 21), (''FUNCTION_SET_ORIENTATION_PERIOD'', 22),
      (''FUNCTION_GET_ORIENTATION_PERIOD'', 23), (''FUNCTION_SET_LINEAR_ACCELERATION_PERIOD'', 24),
      (''FUNCTION_GET_LINEAR_ACCELERATION_PERIOD'', 25),
      (''FUNCTION_SET_GRAVITY_VECTOR_PERIOD'', 26), (''FUNCTION_GET_GRAVITY_VECTOR_PERIOD'', 27),
      (''FUNCTION_SET_QUATERNION_PERIOD'', 28), (''FUNCTION_GET_QUATERNION_PERIOD'', 29),
      (''FUNCTION_SET_ALL_DATA_PERIOD'', 30), (''FUNCTION_GET_ALL_DATA_PERIOD'', 31),
      (''FUNCTION_ENABLE_STATUS_LED'', 238), (''FUNCTION_DISABLE_STATUS_LED'', 239),
      (''FUNCTION_IS_STATUS_LED_ENABLED'', 240), (''FUNCTION_GET_PROTOCOL1_BRICKLET_NAME'', 241),
      (''FUNCTION_GET_CHIP_TEMPERATURE'', 242), (''FUNCTION_RESET'', 243),
      (''FUNCTION_GET_IDENTITY'', 255)]"

definition BrickIMUV2_flags :: "(int \<times> resp_flag) list" where
  "BrickIMUV2_flags =
     [(1, ALWAYS_TRUE), (2, ALWAYS_TRUE), (3, ALWAYS_TRUE), (4, ALWAYS_TRUE), (5, ALWAYS_TRUE),
      (6, ALWAYS_TRUE), (7, ALWAYS_TRUE), (8, ALWAYS_TRUE), (9, ALWAYS_TRUE), (10, RE_FALSE),
      (11, RE_FALSE), (12, ALWAYS_TRUE), (13, ALWAYS_TRUE), (14, RE_TRUE), (15, ALWAYS_TRUE),
      (16, RE_TRUE), (17, ALWAYS_TRUE), (18, RE_TRUE), (19, ALWAYS_TRUE), (20, RE_TRUE),
      (21, ALWAYS_TRUE), (22, RE_TRUE), (23, ALWAYS_TRUE), (24, RE_TRUE), (25, ALWAYS_TRUE),
      (26, RE_TRUE), (27, ALWAYS_TRUE), (28, RE_TRUE), (29, ALWAYS_TRUE), (30, RE_TRUE),
      (31, ALWAYS_TRUE), (32, ALWAYS_FALSE), (33, ALWAYS_FALSE), (34, ALWAYS_FALSE),
      (35, ALWAYS_FALSE), (36, ALWAYS_FALSE), (37, ALWAYS_FALSE), (38, ALWAYS_FALSE),
      (39, ALWAYS_FALSE), (40, ALWAYS_FALSE), (238, RE_FALSE), (239, RE_FALSE), (240, ALWAYS_TRUE),
      (241, ALWAYS_TRUE), (242, ALWAYS_TRUE), (243, RE_FALSE), (255, ALWAYS_TRUE)]"

definition BrickIMUV2_formats :: "(int \<times> string) list" where
  "BrickIMUV2_formats =
     [(32, ''h h h''), (33, ''h h h''), (34, ''h h h''), (35, ''b''), (36, ''h h h''),
      (37, ''h h h''), (38, ''h h h''), (39, ''h h h h''), (40, ''3h 3h 3h 3h 4h 3h 3h b B'')]"

definition BrickIMUV2_get_acceleration :: dev_method where
  "BrickIMUV2_get_acceleration =
     \<lparr>m_name = ''get_acceleration'', m_params = [],
      m_function = 1, m_form = [], m_form_ret = ''h h h'',
      m_result = BrickIMUV2_GetAcceleration\<rparr>"

definition BrickIMUV2_get_magnetic_field :: dev_method where
  "BrickIMUV2_get_magnetic_field =
     \<lparr>m_name = ''get_magnetic_field'', m_params = [],
      m_function = 2, m_form = [], m_form_ret = ''h h h'',
      m_result = BrickIMUV2_GetMagneticField\<rparr>"

definition BrickIMUV2_get_angular_velocity :: dev_method where
  "BrickIMUV2_get_angular_velocity =
     \<lparr>m_name = ''get_angular_velocity'', m_params = [],
      m_function = 3, m_form = [], m_form_ret = ''h h h'',
      m_result = BrickIMUV2_GetAngularVelocity\<rparr>"

definition BrickIMUV2_get_temperature :: dev_method where
  "BrickIMUV2_get_temperature =
     \<lparr>m_name = ''get_temperature'', m_params = [],
      m_function = 4, m_form = [], m_form_ret = ''b'',
      m_result = Returned\<rparr>"

definition BrickIMUV2_get_orientation :: dev_method where
  "BrickIMUV2_get_orientation =
     \<lparr>m_name = ''get_orientation'', m_params = [],
      m_function = 5, m_form = [], m_form_ret = ''h h h'',
      m_result = BrickIMUV2_GetOrientation\<rparr>"

definition BrickIMUV2_get_linear_acceleration :: dev_method where
  "BrickIMUV2_get_linear_acceleration =
     \<lparr>m_name = ''get_linear_acceleration'', m_params = [],
      m_function = 6, m_form = [], m_form_ret = ''h h h'',
      m_result = BrickIMUV2_GetLinearAcceleration\<rparr>"

definition BrickIMUV2_get_gravity_vector :: dev_method where
  "BrickIMUV2_get_gravity_vector =
     \<lparr>m_name = ''get_gravity_vector'', m_params = [],
      m_function = 7, m_form = [], m_form_ret = ''h h h'',
      m_result = BrickIMUV2_GetGravityVector\<rparr>"

definition BrickIMUV2_get_quaternion :: dev_method where
  "BrickIMUV2_get_quaternion =
     \<lparr>m_name = ''get_quaternion'', m_params = [],
      m_function = 8, m_form = [], m_form_ret = ''h h h h'',
      m_result = BrickIMUV2_GetQuaternion\<rparr>"

definition BrickIMUV2_get_all_data :: dev_method where
  "BrickIMUV2_get_all_data =
     \<lparr>m_name = ''get_all_data'', m_params = [],
      m_function = 9, m_form = [], m_form_ret = ''3h 3h 3h 3h 4h 3h 3h b B'',
      m_result = BrickIMUV2_GetAllData\<rparr>"

definition BrickIMUV2_leds_on :: dev_method where
  "BrickIMUV2_leds_on =
     \<lparr>m_name = ''leds_on'', m_params = [],
      m_function = 10, m_form = [], m_form_ret = [],
      m_result = Discarded\<rparr>"

definition BrickIMUV2_leds_off :: dev_method where
  "BrickIMUV2_leds_off =
     \<lparr>m_name = ''leds_off'', m_params = [],
      m_function = 11, m_form = [], m_form_ret = [],
      m_result = Discarded\<rparr>"

definition BrickIMUV2_are_leds_on :: dev_method where
  "BrickIMUV2_are_leds_on =
     \<lparr>m_name = ''are_leds_on'', m_params = [],
      m_function = 12, m_form = [], m_form_ret = ''?'',
      m_result = Returned\<rparr>"

definition BrickIMUV2_save_calibration :: dev_method where
  "BrickIMUV2_save_calibration =
     \<lparr>m_name = ''save_calibration'', m_params = [],
      m_function = 13, m_form = [], m_form_ret = ''?'',
      m_result = Returned\<rparr>"

definition BrickIMUV2_set_acceleration_period :: dev_method where
  "BrickIMUV2_set_acceleration_period =
     \<lparr>m_name = ''set_acceleration_period'', m_params = [''period''],
      m_function = 14, m_form = ''I'', m_form_ret = [],
      m_result = Discarded\<rparr>"

definition BrickIMUV2_get_acceleration_period :: dev_method where
  "BrickIMUV2_get_acceleration_period =
     \<lparr>m_name = ''get_acceleration_period'', m_params = [],
      m_function = 15, m_form = [], m_form_ret = ''I'',
      m_result = Returned\<rparr>"

definition BrickIMUV2_set_magnetic_field_period :: dev_method where
  "BrickIMUV2_set_magnetic_field_period =
     \<lparr>m_name = ''set_magnetic_field_period'', m_params = [''period''],
      m_function = 16, m_form = ''I'', m_form_ret = [],
      m_result = Discarded\<rparr>"

definition BrickIMUV2_get_magnetic_field_period :: dev_method where
  "BrickIMUV2_get_magnetic_field_period =
     \<lparr>m_name = ''get_magnetic_field_period'', m_params = [],
      m_function = 17, m_form = [], m_form_ret = ''I'',
      m_result = Returned\<rparr>"

definition BrickIMUV2_set_angular_velocity_period :: dev_method where
  "BrickIMUV2_set_angular_velocity_period =
     \<lparr>m_name = ''set_angular_velocity_period'', m_params = [''period''],
      m_function = 18, m_form = ''I'', m_form_ret = [],
      m_result = Discarded\<rparr>"

definition BrickIMUV2_get_angular_velocity_period :: dev_method where
  "BrickIMUV2_get_angular_velocity_period =
     \<lparr>m_name = ''get_angular_velocity_period'', m_params = [],
      m_function = 19, m_form = [], m_form_ret = ''I'',
      m_result = Returned\<rparr>"

definition BrickIMUV2_set_temperature_period :: dev_method where
  "BrickIMUV2_set_temperature_period =
     \<lparr>m_name = ''set_temperature_period'', m_params = [''period''],
      m_function = 20, m_form = ''I'', m_form_ret = [],
      m_result = Discarded\<rparr>"

definition BrickIMUV2_get_temperature_period :: dev_method where
  "BrickIMUV2_get_temperature_period =
     \<lparr>m_name = ''get_temperature_period'', m_params = [],
      m_function = 21, m_form = [], m_form_ret = ''I'',
      m_result = Returned\<rparr>"

definition BrickIMUV2_set_orientation_period :: dev_method where
  "BrickIMUV2_set_orientation_period =
     \<lparr>m_name = ''set_orientation_period'', m_params = [''period''],
      m_function = 22, m_form = ''I'', m_form_ret = [],
      m_result = Discarded\<rparr>"

definition BrickIMUV2_get_orientation_period :: dev_method where
  "BrickIMUV2_get_orientation_period =
     \<lparr>m_name = ''get_orientation_period'', m_params = [],
      m_function = 23, m_form = [], m_form_ret = ''I'',
      m_result = Returned\<rparr>"

definition BrickIMUV2_set_linear_acceleration_period :: dev_method where
  "BrickIMUV2_set_linear_acceleration_period =
     \<lparr>m_name = ''set_linear_acceleration_period'', m_params = [''period''],
      m_function = 24, m_form = ''I'', m_form_ret = [],
      m_result = Discarded\<rparr>"

definition BrickIMUV2_get_linear_acceleration_period :: dev_method where
  "BrickIMUV2_get_linear_acceleration_period =
     \<lparr>m_name = ''get_linear_acceleration_period'', m_params = [],
      m_function = 25, m_form = [], m_form_ret = ''I'',
      m_result = Returned\<rparr>"

definition BrickIMUV2_set_gravity_vector_period :: dev_method where
  "BrickIMUV2_set_gravity_vector_period =
     \<lparr>m_name = ''set_gravity_vector_period'', m_params = [''period''],
      m_function = 26, m_form = ''I'', m_form_ret = [],
      m_result = Discarded\<rparr>"

definition BrickIMUV2_get_gravity_vector_period :: dev_method where
  "BrickIMUV2_get_gravity_vector_period =
     \<lparr>m_name = ''get_gravity_vector_period'', m_params = [],
      m_function = 27, m_form = [], m_form_ret = ''I'',
      m_result = Returned\<rparr>"

definition BrickIMUV2_set_quaternion_period :: dev_method where
  "BrickIMUV2_set_quaternion_period =
     \<lparr>m_name = ''set_quaternion_period'', m_params = [''period''],
      m_function = 28, m_form = ''I'', m_form_ret = [],
      m_result = Discarded\<rparr>"

definition BrickIMUV2_get_quaternion_period :: dev_method where
  "BrickIMUV2_get_quaternion_period =
     \<lparr>m_name = ''get_quaternion_period'', m_params = [],
      m_function = 29, m_form = [], m_form_ret = ''I'',
      m_result = Returned\<rparr>"

definition BrickIMUV2_set_all_data_period :: dev_method where
  "BrickIMUV2_set_all_data_period =
     \<lparr>m_name = ''set_all_data_period'', m_params = [''period''],
      m_function = 30, m_form = ''I'', m_form_ret = [],
      m_result = Discarded\<rparr>"

definition BrickIMUV2_get_all_data_period :: dev_method where
  "BrickIMUV2_get_all_data_period =
     \<lparr>m_name = ''get_all_data_period'', m_params = [],
      m_function = 31, m_form = [], m_form_ret = ''I'',
      m_result = Returned\<rparr>"

definition BrickIMUV2_enable_status_led :: dev_method where
  "BrickIMUV2_enable_status_led =
     \<lparr>m_name = ''enable_status_led'', m_params = [],
      m_function = 238, m_form = [], m_form_ret = [],
      m_result = Discarded\<rparr>"

definition BrickIMUV2_disable_status_led :: dev_method where
  "BrickIMUV2_disable_status_led =
     \<lparr>m_name = ''disable_status_led'', m_params = [],
      m_function = 239, m_form = [], m_form_ret = [],
      m_result = Discarded\<rparr>"

definition BrickIMUV2_is_status_led_enabled :: dev_method where
  "BrickIMUV2_is_status_led_enabled =
     \<lparr>m_name = ''is_status_led_enabled'', m_params = [],
      m_function = 240, m_form = [], m_form_ret = ''?'',
      m_result = Returned\<rparr>"

definition BrickIMUV2_get_protocol1_bricklet_name :: dev_method where
  "BrickIMUV2_get_protocol1_bricklet_name =
     \<lparr>m_name = ''get_protocol1_bricklet_name'', m_params = [''port''],
      m_function = 241, m_form = ''c'', m_form_ret = ''B 3B 40s'',
      m_result = BrickIMUV2_GetProtocol1BrickletName\<rparr>"

definition BrickIMUV2_get_chip_temperature :: dev_method where
  "BrickIMUV2_get_chip_temperature =
     \<lparr>m_name = ''get_chip_temperature'', m_params = [],
      m_function = 242, m_form = [], m_form_ret = ''h'',
      m_result = Returned\<rparr>"

definition BrickIMUV2_reset :: dev_method where
  "BrickIMUV2_reset =
     \<lparr>m_name = ''reset'', m_params = [],
      m_function = 243, m_form = [], m_form_ret = [],
      m_result = Discarded\<rparr>"

definition BrickIMUV2_get_identity :: dev_method where
  "BrickIMUV2_get_identity =
     \<lparr>m_name = ''get_identity'', m_params = [],
      m_function = 255, m_form = [], m_form_ret = ''8s 8s c 3B 3B H'',
      m_result = BrickIMUV2_GetIdentity\<rparr>"

definition BrickIMUV2 :: binding where
  "BrickIMUV2 =
     \<lparr>b_class = ''BrickIMUV2'', b_identifier = 18, b_ids = BrickIMUV2_ids,
      b_api_version = (2, 0, 0), b_flags = BrickIMUV2_flags, b_formats = BrickIMUV2_formats,
      b_methods =
       [BrickIMUV2_get_acceleration, BrickIMUV2_get_magnetic_field,
        BrickIMUV2_get_angular_velocity, BrickIMUV2_get_temperature, BrickIMUV2_get_orientation,
        BrickIMUV2_get_linear_acceleration, BrickIMUV2_get_gravity_vector,
        BrickIMUV2_get_quaternion, BrickIMUV2_get_all_data, BrickIMUV2_leds_on,
        BrickIMUV2_leds_off, BrickIMUV2_are_leds_on, BrickIMUV2_save_calibration,
        BrickIMUV2_set_acceleration_period, BrickIMUV2_get_acceleration_period,
        BrickIMUV2_set_magnetic_field_period, BrickIMUV2_get_magnetic_field_period,
        BrickIMUV2_set_angular_velocity_period, BrickIMUV2_get_angular_velocity_period,
        BrickIMUV2_set_temperature_period, BrickIMUV2_get_temperature_period,
        BrickIMUV2_set_orientation_period, BrickIMUV2_get_orientation_period,
        BrickIMUV2_set_linear_acceleration_period, BrickIMUV2_get_linear_acceleration_period,
        BrickIMUV2_set_gravity_vector_period, BrickIMUV2_get_gravity_vector_period,
        BrickIMUV2_set_quaternion_period, BrickIMUV2_get_quaternion_period,
        BrickIMUV2_set_all_data_period, BrickIMUV2_get_all_data_period,
        BrickIMUV2_enable_status_led, BrickIMUV2_disable_status_led,
        BrickIMUV2_is_status_led_enabled, BrickIMUV2_get_protocol1_bricklet_name,
        BrickIMUV2_get_chip_temperature, BrickIMUV2_reset, BrickIMUV2_get_identity]\<rparr>"

interpretation IMUV2: device_class BrickIMUV2
  by unfold_locales code_simp

end
