(* ===== verification/Bricklets_Climate.thy ===== *)
theory Bricklets_Climate
  imports Bindings
begin

text \<open>
  The device classes of the Bricklets that measure light, air and sound. For each class: its
  named tuples, its constants, the assignments of its constructor, one definition per
  method, and the class itself, on which \<open>device_class\<close> is interpreted.
\<close>

section \<open>The class BrickletAmbientLight (\<^verbatim>\<open>bricklet_ambient_light.py\<close>)\<close>

definition BrickletAmbientLight_GetIlluminanceCallbackThreshold :: shape where
  "BrickletAmbientLight_GetIlluminanceCallbackThreshold = Named ''IlluminanceCallbackThreshold''
     [''option'', ''min'', ''max'']"

definition BrickletAmbientLight_GetAnalogValueCallbackThreshold :: shape where
  "BrickletAmbientLight_GetAnalogValueCallbackThreshold = Named ''AnalogValueCallbackThreshold''
     [''option'', ''min'', ''max'']"

definition BrickletAmbientLight_GetIdentity :: shape where
  "BrickletAmbientLight_GetIdentity = Named ''Identity''
     [''uid'', ''connected_uid'', ''position'', ''hardware_version'', ''firmware_version'',
      ''device_identifier'']"

definition BrickletAmbientLight_ids :: "(string \<times> int) list" where
  "BrickletAmbientLight_ids =
     [(''CALLBACK_ILLUMINANCE'', 13), (''CALLBACK_ANALOG_VALUE'', 14),
      (''CALLBACK_ILLUMINANCE_REACHED'', 15), (''CALLBACK_ANALOG_VALUE_REACHED'', 16),
      (''FUNCTION_GET_ILLUMINANCE'', 1), (''FUNCTION_GET_ANALOG_VALUE'', 2),
      (''FUNCTION_SET_ILLUMINANCE_CALLBACK_PERIOD'', 3),
      (''FUNCTION_GET_ILLUMINANCE_CALLBACK_PERIOD'', 4),
      (''FUNCTION_SET_ANALOG_VALUE_CALLBACK_PERIOD'', 5),
      (''FUNCTION_GET_ANALOG_VALUE_CALLBACK_PERIOD'', 6),
      (''FUNCTION_SET_ILLUMINANCE_CALLBACK_THRESHOLD'', 7),
      (''FUNCTION_GET_ILLUMINANCE_CALLBACK_THRESHOLD'', 8),
      (''FUNCTION_SET_ANALOG_VALUE_CALLBACK_THRESHOLD'', 9),
      (''FUNCTION_GET_ANALOG_VALUE_CALLBACK_THRESHOLD'', 10),
      (''FUNCTION_SET_DEBOUNCE_PERIOD'', 11), (''FUNCTION_GET_DEBOUNCE_PERIOD'', 12),
      (''FUNCTION_GET_IDENTITY'', 255)]"

definition BrickletAmbientLight_flags :: "(int \<times> resp_flag) list" where
  "BrickletAmbientLight_flags =
     [(1, ALWAYS_TRUE), (2, ALWAYS_TRUE), (3, RE_TRUE), (4, ALWAYS_TRUE), (5, RE_TRUE),
      (6, ALWAYS_TRUE), (7, RE_TRUE), (8, ALWAYS_TRUE), (9, RE_TRUE), (10, ALWAYS_TRUE),
      (11, RE_TRUE), (12, ALWAYS_TRUE), (13, ALWAYS_FALSE), (14, ALWAYS_FALSE), (15, ALWAYS_FALSE),
      (16, ALWAYS_FALSE), (255, ALWAYS_TRUE)]"

definition BrickletAmbientLight_formats :: "(int \<times> string) list" where
  "BrickletAmbientLight_formats =
     [(13, ''H''), (14, ''H''), (15, ''H''), (16, ''H'')]"

definition BrickletAmbientLight_get_illuminance :: dev_method where
  "BrickletAmbientLight_get_illuminance =
     \<lparr>m_name = ''get_illuminance'', m_params = [],
      m_function = 1, m_form = [], m_form_ret = ''H'',
      m_result = Returned\<rparr>"

definition BrickletAmbientLight_get_analog_value :: dev_method where
  "BrickletAmbientLight_get_analog_value =
     \<lparr>m_name = ''get_analog_value'', m_params = [],
      m_function = 2, m_form = [], m_form_ret = ''H'',
      m_result = Returned\<rparr>"

definition BrickletAmbientLight_set_illuminance_callback_period :: dev_method where
  "BrickletAmbientLight_set_illuminance_callback_period =
     \<lparr>m_name = ''set_illuminance_callback_period'', m_params = [''period''],
      m_function = 3, m_form = ''I'', m_form_ret = [],
      m_result = Discarded\<rparr>"

definition BrickletAmbientLight_get_illuminance_callback_period :: dev_method where
  "BrickletAmbientLight_get_illuminance_callback_period =
     \<lparr>m_name = ''get_illuminance_callback_period'', m_params = [],
      m_function = 4, m_form = [], m_form_ret = ''I'',
      m_result = Returned\<rparr>"

definition BrickletAmbientLight_set_analog_value_callback_period :: dev_method where
  "BrickletAmbientLight_set_analog_value_callback_period =
     \<lparr>m_name = ''set_analog_value_callback_period'', m_params = [''period''],
      m_function = 5, m_form = ''I'', m_form_ret = [],
      m_result = Discarded\<rparr>"

definition BrickletAmbientLight_get_analog_value_callback_period :: dev_method where
  "BrickletAmbientLight_get_analog_value_callback_period =
     \<lparr>m_name = ''get_analog_value_callback_period'', m_params = [],
      m_function = 6, m_form = [], m_form_ret = ''I'',
      m_result = Returned\<rparr>"

definition BrickletAmbientLight_set_illuminance_callback_threshold :: dev_method where
  "BrickletAmbientLight_set_illuminance_callback_threshold =
     \<lparr>m_name = ''set_illuminance_callback_threshold'', m_params = [''option'', ''min'', ''max''],
      m_function = 7, m_form = ''c h h'', m_form_ret = [],
      m_result = Discarded\<rparr>"

definition BrickletAmbientLight_get_illuminance_callback_threshold :: dev_method where
  "BrickletAmbientLight_get_illuminance_callback_threshold =
     \<lparr>m_name = ''get_illuminance_callback_threshold'', m_params = [],
      m_function = 8, m_form = [], m_form_ret = ''c h h'',
      m_result = BrickletAmbientLight_GetIlluminanceCallbackThreshold\<rparr>"

definition BrickletAmbientLight_set_analog_value_callback_threshold :: dev_method where
  "BrickletAmbientLight_set_analog_value_callback_threshold =
     \<lparr>m_name = ''set_analog_value_callback_threshold'', m_params = [''option'', ''min'', ''max''],
      m_function = 9, m_form = ''c H H'', m_form_ret = [],
      m_result = Discarded\<rparr>"

definition BrickletAmbientLight_get_analog_value_callback_threshold :: dev_method where
  "BrickletAmbientLight_get_analog_value_callback_threshold =
     \<lparr>m_name = ''get_analog_value_callback_threshold'', m_params = [],
      m_function = 10, m_form = [], m_form_ret = ''c H H'',
      m_result = BrickletAmbientLight_GetAnalogValueCallbackThreshold\<rparr>"

definition BrickletAmbientLight_set_debounce_period :: dev_method where
  "BrickletAmbientLight_set_debounce_period =
     \<lparr>m_name = ''set_debounce_period'', m_params = [''debounce''],
      m_function = 11, m_form = ''I'', m_form_ret = [],
      m_result = Discarded\<rparr>"

definition BrickletAmbientLight_get_debounce_period :: dev_method where
  "BrickletAmbientLight_get_debounce_period =
     \<lparr>m_name = ''get_debounce_period'', m_params = [],
      m_function = 12, m_form = [], m_form_ret = ''I'',
      m_result = Returned\<rparr>"

definition BrickletAmbientLight_get_identity :: dev_method where
  "BrickletAmbientLight_get_identity =
     \<lparr>m_name = ''get_identity'', m_params = [],
      m_function = 255, m_form = [], m_form_ret = ''8s 8s c 3B 3B H'',
      m_result = BrickletAmbientLight_GetIdentity\<rparr>"

definition BrickletAmbientLight :: binding where
  "BrickletAmbientLight =
     \<lparr>b_class = ''BrickletAmbientLight'', b_identifier = 21, b_ids = BrickletAmbientLight_ids,
      b_api_version = (2, 0, 0), b_flags = BrickletAmbientLight_flags, b_formats = BrickletAmbientLight_formats,
      b_methods =
       [BrickletAmbientLight_get_illuminance, BrickletAmbientLight_get_analog_value,
        BrickletAmbientLight_set_illuminance_callback_period,
        BrickletAmbientLight_get_illuminance_callback_period,
        BrickletAmbientLight_set_analog_value_callback_period,
        BrickletAmbientLight_get_analog_value_callback_period,
        BrickletAmbientLight_set_illuminance_callback_threshold,
        BrickletAmbientLight_get_illuminance_callback_threshold,
        BrickletAmbientLight_set_analog_value_callback_threshold,
        BrickletAmbientLight_get_analog_value_callback_threshold,
        BrickletAmbientLight_set_debounce_period, BrickletAmbientLight_get_debounce_period,
        BrickletAmbientLight_get_identity]\<rparr>"

interpretation AmbientLight: device_class BrickletAmbientLight
  by unfold_locales code_simp

section \<open>The class BrickletAmbientLightV2 (\<^verbatim>\<open>bricklet_ambient_light_v2.py\<close>)\<close>

definition BrickletAmbientLightV2_GetIlluminanceCallbackThreshold :: shape where
  "BrickletAmbientLightV2_GetIlluminanceCallbackThreshold = Named ''IlluminanceCallbackThreshold''
     [''option'', ''min'', ''max'']"

definition BrickletAmbientLightV2_GetConfiguration :: shape where
  "BrickletAmbientLightV2_GetConfiguration = Named ''Configuration''
     [''illuminance_range'', ''integration_time'']"

definition BrickletAmbientLightV2_GetIdentity :: shape where
  "BrickletAmbientLightV2_GetIdentity = Named ''Identity''
     [''uid'', ''connected_uid'', ''position'', ''hardware_version'', ''firmware_version'',
      ''device_identifier'']"

definition BrickletAmbientLightV2_ids :: "(string \<times> int) list" where
  "BrickletAmbientLightV2_ids =
     [(''CALLBACK_ILLUMINANCE'', 10), (''CALLBACK_ILLUMINANCE_REACHED'', 11),
      (''FUNCTION_GET_ILLUMINANCE'', 1), (''FUNCTION_SET_ILLUMINANCE_CALLBACK_PERIOD'', 2),
      (''FUNCTION_GET_ILLUMINANCE_CALLBACK_PERIOD'', 3),
      (''FUNCTION_SET_ILLUMINANCE_CALLBACK_THRESHOLD'', 4),
      (''FUNCTION_GET_ILLUMINANCE_CALLBACK_THRESHOLD'', 5), (''FUNCTION_SET_DEBOUNCE_PERIOD'', 6),
      (''FUNCTION_GET_DEBOUNCE_PERIOD'', 7), (''FUNCTION_SET_CONFIGURATION'', 8),
      (''FUNCTION_GET_CONFIGURATION'', 9), (''FUNCTION_GET_IDENTITY'', 255)]"

definition BrickletAmbientLightV2_flags :: "(int \<times> resp_flag) list" where
  "BrickletAmbientLightV2_flags =
     [(1, ALWAYS_TRUE), (2, RE_TRUE), (3, ALWAYS_TRUE), (4, RE_TRUE), (5, ALWAYS_TRUE),
      (6, RE_TRUE), (7, ALWAYS_TRUE), (8, RE_FALSE), (9, ALWAYS_TRUE), (10, ALWAYS_FALSE),
      (11, ALWAYS_FALSE), (255, ALWAYS_TRUE)]"

definition BrickletAmbientLightV2_formats :: "(int \<times> string) list" where
  "BrickletAmbientLightV2_formats =
     [(10, ''I''), (11, ''I'')]"

definition BrickletAmbientLightV2_get_illuminance :: dev_method where
  "BrickletAmbientLightV2_get_illuminance =
     \<lparr>m_name = ''get_illuminance'', m_params = [],
      m_function = 1, m_form = [], m_form_ret = ''I'',
      m_result = Returned\<rparr>"

definition BrickletAmbientLightV2_set_illuminance_callback_period :: dev_method where
  "BrickletAmbientLightV2_set_illuminance_callback_period =
     \<lparr>m_name = ''set_illuminance_callback_period'', m_params = [''period''],
      m_function = 2, m_form = ''I'', m_form_ret = [],
      m_result = Discarded\<rparr>"

definition BrickletAmbientLightV2_get_illuminance_callback_period :: dev_method where
  "BrickletAmbientLightV2_get_illuminance_callback_period =
     \<lparr>m_name = ''get_illuminance_callback_period'', m_params = [],
      m_function = 3, m_form = [], m_form_ret = ''I'',
      m_result = Returned\<rparr>"

definition BrickletAmbientLightV2_set_illuminance_callback_threshold :: dev_method where
  "BrickletAmbientLightV2_set_illuminance_callback_threshold =
     \<lparr>m_name = ''set_illuminance_callback_threshold'', m_params = [''option'', ''min'', ''max''],
      m_function = 4, m_form = ''c I I'', m_form_ret = [],
      m_result = Discarded\<rparr>"

definition BrickletAmbientLightV2_get_illuminance_callback_threshold :: dev_method where
  "BrickletAmbientLightV2_get_illuminance_callback_threshold =
     \<lparr>m_name = ''get_illuminance_callback_threshold'', m_params = [],
      m_function = 5, m_form = [], m_form_ret = ''c I I'',
      m_result = BrickletAmbientLightV2_GetIlluminanceCallbackThreshold\<rparr>"

definition BrickletAmbientLightV2_set_debounce_period :: dev_method where
  "BrickletAmbientLightV2_set_debounce_period =
     \<lparr>m_name = ''set_debounce_period'', m_params = [''debounce''],
      m_function = 6, m_form = ''I'', m_form_ret = [],
      m_result = Discarded\<rparr>"

definition BrickletAmbientLightV2_get_debounce_period :: dev_method where
  "BrickletAmbientLightV2_get_debounce_period =
     \<lparr>m_name = ''get_debounce_period'', m_params = [],
      m_function = 7, m_form = [], m_form_ret = ''I'',
      m_result = Returned\<rparr>"

definition BrickletAmbientLightV2_set_configuration :: dev_method where
  "BrickletAmbientLightV2_set_configuration =
     \<lparr>m_name = ''set_configuration'', m_params = [''illuminance_range'', ''integration_time''],
      m_function = 8, m_form = ''B B'', m_form_ret = [],
      m_result = Discarded\<rparr>"

definition BrickletAmbientLightV2_get_configuration :: dev_method where
  "BrickletAmbientLightV2_get_configuration =
     \<lparr>m_name = ''get_configuration'', m_params = [],
      m_function = 9, m_form = [], m_form_ret = ''B B'',
      m_result = BrickletAmbientLightV2_GetConfiguration\<rparr>"

definition BrickletAmbientLightV2_get_identity :: dev_method where
  "BrickletAmbientLightV2_get_identity =
     \<lparr>m_name = ''get_identity'', m_params = [],
      m_function = 255, m_form = [], m_form_ret = ''8s 8s c 3B 3B H'',
      m_result = BrickletAmbientLightV2_GetIdentity\<rparr>"

definition BrickletAmbientLightV2 :: binding where
  "BrickletAmbientLightV2 =
     \<lparr>b_class = ''BrickletAmbientLightV2'', b_identifier = 259, b_ids = BrickletAmbientLightV2_ids,
      b_api_version = (2, 0, 0), b_flags = BrickletAmbientLightV2_flags, b_formats = BrickletAmbientLightV2_formats,
      b_methods =
       [BrickletAmbientLightV2_get_illuminance,
        BrickletAmbientLightV2_set_illuminance_callback_period,
        BrickletAmbientLightV2_get_illuminance_callback_period,
        BrickletAmbientLightV2_set_illuminance_callback_threshold,
        BrickletAmbientLightV2_get_illuminance_callback_threshold,
        BrickletAmbientLightV2_set_debounce_period, BrickletAmbientLightV2_get_debounce_period,
        BrickletAmbientLightV2_set_configuration, BrickletAmbientLightV2_get_configuration,
        BrickletAmbientLightV2_get_identity]\<rparr>"

interpretation AmbientLightV2: device_class BrickletAmbientLightV2
  by unfold_locales code_simp

section \<open>The class BrickletBarometer (\<^verbatim>\<open>bricklet_barometer.py\<close>)\<close>

definition BrickletBarometer_GetAirPressureCallbackThreshold :: shape where
  "BrickletBarometer_GetAirPressureCallbackThreshold = Named ''AirPressureCallbackThreshold''
     [''option'', ''min'', ''max'']"

definition BrickletBarometer_GetAltitudeCallbackThreshold :: shape where
  "BrickletBarometer_GetAltitudeCallbackThreshold = Named ''AltitudeCallbackThreshold''
     [''option'', ''min'', ''max'']"

definition BrickletBarometer_GetAveraging :: shape where
  "BrickletBarometer_GetAveraging = Named ''Averaging''
     [''moving_average_pressure'', ''average_pressure'', ''average_temperature'']"

definition BrickletBarometer_GetIdentity :: shape where
  "BrickletBarometer_GetIdentity = Named ''Identity''
     [''uid'', ''connected_uid'', ''position'', ''hardware_version'', ''firmware_version'',
      ''device_identifier'']"

definition BrickletBarometer_ids :: "(string \<times> int) list" where
  "BrickletBarometer_ids =
     [(''CALLBACK_AIR_PRESSURE'', 15), (''CALLBACK_ALTITUDE'', 16),
      (''CALLBACK_AIR_PRESSURE_REACHED'', 17), (''CALLBACK_ALTITUDE_REACHED'', 18),
      (''FUNCTION_GET_AIR_PRESSURE'', 1), (''FUNCTION_GET_ALTITUDE'', 2),
      (''FUNCTION_SET_AIR_PRESSURE_CALLBACK_PERIOD'', 3),
      (''FUNCTION_GET_AIR_PRESSURE_CALLBACK_PERIOD'', 4),
      (''FUNCTION_SET_ALTITUDE_CALLBACK_PERIOD'', 5),
      (''FUNCTION_GET_ALTITUDE_CALLBACK_PERIOD'', 6),
      (''FUNCTION_SET_AIR_PRESSURE_CALLBACK_THRESHOLD'', 7),
      (''FUNCTION_GET_AIR_PRESSURE_CALLBACK_THRESHOLD'', 8),
      (''FUNCTION_SET_ALTITUDE_CALLBACK_THRESHOLD'', 9),
      (''FUNCTION_GET_ALTITUDE_CALLBACK_THRESHOLD'', 10), (''FUNCTION_SET_DEBOUNCE_PERIOD'', 11),
      (''FUNCTION_GET_DEBOUNCE_PERIOD'', 12), (''FUNCTION_SET_REFERENCE_AIR_PRESSURE'', 13),
      (''FUNCTION_GET_CHIP_TEMPERATURE'', 14), (''FUNCTION_GET_REFERENCE_AIR_PRESSURE'', 19),
      (''FUNCTION_SET_AVERAGING'', 20), (''FUNCTION_GET_AVERAGING'', 21),
      (''FUNCTION_GET_IDENTITY'', 255)]"

definition BrickletBarometer_flags :: "(int \<times> resp_flag) list" where
  "BrickletBarometer_flags =
     [(1, ALWAYS_TRUE), (2, ALWAYS_TRUE), (3, RE_TRUE), (4, ALWAYS_TRUE), (5, RE_TRUE),
      (6, ALWAYS_TRUE), (7, RE_TRUE), (8, ALWAYS_TRUE), (9, RE_TRUE), (10, ALWAYS_TRUE),
      (11, RE_TRUE), (12, ALWAYS_TRUE), (13, RE_FALSE), (14, ALWAYS_TRUE), (15, ALWAYS_FALSE),
      (16, ALWAYS_FALSE), (17, ALWAYS_FALSE), (18, ALWAYS_FALSE), (19, ALWAYS_TRUE),
      (20, RE_FALSE), (21, ALWAYS_TRUE), (255, ALWAYS_TRUE)]"

definition BrickletBarometer_formats :: "(int \<times> string) list" where
  "BrickletBarometer_formats =
     [(15, ''i''), (16, ''i''), (17, ''i''), (18, ''i'')]"

definition BrickletBarometer_get_air_pressure :: dev_method where
  "BrickletBarometer_get_air_pressure =
     \<lparr>m_name = ''get_air_pressure'', m_params = [],
      m_function = 1, m_form = [], m_form_ret = ''i'',
      m_result = Returned\<rparr>"

definition BrickletBarometer_get_altitude :: dev_method where
  "BrickletBarometer_get_altitude =
     \<lparr>m_name = ''get_altitude'', m_params = [],
      m_function = 2, m_form = [], m_form_ret = ''i'',
      m_result = Returned\<rparr>"

definition BrickletBarometer_set_air_pressure_callback_period :: dev_method where
  "BrickletBarometer_set_air_pressure_callback_period =
     \<lparr>m_name = ''set_air_pressure_callback_period'', m_params = [''period''],
      m_function = 3, m_form = ''I'', m_form_ret = [],
      m_result = Discarded\<rparr>"

definition BrickletBarometer_get_air_pressure_callback_period :: dev_method where
  "BrickletBarometer_get_air_pressure_callback_period =
     \<lparr>m_name = ''get_air_pressure_callback_period'', m_params = [],
      m_function = 4, m_form = [], m_form_ret = ''I'',
      m_result = Returned\<rparr>"

definition BrickletBarometer_set_altitude_callback_period :: dev_method where
  "BrickletBarometer_set_altitude_callback_period =
     \<lparr>m_name = ''set_altitude_callback_period'', m_params = [''period''],
      m_function = 5, m_form = ''I'', m_form_ret = [],
      m_result = Discarded\<rparr>"

definition BrickletBarometer_get_altitude_callback_period :: dev_method where
  "BrickletBarometer_get_altitude_callback_period =
     \<lparr>m_name = ''get_altitude_callback_period'', m_params = [],
      m_function = 6, m_form = [], m_form_ret = ''I'',
      m_result = Returned\<rparr>"

definition BrickletBarometer_set_air_pressure_callback_threshold :: dev_method where
  "BrickletBarometer_set_air_pressure_callback_threshold =
     \<lparr>m_name = ''set_air_pressure_callback_threshold'', m_params = [''option'', ''min'', ''max''],
      m_function = 7, m_form = ''c i i'', m_form_ret = [],
      m_result = Discarded\<rparr>"

definition BrickletBarometer_get_air_pressure_callback_threshold :: dev_method where
  "BrickletBarometer_get_air_pressure_callback_threshold =
     \<lparr>m_name = ''get_air_pressure_callback_threshold'', m_params = [],
      m_function = 8, m_form = [], m_form_ret = ''c i i'',
      m_result = BrickletBarometer_GetAirPressureCallbackThreshold\<rparr>"

definition BrickletBarometer_set_altitude_callback_threshold :: dev_method where
  "BrickletBarometer_set_altitude_callback_threshold =
     \<lparr>m_name = ''set_altitude_callback_threshold'', m_params = [''option'', ''min'', ''max''],
      m_function = 9, m_form = ''c i i'', m_form_ret = [],
      m_result = Discarded\<rparr>"

definition BrickletBarometer_get_altitude_callback_threshold :: dev_method where
  "BrickletBarometer_get_altitude_callback_threshold =
     \<lparr>m_name = ''get_altitude_callback_threshold'', m_params = [],
      m_function = 10, m_form = [], m_form_ret = ''c i i'',
      m_result = BrickletBarometer_GetAltitudeCallbackThreshold\<rparr>"

definition BrickletBarometer_set_debounce_period :: dev_method where
  "BrickletBarometer_set_debounce_period =
     \<lparr>m_name = ''set_debounce_period'', m_params = [''debounce''],
      m_function = 11, m_form = ''I'', m_form_ret = [],
      m_result = Discarded\<rparr>"

definition BrickletBarometer_get_debounce_period :: dev_method where
  "BrickletBarometer_get_debounce_period =
     \<lparr>m_name = ''get_debounce_period'', m_params = [],
      m_function = 12, m_form = [], m_form_ret = ''I'',
      m_result = Returned\<rparr>"

definition BrickletBarometer_set_reference_air_pressure :: dev_method where
  "BrickletBarometer_set_reference_air_pressure =
     \<lparr>m_name = ''set_reference_air_pressure'', m_params = [''air_pressure''],
      m_function = 13, m_form = ''i'', m_form_ret = [],
      m_result = Discarded\<rparr>"

definition BrickletBarometer_get_chip_temperature :: dev_method where
  "BrickletBarometer_get_chip_temperature =
     \<lparr>m_name = ''get_chip_temperature'', m_params = [],
      m_function = 14, m_form = [], m_form_ret = ''h'',
      m_result = Returned\<rparr>"

definition BrickletBarometer_get_reference_air_pressure :: dev_method where
  "BrickletBarometer_get_reference_air_pressure =
     \<lparr>m_name = ''get_reference_air_pressure'', m_params = [],
      m_function = 19, m_form = [], m_form_ret = ''i'',
      m_result = Returned\<rparr>"

definition BrickletBarometer_set_averaging :: dev_method where
  "BrickletBarometer_set_averaging =
     \<lparr>m_name = ''set_averaging'', m_params = [''moving_average_pressure'', ''average_pressure'', ''average_temperature''],
      m_function = 20, m_form = ''B B B'', m_form_ret = [],
      m_result = Discarded\<rparr>"

definition BrickletBarometer_get_averaging :: dev_method where
  "BrickletBarometer_get_averaging =
     \<lparr>m_name = ''get_averaging'', m_params = [],
      m_function = 21, m_form = [], m_form_ret = ''B B B'',
      m_result = BrickletBarometer_GetAveraging\<rparr>"

definition BrickletBarometer_get_identity :: dev_method where
  "BrickletBarometer_get_identity =
     \<lparr>m_name = ''get_identity'', m_params = [],
      m_function = 255, m_form = [], m_form_ret = ''8s 8s c 3B 3B H'',
      m_result = BrickletBarometer_GetIdentity\<rparr>"

definition BrickletBarometer :: binding where
  "BrickletBarometer =
     \<lparr>b_class = ''BrickletBarometer'', b_identifier = 221, b_ids = BrickletBarometer_ids,
      b_api_version = (2, 0, 1), b_flags = BrickletBarometer_flags, b_formats = BrickletBarometer_formats,
      b_methods =
       [BrickletBarometer_get_air_pressure, BrickletBarometer_get_altitude,
        BrickletBarometer_set_air_pressure_callback_period,
        BrickletBarometer_get_air_pressure_callback_period,
        BrickletBarometer_set_altitude_callback_period,
        BrickletBarometer_get_altitude_callback_period,
        BrickletBarometer_set_air_pressure_callback_threshold,
        BrickletBarometer_get_air_pressure_callback_threshold,
        BrickletBarometer_set_altitude_callback_threshold,
        BrickletBarometer_get_altitude_callback_threshold, BrickletBarometer_set_debounce_period,
        BrickletBarometer_get_debounce_period, BrickletBarometer_set_reference_air_pressure,
        BrickletBarometer_get_chip_temperature, BrickletBarometer_get_reference_air_pressure,
        BrickletBarometer_set_averaging, BrickletBarometer_get_averaging,
        BrickletBarometer_get_identity]\<rparr>"

interpretation Barometer: device_class BrickletBarometer
  by unfold_locales code_simp

section \<open>The class BrickletHumidity (\<^verbatim>\<open>bricklet_humidity.py\<close>)\<close>

definition BrickletHumidity_GetHumidityCallbackThreshold :: shape where
  "BrickletHumidity_GetHumidityCallbackThreshold = Named ''HumidityCallbackThreshold''
     [''option'', ''min'', ''max'']"

definition BrickletHumidity_GetAnalogValueCallbackThreshold :: shape where
  "BrickletHumidity_GetAnalogValueCallbackThreshold = Named ''AnalogValueCallbackThreshold''
     [''option'', ''min'', ''max'']"

definition BrickletHumidity_GetIdentity :: shape where
  "BrickletHumidity_GetIdentity = Named ''Identity''
     [''uid'', ''connected_uid'', ''position'', ''hardware_version'', ''firmware_version'',
      ''device_identifier'']"

definition BrickletHumidity_ids :: "(string \<times> int) list" where
  "BrickletHumidity_ids =
     [(''CALLBACK_HUMIDITY'', 13), (''CALLBACK_ANALOG_VALUE'', 14),
      (''CALLBACK_HUMIDITY_REACHED'', 15), (''CALLBACK_ANALOG_VALUE_REACHED'', 16),
      (''FUNCTION_GET_HUMIDITY'', 1), (''FUNCTION_GET_ANALOG_VALUE'', 2),
      (''FUNCTION_SET_HUMIDITY_CALLBACK_PERIOD'', 3),
      (''FUNCTION_GET_HUMIDITY_CALLBACK_PERIOD'', 4),
      (''FUNCTION_SET_ANALOG_VALUE_CALLBACK_PERIOD'', 5),
      (''FUNCTION_GET_ANALOG_VALUE_CALLBACK_PERIOD'', 6),
      (''FUNCTION_SET_HUMIDITY_CALLBACK_THRESHOLD'', 7),
      (''FUNCTION_GET_HUMIDITY_CALLBACK_THRESHOLD'', 8),
      (''FUNCTION_SET_ANALOG_VALUE_CALLBACK_THRESHOLD'', 9),
      (''FUNCTION_GET_ANALOG_VALUE_CALLBACK_THRESHOLD'', 10),
      (''FUNCTION_SET_DEBOUNCE_PERIOD'', 11), (''FUNCTION_GET_DEBOUNCE_PERIOD'', 12),
      (''FUNCTION_GET_IDENTITY'', 255)]"

definition BrickletHumidity_flags :: "(int \<times> resp_flag) list" where
  "BrickletHumidity_flags =
     [(1, ALWAYS_TRUE), (2, ALWAYS_TRUE), (3, RE_TRUE), (4, ALWAYS_TRUE), (5, RE_TRUE),
      (6, ALWAYS_TRUE), (7, RE_TRUE), (8, ALWAYS_TRUE), (9, RE_TRUE), (10, ALWAYS_TRUE),
      (11, RE_TRUE), (12, ALWAYS_TRUE), (13, ALWAYS_FALSE), (14, ALWAYS_FALSE), (15, ALWAYS_FALSE),
      (16, ALWAYS_FALSE), (255, ALWAYS_TRUE)]"

definition BrickletHumidity_formats :: "(int \<times> string) list" where
  "BrickletHumidity_formats =
     [(13, ''H''), (14, ''H''), (15, ''H''), (16, ''H'')]"

definition BrickletHumidity_get_humidity :: dev_method where
  "BrickletHumidity_get_humidity =
     \<lparr>m_name = ''get_humidity'', m_params = [],
      m_function = 1, m_form = [], m_form_ret = ''H'',
      m_result = Returned\<rparr>"

definition BrickletHumidity_get_analog_value :: dev_method where
  "BrickletHumidity_get_analog_value =
     \<lparr>m_name = ''get_analog_value'', m_params = [],
      m_function = 2, m_form = [], m_form_ret = ''H'',
      m_result = Returned\<rparr>"

definition BrickletHumidity_set_humidity_callback_period :: dev_method where
  "BrickletHumidity_set_humidity_callback_period =
     \<lparr>m_name = ''set_humidity_callback_period'', m_params = [''period''],
      m_function = 3, m_form = ''I'', m_form_ret = [],
      m_result = Discarded\<rparr>"

definition BrickletHumidity_get_humidity_callback_period :: dev_method where
  "BrickletHumidity_get_humidity_callback_period =
     \<lparr>m_name = ''get_humidity_callback_period'', m_params = [],
      m_function = 4, m_form = [], m_form_ret = ''I'',
      m_result = Returned\<rparr>"

definition BrickletHumidity_set_analog_value_callback_period :: dev_method where
  "BrickletHumidity_set_analog_value_callback_period =
     \<lparr>m_name = ''set_analog_value_callback_period'', m_params = [''period''],
      m_function = 5, m_form = ''I'', m_form_ret = [],
      m_result = Discarded\<rparr>"

definition BrickletHumidity_get_analog_value_callback_period :: dev_method where
  "BrickletHumidity_get_analog_value_callback_period =
     \<lparr>m_name = ''get_analog_value_callback_period'', m_params = [],
      m_function = 6, m_form = [], m_form_ret = ''I'',
      m_result = Returned\<rparr>"

definition BrickletHumidity_set_humidity_callback_threshold :: dev_method where
  "BrickletHumidity_set_humidity_callback_threshold =
     \<lparr>m_name = ''set_humidity_callback_threshold'', m_params = [''option'', ''min'', ''max''],
      m_function = 7, m_form = ''c h h'', m_form_ret = [],
      m_result = Discarded\<rparr>"

definition BrickletHumidity_get_humidity_callback_threshold :: dev_method where
  "BrickletHumidity_get_humidity_callback_threshold =
     \<lparr>m_name = ''get_humidity_callback_threshold'', m_params = [],
      m_function = 8, m_form = [], m_form_ret = ''c h h'',
      m_result = BrickletHumidity_GetHumidityCallbackThreshold\<rparr>"

definition BrickletHumidity_set_analog_value_callback_threshold :: dev_method where
  "BrickletHumidity_set_analog_value_callback_threshold =
     \<lparr>m_name = ''set_analog_value_callback_threshold'', m_params = [''option'', ''min'', ''max''],
      m_function = 9, m_form = ''c H H'', m_form_ret = [],
      m_result = Discarded\<rparr>"

definition BrickletHumidity_get_analog_value_callback_threshold :: dev_method where
  "BrickletHumidity_get_analog_value_callback_threshold =
     \<lparr>m_name = ''get_analog_value_callback_threshold'', m_params = [],
      m_function = 10, m_form = [], m_form_ret = ''c H H'',
      m_result = BrickletHumidity_GetAnalogValueCallbackThreshold\<rparr>"

definition BrickletHumidity_set_debounce_period :: dev_method where
  "BrickletHumidity_set_debounce_period =
     \<lparr>m_name = ''set_debounce_period'', m_params = [''debounce''],
      m_function = 11, m_form = ''I'', m_form_ret = [],
      m_result = Discarded\<rparr>"

definition BrickletHumidity_get_debounce_period :: dev_method where
  "BrickletHumidity_get_debounce_period =
     \<lparr>m_name = ''get_debounce_period'', m_params = [],
      m_function = 12, m_form = [], m_form_ret = ''I'',
      m_result = Returned\<rparr>"

definition BrickletHumidity_get_identity :: dev_method where
  "BrickletHumidity_get_identity =
     \<lparr>m_name = ''get_identity'', m_params = [],
      m_function = 255, m_form = [], m_form_ret = ''8s 8s c 3B 3B H'',
      m_result = BrickletHumidity_GetIdentity\<rparr>"

definition BrickletHumidity :: binding where
  "BrickletHumidity =
     \<lparr>b_class = ''BrickletHumidity'', b_identifier = 27, b_ids = BrickletHumidity_ids,
      b_api_version = (2, 0, 0), b_flags = BrickletHumidity_flags, b_formats = BrickletHumidity_formats,
      b_methods =
       [BrickletHumidity_get_humidity, BrickletHumidity_get_analog_value,
        BrickletHumidity_set_humidity_callback_period,
        BrickletHumidity_get_humidity_callback_period,
        BrickletHumidity_set_analog_value_callback_period,
        BrickletHumidity_get_analog_value_callback_period,
        BrickletHumidity_set_humidity_callback_threshold,
        BrickletHumidity_get_humidity_callback_threshold,
        BrickletHumidity_set_analog_value_callback_threshold,
        BrickletHumidity_get_analog_value_callback_threshold, BrickletHumidity_set_debounce_period,
        BrickletHumidity_get_debounce_period, BrickletHumidity_get_identity]\<rparr>"

interpretation Humidity: device_class BrickletHumidity
  by unfold_locales code_simp

section \<open>The class BrickletTemperature (\<^verbatim>\<open>bricklet_temperature.py\<close>)\<close>

definition BrickletTemperature_GetTemperatureCallbackThreshold :: shape where
  "BrickletTemperature_GetTemperatureCallbackThreshold = Named ''TemperatureCallbackThreshold''
     [''option'', ''min'', ''max'']"

definition BrickletTemperature_GetIdentity :: shape where
  "BrickletTemperature_GetIdentity = Named ''Identity''
     [''uid'', ''connected_uid'', ''position'', ''hardware_version'', ''firmware_version'',
      ''device_identifier'']"

definition BrickletTemperature_ids :: "(string \<times> int) list" where
  "BrickletTemperature_ids =
     [(''CALLBACK_TEMPERATURE'', 8), (''CALLBACK_TEMPERATURE_REACHED'', 9),
      (''FUNCTION_GET_TEMPERATURE'', 1), (''FUNCTION_SET_TEMPERATURE_CALLBACK_PERIOD'', 2),
      (''FUNCTION_GET_TEMPERATURE_CALLBACK_PERIOD'', 3),
      (''FUNCTION_SET_TEMPERATURE_CALLBACK_THRESHOLD'', 4),
      (''FUNCTION_GET_TEMPERATURE_CALLBACK_THRESHOLD'', 5), (''FUNCTION_SET_DEBOUNCE_PERIOD'', 6),
      (''FUNCTION_GET_DEBOUNCE_PERIOD'', 7), (''FUNCTION_SET_I2C_MODE'', 10),
      (''FUNCTION_GET_I2C_MODE'', 11), (''FUNCTION_GET_IDENTITY'', 255)]"

definition BrickletTemperature_flags :: "(int \<times> resp_flag) list" where
  "BrickletTemperature_flags =
     [(1, ALWAYS_TRUE), (2, RE_TRUE), (3, ALWAYS_TRUE), (4, RE_TRUE), (5, ALWAYS_TRUE),
      (6, RE_TRUE), (7, ALWAYS_TRUE), (8, ALWAYS_FALSE), (9, ALWAYS_FALSE), (10, RE_FALSE),
      (11, ALWAYS_TRUE), (255, ALWAYS_TRUE)]"

definition BrickletTemperature_formats :: "(int \<times> string) list" where
  "BrickletTemperature_formats =
     [(8, ''h''), (9, ''h'')]"

definition BrickletTemperature_get_temperature :: dev_method where
  "BrickletTemperature_get_temperature =
     \<lparr>m_name = ''get_temperature'', m_params = [],
      m_function = 1, m_form = [], m_form_ret = ''h'',
      m_result = Returned\<rparr>"

definition BrickletTemperature_set_temperature_callback_period :: dev_method where
  "BrickletTemperature_set_temperature_callback_period =
     \<lparr>m_name = ''set_temperature_callback_period'', m_params = [''period''],
      m_function = 2, m_form = ''I'', m_form_ret = [],
      m_result = Discarded\<rparr>"

definition BrickletTemperature_get_temperature_callback_period :: dev_method where
  "BrickletTemperature_get_temperature_callback_period =
     \<lparr>m_name = ''get_temperature_callback_period'', m_params = [],
      m_function = 3, m_form = [], m_form_ret = ''I'',
      m_result = Returned\<rparr>"

definition BrickletTemperature_set_temperature_callback_threshold :: dev_method where
  "BrickletTemperature_set_temperature_callback_threshold =
     \<lparr>m_name = ''set_temperature_callback_threshold'', m_params = [''option'', ''min'', ''max''],
      m_function = 4, m_form = ''c h h'', m_form_ret = [],
      m_result = Discarded\<rparr>"

definition BrickletTemperature_get_temperature_callback_threshold :: dev_method where
  "BrickletTemperature_get_temperature_callback_threshold =
     \<lparr>m_name = ''get_temperature_callback_threshold'', m_params = [],
      m_function = 5, m_form = [], m_form_ret = ''c h h'',
      m_result = BrickletTemperature_GetTemperatureCallbackThreshold\<rparr>"

definition BrickletTemperature_set_debounce_period :: dev_method where
  "BrickletTemperature_set_debounce_period =
     \<lparr>m_name = ''set_debounce_period'', m_params = [''debounce''],
      m_function = 6, m_form = ''I'', m_form_ret = [],
      m_result = Discarded\<rparr>"

definition BrickletTemperature_get_debounce_period :: dev_method where
  "BrickletTemperature_get_debounce_period =
     \<lparr>m_name = ''get_debounce_period'', m_params = [],
      m_function = 7, m_form = [], m_form_ret = ''I'',
      m_result = Returned\<rparr>"

definition BrickletTemperature_set_i2c_mode :: dev_method where
  "BrickletTemperature_set_i2c_mode =
     \<lparr>m_name = ''set_i2c_mode'', m_params = [''mode''],
      m_function = 10, m_form = ''B'', m_form_ret = [],
      m_result = Discarded\<rparr>"

definition BrickletTemperature_get_i2c_mode :: dev_method where
  "BrickletTemperature_get_i2c_mode =
     \<lparr>m_name = ''get_i2c_mode'', m_params = [],
      m_function = 11, m_form = [], m_form_ret = ''B'',
      m_result = Returned\<rparr>"

definition BrickletTemperature_get_identity :: dev_method where
  "BrickletTemperature_get_identity =
     \<lparr>m_name = ''get_identity'', m_params = [],
      m_function = 255, m_form = [], m_form_ret = ''8s 8s c 3B 3B H'',
      m_result = BrickletTemperature_GetIdentity\<rparr>"

definition BrickletTemperature :: binding where
  "BrickletTemperature =
     \<lparr>b_class = ''BrickletTemperature'', b_identifier = 216, b_ids = BrickletTemperature_ids,
      b_api_version = (2, 0, 0), b_flags = BrickletTemperature_flags, b_formats = BrickletTemperature_formats,
      b_methods =
       [BrickletTemperature_get_temperature, BrickletTemperature_set_temperature_callback_period,
        BrickletTemperature_get_temperature_callback_period,
        BrickletTemperature_set_temperature_callback_threshold,
        BrickletTemperature_get_temperature_callback_threshold,
        BrickletTemperature_set_debounce_period, BrickletTemperature_get_debounce_period,
        BrickletTemperature_set_i2c_mode, BrickletTemperature_get_i2c_mode,
        BrickletTemperature_get_identity]\<rparr>"

interpretation Temperature: device_class BrickletTemperature
  by unfold_locales code_simp

section \<open>The class BrickletTemperatureIR (\<^verbatim>\<open>bricklet_temperature_ir.py\<close>)\<close>

definition BrickletTemperatureIR_GetAmbientTemperatureCallbackThreshold :: shape where
  "BrickletTemperatureIR_GetAmbientTemperatureCallbackThreshold = Named ''AmbientTemperatureCallbackThreshold''
     [''option'', ''min'', ''max'']"

definition BrickletTemperatureIR_GetObjectTemperatureCallbackThreshold :: shape where
  "BrickletTemperatureIR_GetObjectTemperatureCallbackThreshold = Named ''ObjectTemperatureCallbackThreshold''
     [''option'', ''min'', ''max'']"

definition BrickletTemperatureIR_GetIdentity :: shape where
  "BrickletTemperatureIR_GetIdentity = Named ''Identity''
     [''uid'', ''connected_uid'', ''position'', ''hardware_version'', ''firmware_version'',
      ''device_identifier'']"

definition BrickletTemperatureIR_ids :: "(string \<times> int) list" where
  "BrickletTemperatureIR_ids =
     [(''CALLBACK_AMBIENT_TEMPERATURE'', 15), (''CALLBACK_OBJECT_TEMPERATURE'', 16),
      (''CALLBACK_AMBIENT_TEMPERATURE_REACHED'', 17),
      (''CALLBACK_OBJECT_TEMPERATURE_REACHED'', 18), (''FUNCTION_GET_AMBIENT_TEMPERATURE'', 1),
      (''FUNCTION_GET_OBJECT_TEMPERATURE'', 2), (''FUNCTION_SET_EMISSIVITY'', 3),
      (''FUNCTION_GET_EMISSIVITY'', 4), (''FUNCTION_SET_AMBIENT_TEMPERATURE_CALLBACK_PERIOD'', 5),
      (''FUNCTION_GET_AMBIENT_TEMPERATURE_CALLBACK_PERIOD'', 6),
      (''FUNCTION_SET_OBJECT_TEMPERATURE_CALLBACK_PERIOD'', 7),
      (''FUNCTION_GET_OBJECT_TEMPERATURE_CALLBACK_PERIOD'', 8),
      (''FUNCTION_SET_AMBIENT_TEMPERATURE_CALLBACK_THRESHOLD'', 9),
      (''FUNCTION_GET_AMBIENT_TEMPERATURE_CALLBACK_THRESHOLD'', 10),
      (''FUNCTION_SET_OBJECT_TEMPERATURE_CALLBACK_THRESHOLD'', 11),
      (''FUNCTION_GET_OBJECT_TEMPERATURE_CALLBACK_THRESHOLD'', 12),
      (''FUNCTION_SET_DEBOUNCE_PERIOD'', 13), (''FUNCTION_GET_DEBOUNCE_PERIOD'', 14),
      (''FUNCTION_GET_IDENTITY'', 255)]"

definition BrickletTemperatureIR_flags :: "(int \<times> resp_flag) list" where
  "BrickletTemperatureIR_flags =
     [(1, ALWAYS_TRUE), (2, ALWAYS_TRUE), (3, RE_FALSE), (4, ALWAYS_TRUE), (5, RE_TRUE),
      (6, ALWAYS_TRUE), (7, RE_TRUE), (8, ALWAYS_TRUE), (9, RE_TRUE), (10, ALWAYS_TRUE),
      (11, RE_TRUE), (12, ALWAYS_TRUE), (13, RE_TRUE), (14, ALWAYS_TRUE), (15, ALWAYS_FALSE),
      (16, ALWAYS_FALSE), (17, ALWAYS_FALSE), (18, ALWAYS_FALSE), (255, ALWAYS_TRUE)]"

definition BrickletTemperatureIR_formats :: "(int \<times> string) list" where
  "BrickletTemperatureIR_formats =
     [(15, ''h''), (16, ''h''), (17, ''h''), (18, ''h'')]"

definition BrickletTemperatureIR_get_ambient_temperature :: dev_method where
  "BrickletTemperatureIR_get_ambient_temperature =
     \<lparr>m_name = ''get_ambient_temperature'', m_params = [],
      m_function = 1, m_form = [], m_form_ret = ''h'',
      m_result = Returned\<rparr>"

definition BrickletTemperatureIR_get_object_temperature :: dev_method where
  "BrickletTemperatureIR_get_object_temperature =
     \<lparr>m_name = ''get_object_temperature'', m_params = [],
      m_function = 2, m_form = [], m_form_ret = ''h'',
      m_result = Returned\<rparr>"

definition BrickletTemperatureIR_set_emissivity :: dev_method where
  "BrickletTemperatureIR_set_emissivity =
     \<lparr>m_name = ''set_emissivity'', m_params = [''emissivity''],
      m_function = 3, m_form = ''H'', m_form_ret = [],
      m_result = Discarded\<rparr>"

definition BrickletTemperatureIR_get_emissivity :: dev_method where
  "BrickletTemperatureIR_get_emissivity =
     \<lparr>m_name = ''get_emissivity'', m_params = [],
      m_function = 4, m_form = [], m_form_ret = ''H'',
      m_result = Returned\<rparr>"

definition BrickletTemperatureIR_set_ambient_temperature_callback_period :: dev_method where
  "BrickletTemperatureIR_set_ambient_temperature_callback_period =
     \<lparr>m_name = ''set_ambient_temperature_callback_period'', m_params = [''period''],
      m_function = 5, m_form = ''I'', m_form_ret = [],
      m_result = Discarded\<rparr>"

definition BrickletTemperatureIR_get_ambient_temperature_callback_period :: dev_method where
  "BrickletTemperatureIR_get_ambient_temperature_callback_period =
     \<lparr>m_name = ''get_ambient_temperature_callback_period'', m_params = [],
      m_function = 6, m_form = [], m_form_ret = ''I'',
      m_result = Returned\<rparr>"

definition BrickletTemperatureIR_set_object_temperature_callback_period :: dev_method where
  "BrickletTemperatureIR_set_object_temperature_callback_period =
     \<lparr>m_name = ''set_object_temperature_callback_period'', m_params = [''period''],
      m_function = 7, m_form = ''I'', m_form_ret = [],
      m_result = Discarded\<rparr>"

definition BrickletTemperatureIR_get_object_temperature_callback_period :: dev_method where
  "BrickletTemperatureIR_get_object_temperature_callback_period =
     \<lparr>m_name = ''get_object_temperature_callback_period'', m_params = [],
      m_function = 8, m_form = [], m_form_ret = ''I'',
      m_result = Returned\<rparr>"

definition BrickletTemperatureIR_set_ambient_temperature_callback_threshold :: dev_method where
  "BrickletTemperatureIR_set_ambient_temperature_callback_threshold =
     \<lparr>m_name = ''set_ambient_temperature_callback_threshold'', m_params = [''option'', ''min'', ''max''],
      m_function = 9, m_form = ''c h h'', m_form_ret = [],
      m_result = Discarded\<rparr>"

definition BrickletTemperatureIR_get_ambient_temperature_callback_threshold :: dev_method where
  "BrickletTemperatureIR_get_ambient_temperature_callback_threshold =
     \<lparr>m_name = ''get_ambient_temperature_callback_threshold'', m_params = [],
      m_function = 10, m_form = [], m_form_ret = ''c h h'',
      m_result = BrickletTemperatureIR_GetAmbientTemperatureCallbackThreshold\<rparr>"

definition BrickletTemperatureIR_set_object_temperature_callback_threshold :: dev_method where
  "BrickletTemperatureIR_set_object_temperature_callback_threshold =
     \<lparr>m_name = ''set_object_temperature_callback_threshold'', m_params = [''option'', ''min'', ''max''],
      m_function = 11, m_form = ''c h h'', m_form_ret = [],
      m_result = Discarded\<rparr>"

definition BrickletTemperatureIR_get_object_temperature_callback_threshold :: dev_method where
  "BrickletTemperatureIR_get_object_temperature_callback_threshold =
     \<lparr>m_name = ''get_object_temperature_callback_threshold'', m_params = [],
      m_function = 12, m_form = [], m_form_ret = ''c h h'',
      m_result = BrickletTemperatureIR_GetObjectTemperatureCallbackThreshold\<rparr>"

definition BrickletTemperatureIR_set_debounce_period :: dev_method where
  "BrickletTemperatureIR_set_debounce_period =
     \<lparr>m_name = ''set_debounce_period'', m_params = [''debounce''],
      m_function = 13, m_form = ''I'', m_form_ret = [],
      m_result = Discarded\<rparr>"

definition BrickletTemperatureIR_get_debounce_period :: dev_method where
  "BrickletTemperatureIR_get_debounce_period =
     \<lparr>m_name = ''get_debounce_period'', m_params = [],
      m_function = 14, m_form = [], m_form_ret = ''I'',
      m_result = Returned\<rparr>"

definition BrickletTemperatureIR_get_identity :: dev_method where
  "BrickletTemperatureIR_get_identity =
     \<lparr>m_name = ''get_identity'', m_params = [],
      m_function = 255, m_form = [], m_form_ret = ''8s 8s c 3B 3B H'',
      m_result = BrickletTemperatureIR_GetIdentity\<rparr>"

definition BrickletTemperatureIR :: binding where
  "BrickletTemperatureIR =
     \<lparr>b_class = ''BrickletTemperatureIR'', b_identifier = 217, b_ids = BrickletTemperatureIR_ids,
      b_api_version = (2, 0, 0), b_flags = BrickletTemperatureIR_flags, b_formats = BrickletTemperatureIR_formats,
      b_methods =
       [BrickletTemperatureIR_get_ambient_temperature,
        BrickletTemperatureIR_get_object_temperature, BrickletTemperatureIR_set_emissivity,
        BrickletTemperatureIR_get_emissivity,
        BrickletTemperatureIR_set_ambient_temperature_callback_period,
        BrickletTemperatureIR_get_ambient_temperature_callback_period,
        BrickletTemperatureIR_set_object_temperature_callback_period,
        BrickletTemperatureIR_get_object_temperature_callback_period,
        BrickletTemperatureIR_set_ambient_temperature_callback_threshold,
        BrickletTemperatureIR_get_ambient_temperature_callback_threshold,
        BrickletTemperatureIR_set_object_temperature_callback_threshold,
        BrickletTemperatureIR_get_object_temperature_callback_threshold,
        BrickletTemperatureIR_set_debounce_period, BrickletTemperatureIR_get_debounce_period,
        BrickletTemperatureIR_get_identity]\<rparr>"

interpretation TemperatureIR: device_class BrickletTemperatureIR
  by unfold_locales code_simp

section \<open>The class BrickletDustDetector (\<^verbatim>\<open>bricklet_dust_detector.py\<close>)\<close>

definition BrickletDustDetector_GetDustDensityCallbackThreshold :: shape where
  "BrickletDustDetector_GetDustDensityCallbackThreshold = Named ''DustDensityCallbackThreshold''
     [''option'', ''min'', ''max'']"

definition BrickletDustDetector_GetIdentity :: shape where
  "BrickletDustDetector_GetIdentity = Named ''Identity''
     [''uid'', ''connected_uid'', ''position'', ''hardware_version'', ''firmware_version'',
      ''device_identifier'']"

definition BrickletDustDetector_ids :: "(string \<times> int) list" where
  "BrickletDustDetector_ids =
     [(''CALLBACK_DUST_DENSITY'', 8), (''CALLBACK_DUST_DENSITY_REACHED'', 9),
      (''FUNCTION_GET_DUST_DENSITY'', 1), (''FUNCTION_SET_DUST_DENSITY_CALLBACK_PERIOD'', 2),
      (''FUNCTION_GET_DUST_DENSITY_CALLBACK_PERIOD'', 3),
      (''FUNCTION_SET_DUST_DENSITY_CALLBACK_THRESHOLD'', 4),
      (''FUNCTION_GET_DUST_DENSITY_CALLBACK_THRESHOLD'', 5), (''FUNCTION_SET_DEBOUNCE_PERIOD'', 6),
      (''FUNCTION_GET_DEBOUNCE_PERIOD'', 7), (''FUNCTION_SET_MOVING_AVERAGE'', 10),
      (''FUNCTION_GET_MOVING_AVERAGE'', 11), (''FUNCTION_GET_IDENTITY'', 255)]"

definition BrickletDustDetector_flags :: "(int \<times> resp_flag) list" where
  "BrickletDustDetector_flags =
     [(1, ALWAYS_TRUE), (2, RE_TRUE), (3, ALWAYS_TRUE), (4, RE_TRUE), (5, ALWAYS_TRUE),
      (6, RE_TRUE), (7, ALWAYS_TRUE), (8, ALWAYS_FALSE), (9, ALWAYS_FALSE), (10, RE_FALSE),
      (11, ALWAYS_TRUE), (255, ALWAYS_TRUE)]"

definition BrickletDustDetector_formats :: "(int \<times> string) list" where
  "BrickletDustDetector_formats =
     [(8, ''H''), (9, ''H'')]"

definition BrickletDustDetector_get_dust_density :: dev_method where
  "BrickletDustDetector_get_dust_density =
     \<lparr>m_name = ''get_dust_density'', m_params = [],
      m_function = 1, m_form = [], m_form_ret = ''H'',
      m_result = Returned\<rparr>"

definition BrickletDustDetector_set_dust_density_callback_period :: dev_method where
  "BrickletDustDetector_set_dust_density_callback_period =
     \<lparr>m_name = ''set_dust_density_callback_period'', m_params = [''period''],
      m_function = 2, m_form = ''I'', m_form_ret = [],
      m_result = Discarded\<rparr>"

definition BrickletDustDetector_get_dust_density_callback_period :: dev_method where
  "BrickletDustDetector_get_dust_density_callback_period =
     \<lparr>m_name = ''get_dust_density_callback_period'', m_params = [],
      m_function = 3, m_form = [], m_form_ret = ''I'',
      m_result = Returned\<rparr>"

definition BrickletDustDetector_set_dust_density_callback_threshold :: dev_method where
  "BrickletDustDetector_set_dust_density_callback_threshold =
     \<lparr>m_name = ''set_dust_density_callback_threshold'', m_params = [''option'', ''min'', ''max''],
      m_function = 4, m_form = ''c H H'', m_form_ret = [],
      m_result = Discarded\<rparr>"

definition BrickletDustDetector_get_dust_density_callback_threshold :: dev_method where
  "BrickletDustDetector_get_dust_density_callback_threshold =
     \<lparr>m_name = ''get_dust_density_callback_threshold'', m_params = [],
      m_function = 5, m_form = [], m_form_ret = ''c H H'',
      m_result = BrickletDustDetector_GetDustDensityCallbackThreshold\<rparr>"

definition BrickletDustDetector_set_debounce_period :: dev_method where
  "BrickletDustDetector_set_debounce_period =
     \<lparr>m_name = ''set_debounce_period'', m_params = [''debounce''],
      m_function = 6, m_form = ''I'', m_form_ret = [],
      m_result = Discarded\<rparr>"

definition BrickletDustDetector_get_debounce_period :: dev_method where
  "BrickletDustDetector_get_debounce_period =
     \<lparr>m_name = ''get_debounce_period'', m_params = [],
      m_function = 7, m_form = [], m_form_ret = ''I'',
      m_result = Returned\<rparr>"

definition BrickletDustDetector_set_moving_average :: dev_method where
  "BrickletDustDetector_set_moving_average =
     \<lparr>m_name = ''set_moving_average'', m_params = [''average''],
      m_function = 10, m_form = ''B'', m_form_ret = [],
      m_result = Discarded\<rparr>"

definition BrickletDustDetector_get_moving_average :: dev_method where
  "BrickletDustDetector_get_moving_average =
     \<lparr>m_name = ''get_moving_average'', m_params = [],
      m_function = 11, m_form = [], m_form_ret = ''B'',
      m_result = Returned\<rparr>"

definition BrickletDustDetector_get_identity :: dev_method where
  "BrickletDustDetector_get_identity =
     \<lparr>m_name = ''get_identity'', m_params = [],
      m_function = 255, m_form = [], m_form_ret = ''8s 8s c 3B 3B H'',
      m_result = BrickletDustDetector_GetIdentity\<rparr>"

definition BrickletDustDetector :: binding where
  "BrickletDustDetector =
     \<lparr>b_class = ''BrickletDustDetector'', b_identifier = 260, b_ids = BrickletDustDetector_ids,
      b_api_version = (2, 0, 0), b_flags = BrickletDustDetector_flags, b_formats = BrickletDustDetector_formats,
      b_methods =
       [BrickletDustDetector_get_dust_density,
        BrickletDustDetector_set_dust_density_callback_period,
        BrickletDustDetector_get_dust_density_callback_period,
        BrickletDustDetector_set_dust_density_callback_threshold,
        BrickletDustDetector_get_dust_density_callback_threshold,
        BrickletDustDetector_set_debounce_period, BrickletDustDetector_get_debounce_period,
        BrickletDustDetector_set_moving_average, BrickletDustDetector_get_moving_average,
        BrickletDustDetector_get_identity]\<rparr>"

interpretation DustDetector: device_class BrickletDustDetector
  by unfold_locales code_simp

section \<open>The class BrickletMoisture (\<^verbatim>\<open>bricklet_moisture.py\<close>)\<close>

definition BrickletMoisture_GetMoistureCallbackThreshold :: shape where
  "BrickletMoisture_GetMoistureCallbackThreshold = Named ''MoistureCallbackThreshold''
     [''option'', ''min'', ''max'']"

definition BrickletMoisture_GetIdentity :: shape where
  "BrickletMoisture_GetIdentity = Named ''Identity''
     [''uid'', ''connected_uid'', ''position'', ''hardware_version'', ''firmware_version'',
      ''device_identifier'']"

definition BrickletMoisture_ids :: "(string \<times> int) list" where
  "BrickletMoisture_ids =
     [(''CALLBACK_MOISTURE'', 8), (''CALLBACK_MOISTURE_REACHED'', 9),
      (''FUNCTION_GET_MOISTURE_VALUE'', 1), (''FUNCTION_SET_MOISTURE_CALLBACK_PERIOD'', 2),
      (''FUNCTION_GET_MOISTURE_CALLBACK_PERIOD'', 3),
      (''FUNCTION_SET_MOISTURE_CALLBACK_THRESHOLD'', 4),
      (''FUNCTION_GET_MOISTURE_CALLBACK_THRESHOLD'', 5), (''FUNCTION_SET_DEBOUNCE_PERIOD'', 6),
      (''FUNCTION_GET_DEBOUNCE_PERIOD'', 7), (''FUNCTION_SET_MOVING_AVERAGE'', 10),
      (''FUNCTION_GET_MOVING_AVERAGE'', 11), (''FUNCTION_GET_IDENTITY'', 255)]"

definition BrickletMoisture_flags :: "(int \<times> resp_flag) list" where
  "BrickletMoisture_flags =
     [(1, ALWAYS_TRUE), (2, RE_TRUE), (3, ALWAYS_TRUE), (4, RE_TRUE), (5, ALWAYS_TRUE),
      (6, RE_TRUE), (7, ALWAYS_TRUE), (8, ALWAYS_FALSE), (9, ALWAYS_FALSE), (10, RE_FALSE),
      (11, ALWAYS_TRUE), (255, ALWAYS_TRUE)]"

definition BrickletMoisture_formats :: "(int \<times> string) list" where
  "BrickletMoisture_formats =
     [(8, ''H''), (9, ''H'')]"

definition BrickletMoisture_get_moisture_value :: dev_method where
  "BrickletMoisture_get_moisture_value =
     \<lparr>m_name = ''get_moisture_value'', m_params = [],
      m_function = 1, m_form = [], m_form_ret = ''H'',
      m_result = Returned\<rparr>"

definition BrickletMoisture_set_moisture_callback_period :: dev_method where
  "BrickletMoisture_set_moisture_callback_period =
     \<lparr>m_name = ''set_moisture_callback_period'', m_params = [''period''],
      m_function = 2, m_form = ''I'', m_form_ret = [],
      m_result = Discarded\<rparr>"

definition BrickletMoisture_get_moisture_callback_period :: dev_method where
  "BrickletMoisture_get_moisture_callback_period =
     \<lparr>m_name = ''get_moisture_callback_period'', m_params = [],
      m_function = 3, m_form = [], m_form_ret = ''I'',
      m_result = Returned\<rparr>"

definition BrickletMoisture_set_moisture_callback_threshold :: dev_method where
  "BrickletMoisture_set_moisture_callback_threshold =
     \<lparr>m_name = ''set_moisture_callback_threshold'', m_params = [''option'', ''min'', ''max''],
      m_function = 4, m_form = ''c H H'', m_form_ret = [],
      m_result = Discarded\<rparr>"

definition BrickletMoisture_get_moisture_callback_threshold :: dev_method where
  "BrickletMoisture_get_moisture_callback_threshold =
     \<lparr>m_name = ''get_moisture_callback_threshold'', m_params = [],
      m_function = 5, m_form = [], m_form_ret = ''c H H'',
      m_result = BrickletMoisture_GetMoistureCallbackThreshold\<rparr>"

definition BrickletMoisture_set_debounce_period :: dev_method where
  "BrickletMoisture_set_debounce_period =
     \<lparr>m_name = ''set_debounce_period'', m_params = [''debounce''],
      m_function = 6, m_form = ''I'', m_form_ret = [],
      m_result = Discarded\<rparr>"

definition BrickletMoisture_get_debounce_period :: dev_method where
  "BrickletMoisture_get_debounce_period =
     \<lparr>m_name = ''get_debounce_period'', m_params = [],
      m_function = 7, m_form = [], m_form_ret = ''I'',
      m_result = Returned\<rparr>"

definition BrickletMoisture_set_moving_average :: dev_method where
  "BrickletMoisture_set_moving_average =
     \<lparr>m_name = ''set_moving_average'', m_params = [''average''],
      m_function = 10, m_form = ''B'', m_form_ret = [],
      m_result = Discarded\<rparr>"

definition BrickletMoisture_get_moving_average :: dev_method where
  "BrickletMoisture_get_moving_average =
     \<lparr>m_name = ''get_moving_average'', m_params = [],
      m_function = 11, m_form = [], m_form_ret = ''B'',
      m_result = Returned\<rparr>"

definition BrickletMoisture_get_identity :: dev_method where
  "BrickletMoisture_get_identity =
     \<lparr>m_name = ''get_identity'', m_params = [],
      m_function = 255, m_form = [], m_form_ret = ''8s 8s c 3B 3B H'',
      m_result = BrickletMoisture_GetIdentity\<rparr>"

definition BrickletMoisture :: binding where
  "BrickletMoisture =
     \<lparr>b_class = ''BrickletMoisture'', b_identifier = 232, b_ids = BrickletMoisture_ids,
      b_api_version = (2, 0, 0), b_flags = BrickletMoisture_flags, b_formats = BrickletMoisture_formats,
      b_methods =
       [BrickletMoisture_get_moisture_value, BrickletMoisture_set_moisture_callback_period,
        BrickletMoisture_get_moisture_callback_period,
        BrickletMoisture_set_moisture_callback_threshold,
        BrickletMoisture_get_moisture_callback_threshold, BrickletMoisture_set_debounce_period,
        BrickletMoisture_get_debounce_period, BrickletMoisture_set_moving_average,
        BrickletMoisture_get_moving_average, BrickletMoisture_get_identity]\<rparr>"

interpretation Moisture: device_class BrickletMoisture
  by unfold_locales code_simp

section \<open>The class BrickletSoundIntensity (\<^verbatim>\<open>bricklet_sound_intensity.py\<close>)\<close>

definition BrickletSoundIntensity_GetIntensityCallbackThreshold :: shape where
  "BrickletSoundIntensity_GetIntensityCallbackThreshold = Named ''IntensityCallbackThreshold''
     [''option'', ''min'', ''max'']"

definition BrickletSoundIntensity_GetIdentity :: shape where
  "BrickletSoundIntensity_GetIdentity = Named ''Identity''
     [''uid'', ''connected_uid'', ''position'', ''hardware_version'', ''firmware_version'',
      ''device_identifier'']"

definition BrickletSoundIntensity_ids :: "(string \<times> int) list" where
  "BrickletSoundIntensity_ids =
     [(''CALLBACK_INTENSITY'', 8), (''CALLBACK_INTENSITY_REACHED'', 9),
      (''FUNCTION_GET_INTENSITY'', 1), (''FUNCTION_SET_INTENSITY_CALLBACK_PERIOD'', 2),
      (''FUNCTION_GET_INTENSITY_CALLBACK_PERIOD'', 3),
      (''FUNCTION_SET_INTENSITY_CALLBACK_THRESHOLD'', 4),
      (''FUNCTION_GET_INTENSITY_CALLBACK_THRESHOLD'', 5), (''FUNCTION_SET_DEBOUNCE_PERIOD'', 6),
      (''FUNCTION_GET_DEBOUNCE_PERIOD'', 7), (''FUNCTION_GET_IDENTITY'', 255)]"

definition BrickletSoundIntensity_flags :: "(int \<times> resp_flag) list" where
  "BrickletSoundIntensity_flags =
     [(1, ALWAYS_TRUE), (2, RE_TRUE), (3, ALWAYS_TRUE), (4, RE_TRUE), (5, ALWAYS_TRUE),
      (6, RE_TRUE), (7, ALWAYS_TRUE), (8, ALWAYS_FALSE), (9, ALWAYS_FALSE), (255, ALWAYS_TRUE)]"

definition BrickletSoundIntensity_formats :: "(int \<times> string) list" where
  "BrickletSoundIntensity_formats =
     [(8, ''H''), (9, ''H'')]"

definition BrickletSoundIntensity_get_intensity :: dev_method where
  "BrickletSoundIntensity_get_intensity =
     \<lparr>m_name = ''get_intensity'', m_params = [],
      m_function = 1, m_form = [], m_form_ret = ''H'',
      m_result = Returned\<rparr>"

definition BrickletSoundIntensity_set_intensity_callback_period :: dev_method where
  "BrickletSoundIntensity_set_intensity_callback_period =
     \<lparr>m_name = ''set_intensity_callback_period'', m_params = [''period''],
      m_function = 2, m_form = ''I'', m_form_ret = [],
      m_result = Discarded\<rparr>"

definition BrickletSoundIntensity_get_intensity_callback_period :: dev_method where
  "BrickletSoundIntensity_get_intensity_callback_period =
     \<lparr>m_name = ''get_intensity_callback_period'', m_params = [],
      m_function = 3, m_form = [], m_form_ret = ''I'',
      m_result = Returned\<rparr>"

definition BrickletSoundIntensity_set_intensity_callback_threshold :: dev_method where
  "BrickletSoundIntensity_set_intensity_callback_threshold =
     \<lparr>m_name = ''set_intensity_callback_threshold'', m_params = [''option'', ''min'', ''max''],
      m_function = 4, m_form = ''c H H'', m_form_ret = [],
      m_result = Discarded\<rparr>"

definition BrickletSoundIntensity_get_intensity_callback_threshold :: dev_method where
  "BrickletSoundIntensity_get_intensity_callback_threshold =
     \<lparr>m_name = ''get_intensity_callback_threshold'', m_params = [],
      m_function = 5, m_form = [], m_form_ret = ''c H H'',
      m_result = BrickletSoundIntensity_GetIntensityCallbackThreshold\<rparr>"

definition BrickletSoundIntensity_set_debounce_period :: dev_method where
  "BrickletSoundIntensity_set_debounce_period =
     \<lparr>m_name = ''set_debounce_period'', m_params = [''debounce''],
      m_function = 6, m_form = ''I'', m_form_ret = [],
      m_result = Discarded\<rparr>"

definition BrickletSoundIntensity_get_debounce_period :: dev_method where
  "BrickletSoundIntensity_get_debounce_period =
     \<lparr>m_name = ''get_debounce_period'', m_params = [],
      m_function = 7, m_form = [], m_form_ret = ''I'',
      m_result = Returned\<rparr>"

definition BrickletSoundIntensity_get_identity :: dev_method where
  "BrickletSoundIntensity_get_identity =
     \<lparr>m_name = ''get_identity'', m_params = [],
      m_function = 255, m_form = [], m_form_ret = ''8s 8s c 3B 3B H'',
      m_result = BrickletSoundIntensity_GetIdentity\<rparr>"

definition BrickletSoundIntensity :: binding where
  "BrickletSoundIntensity =
     \<lparr>b_class = ''BrickletSoundIntensity'', b_identifier = 238, b_ids = BrickletSoundIntensity_ids,
      b_api_version = (2, 0, 0), b_flags = BrickletSoundIntensity_flags, b_formats = BrickletSoundIntensity_formats,
      b_methods =
       [BrickletSoundIntensity_get_intensity, BrickletSoundIntensity_set_intensity_callback_period,
        BrickletSoundIntensity_get_intensity_callback_period,
        BrickletSoundIntensity_set_intensity_callback_threshold,
        BrickletSoundIntensity_get_intensity_callback_threshold,
        BrickletSoundIntensity_set_debounce_period, BrickletSoundIntensity_get_debounce_period,
        BrickletSoundIntensity_get_identity]\<rparr>"

interpretation SoundIntensity: device_class BrickletSoundIntensity
  by unfold_locales code_simp

section \<open>The class BrickletColor (\<^verbatim>\<open>bricklet_color.py\<close>)\<close>

definition BrickletColor_GetColor :: shape where
  "BrickletColor_GetColor = Named ''Color''
     [''r'', ''g'', ''b'', ''c'']"

definition BrickletColor_GetColorCallbackThreshold :: shape where
  "BrickletColor_GetColorCallbackThreshold = Named ''ColorCallbackThreshold''
     [''option'', ''min_r'', ''max_r'', ''min_g'', ''max_g'', ''min_b'', ''max_b'', ''min_c'',
      ''max_c'']"

definition BrickletColor_GetConfig :: shape where
  "BrickletColor_GetConfig = Named ''Config''
     [''gain'', ''integration_time'']"

definition BrickletColor_GetIdentity :: shape where
  "BrickletColor_GetIdentity = Named ''Identity''
     [''uid'', ''connected_uid'', ''position'', ''hardware_version'', ''firmware_version'',
      ''device_identifier'']"

definition BrickletColor_ids :: "(string \<times> int) list" where
  "BrickletColor_ids =
     [(''CALLBACK_COLOR'', 8), (''CALLBACK_COLOR_REACHED'', 9), (''CALLBACK_ILLUMINANCE'', 21),
      (''CALLBACK_COLOR_TEMPERATURE'', 22), (''FUNCTION_GET_COLOR'', 1),
      (''FUNCTION_SET_COLOR_CALLBACK_PERIOD'', 2), (''FUNCTION_GET_COLOR_CALLBACK_PERIOD'', 3),
      (''FUNCTION_SET_COLOR_CALLBACK_THRESHOLD'', 4),
      (''FUNCTION_GET_COLOR_CALLBACK_THRESHOLD'', 5), (''FUNCTION_SET_DEBOUNCE_PERIOD'', 6),
      (''FUNCTION_GET_DEBOUNCE_PERIOD'', 7), (''FUNCTION_LIGHT_ON'', 10),
      (''FUNCTION_LIGHT_OFF'', 11), (''FUNCTION_IS_LIGHT_ON'', 12), (''FUNCTION_SET_CONFIG'', 13),
      (''FUNCTION_GET_CONFIG'', 14), (''FUNCTION_GET_ILLUMINANCE'', 15),
      (''FUNCTION_GET_COLOR_TEMPERATURE'', 16), (''FUNCTION_SET_ILLUMINANCE_CALLBACK_PERIOD'', 17),
      (''FUNCTION_GET_ILLUMINANCE_CALLBACK_PERIOD'', 18),
      (''FUNCTION_SET_COLOR_TEMPERATURE_CALLBACK_PERIOD'', 19),
      (''FUNCTION_GET_COLOR_TEMPERATURE_CALLBACK_PERIOD'', 20), (''FUNCTION_GET_IDENTITY'', 255)]"

definition BrickletColor_flags :: "(int \<times> resp_flag) list" where
  "BrickletColor_flags =
     [(1, ALWAYS_TRUE), (2, RE_TRUE), (3, ALWAYS_TRUE), (4, RE_TRUE), (5, ALWAYS_TRUE),
      (6, RE_TRUE), (7, ALWAYS_TRUE), (8, ALWAYS_FALSE), (9, ALWAYS_FALSE), (10, RE_FALSE),
      (11, RE_FALSE), (12, ALWAYS_TRUE), (13, RE_FALSE), (14, ALWAYS_TRUE), (15, ALWAYS_TRUE),
      (16, ALWAYS_TRUE), (17, RE_TRUE), (18, ALWAYS_TRUE), (19, RE_TRUE), (20, ALWAYS_TRUE),
      (21, ALWAYS_FALSE), (22, ALWAYS_FALSE), (255, ALWAYS_TRUE)]"

definition BrickletColor_formats :: "(int \<times> string) list" where
  "BrickletColor_formats =
     [(8, ''H H H H''), (9, ''H H H H''), (21, ''I''), (22, ''H'')]"

definition BrickletColor_get_color :: dev_method where
  "BrickletColor_get_color =
     \<lparr>m_name = ''get_color'', m_params = [],
      m_function = 1, m_form = [], m_form_ret = ''H H H H'',
      m_result = BrickletColor_GetColor\<rparr>"

definition BrickletColor_set_color_callback_period :: dev_method where
  "BrickletColor_set_color_callback_period =
     \<lparr>m_name = ''set_color_callback_period'', m_params = [''period''],
      m_function = 2, m_form = ''I'', m_form_ret = [],
      m_result = Discarded\<rparr>"

definition BrickletColor_get_color_callback_period :: dev_method where
  "BrickletColor_get_color_callback_period =
     \<lparr>m_name = ''get_color_callback_period'', m_params = [],
      m_function = 3, m_form = [], m_form_ret = ''I'',
      m_result = Returned\<rparr>"

definition BrickletColor_set_color_callback_threshold :: dev_method where
  "BrickletColor_set_color_callback_threshold =
     \<lparr>m_name = ''set_color_callback_threshold'', m_params = [''option'', ''min_r'', ''max_r'', ''min_g'', ''max_g'', ''min_b'', ''max_b'', ''min_c'',
         ''max_c''],
      m_function = 4, m_form = ''c H H H H H H H H'', m_form_ret = [],
      m_result = Discarded\<rparr>"

definition BrickletColor_get_color_callback_threshold :: dev_method where
  "BrickletColor_get_color_callback_threshold =
     \<lparr>m_name = ''get_color_callback_threshold'', m_params = [],
      m_function = 5, m_form = [], m_form_ret = ''c H H H H H H H H'',
      m_result = BrickletColor_GetColorCallbackThreshold\<rparr>"

definition BrickletColor_set_debounce_period :: dev_method where
  "BrickletColor_set_debounce_period =
     \<lparr>m_name = ''set_debounce_period'', m_params = [''debounce''],
      m_function = 6, m_form = ''I'', m_form_ret = [],
      m_result = Discarded\<rparr>"

definition BrickletColor_get_debounce_period :: dev_method where
  "BrickletColor_get_debounce_period =
     \<lparr>m_name = ''get_debounce_period'', m_params = [],
      m_function = 7, m_form = [], m_form_ret = ''I'',
      m_result = Returned\<rparr>"

definition BrickletColor_light_on :: dev_method where
  "BrickletColor_light_on =
     \<lparr>m_name = ''light_on'', m_params = [],
      m_function = 10, m_form = [], m_form_ret = [],
      m_result = Discarded\<rparr>"

definition BrickletColor_light_off :: dev_method where
  "BrickletColor_light_off =
     \<lparr>m_name = ''light_off'', m_params = [],
      m_function = 11, m_form = [], m_form_ret = [],
      m_result = Discarded\<rparr>"

definition BrickletColor_is_light_on :: dev_method where
  "BrickletColor_is_light_on =
     \<lparr>m_name = ''is_light_on'', m_params = [],
      m_function = 12, m_form = [], m_form_ret = ''B'',
      m_result = Returned\<rparr>"

definition BrickletColor_set_config :: dev_method where
  "BrickletColor_set_config =
     \<lparr>m_name = ''set_config'', m_params = [''gain'', ''integration_time''],
      m_function = 13, m_form = ''B B'', m_form_ret = [],
      m_result = Discarded\<rparr>"

definition BrickletColor_get_config :: dev_method where
  "BrickletColor_get_config =
     \<lparr>m_name = ''get_config'', m_params = [],
      m_function = 14, m_form = [], m_form_ret = ''B B'',
      m_result = BrickletColor_GetConfig\<rparr>"

definition BrickletColor_get_illuminance :: dev_method where
  "BrickletColor_get_illuminance =
     \<lparr>m_name = ''get_illuminance'', m_params = [],
      m_function = 15, m_form = [], m_form_ret = ''I'',
      m_result = Returned\<rparr>"

definition BrickletColor_get_color_temperature :: dev_method where
  "BrickletColor_get_color_temperature =
     \<lparr>m_name = ''get_color_temperature'', m_params = [],
      m_function = 16, m_form = [], m_form_ret = ''H'',
      m_result = Returned\<rparr>"

definition BrickletColor_set_illuminance_callback_period :: dev_method where
  "BrickletColor_set_illuminance_callback_period =
     \<lparr>m_name = ''set_illuminance_callback_period'', m_params = [''period''],
      m_function = 17, m_form = ''I'', m_form_ret = [],
      m_result = Discarded\<rparr>"

definition BrickletColor_get_illuminance_callback_period :: dev_method where
  "BrickletColor_get_illuminance_callback_period =
     \<lparr>m_name = ''get_illuminance_callback_period'', m_params = [],
      m_function = 18, m_form = [], m_form_ret = ''I'',
      m_result = Returned\<rparr>"

definition BrickletColor_set_color_temperature_callback_period :: dev_method where
  "BrickletColor_set_color_temperature_callback_period =
     \<lparr>m_name = ''set_color_temperature_callback_period'', m_params = [''period''],
      m_function = 19, m_form = ''I'', m_form_ret = [],
      m_result = Discarded\<rparr>"

definition BrickletColor_get_color_temperature_callback_period :: dev_method where
  "BrickletColor_get_color_temperature_callback_period =
     \<lparr>m_name = ''get_color_temperature_callback_period'', m_params = [],
      m_function = 20, m_form = [], m_form_ret = ''I'',
      m_result = Returned\<rparr>"

definition BrickletColor_get_identity :: dev_method where
  "BrickletColor_get_identity =
     \<lparr>m_name = ''get_identity'', m_params = [],
      m_function = 255, m_form = [], m_form_ret = ''8s 8s c 3B 3B H'',
      m_result = BrickletColor_GetIdentity\<rparr>"

definition BrickletColor :: binding where
  "BrickletColor =
     \<lparr>b_class = ''BrickletColor'', b_identifier = 243, b_ids = BrickletColor_ids,
      b_api_version = (2, 0, 0), b_flags = BrickletColor_flags, b_formats = BrickletColor_formats,
      b_methods =
       [BrickletColor_get_color, BrickletColor_set_color_callback_period,
        BrickletColor_get_color_callback_period, BrickletColor_set_color_callback_threshold,
        BrickletColor_get_color_callback_threshold, BrickletColor_set_debounce_period,
        BrickletColor_get_debounce_period, BrickletColor_light_on, BrickletColor_light_off,
        BrickletColor_is_light_on, BrickletColor_set_config, BrickletColor_get_config,
        BrickletColor_get_illuminance, BrickletColor_get_color_temperature,
        BrickletColor_set_illuminance_callback_period,
        BrickletColor_get_illuminance_callback_period,
        BrickletColor_set_color_temperature_callback_period,
        BrickletColor_get_color_temperature_callback_period, BrickletColor_get_identity]\<rparr>"

interpretation Color: device_class BrickletColor
  by unfold_locales code_simp

end
