(* ===== verification/Bricklets_Electric.thy ===== *)
theory Bricklets_Electric
  imports Bindings
begin

text \<open>
  The device classes of the Bricklets for voltages, currents and resistances. For each class: its
  named tuples, its constants, the assignments of its constructor, one definition per
  method, and the class itself, on which \<open>device_class\<close> is interpreted.
\<close>

section \<open>The class BrickletAnalogIn (\<^verbatim>\<open>bricklet_analog_in.py\<close>)\<close>

definition BrickletAnalogIn_GetVoltageCallbackThreshold :: shape where
  "BrickletAnalogIn_GetVoltageCallbackThreshold = Named ''VoltageCallbackThreshold''
     [''option'', ''min'', ''max'']"

definition BrickletAnalogIn_GetAnalogValueCallbackThreshold :: shape where
  "BrickletAnalogIn_GetAnalogValueCallbackThreshold = Named ''AnalogValueCallbackThreshold''
     [''option'', ''min'', ''max'']"

definition BrickletAnalogIn_GetIdentity :: shape where
  "BrickletAnalogIn_GetIdentity = Named ''Identity''
     [''uid'', ''connected_uid'', ''position'', ''hardware_version'', ''firmware_version'',
      ''device_identifier'']"

definition BrickletAnalogIn_ids :: "(string \<times> int) list" where
  "BrickletAnalogIn_ids =
     [(''CALLBACK_VOLTAGE'', 13), (''CALLBACK_ANALOG_VALUE'', 14),
      (''CALLBACK_VOLTAGE_REACHED'', 15), (''CALLBACK_ANALOG_VALUE_REACHED'', 16),
      (''FUNCTION_GET_VOLTAGE'', 1), (''FUNCTION_GET_ANALOG_VALUE'', 2),
      (''FUNCTION_SET_VOLTAGE_CALLBACK_PERIOD'', 3), (''FUNCTION_GET_VOLTAGE_CALLBACK_PERIOD'', 4),
      (''FUNCTION_SET_ANALOG_VALUE_CALLBACK_PERIOD'', 5),
      (''FUNCTION_GET_ANALOG_VALUE_CALLBACK_PERIOD'', 6),
      (''FUNCTION_SET_VOLTAGE_CALLBACK_THRESHOLD'', 7),
      (''FUNCTION_GET_VOLTAGE_CALLBACK_THRESHOLD'', 8),
      (''FUNCTION_SET_ANALOG_VALUE_CALLBACK_THRESHOLD'', 9),
      (''FUNCTION_GET_ANALOG_VALUE_CALLBACK_THRESHOLD'', 10),
      (''FUNCTION_SET_DEBOUNCE_PERIOD'', 11), (''FUNCTION_GET_DEBOUNCE_PERIOD'', 12),
      (''FUNCTION_SET_RANGE'', 17), (''FUNCTION_GET_RANGE'', 18), (''FUNCTION_SET_AVERAGING'', 19),
      (''FUNCTION_GET_AVERAGING'', 20), (''FUNCTION_GET_IDENTITY'', 255)]"

definition BrickletAnalogIn_flags :: "(int \<times> resp_flag) list" where
  "BrickletAnalogIn_flags =
     [(1, ALWAYS_TRUE), (2, ALWAYS_TRUE), (3, RE_TRUE), (4, ALWAYS_TRUE), (5, RE_TRUE),
      (6, ALWAYS_TRUE), (7, RE_TRUE), (8, ALWAYS_TRUE), (9, RE_TRUE), (10, ALWAYS_TRUE),
      (11, RE_TRUE), (12, ALWAYS_TRUE), (13, ALWAYS_FALSE), (14, ALWAYS_FALSE), (15, ALWAYS_FALSE),
      (16, ALWAYS_FALSE), (17, RE_FALSE), (18, ALWAYS_TRUE), (19, RE_FALSE), (20, ALWAYS_TRUE),
      (255, ALWAYS_TRUE)]"

definition BrickletAnalogIn_formats :: "(int \<times> string) list" where
  "BrickletAnalogIn_formats =
     [(13, ''H''), (14, ''H''), (15, ''H''), (16, ''H'')]"

definition BrickletAnalogIn_get_voltage :: dev_method where
  "BrickletAnalogIn_get_voltage =
     \<lparr>m_name = ''get_voltage'', m_params = [],
      m_function = 1, m_form = [], m_form_ret = ''H'',
      m_result = Returned\<rparr>"

definition BrickletAnalogIn_get_analog_value :: dev_method where
  "BrickletAnalogIn_get_analog_value =
     \<lparr>m_name = ''get_analog_value'', m_params = [],
      m_function = 2, m_form = [], m_form_ret = ''H'',
      m_result = Returned\<rparr>"

definition BrickletAnalogIn_set_voltage_callback_period :: dev_method where
  "BrickletAnalogIn_set_voltage_callback_period =
     \<lparr>m_name = ''set_voltage_callback_period'', m_params = [''period''],
      m_function = 3, m_form = ''I'', m_form_ret = [],
      m_result = Discarded\<rparr>"

definition BrickletAnalogIn_get_voltage_callback_period :: dev_method where
  "BrickletAnalogIn_get_voltage_callback_period =
     \<lparr>m_name = ''get_voltage_callback_period'', m_params = [],
      m_function = 4, m_form = [], m_form_ret = ''I'',
      m_result = Returned\<rparr>"

definition BrickletAnalogIn_set_analog_value_callback_period :: dev_method where
  "BrickletAnalogIn_set_analog_value_callback_period =
     \<lparr>m_name = ''set_analog_value_callback_period'', m_params = [''period''],
      m_function = 5, m_form = ''I'', m_form_ret = [],
      m_result = Discarded\<rparr>"

definition BrickletAnalogIn_get_analog_value_callback_period :: dev_method where
  "BrickletAnalogIn_get_analog_value_callback_period =
     \<lparr>m_name = ''get_analog_value_callback_period'', m_params = [],
      m_function = 6, m_form = [], m_form_ret = ''I'',
      m_result = Returned\<rparr>"

definition BrickletAnalogIn_set_voltage_callback_threshold :: dev_method where
  "BrickletAnalogIn_set_voltage_callback_threshold =
     \<lparr>m_name = ''set_voltage_callback_threshold'', m_params = [''option'', ''min'', ''max''],
      m_function = 7, m_form = ''c h h'', m_form_ret = [],
      m_result = Discarded\<rparr>"

definition BrickletAnalogIn_get_voltage_callback_threshold :: dev_method where
  "BrickletAnalogIn_get_voltage_callback_threshold =
     \<lparr>m_name = ''get_voltage_callback_threshold'', m_params = [],
      m_function = 8, m_form = [], m_form_ret = ''c h h'',
      m_result = BrickletAnalogIn_GetVoltageCallbackThreshold\<rparr>"

definition BrickletAnalogIn_set_analog_value_callback_threshold :: dev_method where
  "BrickletAnalogIn_set_analog_value_callback_threshold =
     \<lparr>m_name = ''set_analog_value_callback_threshold'', m_params = [''option'', ''min'', ''max''],
      m_function = 9, m_form = ''c H H'', m_form_ret = [],
      m_result = Discarded\<rparr>"

definition BrickletAnalogIn_get_analog_value_callback_threshold :: dev_method where
  "BrickletAnalogIn_get_analog_value_callback_threshold =
     \<lparr>m_name = ''get_analog_value_callback_threshold'', m_params = [],
      m_function = 10, m_form = [], m_form_ret = ''c H H'',
      m_result = BrickletAnalogIn_GetAnalogValueCallbackThreshold\<rparr>"

definition BrickletAnalogIn_set_debounce_period :: dev_method where
  "BrickletAnalogIn_set_debounce_period =
     \<lparr>m_name = ''set_debounce_period'', m_params = [''debounce''],
      m_function = 11, m_form = ''I'', m_form_ret = [],
      m_result = Discarded\<rparr>"

definition BrickletAnalogIn_get_debounce_period :: dev_method where
  "BrickletAnalogIn_get_debounce_period =
     \<lparr>m_name = ''get_debounce_period'', m_params = [],
      m_function = 12, m_form = [], m_form_ret = ''I'',
      m_result = Returned\<rparr>"

definition BrickletAnalogIn_set_range :: dev_method where
  "BrickletAnalogIn_set_range =
     \<lparr>m_name = ''set_range'', m_params = [''range''],
      m_function = 17, m_form = ''B'', m_form_ret = [],
      m_result = Discarded\<rparr>"

definition BrickletAnalogIn_get_range :: dev_method where
  "BrickletAnalogIn_get_range =
     \<lparr>m_name = ''get_range'', m_params = [],
      m_function = 18, m_form = [], m_form_ret = ''B'',
      m_result = Returned\<rparr>"

definition BrickletAnalogIn_set_averaging :: dev_method where
  "BrickletAnalogIn_set_averaging =
     \<lparr>m_name = ''set_averaging'', m_params = [''average''],
      m_function = 19, m_form = ''B'', m_form_ret = [],
      m_result = Discarded\<rparr>"

definition BrickletAnalogIn_get_averaging :: dev_method where
  "BrickletAnalogIn_get_averaging =
     \<lparr>m_name = ''get_averaging'', m_params = [],
      m_function = 20, m_form = [], m_form_ret = ''B'',
      m_result = Returned\<rparr>"

definition BrickletAnalogIn_get_identity :: dev_method where
  "BrickletAnalogIn_get_identity =
     \<lparr>m_name = ''get_identity'', m_params = [],
      m_function = 255, m_form = [], m_form_ret = ''8s 8s c 3B 3B H'',
      m_result = BrickletAnalogIn_GetIdentity\<rparr>"

definition BrickletAnalogIn :: binding where
  "BrickletAnalogIn =
     \<lparr>b_class = ''BrickletAnalogIn'', b_identifier = 219, b_ids = BrickletAnalogIn_ids,
      b_api_version = (2, 0, 2), b_flags = BrickletAnalogIn_flags, b_formats = BrickletAnalogIn_formats,
      b_methods =
       [BrickletAnalogIn_get_voltage, BrickletAnalogIn_get_analog_value,
        BrickletAnalogIn_set_voltage_callback_period, BrickletAnalogIn_get_voltage_callback_period,
        BrickletAnalogIn_set_analog_value_callback_period,
        BrickletAnalogIn_get_analog_value_callback_period,
        BrickletAnalogIn_set_voltage_callback_threshold,
        BrickletAnalogIn_get_voltage_callback_threshold,
        BrickletAnalogIn_set_analog_value_callback_threshold,
        BrickletAnalogIn_get_analog_value_callback_threshold, BrickletAnalogIn_set_debounce_period,
        BrickletAnalogIn_get_debounce_period, BrickletAnalogIn_set_range,
        BrickletAnalogIn_get_range, BrickletAnalogIn_set_averaging, BrickletAnalogIn_get_averaging,
        BrickletAnalogIn_get_identity]\<rparr>"

interpretation AnalogIn: device_class BrickletAnalogIn
  by unfold_locales code_simp

section \<open>The class BrickletAnalogInV2 (\<^verbatim>\<open>bricklet_analog_in_v2.py\<close>)\<close>

definition BrickletAnalogInV2_GetVoltageCallbackThreshold :: shape where
  "BrickletAnalogInV2_GetVoltageCallbackThreshold = Named ''VoltageCallbackThreshold''
     [''option'', ''min'', ''max'']"

definition BrickletAnalogInV2_GetAnalogValueCallbackThreshold :: shape where
  "BrickletAnalogInV2_GetAnalogValueCallbackThreshold = Named ''AnalogValueCallbackThreshold''
     [''option'', ''min'', ''max'']"

definition BrickletAnalogInV2_GetIdentity :: shape where
  "BrickletAnalogInV2_GetIdentity = Named ''Identity''
     [''uid'', ''connected_uid'', ''position'', ''hardware_version'', ''firmware_version'',
      ''device_identifier'']"

definition BrickletAnalogInV2_ids :: "(string \<times> int) list" where
  "BrickletAnalogInV2_ids =
     [(''CALLBACK_VOLTAGE'', 15), (''CALLBACK_ANALOG_VALUE'', 16),
      (''CALLBACK_VOLTAGE_REACHED'', 17), (''CALLBACK_ANALOG_VALUE_REACHED'', 18),
      (''FUNCTION_GET_VOLTAGE'', 1), (''FUNCTION_GET_ANALOG_VALUE'', 2),
      (''FUNCTION_SET_VOLTAGE_CALLBACK_PERIOD'', 3), (''FUNCTION_GET_VOLTAGE_CALLBACK_PERIOD'', 4),
      (''FUNCTION_SET_ANALOG_VALUE_CALLBACK_PERIOD'', 5),
      (''FUNCTION_GET_ANALOG_VALUE_CALLBACK_PERIOD'', 6),
      (''FUNCTION_SET_VOLTAGE_CALLBACK_THRESHOLD'', 7),
      (''FUNCTION_GET_VOLTAGE_CALLBACK_THRESHOLD'', 8),
      (''FUNCTION_SET_ANALOG_VALUE_CALLBACK_THRESHOLD'', 9),
      (''FUNCTION_GET_ANALOG_VALUE_CALLBACK_THRESHOLD'', 10),
      (''FUNCTION_SET_DEBOUNCE_PERIOD'', 11), (''FUNCTION_GET_DEBOUNCE_PERIOD'', 12),
      (''FUNCTION_SET_MOVING_AVERAGE'', 13), (''FUNCTION_GET_MOVING_AVERAGE'', 14),
      (''FUNCTION_GET_IDENTITY'', 255)]"

definition BrickletAnalogInV2_flags :: "(int \<times> resp_flag) list" where
  "BrickletAnalogInV2_flags =
     [(1, ALWAYS_TRUE), (2, ALWAYS_TRUE), (3, RE_TRUE), (4, ALWAYS_TRUE), (5, RE_TRUE),
      (6, ALWAYS_TRUE), (7, RE_TRUE), (8, ALWAYS_TRUE), (9, RE_TRUE), (10, ALWAYS_TRUE),
      (11, RE_TRUE), (12, ALWAYS_TRUE), (13, RE_FALSE), (14, ALWAYS_TRUE), (15, ALWAYS_FALSE),
      (16, ALWAYS_FALSE), (17, ALWAYS_FALSE), (18, ALWAYS_FALSE), (255, ALWAYS_TRUE)]"

definition BrickletAnalogInV2_formats :: "(int \<times> string) list" where
  "BrickletAnalogInV2_formats =
     [(15, ''H''), (16, ''H''), (17, ''H''), (18, ''H'')]"

definition BrickletAnalogInV2_get_voltage :: dev_method where
  "BrickletAnalogInV2_get_voltage =
     \<lparr>m_name = ''get_voltage'', m_params = [],
      m_function = 1, m_form = [], m_form_ret = ''H'',
      m_result = Returned\<rparr>"

definition BrickletAnalogInV2_get_analog_value :: dev_method where
  "BrickletAnalogInV2_get_analog_value =
     \<lparr>m_name = ''get_analog_value'', m_params = [],
      m_function = 2, m_form = [], m_form_ret = ''H'',
      m_result = Returned\<rparr>"

definition BrickletAnalogInV2_set_voltage_callback_period :: dev_method where
  "BrickletAnalogInV2_set_voltage_callback_period =
     \<lparr>m_name = ''set_voltage_callback_period'', m_params = [''period''],
      m_function = 3, m_form = ''I'', m_form_ret = [],
      m_result = Discarded\<rparr>"

definition BrickletAnalogInV2_get_voltage_callback_period :: dev_method where
  "BrickletAnalogInV2_get_voltage_callback_period =
     \<lparr>m_name = ''get_voltage_callback_period'', m_params = [],
      m_function = 4, m_form = [], m_form_ret = ''I'',
      m_result = Returned\<rparr>"

definition BrickletAnalogInV2_set_analog_value_callback_period :: dev_method where
  "BrickletAnalogInV2_set_analog_value_callback_period =
     \<lparr>m_name = ''set_analog_value_callback_period'', m_params = [''period''],
      m_function = 5, m_form = ''I'', m_form_ret = [],
      m_result = Discarded\<rparr>"

definition BrickletAnalogInV2_get_analog_value_callback_period :: dev_method where
  "BrickletAnalogInV2_get_analog_value_callback_period =
     \<lparr>m_name = ''get_analog_value_callback_period'', m_params = [],
      m_function = 6, m_form = [], m_form_ret = ''I'',
      m_result = Returned\<rparr>"

definition BrickletAnalogInV2_set_voltage_callback_threshold :: dev_method where
  "BrickletAnalogInV2_set_voltage_callback_threshold =
     \<lparr>m_name = ''set_voltage_callback_threshold'', m_params = [''option'', ''min'', ''max''],
      m_function = 7, m_form = ''c h h'', m_form_ret = [],
      m_result = Discarded\<rparr>"

definition BrickletAnalogInV2_get_voltage_callback_threshold :: dev_method where
  "BrickletAnalogInV2_get_voltage_callback_threshold =
     \<lparr>m_name = ''get_voltage_callback_threshold'', m_params = [],
      m_function = 8, m_form = [], m_form_ret = ''c h h'',
      m_result = BrickletAnalogInV2_GetVoltageCallbackThreshold\<rparr>"

definition BrickletAnalogInV2_set_analog_value_callback_threshold :: dev_method where
  "BrickletAnalogInV2_set_analog_value_callback_threshold =
     \<lparr>m_name = ''set_analog_value_callback_threshold'', m_params = [''option'', ''min'', ''max''],
      m_function = 9, m_form = ''c H H'', m_form_ret = [],
      m_result = Discarded\<rparr>"

definition BrickletAnalogInV2_get_analog_value_callback_threshold :: dev_method where
  "BrickletAnalogInV2_get_analog_value_callback_threshold =
     \<lparr>m_name = ''get_analog_value_callback_threshold'', m_params = [],
      m_function = 10, m_form = [], m_form_ret = ''c H H'',
      m_result = BrickletAnalogInV2_GetAnalogValueCallbackThreshold\<rparr>"

definition BrickletAnalogInV2_set_debounce_period :: dev_method where
  "BrickletAnalogInV2_set_debounce_period =
     \<lparr>m_name = ''set_debounce_period'', m_params = [''debounce''],
      m_function = 11, m_form = ''I'', m_form_ret = [],
      m_result = Discarded\<rparr>"

definition BrickletAnalogInV2_get_debounce_period :: dev_method where
  "BrickletAnalogInV2_get_debounce_period =
     \<lparr>m_name = ''get_debounce_period'', m_params = [],
      m_function = 12, m_form = [], m_form_ret = ''I'',
      m_result = Returned\<rparr>"

definition BrickletAnalogInV2_set_moving_average :: dev_method where
  "BrickletAnalogInV2_set_moving_average =
     \<lparr>m_name = ''set_moving_average'', m_params = [''average''],
      m_function = 13, m_form = ''B'', m_form_ret = [],
      m_result = Discarded\<rparr>"

definition BrickletAnalogInV2_get_moving_average :: dev_method where
  "BrickletAnalogInV2_get_moving_average =
     \<lparr>m_name = ''get_moving_average'', m_params = [],
      m_function = 14, m_form = [], m_form_ret = ''B'',
      m_result = Returned\<rparr>"

definition BrickletAnalogInV2_get_identity :: dev_method where
  "BrickletAnalogInV2_get_identity =
     \<lparr>m_name = ''get_identity'', m_params = [],
      m_function = 255, m_form = [], m_form_ret = ''8s 8s c 3B 3B H'',
      m_result = BrickletAnalogInV2_GetIdentity\<rparr>"

definition BrickletAnalogInV2 :: binding where
  "BrickletAnalogInV2 =
     \<lparr>b_class = ''BrickletAnalogInV2'', b_identifier = 251, b_ids = BrickletAnalogInV2_ids,
      b_api_version = (2, 0, 0), b_flags = BrickletAnalogInV2_flags, b_formats = BrickletAnalogInV2_formats,
      b_methods =
       [BrickletAnalogInV2_get_voltage, BrickletAnalogInV2_get_analog_value,
        BrickletAnalogInV2_set_voltage_callback_period,
        BrickletAnalogInV2_get_voltage_callback_period,
        BrickletAnalogInV2_set_analog_value_callback_period,
        BrickletAnalogInV2_get_analog_value_callback_period,
        BrickletAnalogInV2_set_voltage_callback_threshold,
        BrickletAnalogInV2_get_voltage_callback_threshold,
        BrickletAnalogInV2_set_analog_value_callback_threshold,
        BrickletAnalogInV2_get_analog_value_callback_threshold,
        BrickletAnalogInV2_set_debounce_period, BrickletAnalogInV2_get_debounce_period,
        BrickletAnalogInV2_set_moving_average, BrickletAnalogInV2_get_moving_average,
        BrickletAnalogInV2_get_identity]\<rparr>"

interpretation AnalogInV2: device_class BrickletAnalogInV2
  by unfold_locales code_simp

section \<open>The class BrickletAnalogOut (\<^verbatim>\<open>bricklet_analog_out.py\<close>)\<close>

definition BrickletAnalogOut_GetIdentity :: shape where
  "BrickletAnalogOut_GetIdentity = Named ''Identity''
     [''uid'', ''connected_uid'', ''position'', ''hardware_version'', ''firmware_version'',
      ''device_identifier'']"

definition BrickletAnalogOut_ids :: "(string \<times> int) list" where
  "BrickletAnalogOut_ids =
     [(''FUNCTION_SET_VOLTAGE'', 1), (''FUNCTION_GET_VOLTAGE'', 2), (''FUNCTION_SET_MODE'', 3),
      (''FUNCTION_GET_MODE'', 4), (''FUNCTION_GET_IDENTITY'', 255)]"

definition BrickletAnalogOut_flags :: "(int \<times> resp_flag) list" where
  "BrickletAnalogOut_flags =
     [(1, RE_FALSE), (2, ALWAYS_TRUE), (3, RE_FALSE), (4, ALWAYS_TRUE), (255, ALWAYS_TRUE)]"

definition BrickletAnalogOut_formats :: "(int \<times> string) list" where
  "BrickletAnalogOut_formats =
     []"

definition BrickletAnalogOut_set_voltage :: dev_method where
  "BrickletAnalogOut_set_voltage =
     \<lparr>m_name = ''set_voltage'', m_params = [''voltage''],
      m_function = 1, m_form = ''H'', m_form_ret = [],
      m_result = Discarded\<rparr>"

definition BrickletAnalogOut_get_voltage :: dev_method where
  "BrickletAnalogOut_get_voltage =
     \<lparr>m_name = ''get_voltage'', m_params = [],
      m_function = 2, m_form = [], m_form_ret = ''H'',
      m_result = Returned\<rparr>"

definition BrickletAnalogOut_set_mode :: dev_method where
  "BrickletAnalogOut_set_mode =
     \<lparr>m_name = ''set_mode'', m_params = [''mode''],
      m_function = 3, m_form = ''B'', m_form_ret = [],
      m_result = Discarded\<rparr>"

definition BrickletAnalogOut_get_mode :: dev_method where
  "BrickletAnalogOut_get_mode =
     \<lparr>m_name = ''get_mode'', m_params = [],
      m_function = 4, m_form = [], m_form_ret = ''B'',
      m_result = Returned\<rparr>"

definition BrickletAnalogOut_get_identity :: dev_method where
  "BrickletAnalogOut_get_identity =
     \<lparr>m_name = ''get_identity'', m_params = [],
      m_function = 255, m_form = [], m_form_ret = ''8s 8s c 3B 3B H'',
      m_result = BrickletAnalogOut_GetIdentity\<rparr>"

definition BrickletAnalogOut :: binding where
  "BrickletAnalogOut =
     \<lparr>b_class = ''BrickletAnalogOut'', b_identifier = 220, b_ids = BrickletAnalogOut_ids,
      b_api_version = (2, 0, 0), b_flags = BrickletAnalogOut_flags, b_formats = BrickletAnalogOut_formats,
      b_methods =
       [BrickletAnalogOut_set_voltage, BrickletAnalogOut_get_voltage, BrickletAnalogOut_set_mode,
        BrickletAnalogOut_get_mode, BrickletAnalogOut_get_identity]\<rparr>"

interpretation AnalogOut: device_class BrickletAnalogOut
  by unfold_locales code_simp

section \<open>The class BrickletAnalogOutV2 (\<^verbatim>\<open>bricklet_analog_out_v2.py\<close>)\<close>

definition BrickletAnalogOutV2_GetIdentity :: shape where
  "BrickletAnalogOutV2_GetIdentity = Named ''Identity''
     [''uid'', ''connected_uid'', ''position'', ''hardware_version'', ''firmware_version'',
      ''device_identifier'']"

definition BrickletAnalogOutV2_ids :: "(string \<times> int) list" where
  "BrickletAnalogOutV2_ids =
     [(''FUNCTION_SET_OUTPUT_VOLTAGE'', 1), (''FUNCTION_GET_OUTPUT_VOLTAGE'', 2),
      (''FUNCTION_GET_INPUT_VOLTAGE'', 3), (''FUNCTION_GET_IDENTITY'', 255)]"

definition BrickletAnalogOutV2_flags :: "(int \<times> resp_flag) list" where
  "BrickletAnalogOutV2_flags =
     [(1, RE_FALSE), (2, ALWAYS_TRUE), (3, ALWAYS_TRUE), (255, ALWAYS_TRUE)]"

definition BrickletAnalogOutV2_formats :: "(int \<times> string) list" where
  "BrickletAnalogOutV2_formats =
     []"

definition BrickletAnalogOutV2_set_output_voltage :: dev_method where
  "BrickletAnalogOutV2_set_output_voltage =
     \<lparr>m_name = ''set_output_voltage'', m_params = [''voltage''],
      m_function = 1, m_form = ''H'', m_form_ret = [],
      m_result = Discarded\<rparr>"

definition BrickletAnalogOutV2_get_output_voltage :: dev_method where
  "BrickletAnalogOutV2_get_output_voltage =
     \<lparr>m_name = ''get_output_voltage'', m_params = [],
      m_function = 2, m_form = [], m_form_ret = ''H'',
      m_result = Returned\<rparr>"

definition BrickletAnalogOutV2_get_input_voltage :: dev_method where
  "BrickletAnalogOutV2_get_input_voltage =
     \<lparr>m_name = ''get_input_voltage'', m_params = [],
      m_function = 3, m_form = [], m_form_ret = ''H'',
      m_result = Returned\<rparr>"

definition BrickletAnalogOutV2_get_identity :: dev_method where
  "BrickletAnalogOutV2_get_identity =
     \<lparr>m_name = ''get_identity'', m_params = [],
      m_function = 255, m_form = [], m_form_ret = ''8s 8s c 3B 3B H'',
      m_result = BrickletAnalogOutV2_GetIdentity\<rparr>"

definition BrickletAnalogOutV2 :: binding where
  "BrickletAnalogOutV2 =
     \<lparr>b_class = ''BrickletAnalogOutV2'', b_identifier = 256, b_ids = BrickletAnalogOutV2_ids,
      b_api_version = (2, 0, 0), b_flags = BrickletAnalogOutV2_flags, b_formats = BrickletAnalogOutV2_formats,
      b_methods =
       [BrickletAnalogOutV2_set_output_voltage, BrickletAnalogOutV2_get_output_voltage,
        BrickletAnalogOutV2_get_input_voltage, BrickletAnalogOutV2_get_identity]\<rparr>"

interpretation AnalogOutV2: device_class BrickletAnalogOutV2
  by unfold_locales code_simp

section \<open>The class BrickletCurrent12 (\<^verbatim>\<open>bricklet_current12.py\<close>)\<close>

definition BrickletCurrent12_GetCurrentCallbackThreshold :: shape where
  "BrickletCurrent12_GetCurrentCallbackThreshold = Named ''CurrentCallbackThreshold''
     [''option'', ''min'', ''max'']"

definition BrickletCurrent12_GetAnalogValueCallbackThreshold :: shape where
  "BrickletCurrent12_GetAnalogValueCallbackThreshold = Named ''AnalogValueCallbackThreshold''
     [''option'', ''min'', ''max'']"

definition BrickletCurrent12_GetIdentity :: shape where
  "BrickletCurrent12_GetIdentity = Named ''Identity''
     [''uid'', ''connected_uid'', ''position'', ''hardware_version'', ''firmware_version'',
      ''device_identifier'']"

definition BrickletCurrent12_ids :: "(string \<times> int) list" where
  "BrickletCurrent12_ids =
     [(''CALLBACK_CURRENT'', 15), (''CALLBACK_ANALOG_VALUE'', 16),
      (''CALLBACK_CURRENT_REACHED'', 17), (''CALLBACK_ANALOG_VALUE_REACHED'', 18),
      (''CALLBACK_OVER_CURRENT'', 19), (''FUNCTION_GET_CURRENT'', 1), (''FUNCTION_CALIBRATE'', 2),
      (''FUNCTION_IS_OVER_CURRENT'', 3), (''FUNCTION_GET_ANALOG_VALUE'', 4),
      (''FUNCTION_SET_CURRENT_CALLBACK_PERIOD'', 5), (''FUNCTION_GET_CURRENT_CALLBACK_PERIOD'', 6),
      (''FUNCTION_SET_ANALOG_VALUE_CALLBACK_PERIOD'', 7),
      (''FUNCTION_GET_ANALOG_VALUE_CALLBACK_PERIOD'', 8),
      (''FUNCTION_SET_CURRENT_CALLBACK_THRESHOLD'', 9),
      (''FUNCTION_GET_CURRENT_CALLBACK_THRESHOLD'', 10),
      (''FUNCTION_SET_ANALOG_VALUE_CALLBACK_THRESHOLD'', 11),
      (''FUNCTION_GET_ANALOG_VALUE_CALLBACK_THRESHOLD'', 12),
      (''FUNCTION_SET_DEBOUNCE_PERIOD'', 13), (''FUNCTION_GET_DEBOUNCE_PERIOD'', 14),
      (''FUNCTION_GET_IDENTITY'', 255)]"

definition BrickletCurrent12_flags :: "(int \<times> resp_flag) list" where
  "BrickletCurrent12_flags =
     [(1, ALWAYS_TRUE), (2, RE_FALSE), (3, ALWAYS_TRUE), (4, ALWAYS_TRUE), (5, RE_TRUE),
      (6, ALWAYS_TRUE), (7, RE_TRUE), (8, ALWAYS_TRUE), (9, RE_TRUE), (10, ALWAYS_TRUE),
      (11, RE_TRUE), (12, ALWAYS_TRUE), (13, RE_TRUE), (14, ALWAYS_TRUE), (15, ALWAYS_FALSE),
      (16, ALWAYS_FALSE), (17, ALWAYS_FALSE), (18, ALWAYS_FALSE), (19, ALWAYS_FALSE),
      (255, ALWAYS_TRUE)]"

definition BrickletCurrent12_formats :: "(int \<times> string) list" where
  "BrickletCurrent12_formats =
     [(15, ''h''), (16, ''H''), (17, ''h''), (18, ''H''), (19, [])]"

definition BrickletCurrent12_get_current :: dev_method where
  "BrickletCurrent12_get_current =
     \<lparr>m_name = ''get_current'', m_params = [],
      m_function = 1, m_form = [], m_form_ret = ''h'',
      m_result = Returned\<rparr>"

definition BrickletCurrent12_calibrate :: dev_method where
  "BrickletCurrent12_calibrate =
     \<lparr>m_name = ''calibrate'', m_params = [],
      m_function = 2, m_form = [], m_form_ret = [],
      m_result = Discarded\<rparr>"

definition BrickletCurrent12_is_over_current :: dev_method where
  "BrickletCurrent12_is_over_current =
     \<lparr>m_name = ''is_over_current'', m_params = [],
      m_function = 3, m_form = [], m_form_ret = ''?'',
      m_result = Returned\<rparr>"

definition BrickletCurrent12_get_analog_value :: dev_method where
  "BrickletCurrent12_get_analog_value =
     \<lparr>m_name = ''get_analog_value'', m_params = [],
      m_function = 4, m_form = [], m_form_ret = ''H'',
      m_result = Returned\<rparr>"

definition BrickletCurrent12_set_current_callback_period :: dev_method where
  "BrickletCurrent12_set_current_callback_period =
     \<lparr>m_name = ''set_current_callback_period'', m_params = [''period''],
      m_function = 5, m_form = ''I'', m_form_ret = [],
      m_result = Discarded\<rparr>"

definition BrickletCurrent12_get_current_callback_period :: dev_method where
  "BrickletCurrent12_get_current_callback_period =
     \<lparr>m_name = ''get_current_callback_period'', m_params = [],
      m_function = 6, m_form = [], m_form_ret = ''I'',
      m_result = Returned\<rparr>"

definition BrickletCurrent12_set_analog_value_callback_period :: dev_method where
  "BrickletCurrent12_set_analog_value_callback_period =
     \<lparr>m_name = ''set_analog_value_callback_period'', m_params = [''period''],
      m_function = 7, m_form = ''I'', m_form_ret = [],
      m_result = Discarded\<rparr>"

definition BrickletCurrent12_get_analog_value_callback_period :: dev_method where
  "BrickletCurrent12_get_analog_value_callback_period =
     \<lparr>m_name = ''get_analog_value_callback_period'', m_params = [],
      m_function = 8, m_form = [], m_form_ret = ''I'',
      m_result = Returned\<rparr>"

definition BrickletCurrent12_set_current_callback_threshold :: dev_method where
  "BrickletCurrent12_set_current_callback_threshold =
     \<lparr>m_name = ''set_current_callback_threshold'', m_params = [''option'', ''min'', ''max''],
      m_function = 9, m_form = ''c h h'', m_form_ret = [],
      m_result = Discarded\<rparr>"

definition BrickletCurrent12_get_current_callback_threshold :: dev_method where
  "BrickletCurrent12_get_current_callback_threshold =
     \<lparr>m_name = ''get_current_callback_threshold'', m_params = [],
      m_function = 10, m_form = [], m_form_ret = ''c h h'',
      m_result = BrickletCurrent12_GetCurrentCallbackThreshold\<rparr>"

definition BrickletCurrent12_set_analog_value_callback_threshold :: dev_method where
  "BrickletCurrent12_set_analog_value_callback_threshold =
     \<lparr>m_name = ''set_analog_value_callback_threshold'', m_params = [''option'', ''min'', ''max''],
      m_function = 11, m_form = ''c H H'', m_form_ret = [],
      m_result = Discarded\<rparr>"

definition BrickletCurrent12_get_analog_value_callback_threshold :: dev_method where
  "BrickletCurrent12_get_analog_value_callback_threshold =
     \<lparr>m_name = ''get_analog_value_callback_threshold'', m_params = [],
      m_function = 12, m_form = [], m_form_ret = ''c H H'',
      m_result = BrickletCurrent12_GetAnalogValueCallbackThreshold\<rparr>"

definition BrickletCurrent12_set_debounce_period :: dev_method where
  "BrickletCurrent12_set_debounce_period =
     \<lparr>m_name = ''set_debounce_period'', m_params = [''debounce''],
      m_function = 13, m_form = ''I'', m_form_ret = [],
      m_result = Discarded\<rparr>"

definition BrickletCurrent12_get_debounce_period :: dev_method where
  "BrickletCurrent12_get_debounce_period =
     \<lparr>m_name = ''get_debounce_period'', m_params = [],
      m_function = 14, m_form = [], m_form_ret = ''I'',
      m_result = Returned\<rparr>"

definition BrickletCurrent12_get_identity :: dev_method where
  "BrickletCurrent12_get_identity =
     \<lparr>m_name = ''get_identity'', m_params = [],
      m_function = 255, m_form = [], m_form_ret = ''8s 8s c 3B 3B H'',
      m_result = BrickletCurrent12_GetIdentity\<rparr>"

definition BrickletCurrent12 :: binding where
  "BrickletCurrent12 =
     \<lparr>b_class = ''BrickletCurrent12'', b_identifier = 23, b_ids = BrickletCurrent12_ids,
      b_api_version = (2, 0, 0), b_flags = BrickletCurrent12_flags, b_formats = BrickletCurrent12_formats,
      b_methods =
       [BrickletCurrent12_get_current, BrickletCurrent12_calibrate,
        BrickletCurrent12_is_over_current, BrickletCurrent12_get_analog_value,
        BrickletCurrent12_set_current_callback_period,
        BrickletCurrent12_get_current_callback_period,
        BrickletCurrent12_set_analog_value_callback_period,
        BrickletCurrent12_get_analog_value_callback_period,
        BrickletCurrent12_set_current_callback_threshold,
        BrickletCurrent12_get_current_callback_threshold,
        BrickletCurrent12_set_analog_value_callback_threshold,
        BrickletCurrent12_get_analog_value_callback_threshold,
        BrickletCurrent12_set_debounce_period, BrickletCurrent12_get_debounce_period,
        BrickletCurrent12_get_identity]\<rparr>"

interpretation Current12: device_class BrickletCurrent12
  by unfold_locales code_simp

section \<open>The class BrickletCurrent25 (\<^verbatim>\<open>bricklet_current25.py\<close>)\<close>

definition BrickletCurrent25_GetCurrentCallbackThreshold :: shape where
  "BrickletCurrent25_GetCurrentCallbackThreshold = Named ''CurrentCallbackThreshold''
     [''option'', ''min'', ''max'']"

definition BrickletCurrent25_GetAnalogValueCallbackThreshold :: shape where
  "BrickletCurrent25_GetAnalogValueCallbackThreshold = Named ''AnalogValueCallbackThreshold''
     [''option'', ''min'', ''max'']"

definition BrickletCurrent25_GetIdentity :: shape where
  "BrickletCurrent25_GetIdentity = Named ''Identity''
     [''uid'', ''connected_uid'', ''position'', ''hardware_version'', ''firmware_version'',
      ''device_identifier'']"

definition BrickletCurrent25_ids :: "(string \<times> int) list" where
  "BrickletCurrent25_ids =
     [(''CALLBACK_CURRENT'', 15), (''CALLBACK_ANALOG_VALUE'', 16),
      (''CALLBACK_CURRENT_REACHED'', 17), (''CALLBACK_ANALOG_VALUE_REACHED'', 18),
      (''CALLBACK_OVER_CURRENT'', 19), (''FUNCTION_GET_CURRENT'', 1), (''FUNCTION_CALIBRATE'', 2),
      (''FUNCTION_IS_OVER_CURRENT'', 3), (''FUNCTION_GET_ANALOG_VALUE'', 4),
      (''FUNCTION_SET_CURRENT_CALLBACK_PERIOD'', 5), (''FUNCTION_GET_CURRENT_CALLBACK_PERIOD'', 6),
      (''FUNCTION_SET_ANALOG_VALUE_CALLBACK_PERIOD'', 7),
      (''FUNCTION_GET_ANALOG_VALUE_CALLBACK_PERIOD'', 8),
      (''FUNCTION_SET_CURRENT_CALLBACK_THRESHOLD'', 9),
      (''FUNCTION_GET_CURRENT_CALLBACK_THRESHOLD'', 10),
      (''FUNCTION_SET_ANALOG_VALUE_CALLBACK_THRESHOLD'', 11),
      (''FUNCTION_GET_ANALOG_VALUE_CALLBACK_THRESHOLD'', 12),
      (''FUNCTION_SET_DEBOUNCE_PERIOD'', 13), (''FUNCTION_GET_DEBOUNCE_PERIOD'', 14),
      (''FUNCTION_GET_IDENTITY'', 255)]"

definition BrickletCurrent25_flags :: "(int \<times> resp_flag) list" where
  "BrickletCurrent25_flags =
     [(1, ALWAYS_TRUE), (2, RE_FALSE), (3, ALWAYS_TRUE), (4, ALWAYS_TRUE), (5, RE_TRUE),
      (6, ALWAYS_TRUE), (7, RE_TRUE), (8, ALWAYS_TRUE), (9, RE_TRUE), (10, ALWAYS_TRUE),
      (11, RE_TRUE), (12, ALWAYS_TRUE), (13, RE_TRUE), (14, ALWAYS_TRUE), (15, ALWAYS_FALSE),
      (16, ALWAYS_FALSE), (17, ALWAYS_FALSE), (18, ALWAYS_FALSE), (19, ALWAYS_FALSE),
      (255, ALWAYS_TRUE)]"

definition BrickletCurrent25_formats :: "(int \<times> string) list" where
  "BrickletCurrent25_formats =
     [(15, ''h''), (16, ''H''), (17, ''h''), (18, ''H''), (19, [])]"

definition BrickletCurrent25_get_current :: dev_method where
  "BrickletCurrent25_get_current =
     \<lparr>m_name = ''get_current'', m_params = [],
      m_function = 1, m_form = [], m_form_ret = ''h'',
      m_result = Returned\<rparr>"

definition BrickletCurrent25_calibrate :: dev_method where
  "BrickletCurrent25_calibrate =
     \<lparr>m_name = ''calibrate'', m_params = [],
      m_function = 2, m_form = [], m_form_ret = [],
      m_result = Discarded\<rparr>"

definition BrickletCurrent25_is_over_current :: dev_method where
  "BrickletCurrent25_is_over_current =
     \<lparr>m_name = ''is_over_current'', m_params = [],
      m_function = 3, m_form = [], m_form_ret = ''?'',
      m_result = Returned\<rparr>"

definition BrickletCurrent25_get_analog_value :: dev_method where
  "BrickletCurrent25_get_analog_value =
     \<lparr>m_name = ''get_analog_value'', m_params = [],
      m_function = 4, m_form = [], m_form_ret = ''H'',
      m_result = Returned\<rparr>"

definition BrickletCurrent25_set_current_callback_period :: dev_method where
  "BrickletCurrent25_set_current_callback_period =
     \<lparr>m_name = ''set_current_callback_period'', m_params = [''period''],
      m_function = 5, m_form = ''I'', m_form_ret = [],
      m_result = Discarded\<rparr>"

definition BrickletCurrent25_get_current_callback_period :: dev_method where
  "BrickletCurrent25_get_current_callback_period =
     \<lparr>m_name = ''get_current_callback_period'', m_params = [],
      m_function = 6, m_form = [], m_form_ret = ''I'',
      m_result = Returned\<rparr>"

definition BrickletCurrent25_set_analog_value_callback_period :: dev_method where
  "BrickletCurrent25_set_analog_value_callback_period =
     \<lparr>m_name = ''set_analog_value_callback_period'', m_params = [''period''],
      m_function = 7, m_form = ''I'', m_form_ret = [],
      m_result = Discarded\<rparr>"

definition BrickletCurrent25_get_analog_value_callback_period :: dev_method where
  "BrickletCurrent25_get_analog_value_callback_period =
     \<lparr>m_name = ''get_analog_value_callback_period'', m_params = [],
      m_function = 8, m_form = [], m_form_ret = ''I'',
      m_result = Returned\<rparr>"

definition BrickletCurrent25_set_current_callback_threshold :: dev_method where
  "BrickletCurrent25_set_current_callback_threshold =
     \<lparr>m_name = ''set_current_callback_threshold'', m_params = [''option'', ''min'', ''max''],
      m_function = 9, m_form = ''c h h'', m_form_ret = [],
      m_result = Discarded\<rparr>"

definition BrickletCurrent25_get_current_callback_threshold :: dev_method where
  "BrickletCurrent25_get_current_callback_threshold =
     \<lparr>m_name = ''get_current_callback_threshold'', m_params = [],
      m_function = 10, m_form = [], m_form_ret = ''c h h'',
      m_result = BrickletCurrent25_GetCurrentCallbackThreshold\<rparr>"

definition BrickletCurrent25_set_analog_value_callback_threshold :: dev_method where
  "BrickletCurrent25_set_analog_value_callback_threshold =
     \<lparr>m_name = ''set_analog_value_callback_threshold'', m_params = [''option'', ''min'', ''max''],
      m_function = 11, m_form = ''c H H'', m_form_ret = [],
      m_result = Discarded\<rparr>"

definition BrickletCurrent25_get_analog_value_callback_threshold :: dev_method where
  "BrickletCurrent25_get_analog_value_callback_threshold =
     \<lparr>m_name = ''get_analog_value_callback_threshold'', m_params = [],
      m_function = 12, m_form = [], m_form_ret = ''c H H'',
      m_result = BrickletCurrent25_GetAnalogValueCallbackThreshold\<rparr>"

definition BrickletCurrent25_set_debounce_period :: dev_method where
  "BrickletCurrent25_set_debounce_period =
     \<lparr>m_name = ''set_debounce_period'', m_params = [''debounce''],
      m_function = 13, m_form = ''I'', m_form_ret = [],
      m_result = Discarded\<rparr>"

definition BrickletCurrent25_get_debounce_period :: dev_method where
  "BrickletCurrent25_get_debounce_period =
     \<lparr>m_name = ''get_debounce_period'', m_params = [],
      m_function = 14, m_form = [], m_form_ret = ''I'',
      m_result = Returned\<rparr>"

definition BrickletCurrent25_get_identity :: dev_method where
  "BrickletCurrent25_get_identity =
     \<lparr>m_name = ''get_identity'', m_params = [],
      m_function = 255, m_form = [], m_form_ret = ''8s 8s c 3B 3B H'',
      m_result = BrickletCurrent25_GetIdentity\<rparr>"

definition BrickletCurrent25 :: binding where
  "BrickletCurrent25 =
     \<lparr>b_class = ''BrickletCurrent25'', b_identifier = 24, b_ids = BrickletCurrent25_ids,
      b_api_version = (2, 0, 0), b_flags = BrickletCurrent25_flags, b_formats = BrickletCurrent25_formats,
      b_methods =
       [BrickletCurrent25_get_current, BrickletCurrent25_calibrate,
        BrickletCurrent25_is_over_current, BrickletCurrent25_get_analog_value,
        BrickletCurrent25_set_current_callback_period,
        BrickletCurrent25_get_current_callback_period,
        BrickletCurrent25_set_analog_value_callback_period,
        BrickletCurrent25_get_analog_value_callback_period,
        BrickletCurrent25_set_current_callback_threshold,
        BrickletCurrent25_get_current_callback_threshold,
        BrickletCurrent25_set_analog_value_callback_threshold,
        BrickletCurrent25_get_analog_value_callback_threshold,
        BrickletCurrent25_set_debounce_period, BrickletCurrent25_get_debounce_period,
        BrickletCurrent25_get_identity]\<rparr>"

interpretation Current25: device_class BrickletCurrent25
  by unfold_locales code_simp

section \<open>The class BrickletVoltage (\<^verbatim>\<open>bricklet_voltage.py\<close>)\<close>

definition BrickletVoltage_GetVoltageCallbackThreshold :: shape where
  "BrickletVoltage_GetVoltageCallbackThreshold = Named ''VoltageCallbackThreshold''
     [''option'', ''min'', ''max'']"

definition BrickletVoltage_GetAnalogValueCallbackThreshold :: shape where
  "BrickletVoltage_GetAnalogValueCallbackThreshold = Named ''AnalogValueCallbackThreshold''
     [''option'', ''min'', ''max'']"

definition BrickletVoltage_GetIdentity :: shape where
  "BrickletVoltage_GetIdentity = Named ''Identity''
     [''uid'', ''connected_uid'', ''position'', ''hardware_version'', ''firmware_version'',
      ''device_identifier'']"

definition BrickletVoltage_ids :: "(string \<times> int) list" where
  "BrickletVoltage_ids =
     [(''CALLBACK_VOLTAGE'', 13), (''CALLBACK_ANALOG_VALUE'', 14),
      (''CALLBACK_VOLTAGE_REACHED'', 15), (''CALLBACK_ANALOG_VALUE_REACHED'', 16),
      (''FUNCTION_GET_VOLTAGE'', 1), (''FUNCTION_GET_ANALOG_VALUE'', 2),
      (''FUNCTION_SET_VOLTAGE_CALLBACK_PERIOD'', 3), (''FUNCTION_GET_VOLTAGE_CALLBACK_PERIOD'', 4),
      (''FUNCTION_SET_ANALOG_VALUE_CALLBACK_PERIOD'', 5),
      (''FUNCTION_GET_ANALOG_VALUE_CALLBACK_PERIOD'', 6),
      (''FUNCTION_SET_VOLTAGE_CALLBACK_THRESHOLD'', 7),
      (''FUNCTION_GET_VOLTAGE_CALLBACK_THRESHOLD'', 8),
      (''FUNCTION_SET_ANALOG_VALUE_CALLBACK_THRESHOLD'', 9),
      (''FUNCTION_GET_ANALOG_VALUE_CALLBACK_THRESHOLD'', 10),
      (''FUNCTION_SET_DEBOUNCE_PERIOD'', 11), (''FUNCTION_GET_DEBOUNCE_PERIOD'', 12),
      (''FUNCTION_GET_IDENTITY'', 255)]"

definition BrickletVoltage_flags :: "(int \<times> resp_flag) list" where
  "BrickletVoltage_flags =
     [(1, ALWAYS_TRUE), (2, ALWAYS_TRUE), (3, RE_TRUE), (4, ALWAYS_TRUE), (5, RE_TRUE),
      (6, ALWAYS_TRUE), (7, RE_TRUE), (8, ALWAYS_TRUE), (9, RE_TRUE), (10, ALWAYS_TRUE),
      (11, RE_TRUE), (12, ALWAYS_TRUE), (13, ALWAYS_FALSE), (14, ALWAYS_FALSE), (15, ALWAYS_FALSE),
      (16, ALWAYS_FALSE), (255, ALWAYS_TRUE)]"

definition BrickletVoltage_formats :: "(int \<times> string) list" where
  "BrickletVoltage_formats =
     [(13, ''H''), (14, ''H''), (15, ''H''), (16, ''H'')]"

definition BrickletVoltage_get_voltage :: dev_method where
  "BrickletVoltage_get_voltage =
     \<lparr>m_name = ''get_voltage'', m_params = [],
      m_function = 1, m_form = [], m_form_ret = ''H'',
      m_result = Returned\<rparr>"

definition BrickletVoltage_get_analog_value :: dev_method where
  "BrickletVoltage_get_analog_value =
     \<lparr>m_name = ''get_analog_value'', m_params = [],
      m_function = 2, m_form = [], m_form_ret = ''H'',
      m_result = Returned\<rparr>"

definition BrickletVoltage_set_voltage_callback_period :: dev_method where
  "BrickletVoltage_set_voltage_callback_period =
     \<lparr>m_name = ''set_voltage_callback_period'', m_params = [''period''],
      m_function = 3, m_form = ''I'', m_form_ret = [],
      m_result = Discarded\<rparr>"

definition BrickletVoltage_get_voltage_callback_period :: dev_method where
  "BrickletVoltage_get_voltage_callback_period =
     \<lparr>m_name = ''get_voltage_callback_period'', m_params = [],
      m_function = 4, m_form = [], m_form_ret = ''I'',
      m_result = Returned\<rparr>"

definition BrickletVoltage_set_analog_value_callback_period :: dev_method where
  "BrickletVoltage_set_analog_value_callback_period =
     \<lparr>m_name = ''set_analog_value_callback_period'', m_params = [''period''],
      m_function = 5, m_form = ''I'', m_form_ret = [],
      m_result = Discarded\<rparr>"

definition BrickletVoltage_get_analog_value_callback_period :: dev_method where
  "BrickletVoltage_get_analog_value_callback_period =
     \<lparr>m_name = ''get_analog_value_callback_period'', m_params = [],
      m_function = 6, m_form = [], m_form_ret = ''I'',
      m_result = Returned\<rparr>"

definition BrickletVoltage_set_voltage_callback_threshold :: dev_method where
  "BrickletVoltage_set_voltage_callback_threshold =
     \<lparr>m_name = ''set_voltage_callback_threshold'', m_params = [''option'', ''min'', ''max''],
      m_function = 7, m_form = ''c h h'', m_form_ret = [],
      m_result = Discarded\<rparr>"

definition BrickletVoltage_get_voltage_callback_threshold :: dev_method where
  "BrickletVoltage_get_voltage_callback_threshold =
     \<lparr>m_name = ''get_voltage_callback_threshold'', m_params = [],
      m_function = 8, m_form = [], m_form_ret = ''c h h'',
      m_result = BrickletVoltage_GetVoltageCallbackThreshold\<rparr>"

definition BrickletVoltage_set_analog_value_callback_threshold :: dev_method where
  "BrickletVoltage_set_analog_value_callback_threshold =
     \<lparr>m_name = ''set_analog_value_callback_threshold'', m_params = [''option'', ''min'', ''max''],
      m_function = 9, m_form = ''c H H'', m_form_ret = [],
      m_result = Discarded\<rparr>"

definition BrickletVoltage_get_analog_value_callback_threshold :: dev_method where
  "BrickletVoltage_get_analog_value_callback_threshold =
     \<lparr>m_name = ''get_analog_value_callback_threshold'', m_params = [],
      m_function = 10, m_form = [], m_form_ret = ''c H H'',
      m_result = BrickletVoltage_GetAnalogValueCallbackThreshold\<rparr>"

definition BrickletVoltage_set_debounce_period :: dev_method where
  "BrickletVoltage_set_debounce_period =
     \<lparr>m_name = ''set_debounce_period'', m_params = [''debounce''],
      m_function = 11, m_form = ''I'', m_form_ret = [],
      m_result = Discarded\<rparr>"

definition BrickletVoltage_get_debounce_period :: dev_method where
  "BrickletVoltage_get_debounce_period =
     \<lparr>m_name = ''get_debounce_period'', m_params = [],
      m_function = 12, m_form = [], m_form_ret = ''I'',
      m_result = Returned\<rparr>"

definition BrickletVoltage_get_identity :: dev_method where
  "BrickletVoltage_get_identity =
     \<lparr>m_name = ''get_identity'', m_params = [],
      m_function = 255, m_form = [], m_form_ret = ''8s 8s c 3B 3B H'',
      m_result = BrickletVoltage_GetIdentity\<rparr>"

definition BrickletVoltage :: binding where
  "BrickletVoltage =
     \<lparr>b_class = ''BrickletVoltage'', b_identifier = 218, b_ids = BrickletVoltage_ids,
      b_api_version = (2, 0, 0), b_flags = BrickletVoltage_flags, b_formats = BrickletVoltage_formats,
      b_methods =
       [BrickletVoltage_get_voltage, BrickletVoltage_get_analog_value,
        BrickletVoltage_set_voltage_callback_period, BrickletVoltage_get_voltage_callback_period,
        BrickletVoltage_set_analog_value_callback_period,
        BrickletVoltage_get_analog_value_callback_period,
        BrickletVoltage_set_voltage_callback_threshold,
        BrickletVoltage_get_voltage_callback_threshold,
        BrickletVoltage_set_analog_value_callback_threshold,
        BrickletVoltage_get_analog_value_callback_threshold, BrickletVoltage_set_debounce_period,
        BrickletVoltage_get_debounce_period, BrickletVoltage_get_identity]\<rparr>"

interpretation Voltage: device_class BrickletVoltage
  by unfold_locales code_simp

section \<open>The class BrickletVoltageCurrent (\<^verbatim>\<open>bricklet_voltage_current.py\<close>)\<close>

definition BrickletVoltageCurrent_GetConfiguration :: shape where
  "BrickletVoltageCurrent_GetConfiguration = Named ''Configuration''
     [''averaging'', ''voltage_conversion_time'', ''current_conversion_time'']"

definition BrickletVoltageCurrent_GetCalibration :: shape where
  "BrickletVoltageCurrent_GetCalibration = Named ''Calibration''
     [''gain_multiplier'', ''gain_divisor'']"

definition BrickletVoltageCurrent_GetCurrentCallbackThreshold :: shape where
  "BrickletVoltageCurrent_GetCurrentCallbackThreshold = Named ''CurrentCallbackThreshold''
     [''option'', ''min'', ''max'']"

definition BrickletVoltageCurrent_GetVoltageCallbackThreshold :: shape where
  "BrickletVoltageCurrent_GetVoltageCallbackThreshold = Named ''VoltageCallbackThreshold''
     [''option'', ''min'', ''max'']"

definition BrickletVoltageCurrent_GetPowerCallbackThreshold :: shape where
  "BrickletVoltageCurrent_GetPowerCallbackThreshold = Named ''PowerCallbackThreshold''
     [''option'', ''min'', ''max'']"

definition BrickletVoltageCurrent_GetIdentity :: shape where
  "BrickletVoltageCurrent_GetIdentity = Named ''Identity''
     [''uid'', ''connected_uid'', ''position'', ''hardware_version'', ''firmware_version'',
      ''device_identifier'']"

definition BrickletVoltageCurrent_ids :: "(string \<times> int) list" where
  "BrickletVoltageCurrent_ids =
     [(''CALLBACK_CURRENT'', 22), (''CALLBACK_VOLTAGE'', 23), (''CALLBACK_POWER'', 24),
      (''CALLBACK_CURRENT_REACHED'', 25), (''CALLBACK_VOLTAGE_REACHED'', 26),
      (''CALLBACK_POWER_REACHED'', 27), (''FUNCTION_GET_CURRENT'', 1),
      (''FUNCTION_GET_VOLTAGE'', 2), (''FUNCTION_GET_POWER'', 3),
      (''FUNCTION_SET_CONFIGURATION'', 4), (''FUNCTION_GET_CONFIGURATION'', 5),
      (''FUNCTION_SET_CALIBRATION'', 6), (''FUNCTION_GET_CALIBRATION'', 7),
      (''FUNCTION_SET_CURRENT_CALLBACK_PERIOD'', 8), (''FUNCTION_GET_CURRENT_CALLBACK_PERIOD'', 9),
      (''FUNCTION_SET_VOLTAGE_CALLBACK_PERIOD'', 10),
      (''FUNCTION_GET_VOLTAGE_CALLBACK_PERIOD'', 11), (''FUNCTION_SET_POWER_CALLBACK_PERIOD'', 12),
      (''FUNCTION_GET_POWER_CALLBACK_PERIOD'', 13),
      (''FUNCTION_SET_CURRENT_CALLBACK_THRESHOLD'', 14),
      (''FUNCTION_GET_CURRENT_CALLBACK_THRESHOLD'', 15),
      (''FUNCTION_SET_VOLTAGE_CALLBACK_THRESHOLD'', 16),
      (''FUNCTION_GET_VOLTAGE_CALLBACK_THRESHOLD'', 17),
      (''FUNCTION_SET_POWER_CALLBACK_THRESHOLD'', 18),
      (''FUNCTION_GET_POWER_CALLBACK_THRESHOLD'', 19), (''FUNCTION_SET_DEBOUNCE_PERIOD'', 20),
      (''FUNCTION_GET_DEBOUNCE_PERIOD'', 21), (''FUNCTION_GET_IDENTITY'', 255)]"

definition BrickletVoltageCurrent_flags :: "(int \<times> resp_flag) list" where
  "BrickletVoltageCurrent_flags =
     [(1, ALWAYS_TRUE), (2, ALWAYS_TRUE), (3, ALWAYS_TRUE), (4, RE_FALSE), (5, ALWAYS_TRUE),
      (6, RE_FALSE), (7, ALWAYS_TRUE), (8, RE_TRUE), (9, ALWAYS_TRUE), (10, RE_TRUE),
      (11, ALWAYS_TRUE), (12, RE_TRUE), (13, ALWAYS_TRUE), (14, RE_TRUE), (15, ALWAYS_TRUE),
      (16, RE_TRUE), (17, ALWAYS_TRUE), (18, RE_TRUE), (19, ALWAYS_TRUE), (20, RE_TRUE),
      (21, ALWAYS_TRUE), (22, ALWAYS_FALSE), (23, ALWAYS_FALSE), (24, ALWAYS_FALSE),
      (25, ALWAYS_FALSE), (26, ALWAYS_FALSE), (27, ALWAYS_FALSE), (255, ALWAYS_TRUE)]"

definition BrickletVoltageCurrent_formats :: "(int \<times> string) list" where
  "BrickletVoltageCurrent_formats =
     [(22, ''i''), (23, ''i''), (24, ''i''), (25, ''i''), (26, ''i''), (27, ''i'')]"

definition BrickletVoltageCurrent_get_current :: dev_method where
  "BrickletVoltageCurrent_get_current =
     \<lparr>m_name = ''get_current'', m_params = [],
      m_function = 1, m_form = [], m_form_ret = ''i'',
      m_result = Returned\<rparr>"

definition BrickletVoltageCurrent_get_voltage :: dev_method where
  "BrickletVoltageCurrent_get_voltage =
     \<lparr>m_name = ''get_voltage'', m_params = [],
      m_function = 2, m_form = [], m_form_ret = ''i'',
      m_result = Returned\<rparr>"

definition BrickletVoltageCurrent_get_power :: dev_method where
  "BrickletVoltageCurrent_get_power =
     \<lparr>m_name = ''get_power'', m_params = [],
      m_function = 3, m_form = [], m_form_ret = ''i'',
      m_result = Returned\<rparr>"

definition BrickletVoltageCurrent_set_configuration :: dev_method where
  "BrickletVoltageCurrent_set_configuration =
     \<lparr>m_name = ''set_configuration'', m_params = [''averaging'', ''voltage_conversion_time'', ''current_conversion_time''],
      m_function = 4, m_form = ''B B B'', m_form_ret = [],
      m_result = Discarded\<rparr>"

definition BrickletVoltageCurrent_get_configuration :: dev_method where
  "BrickletVoltageCurrent_get_configuration =
     \<lparr>m_name = ''get_configuration'', m_params = [],
      m_function = 5, m_form = [], m_form_ret = ''B B B'',
      m_result = BrickletVoltageCurrent_GetConfiguration\<rparr>"

definition BrickletVoltageCurrent_set_calibration :: dev_method where
  "BrickletVoltageCurrent_set_calibration =
     \<lparr>m_name = ''set_calibration'', m_params = [''gain_multiplier'', ''gain_divisor''],
      m_function = 6, m_form = ''H H'', m_form_ret = [],
      m_result = Discarded\<rparr>"

definition BrickletVoltageCurrent_get_calibration :: dev_method where
  "BrickletVoltageCurrent_get_calibration =
     \<lparr>m_name = ''get_calibration'', m_params = [],
      m_function = 7, m_form = [], m_form_ret = ''H H'',
      m_result = BrickletVoltageCurrent_GetCalibration\<rparr>"

definition BrickletVoltageCurrent_set_current_callback_period :: dev_method where
  "BrickletVoltageCurrent_set_current_callback_period =
     \<lparr>m_name = ''set_current_callback_period'', m_params = [''period''],
      m_function = 8, m_form = ''I'', m_form_ret = [],
      m_result = Discarded\<rparr>"

definition BrickletVoltageCurrent_get_current_callback_period :: dev_method where
  "BrickletVoltageCurrent_get_current_callback_period =
     \<lparr>m_name = ''get_current_callback_period'', m_params = [],
      m_function = 9, m_form = [], m_form_ret = ''I'',
      m_result = Returned\<rparr>"

definition BrickletVoltageCurrent_set_voltage_callback_period :: dev_method where
  "BrickletVoltageCurrent_set_voltage_callback_period =
     \<lparr>m_name = ''set_voltage_callback_period'', m_params = [''period''],
      m_function = 10, m_form = ''I'', m_form_ret = [],
      m_result = Discarded\<rparr>"

definition BrickletVoltageCurrent_get_voltage_callback_period :: dev_method where
  "BrickletVoltageCurrent_get_voltage_callback_period =
     \<lparr>m_name = ''get_voltage_callback_period'', m_params = [],
      m_function = 11, m_form = [], m_form_ret = ''I'',
      m_result = Returned\<rparr>"

definition BrickletVoltageCurrent_set_power_callback_period :: dev_method where
  "BrickletVoltageCurrent_set_power_callback_period =
     \<lparr>m_name = ''set_power_callback_period'', m_params = [''period''],
      m_function = 12, m_form = ''I'', m_form_ret = [],
      m_result = Discarded\<rparr>"

definition BrickletVoltageCurrent_get_power_callback_period :: dev_method where
  "BrickletVoltageCurrent_get_power_callback_period =
     \<lparr>m_name = ''get_power_callback_period'', m_params = [],
      m_function = 13, m_form = [], m_form_ret = ''I'',
      m_result = Returned\<rparr>"

definition BrickletVoltageCurrent_set_current_callback_threshold :: dev_method where
  "BrickletVoltageCurrent_set_current_callback_threshold =
     \<lparr>m_name = ''set_current_callback_threshold'', m_params = [''option'', ''min'', ''max''],
      m_function = 14, m_form = ''c i i'', m_form_ret = [],
      m_result = Discarded\<rparr>"

definition BrickletVoltageCurrent_get_current_callback_threshold :: dev_method where
  "BrickletVoltageCurrent_get_current_callback_threshold =
     \<lparr>m_name = ''get_current_callback_threshold'', m_params = [],
      m_function = 15, m_form = [], m_form_ret = ''c i i'',
      m_result = BrickletVoltageCurrent_GetCurrentCallbackThreshold\<rparr>"

definition BrickletVoltageCurrent_set_voltage_callback_threshold :: dev_method where
  "BrickletVoltageCurrent_set_voltage_callback_threshold =
     \<lparr>m_name = ''set_voltage_callback_threshold'', m_params = [''option'', ''min'', ''max''],
      m_function = 16, m_form = ''c i i'', m_form_ret = [],
      m_result = Discarded\<rparr>"

definition BrickletVoltageCurrent_get_voltage_callback_threshold :: dev_method where
  "BrickletVoltageCurrent_get_voltage_callback_threshold =
     \<lparr>m_name = ''get_voltage_callback_threshold'', m_params = [],
      m_function = 17, m_form = [], m_form_ret = ''c i i'',
      m_result = BrickletVoltageCurrent_GetVoltageCallbackThreshold\<rparr>"

definition BrickletVoltageCurrent_set_power_callback_threshold :: dev_method where
  "BrickletVoltageCurrent_set_power_callback_threshold =
     \<lparr>m_name = ''set_power_callback_threshold'', m_params = [''option'', ''min'', ''max''],
      m_function = 18, m_form = ''c i i'', m_form_ret = [],
      m_result = Discarded\<rparr>"

definition BrickletVoltageCurrent_get_power_callback_threshold :: dev_method where
  "BrickletVoltageCurrent_get_power_callback_threshold =
     \<lparr>m_name = ''get_power_callback_threshold'', m_params = [],
      m_function = 19, m_form = [], m_form_ret = ''c i i'',
      m_result = BrickletVoltageCurrent_GetPowerCallbackThreshold\<rparr>"

definition BrickletVoltageCurrent_set_debounce_period :: dev_method where
  "BrickletVoltageCurrent_set_debounce_period =
     \<lparr>m_name = ''set_debounce_period'', m_params = [''debounce''],
      m_function = 20, m_form = ''I'', m_form_ret = [],
      m_result = Discarded\<rparr>"

definition BrickletVoltageCurrent_get_debounce_period :: dev_method where
  "BrickletVoltageCurrent_get_debounce_period =
     \<lparr>m_name = ''get_debounce_period'', m_params = [],
      m_function = 21, m_form = [], m_form_ret = ''I'',
      m_result = Returned\<rparr>"

definition BrickletVoltageCurrent_get_identity :: dev_method where
  "BrickletVoltageCurrent_get_identity =
     \<lparr>m_name = ''get_identity'', m_params = [],
      m_function = 255, m_form = [], m_form_ret = ''8s 8s c 3B 3B H'',
      m_result = BrickletVoltageCurrent_GetIdentity\<rparr>"

definition BrickletVoltageCurrent :: binding where
  "BrickletVoltageCurrent =
     \<lparr>b_class = ''BrickletVoltageCurrent'', b_identifier = 227, b_ids = BrickletVoltageCurrent_ids,
      b_api_version = (2, 0, 0), b_flags = BrickletVoltageCurrent_flags, b_formats = BrickletVoltageCurrent_formats,
      b_methods =
       [BrickletVoltageCurrent_get_current, BrickletVoltageCurrent_get_voltage,
        BrickletVoltageCurrent_get_power, BrickletVoltageCurrent_set_configuration,
        BrickletVoltageCurrent_get_configuration, BrickletVoltageCurrent_set_calibration,
        BrickletVoltageCurrent_get_calibration, BrickletVoltageCurrent_set_current_callback_period,
        BrickletVoltageCurrent_get_current_callback_period,
        BrickletVoltageCurrent_set_voltage_callback_period,
        BrickletVoltageCurrent_get_voltage_callback_period,
        BrickletVoltageCurrent_set_power_callback_period,
        BrickletVoltageCurrent_get_power_callback_period,
        BrickletVoltageCurrent_set_current_callback_threshold,
        BrickletVoltageCurrent_get_current_callback_threshold,
        BrickletVoltageCurrent_set_voltage_callback_threshold,
        BrickletVoltageCurrent_get_voltage_callback_threshold,
        BrickletVoltageCurrent_set_power_callback_threshold,
        BrickletVoltageCurrent_get_power_callback_threshold,
        BrickletVoltageCurrent_set_debounce_period, BrickletVoltageCurrent_get_debounce_period,
        BrickletVoltageCurrent_get_identity]\<rparr>"

interpretation VoltageCurrent: device_class BrickletVoltageCurrent
  by unfold_locales code_simp

section \<open>The class BrickletLinearPoti (\<^verbatim>\<open>bricklet_linear_poti.py\<close>)\<close>

definition BrickletLinearPoti_GetPositionCallbackThreshold :: shape where
  "BrickletLinearPoti_GetPositionCallbackThreshold = Named ''PositionCallbackThreshold''
     [''option'', ''min'', ''max'']"

definition BrickletLinearPoti_GetAnalogValueCallbackThreshold :: shape where
  "BrickletLinearPoti_GetAnalogValueCallbackThreshold = Named ''AnalogValueCallbackThreshold''
     [''option'', ''min'', ''max'']"

definition BrickletLinearPoti_GetIdentity :: shape where
  "BrickletLinearPoti_GetIdentity = Named ''Identity''
     [''uid'', ''connected_uid'', ''position'', ''hardware_version'', ''firmware_version'',
      ''device_identifier'']"

definition BrickletLinearPoti_ids :: "(string \<times> int) list" where
  "BrickletLinearPoti_ids =
     [(''CALLBACK_POSITION'', 13), (''CALLBACK_ANALOG_VALUE'', 14),
      (''CALLBACK_POSITION_REACHED'', 15), (''CALLBACK_ANALOG_VALUE_REACHED'', 16),
      (''FUNCTION_GET_POSITION'', 1), (''FUNCTION_GET_ANALOG_VALUE'', 2),
      (''FUNCTION_SET_POSITION_CALLBACK_PERIOD'', 3),
      (''FUNCTION_GET_POSITION_CALLBACK_PERIOD'', 4),
      (''FUNCTION_SET_ANALOG_VALUE_CALLBACK_PERIOD'', 5),
      (''FUNCTION_GET_ANALOG_VALUE_CALLBACK_PERIOD'', 6),
      (''FUNCTION_SET_POSITION_CALLBACK_THRESHOLD'', 7),
      (''FUNCTION_GET_POSITION_CALLBACK_THRESHOLD'', 8),
      (''FUNCTION_SET_ANALOG_VALUE_CALLBACK_THRESHOLD'', 9),
      (''FUNCTION_GET_ANALOG_VALUE_CALLBACK_THRESHOLD'', 10),
      (''FUNCTION_SET_DEBOUNCE_PERIOD'', 11), (''FUNCTION_GET_DEBOUNCE_PERIOD'', 12),
      (''FUNCTION_GET_IDENTITY'', 255)]"

definition BrickletLinearPoti_flags :: "(int \<times> resp_flag) list" where
  "BrickletLinearPoti_flags =
     [(1, ALWAYS_TRUE), (2, ALWAYS_TRUE), (3, RE_TRUE), (4, ALWAYS_TRUE), (5, RE_TRUE),
      (6, ALWAYS_TRUE), (7, RE_TRUE), (8, ALWAYS_TRUE), (9, RE_TRUE), (10, ALWAYS_TRUE),
      (11, RE_TRUE), (12, ALWAYS_TRUE), (13, ALWAYS_FALSE), (14, ALWAYS_FALSE), (15, ALWAYS_FALSE),
      (16, ALWAYS_FALSE), (255, ALWAYS_TRUE)]"

definition BrickletLinearPoti_formats :: "(int \<times> string) list" where
  "BrickletLinearPoti_formats =
     [(13, ''H''), (14, ''H''), (15, ''H''), (16, ''H'')]"

definition BrickletLinearPoti_get_position :: dev_method where
  "BrickletLinearPoti_get_position =
     \<lparr>m_name = ''get_position'', m_params = [],
      m_function = 1, m_form = [], m_form_ret = ''H'',
      m_result = Returned\<rparr>"

definition BrickletLinearPoti_get_analog_value :: dev_method where
  "BrickletLinearPoti_get_analog_value =
     \<lparr>m_name = ''get_analog_value'', m_params = [],
      m_function = 2, m_form = [], m_form_ret = ''H'',
      m_result = Returned\<rparr>"

definition BrickletLinearPoti_set_position_callback_period :: dev_method where
  "BrickletLinearPoti_set_position_callback_period =
     \<lparr>m_name = ''set_position_callback_period'', m_params = [''period''],
      m_function = 3, m_form = ''I'', m_form_ret = [],
      m_result = Discarded\<rparr>"

definition BrickletLinearPoti_get_position_callback_period :: dev_method where
  "BrickletLinearPoti_get_position_callback_period =
     \<lparr>m_name = ''get_position_callback_period'', m_params = [],
      m_function = 4, m_form = [], m_form_ret = ''I'',
      m_result = Returned\<rparr>"

definition BrickletLinearPoti_set_analog_value_callback_period :: dev_method where
  "BrickletLinearPoti_set_analog_value_callback_period =
     \<lparr>m_name = ''set_analog_value_callback_period'', m_params = [''period''],
      m_function = 5, m_form = ''I'', m_form_ret = [],
      m_result = Discarded\<rparr>"

definition BrickletLinearPoti_get_analog_value_callback_period :: dev_method where
  "BrickletLinearPoti_get_analog_value_callback_period =
     \<lparr>m_name = ''get_analog_value_callback_period'', m_params = [],
      m_function = 6, m_form = [], m_form_ret = ''I'',
      m_result = Returned\<rparr>"

definition BrickletLinearPoti_set_position_callback_threshold :: dev_method where
  "BrickletLinearPoti_set_position_callback_threshold =
     \<lparr>m_name = ''set_position_callback_threshold'', m_params = [''option'', ''min'', ''max''],
      m_function = 7, m_form = ''c h h'', m_form_ret = [],
      m_result = Discarded\<rparr>"

definition BrickletLinearPoti_get_position_callback_threshold :: dev_method where
  "BrickletLinearPoti_get_position_callback_threshold =
     \<lparr>m_name = ''get_position_callback_threshold'', m_params = [],
      m_function = 8, m_form = [], m_form_ret = ''c h h'',
      m_result = BrickletLinearPoti_GetPositionCallbackThreshold\<rparr>"

definition BrickletLinearPoti_set_analog_value_callback_threshold :: dev_method where
  "BrickletLinearPoti_set_analog_value_callback_threshold =
     \<lparr>m_name = ''set_analog_value_callback_threshold'', m_params = [''option'', ''min'', ''max''],
      m_function = 9, m_form = ''c H H'', m_form_ret = [],
      m_result = Discarded\<rparr>"

definition BrickletLinearPoti_get_analog_value_callback_threshold :: dev_method where
  "BrickletLinearPoti_get_analog_value_callback_threshold =
     \<lparr>m_name = ''get_analog_value_callback_threshold'', m_params = [],
      m_function = 10, m_form = [], m_form_ret = ''c H H'',
      m_result = BrickletLinearPoti_GetAnalogValueCallbackThreshold\<rparr>"

definition BrickletLinearPoti_set_debounce_period :: dev_method where
  "BrickletLinearPoti_set_debounce_period =
     \<lparr>m_name = ''set_debounce_period'', m_params = [''debounce''],
      m_function = 11, m_form = ''I'', m_form_ret = [],
      m_result = Discarded\<rparr>"

definition BrickletLinearPoti_get_debounce_period :: dev_method where
  "BrickletLinearPoti_get_debounce_period =
     \<lparr>m_name = ''get_debounce_period'', m_params = [],
      m_function = 12, m_form = [], m_form_ret = ''I'',
      m_result = Returned\<rparr>"

definition BrickletLinearPoti_get_identity :: dev_method where
  "BrickletLinearPoti_get_identity =
     \<lparr>m_name = ''get_identity'', m_params = [],
      m_function = 255, m_form = [], m_form_ret = ''8s 8s c 3B 3B H'',
      m_result = BrickletLinearPoti_GetIdentity\<rparr>"

definition BrickletLinearPoti :: binding where
  "BrickletLinearPoti =
     \<lparr>b_class = ''BrickletLinearPoti'', b_identifier = 213, b_ids = BrickletLinearPoti_ids,
      b_api_version = (2, 0, 0), b_flags = BrickletLinearPoti_flags, b_formats = BrickletLinearPoti_formats,
      b_methods =
       [BrickletLinearPoti_get_position, BrickletLinearPoti_get_analog_value,
        BrickletLinearPoti_set_position_callback_period,
        BrickletLinearPoti_get_position_callback_period,
        BrickletLinearPoti_set_analog_value_callback_period,
        BrickletLinearPoti_get_analog_value_callback_period,
        BrickletLinearPoti_set_position_callback_threshold,
        BrickletLinearPoti_get_position_callback_threshold,
        BrickletLinearPoti_set_analog_value_callback_threshold,
        BrickletLinearPoti_get_analog_value_callback_threshold,
        BrickletLinearPoti_set_debounce_period, BrickletLinearPoti_get_debounce_period,
        BrickletLinearPoti_get_identity]\<rparr>"

interpretation LinearPoti: device_class BrickletLinearPoti
  by unfold_locales code_simp

section \<open>The class BrickletRotaryPoti (\<^verbatim>\<open>bricklet_rotary_poti.py\<close>)\<close>

definition BrickletRotaryPoti_GetPositionCallbackThreshold :: shape where
  "BrickletRotaryPoti_GetPositionCallbackThreshold = Named ''PositionCallbackThreshold''
     [''option'', ''min'', ''max'']"

definition BrickletRotaryPoti_GetAnalogValueCallbackThreshold :: shape where
  "BrickletRotaryPoti_GetAnalogValueCallbackThreshold = Named ''AnalogValueCallbackThreshold''
     [''option'', ''min'', ''max'']"

definition BrickletRotaryPoti_GetIdentity :: shape where
  "BrickletRotaryPoti_GetIdentity = Named ''Identity''
     [''uid'', ''connected_uid'', ''position'', ''hardware_version'', ''firmware_version'',
      ''device_identifier'']"

definition BrickletRotaryPoti_ids :: "(string \<times> int) list" where
  "BrickletRotaryPoti_ids =
     [(''CALLBACK_POSITION'', 13), (''CALLBACK_ANALOG_VALUE'', 14),
      (''CALLBACK_POSITION_REACHED'', 15), (''CALLBACK_ANALOG_VALUE_REACHED'', 16),
      (''FUNCTION_GET_POSITION'', 1), (''FUNCTION_GET_ANALOG_VALUE'', 2),
      (''FUNCTION_SET_POSITION_CALLBACK_PERIOD'', 3),
      (''FUNCTION_GET_POSITION_CALLBACK_PERIOD'', 4),
      (''FUNCTION_SET_ANALOG_VALUE_CALLBACK_PERIOD'', 5),
      (''FUNCTION_GET_ANALOG_VALUE_CALLBACK_PERIOD'', 6),
      (''FUNCTION_SET_POSITION_CALLBACK_THRESHOLD'', 7),
      (''FUNCTION_GET_POSITION_CALLBACK_THRESHOLD'', 8),
      (''FUNCTION_SET_ANALOG_VALUE_CALLBACK_THRESHOLD'', 9),
      (''FUNCTION_GET_ANALOG_VALUE_CALLBACK_THRESHOLD'', 10),
      (''FUNCTION_SET_DEBOUNCE_PERIOD'', 11), (''FUNCTION_GET_DEBOUNCE_PERIOD'', 12),
      (''FUNCTION_GET_IDENTITY'', 255)]"

definition BrickletRotaryPoti_flags :: "(int \<times> resp_flag) list" where
  "BrickletRotaryPoti_flags =
     [(1, ALWAYS_TRUE), (2, ALWAYS_TRUE), (3, RE_TRUE), (4, ALWAYS_TRUE), (5, RE_TRUE),
      (6, ALWAYS_TRUE), (7, RE_TRUE), (8, ALWAYS_TRUE), (9, RE_TRUE), (10, ALWAYS_TRUE),
      (11, RE_TRUE), (12, ALWAYS_TRUE), (13, ALWAYS_FALSE), (14, ALWAYS_FALSE), (15, ALWAYS_FALSE),
      (16, ALWAYS_FALSE), (255, ALWAYS_TRUE)]"

definition BrickletRotaryPoti_formats :: "(int \<times> string) list" where
  "BrickletRotaryPoti_formats =
     [(13, ''h''), (14, ''H''), (15, ''h''), (16, ''H'')]"

definition BrickletRotaryPoti_get_position :: dev_method where
  "BrickletRotaryPoti_get_position =
     \<lparr>m_name = ''get_position'', m_params = [],
      m_function = 1, m_form = [], m_form_ret = ''h'',
      m_result = Returned\<rparr>"

definition BrickletRotaryPoti_get_analog_value :: dev_method where
  "BrickletRotaryPoti_get_analog_value =
     \<lparr>m_name = ''get_analog_value'', m_params = [],
      m_function = 2, m_form = [], m_form_ret = ''H'',
      m_result = Returned\<rparr>"

definition BrickletRotaryPoti_set_position_callback_period :: dev_method where
  "BrickletRotaryPoti_set_position_callback_period =
     \<lparr>m_name = ''set_position_callback_period'', m_params = [''period''],
      m_function = 3, m_form = ''I'', m_form_ret = [],
      m_result = Discarded\<rparr>"

definition BrickletRotaryPoti_get_position_callback_period :: dev_method where
  "BrickletRotaryPoti_get_position_callback_period =
     \<lparr>m_name = ''get_position_callback_period'', m_params = [],
      m_function = 4, m_form = [], m_form_ret = ''I'',
      m_result = Returned\<rparr>"

definition BrickletRotaryPoti_set_analog_value_callback_period :: dev_method where
  "BrickletRotaryPoti_set_analog_value_callback_period =
     \<lparr>m_name = ''set_analog_value_callback_period'', m_params = [''period''],
      m_function = 5, m_form = ''I'', m_form_ret = [],
      m_result = Discarded\<rparr>"

definition BrickletRotaryPoti_get_analog_value_callback_period :: dev_method where
  "BrickletRotaryPoti_get_analog_value_callback_period =
     \<lparr>m_name = ''get_analog_value_callback_period'', m_params = [],
      m_function = 6, m_form = [], m_form_ret = ''I'',
      m_result = Returned\<rparr>"

definition BrickletRotaryPoti_set_position_callback_threshold :: dev_method where
  "BrickletRotaryPoti_set_position_callback_threshold =
     \<lparr>m_name = ''set_position_callback_threshold'', m_params = [''option'', ''min'', ''max''],
      m_function = 7, m_form = ''c h h'', m_form_ret = [],
      m_result = Discarded\<rparr>"

definition BrickletRotaryPoti_get_position_callback_threshold :: dev_method where
  "BrickletRotaryPoti_get_position_callback_threshold =
     \<lparr>m_name = ''get_position_callback_threshold'', m_params = [],
      m_function = 8, m_form = [], m_form_ret = ''c h h'',
      m_result = BrickletRotaryPoti_GetPositionCallbackThreshold\<rparr>"

definition BrickletRotaryPoti_set_analog_value_callback_threshold :: dev_method where
  "BrickletRotaryPoti_set_analog_value_callback_threshold =
     \<lparr>m_name = ''set_analog_value_callback_threshold'', m_params = [''option'', ''min'', ''max''],
      m_function = 9, m_form = ''c H H'', m_form_ret = [],
      m_result = Discarded\<rparr>"

definition BrickletRotaryPoti_get_analog_value_callback_threshold :: dev_method where
  "BrickletRotaryPoti_get_analog_value_callback_threshold =
     \<lparr>m_name = ''get_analog_value_callback_threshold'', m_params = [],
      m_function = 10, m_form = [], m_form_ret = ''c H H'',
      m_result = BrickletRotaryPoti_GetAnalogValueCallbackThreshold\<rparr>"

definition BrickletRotaryPoti_set_debounce_period :: dev_method where
  "BrickletRotaryPoti_set_debounce_period =
     \<lparr>m_name = ''set_debounce_period'', m_params = [''debounce''],
      m_function = 11, m_form = ''I'', m_form_ret = [],
      m_result = Discarded\<rparr>"

definition BrickletRotaryPoti_get_debounce_period :: dev_method where
  "BrickletRotaryPoti_get_debounce_period =
     \<lparr>m_name = ''get_debounce_period'', m_params = [],
      m_function = 12, m_form = [], m_form_ret = ''I'',
      m_result = Returned\<rparr>"

definition BrickletRotaryPoti_get_identity :: dev_method where
  "BrickletRotaryPoti_get_identity =
     \<lparr>m_name = ''get_identity'', m_params = [],
      m_function = 255, m_form = [], m_form_ret = ''8s 8s c 3B 3B H'',
      m_result = BrickletRotaryPoti_GetIdentity\<rparr>"

definition BrickletRotaryPoti :: binding where
  "BrickletRotaryPoti =
     \<lparr>b_class = ''BrickletRotaryPoti'', b_identifier = 215, b_ids = BrickletRotaryPoti_ids,
      b_api_version = (2, 0, 0), b_flags = BrickletRotaryPoti_flags, b_formats = BrickletRotaryPoti_formats,
      b_methods =
       [BrickletRotaryPoti_get_position, BrickletRotaryPoti_get_analog_value,
        BrickletRotaryPoti_set_position_callback_period,
        BrickletRotaryPoti_get_position_callback_period,
        BrickletRotaryPoti_set_analog_value_callback_period,
        BrickletRotaryPoti_get_analog_value_callback_period,
        BrickletRotaryPoti_set_position_callback_threshold,
        BrickletRotaryPoti_get_position_callback_threshold,
        BrickletRotaryPoti_set_analog_value_callback_threshold,
        BrickletRotaryPoti_get_analog_value_callback_threshold,
        BrickletRotaryPoti_set_debounce_period, BrickletRotaryPoti_get_debounce_period,
        BrickletRotaryPoti_get_identity]\<rparr>"

interpretation RotaryPoti: device_class BrickletRotaryPoti
  by unfold_locales code_simp

section \<open>The class BrickletPTC (\<^verbatim>\<open>bricklet_ptc.py\<close>)\<close>

definition BrickletPTC_GetTemperatureCallbackThreshold :: shape where
  "BrickletPTC_GetTemperatureCallbackThreshold = Named ''TemperatureCallbackThreshold''
     [''option'', ''min'', ''max'']"

definition BrickletPTC_GetResistanceCallbackThreshold :: shape where
  "BrickletPTC_GetResistanceCallbackThreshold = Named ''ResistanceCallbackThreshold''
     [''option'', ''min'', ''max'']"

definition BrickletPTC_GetIdentity :: shape where
  "BrickletPTC_GetIdentity = Named ''Identity''
     [''uid'', ''connected_uid'', ''position'', ''hardware_version'', ''firmware_version'',
      ''device_identifier'']"

definition BrickletPTC_ids :: "(string \<times> int) list" where
  "BrickletPTC_ids =
     [(''CALLBACK_TEMPERATURE'', 13), (''CALLBACK_TEMPERATURE_REACHED'', 14),
      (''CALLBACK_RESISTANCE'', 15), (''CALLBACK_RESISTANCE_REACHED'', 16),
      (''FUNCTION_GET_TEMPERATURE'', 1), (''FUNCTION_GET_RESISTANCE'', 2),
      (''FUNCTION_SET_TEMPERATURE_CALLBACK_PERIOD'', 3),
      (''FUNCTION_GET_TEMPERATURE_CALLBACK_PERIOD'', 4),
      (''FUNCTION_SET_RESISTANCE_CALLBACK_PERIOD'', 5),
      (''FUNCTION_GET_RESISTANCE_CALLBACK_PERIOD'', 6),
      (''FUNCTION_SET_TEMPERATURE_CALLBACK_THRESHOLD'', 7),
      (''FUNCTION_GET_TEMPERATURE_CALLBACK_THRESHOLD'', 8),
      (''FUNCTION_SET_RESISTANCE_CALLBACK_THRESHOLD'', 9),
      (''FUNCTION_GET_RESISTANCE_CALLBACK_THRESHOLD'', 10), (''FUNCTION_SET_DEBOUNCE_PERIOD'', 11),
      (''FUNCTION_GET_DEBOUNCE_PERIOD'', 12), (''FUNCTION_SET_NOISE_REJECTION_FILTER'', 17),
      (''FUNCTION_GET_NOISE_REJECTION_FILTER'', 18), (''FUNCTION_IS_SENSOR_CONNECTED'', 19),
      (''FUNCTION_SET_WIRE_MODE'', 20), (''FUNCTION_GET_WIRE_MODE'', 21),
      (''FUNCTION_GET_IDENTITY'', 255)]"

definition BrickletPTC_flags :: "(int \<times> resp_flag) list" where
  "BrickletPTC_flags =
     [(1, ALWAYS_TRUE), (2, ALWAYS_TRUE), (3, RE_TRUE), (4, ALWAYS_TRUE), (5, RE_TRUE),
      (6, ALWAYS_TRUE), (7, RE_TRUE), (8, ALWAYS_TRUE), (9, RE_TRUE), (10, ALWAYS_TRUE),
      (11, RE_TRUE), (12, ALWAYS_TRUE), (13, ALWAYS_FALSE), (14, ALWAYS_FALSE), (15, ALWAYS_FALSE),
      (16, ALWAYS_FALSE), (17, RE_FALSE), (18, ALWAYS_TRUE), (19, ALWAYS_TRUE), (20, RE_FALSE),
      (21, ALWAYS_TRUE), (255, ALWAYS_TRUE)]"

definition BrickletPTC_formats :: "(int \<times> string) list" where
  "BrickletPTC_formats =
     [(13, ''i''), (14, ''i''), (15, ''H''), (16, ''H'')]"

definition BrickletPTC_get_temperature :: dev_method where
  "BrickletPTC_get_temperature =
     \<lparr>m_name = ''get_temperature'', m_params = [],
      m_function = 1, m_form = [], m_form_ret = ''i'',
      m_result = Returned\<rparr>"

definition BrickletPTC_get_resistance :: dev_method where
  "BrickletPTC_get_resistance =
     \<lparr>m_name = ''get_resistance'', m_params = [],
      m_function = 2, m_form = [], m_form_ret = ''H'',
      m_result = Returned\<rparr>"

definition BrickletPTC_set_temperature_callback_period :: dev_method where
  "BrickletPTC_set_temperature_callback_period =
     \<lparr>m_name = ''set_temperature_callback_period'', m_params = [''period''],
      m_function = 3, m_form = ''I'', m_form_ret = [],
      m_result = Discarded\<rparr>"

definition BrickletPTC_get_temperature_callback_period :: dev_method where
  "BrickletPTC_get_temperature_callback_period =
     \<lparr>m_name = ''get_temperature_callback_period'', m_params = [],
      m_function = 4, m_form = [], m_form_ret = ''I'',
      m_result = Returned\<rparr>"

definition BrickletPTC_set_resistance_callback_period :: dev_method where
  "BrickletPTC_set_resistance_callback_period =
     \<lparr>m_name = ''set_resistance_callback_period'', m_params = [''period''],
      m_function = 5, m_form = ''I'', m_form_ret = [],
      m_result = Discarded\<rparr>"

definition BrickletPTC_get_resistance_callback_period :: dev_method where
  "BrickletPTC_get_resistance_callback_period =
     \<lparr>m_name = ''get_resistance_callback_period'', m_params = [],
      m_function = 6, m_form = [], m_form_ret = ''I'',
      m_result = Returned\<rparr>"

definition BrickletPTC_set_temperature_callback_threshold :: dev_method where
  "BrickletPTC_set_temperature_callback_threshold =
     \<lparr>m_name = ''set_temperature_callback_threshold'', m_params = [''option'', ''min'', ''max''],
      m_function = 7, m_form = ''c i i'', m_form_ret = [],
      m_result = Discarded\<rparr>"

definition BrickletPTC_get_temperature_callback_threshold :: dev_method where
  "BrickletPTC_get_temperature_callback_threshold =
     \<lparr>m_name = ''get_temperature_callback_threshold'', m_params = [],
      m_function = 8, m_form = [], m_form_ret = ''c i i'',
      m_result = BrickletPTC_GetTemperatureCallbackThreshold\<rparr>"

definition BrickletPTC_set_resistance_callback_threshold :: dev_method where
  "BrickletPTC_set_resistance_callback_threshold =
     \<lparr>m_name = ''set_resistance_callback_threshold'', m_params = [''option'', ''min'', ''max''],
      m_function = 9, m_form = ''c H H'', m_form_ret = [],
      m_result = Discarded\<rparr>"

definition BrickletPTC_get_resistance_callback_threshold :: dev_method where
  "BrickletPTC_get_resistance_callback_threshold =
     \<lparr>m_name = ''get_resistance_callback_threshold'', m_params = [],
      m_function = 10, m_form = [], m_form_ret = ''c H H'',
      m_result = BrickletPTC_GetResistanceCallbackThreshold\<rparr>"

definition BrickletPTC_set_debounce_period :: dev_method where
  "BrickletPTC_set_debounce_period =
     \<lparr>m_name = ''set_debounce_period'', m_params = [''debounce''],
      m_function = 11, m_form = ''I'', m_form_ret = [],
      m_result = Discarded\<rparr>"

definition BrickletPTC_get_debounce_period :: dev_method where
  "BrickletPTC_get_debounce_period =
     \<lparr>m_name = ''get_debounce_period'', m_params = [],
      m_function = 12, m_form = [], m_form_ret = ''I'',
      m_result = Returned\<rparr>"

definition BrickletPTC_set_noise_rejection_filter :: dev_method where
  "BrickletPTC_set_noise_rejection_filter =
     \<lparr>m_name = ''set_noise_rejection_filter'', m_params = [''filter''],
      m_function = 17, m_form = ''B'', m_form_ret = [],
      m_result = Discarded\<rparr>"

definition BrickletPTC_get_noise_rejection_filter :: dev_method where
  "BrickletPTC_get_noise_rejection_filter =
     \<lparr>m_name = ''get_noise_rejection_filter'', m_params = [],
      m_function = 18, m_form = [], m_form_ret = ''B'',
      m_result = Returned\<rparr>"

definition BrickletPTC_is_sensor_connected :: dev_method where
  "BrickletPTC_is_sensor_connected =
     \<lparr>m_name = ''is_sensor_connected'', m_params = [],
      m_function = 19, m_form = [], m_form_ret = ''?'',
      m_result = Returned\<rparr>"

definition BrickletPTC_set_wire_mode :: dev_method where
  "BrickletPTC_set_wire_mode =
     \<lparr>m_name = ''set_wire_mode'', m_params = [''mode''],
      m_function = 20, m_form = ''B'', m_form_ret = [],
      m_result = Discarded\<rparr>"

definition BrickletPTC_get_wire_mode :: dev_method where
  "BrickletPTC_get_wire_mode =
     \<lparr>m_name = ''get_wire_mode'', m_params = [],
      m_function = 21, m_form = [], m_form_ret = ''B'',
      m_result = Returned\<rparr>"

definition BrickletPTC_get_identity :: dev_method where
  "BrickletPTC_get_identity =
     \<lparr>m_name = ''get_identity'', m_params = [],
      m_function = 255, m_form = [], m_form_ret = ''8s 8s c 3B 3B H'',
      m_result = BrickletPTC_GetIdentity\<rparr>"

definition BrickletPTC :: binding where
  "BrickletPTC =
     \<lparr>b_class = ''BrickletPTC'', b_identifier = 226, b_ids = BrickletPTC_ids,
      b_api_version = (2, 0, 0), b_flags = BrickletPTC_flags, b_formats = BrickletPTC_formats,
      b_methods =
       [BrickletPTC_get_temperature, BrickletPTC_get_resistance,
        BrickletPTC_set_temperature_callback_period, BrickletPTC_get_temperature_callback_period,
        BrickletPTC_set_resistance_callback_period, BrickletPTC_get_resistance_callback_period,
        BrickletPTC_set_temperature_callback_threshold,
        BrickletPTC_get_temperature_callback_threshold,
        BrickletPTC_set_resistance_callback_threshold,
        BrickletPTC_get_resistance_callback_threshold, BrickletPTC_set_debounce_period,
        BrickletPTC_get_debounce_period, BrickletPTC_set_noise_rejection_filter,
        BrickletPTC_get_noise_rejection_filter, BrickletPTC_is_sensor_connected,
        BrickletPTC_set_wire_mode, BrickletPTC_get_wire_mode, BrickletPTC_get_identity]\<rparr>"

interpretation PTC: device_class BrickletPTC
  by unfold_locales code_simp

end
