(* ===== verification/Bricklets_Position.thy ===== *)
theory Bricklets_Position
  imports Bindings
begin

text \<open>
  The device classes of the Bricklets that sense position, distance, force and motion. For each class: its
  named tuples, its constants, the assignments of its constructor, one definition per
  method, and the class itself, on which \<open>device_class\<close> is interpreted.
\<close>

section \<open>The class BrickletAccelerometer (\<^verbatim>\<open>bricklet_accelerometer.py\<close>)\<close>

definition BrickletAccelerometer_GetAcceleration :: shape where
  "BrickletAccelerometer_GetAcceleration = Named ''Acceleration''
     [''x'', ''y'', ''z'']"

definition BrickletAccelerometer_GetAccelerationCallbackThreshold :: shape where
  "BrickletAccelerometer_GetAccelerationCallbackThreshold = Named ''AccelerationCallbackThreshold''
     [''option'', ''min_x'', ''max_x'', ''min_y'', ''max_y'', ''min_z'', ''max_z'']"

definition BrickletAccelerometer_GetConfiguration :: shape where
  "BrickletAccelerometer_GetConfiguration = Named ''Configuration''
     [''data_rate'', ''full_scale'', ''filter_bandwidth'']"

definition BrickletAccelerometer_GetIdentity :: shape where
  "BrickletAccelerometer_GetIdentity = Named ''Identity''
     [''uid'', ''connected_uid'', ''position'', ''hardware_version'', ''firmware_version'',
      ''device_identifier'']"

definition BrickletAccelerometer_ids :: "(string \<times> int) list" where
  "BrickletAccelerometer_ids =
     [(''CALLBACK_ACCELERATION'', 14), (''CALLBACK_ACCELERATION_REACHED'', 15),
      (''FUNCTION_GET_ACCELERATION'', 1), (''FUNCTION_SET_ACCELERATION_CALLBACK_PERIOD'', 2),
      (''FUNCTION_GET_ACCELERATION_CALLBACK_PERIOD'', 3),
      (''FUNCTION_SET_ACCELERATION_CALLBACK_THRESHOLD'', 4),
      (''FUNCTION_GET_ACCELERATION_CALLBACK_THRESHOLD'', 5), (''FUNCTION_SET_DEBOUNCE_PERIOD'', 6),
      (''FUNCTION_GET_DEBOUNCE_PERIOD'', 7), (''FUNCTION_GET_TEMPERATURE'', 8),
      (''FUNCTION_SET_CONFIGURATION'', 9), (''FUNCTION_GET_CONFIGURATION'', 10),
      (''FUNCTION_LED_ON'', 11), (''FUNCTION_LED_OFF'', 12), (''FUNCTION_IS_LED_ON'', 13),
      (''FUNCTION_GET_IDENTITY'', 255)]"

definition BrickletAccelerometer_flags :: "(int \<times> resp_flag) list" where
  "BrickletAccelerometer_flags =
     [(1, ALWAYS_TRUE), (2, RE_TRUE), (3, ALWAYS_TRUE), (4, RE_TRUE), (5, ALWAYS_TRUE),
      (6, RE_TRUE), (7, ALWAYS_TRUE), (8, ALWAYS_TRUE), (9, RE_FALSE), (10, ALWAYS_TRUE),
      (11, RE_FALSE), (12, RE_FALSE), (13, ALWAYS_TRUE), (14, ALWAYS_FALSE), (15, ALWAYS_FALSE),
      (255, ALWAYS_TRUE)]"

definition BrickletAccelerometer_formats :: "(int \<times> string) list" where
  "BrickletAccelerometer_formats =
     [(14, ''h h h''), (15, ''h h h'')]"

definition BrickletAccelerometer_get_acceleration :: dev_method where
  "BrickletAccelerometer_get_acceleration =
     \<lparr>m_name = ''get_acceleration'', m_params = [],
      m_function = 1, m_form = [], m_form_ret = ''h h h'',
      m_result = BrickletAccelerometer_GetAcceleration\<rparr>"

definition BrickletAccelerometer_set_acceleration_callback_period :: dev_method where
  "BrickletAccelerometer_set_acceleration_callback_period =
     \<lparr>m_name = ''set_acceleration_callback_period'', m_params = [''period''],
      m_function = 2, m_form = ''I'', m_form_ret = [],
      m_result = Discarded\<rparr>"

definition BrickletAccelerometer_get_acceleration_callback_period :: dev_method where
  "BrickletAccelerometer_get_acceleration_callback_period =
     \<lparr>m_name = ''get_acceleration_callback_period'', m_params = [],
      m_function = 3, m_form = [], m_form_ret = ''I'',
      m_result = Returned\<rparr>"

definition BrickletAccelerometer_set_acceleration_callback_threshold :: dev_method where
  "BrickletAccelerometer_set_acceleration_callback_threshold =
     \<lparr>m_name = ''set_acceleration_callback_threshold'', m_params = [''option'', ''min_x'', ''max_x'', ''min_y'', ''max_y'', ''min_z'', ''max_z''],
      m_function = 4, m_form = ''c h h h h h h'', m_form_ret = [],
      m_result = Discarded\<rparr>"

definition BrickletAccelerometer_get_acceleration_callback_threshold :: dev_method where
  "BrickletAccelerometer_get_acceleration_callback_threshold =
     \<lparr>m_name = ''get_acceleration_callback_threshold'', m_params = [],
      m_function = 5, m_form = [], m_form_ret = ''c h h h h h h'',
      m_result = BrickletAccelerometer_GetAccelerationCallbackThreshold\<rparr>"

definition BrickletAccelerometer_set_debounce_period :: dev_method where
  "BrickletAccelerometer_set_debounce_period =
     \<lparr>m_name = ''set_debounce_period'', m_params = [''debounce''],
      m_function = 6, m_form = ''I'', m_form_ret = [],
      m_result = Discarded\<rparr>"

definition BrickletAccelerometer_get_debounce_period :: dev_method where
  "BrickletAccelerometer_get_debounce_period =
     \<lparr>m_name = ''get_debounce_period'', m_params = [],
      m_function = 7, m_form = [], m_form_ret = ''I'',
      m_result = Returned\<rparr>"

definition BrickletAccelerometer_get_temperature :: dev_method where
  "BrickletAccelerometer_get_temperature =
     \<lparr>m_name = ''get_temperature'', m_params = [],
      m_function = 8, m_form = [], m_form_ret = ''h'',
      m_result = Returned\<rparr>"

definition BrickletAccelerometer_set_configuration :: dev_method where
  "BrickletAccelerometer_set_configuration =
     \<lparr>m_name = ''set_configuration'', m_params = [''data_rate'', ''full_scale'', ''filter_bandwidth''],
      m_function = 9, m_form = ''B B B'', m_form_ret = [],
      m_result = Discarded\<rparr>"

definition BrickletAccelerometer_get_configuration :: dev_method where
  "BrickletAccelerometer_get_configuration =
     \<lparr>m_name = ''get_configuration'', m_params = [],
      m_function = 10, m_form = [], m_form_ret = ''B B B'',
      m_result = BrickletAccelerometer_GetConfiguration\<rparr>"

definition BrickletAccelerometer_led_on :: dev_method where
  "BrickletAccelerometer_led_on =
     \<lparr>m_name = ''led_on'', m_params = [],
      m_function = 11, m_form = [], m_form_ret = [],
      m_result = Discarded\<rparr>"

definition BrickletAccelerometer_led_off :: dev_method where
  "BrickletAccelerometer_led_off =
     \<lparr>m_name = ''led_off'', m_params = [],
      m_function = 12, m_form = [], m_form_ret = [],
      m_result = Discarded\<rparr>"

definition BrickletAccelerometer_is_led_on :: dev_method where
  "BrickletAccelerometer_is_led_on =
     \<lparr>m_name = ''is_led_on'', m_params = [],
      m_function = 13, m_form = [], m_form_ret = ''B'',
      m_result = Returned\<rparr>"

definition BrickletAccelerometer_get_identity :: dev_method where
  "BrickletAccelerometer_get_identity =
     \<lparr>m_name = ''get_identity'', m_params = [],
      m_function = 255, m_form = [], m_form_ret = ''8s 8s c 3B 3B H'',
      m_result = BrickletAccelerometer_GetIdentity\<rparr>"

definition BrickletAccelerometer :: binding where
  "BrickletAccelerometer =
     \<lparr>b_class = ''BrickletAccelerometer'', b_identifier = 250, b_ids = BrickletAccelerometer_ids,
      b_api_version = (2, 0, 0), b_flags = BrickletAccelerometer_flags, b_formats = BrickletAccelerometer_formats,
      b_methods =
       [BrickletAccelerometer_get_acceleration,
        BrickletAccelerometer_set_acceleration_callback_period,
        BrickletAccelerometer_get_acceleration_callback_period,
        BrickletAccelerometer_set_acceleration_callback_threshold,
        BrickletAccelerometer_get_acceleration_callback_threshold,
        BrickletAccelerometer_set_debounce_period, BrickletAccelerometer_get_debounce_period,
        BrickletAccelerometer_get_temperature, BrickletAccelerometer_set_configuration,
        BrickletAccelerometer_get_configuration, BrickletAccelerometer_led_on,
        BrickletAccelerometer_led_off, BrickletAccelerometer_is_led_on,
        BrickletAccelerometer_get_identity]\<rparr>"

interpretation Accelerometer: device_class BrickletAccelerometer
  by unfold_locales code_simp

section \<open>The class BrickletDistanceIR (\<^verbatim>\<open>bricklet_distance_ir.py\<close>)\<close>

definition BrickletDistanceIR_GetDistanceCallbackThreshold :: shape where
  "BrickletDistanceIR_GetDistanceCallbackThreshold = Named ''DistanceCallbackThreshold''
     [''option'', ''min'', ''max'']"

definition BrickletDistanceIR_GetAnalogValueCallbackThreshold :: shape where
  "BrickletDistanceIR_GetAnalogValueCallbackThreshold = Named ''AnalogValueCallbackThreshold''
     [''option'', ''min'', ''max'']"

definition BrickletDistanceIR_GetIdentity :: shape where
  "BrickletDistanceIR_GetIdentity = Named ''Identity''
     [''uid'', ''connected_uid'', ''position'', ''hardware_version'', ''firmware_version'',
      ''device_identifier'']"

definition BrickletDistanceIR_ids :: "(string \<times> int) list" where
  "BrickletDistanceIR_ids =
     [(''CALLBACK_DISTANCE'', 15), (''CALLBACK_ANALOG_VALUE'', 16),
      (''CALLBACK_DISTANCE_REACHED'', 17), (''CALLBACK_ANALOG_VALUE_REACHED'', 18),
      (''FUNCTION_GET_DISTANCE'', 1), (''FUNCTION_GET_ANALOG_VALUE'', 2),
      (''FUNCTION_SET_SAMPLING_POINT'', 3), (''FUNCTION_GET_SAMPLING_POINT'', 4),
      (''FUNCTION_SET_DISTANCE_CALLBACK_PERIOD'', 5),
      (''FUNCTION_GET_DISTANCE_CALLBACK_PERIOD'', 6),
      (''FUNCTION_SET_ANALOG_VALUE_CALLBACK_PERIOD'', 7),
      (''FUNCTION_GET_ANALOG_VALUE_CALLBACK_PERIOD'', 8),
      (''FUNCTION_SET_DISTANCE_CALLBACK_THRESHOLD'', 9),
      (''FUNCTION_GET_DISTANCE_CALLBACK_THRESHOLD'', 10),
      (''FUNCTION_SET_ANALOG_VALUE_CALLBACK_THRESHOLD'', 11),
      (''FUNCTION_GET_ANALOG_VALUE_CALLBACK_THRESHOLD'', 12),
      (''FUNCTION_SET_DEBOUNCE_PERIOD'', 13), (''FUNCTION_GET_DEBOUNCE_PERIOD'', 14),
      (''FUNCTION_GET_IDENTITY'', 255)]"

definition BrickletDistanceIR_flags :: "(int \<times> resp_flag) list" where
  "BrickletDistanceIR_flags =
     [(1, ALWAYS_TRUE), (2, ALWAYS_TRUE), (3, RE_FALSE), (4, ALWAYS_TRUE), (5, RE_TRUE),
      (6, ALWAYS_TRUE), (7, RE_TRUE), (8, ALWAYS_TRUE), (9, RE_TRUE), (10, ALWAYS_TRUE),
      (11, RE_TRUE), (12, ALWAYS_TRUE), (13, RE_TRUE), (14, ALWAYS_TRUE), (15, ALWAYS_FALSE),
      (16, ALWAYS_FALSE), (17, ALWAYS_FALSE), (18, ALWAYS_FALSE), (255, ALWAYS_TRUE)]"

definition BrickletDistanceIR_formats :: "(int \<times> string) list" where
  "BrickletDistanceIR_formats =
     [(15, ''H''), (16, ''H''), (17, ''H''), (18, ''H'')]"

definition BrickletDistanceIR_get_distance :: dev_method where
  "BrickletDistanceIR_get_distance =
     \<lparr>m_name = ''get_distance'', m_params = [],
      m_function = 1, m_form = [], m_form_ret = ''H'',
      m_result = Returned\<rparr>"

definition BrickletDistanceIR_get_analog_value :: dev_method where
  "BrickletDistanceIR_get_analog_value =
     \<lparr>m_name = ''get_analog_value'', m_params = [],
      m_function = 2, m_form = [], m_form_ret = ''H'',
      m_result = Returned\<rparr>"

definition BrickletDistanceIR_set_sampling_point :: dev_method where
  "BrickletDistanceIR_set_sampling_point =
     \<lparr>m_name = ''set_sampling_point'', m_params = [''position'', ''distance''],
      m_function = 3, m_form = ''B H'', m_form_ret = [],
      m_result = Discarded\<rparr>"

definition BrickletDistanceIR_get_sampling_point :: dev_method where
  "BrickletDistanceIR_get_sampling_point =
     \<lparr>m_name = ''get_sampling_point'', m_params = [''position''],
      m_function = 4, m_form = ''B'', m_form_ret = ''H'',
      m_result = Returned\<rparr>"

definition BrickletDistanceIR_set_distance_callback_period :: dev_method where
  "BrickletDistanceIR_set_distance_callback_period =
     \<lparr>m_name = ''set_distance_callback_period'', m_params = [''period''],
      m_function = 5, m_form = ''I'', m_form_ret = [],
      m_result = Discarded\<rparr>"

definition BrickletDistanceIR_get_distance_callback_period :: dev_method where
  "BrickletDistanceIR_get_distance_callback_period =
     \<lparr>m_name = ''get_distance_callback_period'', m_params = [],
      m_function = 6, m_form = [], m_form_ret = ''I'',
      m_result = Returned\<rparr>"

definition BrickletDistanceIR_set_analog_value_callback_period :: dev_method where
  "BrickletDistanceIR_set_analog_value_callback_period =
     \<lparr>m_name = ''set_analog_value_callback_period'', m_params = [''period''],
      m_function = 7, m_form = ''I'', m_form_ret = [],
      m_result = Discarded\<rparr>"

definition BrickletDistanceIR_get_analog_value_callback_period :: dev_method where
  "BrickletDistanceIR_get_analog_value_callback_period =
     \<lparr>m_name = ''get_analog_value_callback_period'', m_params = [],
      m_function = 8, m_form = [], m_form_ret = ''I'',
      m_result = Returned\<rparr>"

definition BrickletDistanceIR_set_distance_callback_threshold :: dev_method where
  "BrickletDistanceIR_set_distance_callback_threshold =
     \<lparr>m_name = ''set_distance_callback_threshold'', m_params = [''option'', ''min'', ''max''],
      m_function = 9, m_form = ''c h h'', m_form_ret = [],
      m_result = Discarded\<rparr>"

definition BrickletDistanceIR_get_distance_callback_threshold :: dev_method where
  "BrickletDistanceIR_get_distance_callback_threshold =
     \<lparr>m_name = ''get_distance_callback_threshold'', m_params = [],
      m_function = 10, m_form = [], m_form_ret = ''c h h'',
      m_result = BrickletDistanceIR_GetDistanceCallbackThreshold\<rparr>"

definition BrickletDistanceIR_set_analog_value_callback_threshold :: dev_method where
  "BrickletDistanceIR_set_analog_value_callback_threshold =
     \<lparr>m_name = ''set_analog_value_callback_threshold'', m_params = [''option'', ''min'', ''max''],
      m_function = 11, m_form = ''c H H'', m_form_ret = [],
      m_result = Discarded\<rparr>"

definition BrickletDistanceIR_get_analog_value_callback_threshold :: dev_method where
  "BrickletDistanceIR_get_analog_value_callback_threshold =
     \<lparr>m_name = ''get_analog_value_callback_threshold'', m_params = [],
      m_function = 12, m_form = [], m_form_ret = ''c H H'',
      m_result = BrickletDistanceIR_GetAnalogValueCallbackThreshold\<rparr>"

definition BrickletDistanceIR_set_debounce_period :: dev_method where
  "BrickletDistanceIR_set_debounce_period =
     \<lparr>m_name = ''set_debounce_period'', m_params = [''debounce''],
      m_function = 13, m_form = ''I'', m_form_ret = [],
      m_result = Discarded\<rparr>"

definition BrickletDistanceIR_get_debounce_period :: dev_method where
  "BrickletDistanceIR_get_debounce_period =
     \<lparr>m_name = ''get_debounce_period'', m_params = [],
      m_function = 14, m_form = [], m_form_ret = ''I'',
      m_result = Returned\<rparr>"

definition BrickletDistanceIR_get_identity :: dev_method where
  "BrickletDistanceIR_get_identity =
     \<lparr>m_name = ''get_identity'', m_params = [],
      m_function = 255, m_form = [], m_form_ret = ''8s 8s c 3B 3B H'',
      m_result = BrickletDistanceIR_GetIdentity\<rparr>"

definition BrickletDistanceIR :: binding where
  "BrickletDistanceIR =
     \<lparr>b_class = ''BrickletDistanceIR'', b_identifier = 25, b_ids = BrickletDistanceIR_ids,
      b_api_version = (2, 0, 0), b_flags = BrickletDistanceIR_flags, b_formats = BrickletDistanceIR_formats,
      b_methods =
       [BrickletDistanceIR_get_distance, BrickletDistanceIR_get_analog_value,
        BrickletDistanceIR_set_sampling_point, BrickletDistanceIR_get_sampling_point,
        BrickletDistanceIR_set_distance_callback_period,
        BrickletDistanceIR_get_distance_callback_period,
        BrickletDistanceIR_set_analog_value_callback_period,
        BrickletDistanceIR_get_analog_value_callback_period,
        BrickletDistanceIR_set_distance_callback_threshold,
        BrickletDistanceIR_get_distance_callback_threshold,
        BrickletDistanceIR_set_analog_value_callback_threshold,
        BrickletDistanceIR_get_analog_value_callback_threshold,
        BrickletDistanceIR_set_debounce_period, BrickletDistanceIR_get_debounce_period,
        BrickletDistanceIR_get_identity]\<rparr>"

interpretation DistanceIR: device_class BrickletDistanceIR
  by unfold_locales code_simp

section \<open>The class BrickletDistanceUS (\<^verbatim>\<open>bricklet_distance_us.py\<close>)\<close>

definition BrickletDistanceUS_GetDistanceCallbackThreshold :: shape where
  "BrickletDistanceUS_GetDistanceCallbackThreshold = Named ''DistanceCallbackThreshold''
     [''option'', ''min'', ''max'']"

definition BrickletDistanceUS_GetIdentity :: shape where
  "BrickletDistanceUS_GetIdentity = Named ''Identity''
     [''uid'', ''connected_uid'', ''position'', ''hardware_version'', ''firmware_version'',
      ''device_identifier'']"

definition BrickletDistanceUS_ids :: "(string \<times> int) list" where
  "BrickletDistanceUS_ids =
     [(''CALLBACK_DISTANCE'', 8), (''CALLBACK_DISTANCE_REACHED'', 9),
      (''FUNCTION_GET_DISTANCE_VALUE'', 1), (''FUNCTION_SET_DISTANCE_CALLBACK_PERIOD'', 2),
      (''FUNCTION_GET_DISTANCE_CALLBACK_PERIOD'', 3),
      (''FUNCTION_SET_DISTANCE_CALLBACK_THRESHOLD'', 4),
      (''FUNCTION_GET_DISTANCE_CALLBACK_THRESHOLD'', 5), (''FUNCTION_SET_DEBOUNCE_PERIOD'', 6),
      (''FUNCTION_GET_DEBOUNCE_PERIOD'', 7), (''FUNCTION_SET_MOVING_AVERAGE'', 10),
      (''FUNCTION_GET_MOVING_AVERAGE'', 11), (''FUNCTION_GET_IDENTITY'', 255)]"

definition BrickletDistanceUS_flags :: "(int \<times> resp_flag) list" where
  "BrickletDistanceUS_flags =
     [(1, ALWAYS_TRUE), (2, RE_TRUE), (3, ALWAYS_TRUE), (4, RE_TRUE), (5, ALWAYS_TRUE),
      (6, RE_TRUE), (7, ALWAYS_TRUE), (8, ALWAYS_FALSE), (9, ALWAYS_FALSE), (10, RE_FALSE),
      (11, ALWAYS_TRUE), (255, ALWAYS_TRUE)]"

definition BrickletDistanceUS_formats :: "(int \<times> string) list" where
  "BrickletDistanceUS_formats =
     [(8, ''H''), (9, ''H'')]"

definition BrickletDistanceUS_get_distance_value :: dev_method where
  "BrickletDistanceUS_get_distance_value =
     \<lparr>m_name = ''get_distance_value'', m_params = [],
      m_function = 1, m_form = [], m_form_ret = ''H'',
      m_result = Returned\<rparr>"

definition BrickletDistanceUS_set_distance_callback_period :: dev_method where
  "BrickletDistanceUS_set_distance_callback_period =
     \<lparr>m_name = ''set_distance_callback_period'', m_params = [''period''],
      m_function = 2, m_form = ''I'', m_form_ret = [],
      m_result = Discarded\<rparr>"

definition BrickletDistanceUS_get_distance_callback_period :: dev_method where
  "BrickletDistanceUS_get_distance_callback_period =
     \<lparr>m_name = ''get_distance_callback_period'', m_params = [],
      m_function = 3, m_form = [], m_form_ret = ''I'',
      m_result = Returned\<rparr>"

definition BrickletDistanceUS_set_distance_callback_threshold :: dev_method where
  "BrickletDistanceUS_set_distance_callback_threshold =
     \<lparr>m_name = ''set_distance_callback_threshold'', m_params = [''option'', ''min'', ''max''],
      m_function = 4, m_form = ''c h h'', m_form_ret = [],
      m_result = Discarded\<rparr>"

definition BrickletDistanceUS_get_distance_callback_threshold :: dev_method where
  "BrickletDistanceUS_get_distance_callback_threshold =
     \<lparr>m_name = ''get_distance_callback_threshold'', m_params = [],
      m_function = 5, m_form = [], m_form_ret = ''c h h'',
      m_result = BrickletDistanceUS_GetDistanceCallbackThreshold\<rparr>"

definition BrickletDistanceUS_set_debounce_period :: dev_method where
  "BrickletDistanceUS_set_debounce_period =
     \<lparr>m_name = ''set_debounce_period'', m_params = [''debounce''],
      m_function = 6, m_form = ''I'', m_form_ret = [],
      m_result = Discarded\<rparr>"

definition BrickletDistanceUS_get_debounce_period :: dev_method where
  "BrickletDistanceUS_get_debounce_period =
     \<lparr>m_name = ''get_debounce_period'', m_params = [],
      m_function = 7, m_form = [], m_form_ret = ''I'',
      m_result = Returned\<rparr>"

definition BrickletDistanceUS_set_moving_average :: dev_method where
  "BrickletDistanceUS_set_moving_average =
     \<lparr>m_name = ''set_moving_average'', m_params = [''average''],
      m_function = 10, m_form = ''B'', m_form_ret = [],
      m_result = Discarded\<rparr>"

definition BrickletDistanceUS_get_moving_average :: dev_method where
  "BrickletDistanceUS_get_moving_average =
     \<lparr>m_name = ''get_moving_average'', m_params = [],
      m_function = 11, m_form = [], m_form_ret = ''B'',
      m_result = Returned\<rparr>"

definition BrickletDistanceUS_get_identity :: dev_method where
  "BrickletDistanceUS_get_identity =
     \<lparr>m_name = ''get_identity'', m_params = [],
      m_function = 255, m_form = [], m_form_ret = ''8s 8s c 3B 3B H'',
      m_result = BrickletDistanceUS_GetIdentity\<rparr>"

definition BrickletDistanceUS :: binding where
  "BrickletDistanceUS =
     \<lparr>b_class = ''BrickletDistanceUS'', b_identifier = 229, b_ids = BrickletDistanceUS_ids,
      b_api_version = (2, 0, 0), b_flags = BrickletDistanceUS_flags, b_formats = BrickletDistanceUS_formats,
      b_methods =
       [BrickletDistanceUS_get_distance_value, BrickletDistanceUS_set_distance_callback_period,
        BrickletDistanceUS_get_distance_callback_period,
        BrickletDistanceUS_set_distance_callback_threshold,
        BrickletDistanceUS_get_distance_callback_threshold, BrickletDistanceUS_set_debounce_period,
        BrickletDistanceUS_get_debounce_period, BrickletDistanceUS_set_moving_average,
        BrickletDistanceUS_get_moving_average, BrickletDistanceUS_get_identity]\<rparr>"

interpretation DistanceUS: device_class BrickletDistanceUS
  by unfold_locales code_simp

section \<open>The class BrickletGPS (\<^verbatim>\<open>bricklet_gps.py\<close>)\<close>

definition BrickletGPS_GetCoordinates :: shape where
  "BrickletGPS_GetCoordinates = Named ''Coordinates''
     [''latitude'', ''ns'', ''longitude'', ''ew'', ''pdop'', ''hdop'', ''vdop'', ''epe'']"

definition BrickletGPS_GetStatus :: shape where
  "BrickletGPS_GetStatus = Named ''Status''
     [''fix'', ''satellites_view'', ''satellites_used'']"

definition BrickletGPS_GetAltitude :: shape where
  "BrickletGPS_GetAltitude = Named ''Altitude''
     [''altitude'', ''geoidal_separation'']"

definition BrickletGPS_GetMotion :: shape where
  "BrickletGPS_GetMotion = Named ''Motion''
     [''course'', ''speed'']"

definition BrickletGPS_GetDateTime :: shape where
  "BrickletGPS_GetDateTime = Named ''DateTime''
     [''date'', ''time'']"

definition BrickletGPS_GetIdentity :: shape where
  "BrickletGPS_GetIdentity = Named ''Identity''
     [''uid'', ''connected_uid'', ''position'', ''hardware_version'', ''firmware_version'',
      ''device_identifier'']"

definition BrickletGPS_ids :: "(string \<times> int) list" where
  "BrickletGPS_ids =
     [(''CALLBACK_COORDINATES'', 17), (''CALLBACK_STATUS'', 18), (''CALLBACK_ALTITUDE'', 19),
      (''CALLBACK_MOTION'', 20), (''CALLBACK_DATE_TIME'', 21), (''FUNCTION_GET_COORDINATES'', 1),
      (''FUNCTION_GET_STATUS'', 2), (''FUNCTION_GET_ALTITUDE'', 3), (''FUNCTION_GET_MOTION'', 4),
      (''FUNCTION_GET_DATE_TIME'', 5), (''FUNCTION_RESTART'', 6),
      (''FUNCTION_SET_COORDINATES_CALLBACK_PERIOD'', 7),
      (''FUNCTION_GET_COORDINATES_CALLBACK_PERIOD'', 8),
      (''FUNCTION_SET_STATUS_CALLBACK_PERIOD'', 9), (''FUNCTION_GET_STATUS_CALLBACK_PERIOD'', 10),
      (''FUNCTION_SET_ALTITUDE_CALLBACK_PERIOD'', 11),
      (''FUNCTION_GET_ALTITUDE_CALLBACK_PERIOD'', 12),
      (''FUNCTION_SET_MOTION_CALLBACK_PERIOD'', 13), (''FUNCTION_GET_MOTION_CALLBACK_PERIOD'', 14),
      (''FUNCTION_SET_DATE_TIME_CALLBACK_PERIOD'', 15),
      (''FUNCTION_GET_DATE_TIME_CALLBACK_PERIOD'', 16), (''FUNCTION_GET_IDENTITY'', 255)]"

definition BrickletGPS_flags :: "(int \<times> resp_flag) list" where
  "BrickletGPS_flags =
     [(1, ALWAYS_TRUE), (2, ALWAYS_TRUE), (3, ALWAYS_TRUE), (4, ALWAYS_TRUE), (5, ALWAYS_TRUE),
      (6, RE_FALSE), (7, RE_TRUE), (8, ALWAYS_TRUE), (9, RE_TRUE), (10, ALWAYS_TRUE),
      (11, RE_TRUE), (12, ALWAYS_TRUE), (13, RE_TRUE), (14, ALWAYS_TRUE), (15, RE_TRUE),
      (16, ALWAYS_TRUE), (17, ALWAYS_FALSE), (18, ALWAYS_FALSE), (19, ALWAYS_FALSE),
      (20, ALWAYS_FALSE), (21, ALWAYS_FALSE), (255, ALWAYS_TRUE)]"

definition BrickletGPS_formats :: "(int \<times> string) list" where
  "BrickletGPS_formats =
     [(17, ''I c I c H H H H''), (18, ''B B B''), (19, ''I I''), (20, ''I I''), (21, ''I I'')]"

definition BrickletGPS_get_coordinates :: dev_method where
  "BrickletGPS_get_coordinates =
     \<lparr>m_name = ''get_coordinates'', m_params = [],
      m_function = 1, m_form = [], m_form_ret = ''I c I c H H H H'',
      m_result = BrickletGPS_GetCoordinates\<rparr>"

definition BrickletGPS_get_status :: dev_method where
  "BrickletGPS_get_status =
     \<lparr>m_name = ''get_status'', m_params = [],
      m_function = 2, m_form = [], m_form_ret = ''B B B'',
      m_result = BrickletGPS_GetStatus\<rparr>"

definition BrickletGPS_get_altitude :: dev_method where
  "BrickletGPS_get_altitude =
     \<lparr>m_name = ''get_altitude'', m_params = [],
      m_function = 3, m_form = [], m_form_ret = ''I I'',
      m_result = BrickletGPS_GetAltitude\<rparr>"

definition BrickletGPS_get_motion :: dev_method where
  "BrickletGPS_get_motion =
     \<lparr>m_name = ''get_motion'', m_params = [],
      m_function = 4, m_form = [], m_form_ret = ''I I'',
      m_result = BrickletGPS_GetMotion\<rparr>"

definition BrickletGPS_get_date_time :: dev_method where
  "BrickletGPS_get_date_time =
     \<lparr>m_name = ''get_date_time'', m_params = [],
      m_function = 5, m_form = [], m_form_ret = ''I I'',
      m_result = BrickletGPS_GetDateTime\<rparr>"

definition BrickletGPS_restart :: dev_method where
  "BrickletGPS_restart =
     \<lparr>m_name = ''restart'', m_params = [''restart_type''],
      m_function = 6, m_form = ''B'', m_form_ret = [],
      m_result = Discarded\<rparr>"

definition BrickletGPS_set_coordinates_callback_period :: dev_method where
  "BrickletGPS_set_coordinates_callback_period =
     \<lparr>m_name = ''set_coordinates_callback_period'', m_params = [''period''],
      m_function = 7, m_form = ''I'', m_form_ret = [],
      m_result = Discarded\<rparr>"

definition BrickletGPS_get_coordinates_callback_period :: dev_method where
  "BrickletGPS_get_coordinates_callback_period =
     \<lparr>m_name = ''get_coordinates_callback_period'', m_params = [],
      m_function = 8, m_form = [], m_form_ret = ''I'',
      m_result = Returned\<rparr>"

definition BrickletGPS_set_status_callback_period :: dev_method where
  "BrickletGPS_set_status_callback_period =
     \<lparr>m_name = ''set_status_callback_period'', m_params = [''period''],
      m_function = 9, m_form = ''I'', m_form_ret = [],
      m_result = Discarded\<rparr>"

definition BrickletGPS_get_status_callback_period :: dev_method where
  "BrickletGPS_get_status_callback_period =
     \<lparr>m_name = ''get_status_callback_period'', m_params = [],
      m_function = 10, m_form = [], m_form_ret = ''I'',
      m_result = Returned\<rparr>"

definition BrickletGPS_set_altitude_callback_period :: dev_method where
  "BrickletGPS_set_altitude_callback_period =
     \<lparr>m_name = ''set_altitude_callback_period'', m_params = [''period''],
      m_function = 11, m_form = ''I'', m_form_ret = [],
      m_result = Discarded\<rparr>"

definition BrickletGPS_get_altitude_callback_period :: dev_method where
  "BrickletGPS_get_altitude_callback_period =
     \<lparr>m_name = ''get_altitude_callback_period'', m_params = [],
      m_function = 12, m_form = [], m_form_ret = ''I'',
      m_result = Returned\<rparr>"

definition BrickletGPS_set_motion_callback_period :: dev_method where
  "BrickletGPS_set_motion_callback_period =
     \<lparr>m_name = ''set_motion_callback_period'', m_params = [''period''],
      m_function = 13, m_form = ''I'', m_form_ret = [],
      m_result = Discarded\<rparr>"

definition BrickletGPS_get_motion_callback_period :: dev_method where
  "BrickletGPS_get_motion_callback_period =
     \<lparr>m_name = ''get_motion_callback_period'', m_params = [],
      m_function = 14, m_form = [], m_form_ret = ''I'',
      m_result = Returned\<rparr>"

definition BrickletGPS_set_date_time_callback_period :: dev_method where
  "BrickletGPS_set_date_time_callback_period =
     \<lparr>m_name = ''set_date_time_callback_period'', m_params = [''period''],
      m_function = 15, m_form = ''I'', m_form_ret = [],
      m_result = Discarded\<rparr>"

definition BrickletGPS_get_date_time_callback_period :: dev_method where
  "BrickletGPS_get_date_time_callback_period =
     \<lparr>m_name = ''get_date_time_callback_period'', m_params = [],
      m_function = 16, m_form = [], m_form_ret = ''I'',
      m_result = Returned\<rparr>"

definition BrickletGPS_get_identity :: dev_method where
  "BrickletGPS_get_identity =
     \<lparr>m_name = ''get_identity'', m_params = [],
      m_function = 255, m_form = [], m_form_ret = ''8s 8s c 3B 3B H'',
      m_result = BrickletGPS_GetIdentity\<rparr>"

definition BrickletGPS :: binding where
  "BrickletGPS =
     \<lparr>b_class = ''BrickletGPS'', b_identifier = 222, b_ids = BrickletGPS_ids,
      b_api_version = (2, 0, 0), b_flags = BrickletGPS_flags, b_formats = BrickletGPS_formats,
      b_methods =
       [BrickletGPS_get_coordinates, BrickletGPS_get_status, BrickletGPS_get_altitude,
        BrickletGPS_get_motion, BrickletGPS_get_date_time, BrickletGPS_restart,
        BrickletGPS_set_coordinates_callback_period, BrickletGPS_get_coordinates_callback_period,
        BrickletGPS_set_status_callback_period, BrickletGPS_get_status_callback_period,
        BrickletGPS_set_altitude_callback_period, BrickletGPS_get_altitude_callback_period,
        BrickletGPS_set_motion_callback_period, BrickletGPS_get_motion_callback_period,
        BrickletGPS_set_date_time_callback_period, BrickletGPS_get_date_time_callback_period,
        BrickletGPS_get_identity]\<rparr>"

interpretation GPS: device_class BrickletGPS
  by unfold_locales code_simp

section \<open>The class BrickletHallEffect (\<^verbatim>\<open>bricklet_hall_effect.py\<close>)\<close>

definition BrickletHallEffect_GetEdgeCountConfig :: shape where
  "BrickletHallEffect_GetEdgeCountConfig = Named ''EdgeCountConfig''
     [''edge_type'', ''debounce'']"

definition BrickletHallEffect_EdgeInterrupt :: shape where
  "BrickletHallEffect_EdgeInterrupt = Named ''EdgeInterrupt''
     [''count'', ''value'']"

definition BrickletHallEffect_GetIdentity :: shape where
  "BrickletHallEffect_GetIdentity = Named ''Identity''
     [''uid'', ''connected_uid'', ''position'', ''hardware_version'', ''firmware_version'',
      ''device_identifier'']"

definition BrickletHallEffect_ids :: "(string \<times> int) list" where
  "BrickletHallEffect_ids =
     [(''CALLBACK_EDGE_COUNT'', 10), (''FUNCTION_GET_VALUE'', 1), (''FUNCTION_GET_EDGE_COUNT'', 2),
      (''FUNCTION_SET_EDGE_COUNT_CONFIG'', 3), (''FUNCTION_GET_EDGE_COUNT_CONFIG'', 4),
      (''FUNCTION_SET_EDGE_INTERRUPT'', 5), (''FUNCTION_GET_EDGE_INTERRUPT'', 6),
      (''FUNCTION_SET_EDGE_COUNT_CALLBACK_PERIOD'', 7),
      (''FUNCTION_GET_EDGE_COUNT_CALLBACK_PERIOD'', 8), (''FUNCTION_EDGE_INTERRUPT'', 9),
      (''FUNCTION_GET_IDENTITY'', 255)]"

definition BrickletHallEffect_flags :: "(int \<times> resp_flag) list" where
  "BrickletHallEffect_flags =
     [(1, ALWAYS_TRUE), (2, ALWAYS_TRUE), (3, RE_FALSE), (4, ALWAYS_TRUE), (5, RE_TRUE),
      (6, ALWAYS_TRUE), (7, RE_TRUE), (8, ALWAYS_TRUE), (9, ALWAYS_TRUE), (10, ALWAYS_FALSE),
      (255, ALWAYS_TRUE)]"

definition BrickletHallEffect_formats :: "(int \<times> string) list" where
  "BrickletHallEffect_formats =
     [(10, ''I ?'')]"

definition BrickletHallEffect_get_value :: dev_method where
  "BrickletHallEffect_get_value =
     \<lparr>m_name = ''get_value'', m_params = [],
      m_function = 1, m_form = [], m_form_ret = ''?'',
      m_result = Returned\<rparr>"

definition BrickletHallEffect_get_edge_count :: dev_method where
  "BrickletHallEffect_get_edge_count =
     \<lparr>m_name = ''get_edge_count'', m_params = [''reset_counter''],
      m_function = 2, m_form = ''?'', m_form_ret = ''I'',
      m_result = Returned\<rparr>"

definition BrickletHallEffect_set_edge_count_config :: dev_method where
  "BrickletHallEffect_set_edge_count_config =
     \<lparr>m_name = ''set_edge_count_config'', m_params = [''edge_type'', ''debounce''],
      m_function = 3, m_form = ''B B'', m_form_ret = [],
      m_result = Discarded\<rparr>"

definition BrickletHallEffect_get_edge_count_config :: dev_method where
  "BrickletHallEffect_get_edge_count_config =
     \<lparr>m_name = ''get_edge_count_config'', m_params = [],
      m_function = 4, m_form = [], m_form_ret = ''B B'',
      m_result = BrickletHallEffect_GetEdgeCountConfig\<rparr>"

definition BrickletHallEffect_set_edge_interrupt :: dev_method where
  "BrickletHallEffect_set_edge_interrupt =
     \<lparr>m_name = ''set_edge_interrupt'', m_params = [''edges''],
      m_function = 5, m_form = ''I'', m_form_ret = [],
      m_result = Discarded\<rparr>"

definition BrickletHallEffect_get_edge_interrupt :: dev_method where
  "BrickletHallEffect_get_edge_interrupt =
     \<lparr>m_name = ''get_edge_interrupt'', m_params = [],
      m_function = 6, m_form = [], m_form_ret = ''I'',
      m_result = Returned\<rparr>"

definition BrickletHallEffect_set_edge_count_callback_period :: dev_method where
  "BrickletHallEffect_set_edge_count_callback_period =
     \<lparr>m_name = ''set_edge_count_callback_period'', m_params = [''period''],
      m_function = 7, m_form = ''I'', m_form_ret = [],
      m_result = Discarded\<rparr>"

definition BrickletHallEffect_get_edge_count_callback_period :: dev_method where
  "BrickletHallEffect_get_edge_count_callback_period =
     \<lparr>m_name = ''get_edge_count_callback_period'', m_params = [],
      m_function = 8, m_form = [], m_form_ret = ''I'',
      m_result = Returned\<rparr>"

definition BrickletHallEffect_edge_interrupt :: dev_method where
  "BrickletHallEffect_edge_interrupt =
     \<lparr>m_name = ''edge_interrupt'', m_params = [],
      m_function = 9, m_form = [], m_form_ret = ''I ?'',
      m_result = BrickletHallEffect_EdgeInterrupt\<rparr>"

definition BrickletHallEffect_get_identity :: dev_method where
  "BrickletHallEffect_get_identity =
     \<lparr>m_name = ''get_identity'', m_params = [],
      m_function = 255, m_form = [], m_form_ret = ''8s 8s c 3B 3B H'',
      m_result = BrickletHallEffect_GetIdentity\<rparr>"

definition BrickletHallEffect :: binding where
  "BrickletHallEffect =
     \<lparr>b_class = ''BrickletHallEffect'', b_identifier = 240, b_ids = BrickletHallEffect_ids,
      b_api_version = (2, 0, 0), b_flags = BrickletHallEffect_flags, b_formats = BrickletHallEffect_formats,
      b_methods =
       [BrickletHallEffect_get_value, BrickletHallEffect_get_edge_count,
        BrickletHallEffect_set_edge_count_config, BrickletHallEffect_get_edge_count_config,
        BrickletHallEffect_set_edge_interrupt, BrickletHallEffect_get_edge_interrupt,
        BrickletHallEffect_set_edge_count_callback_period,
        BrickletHallEffect_get_edge_count_callback_period, BrickletHallEffect_edge_interrupt,
        BrickletHallEffect_get_identity]\<rparr>"

interpretation HallEffect: device_class BrickletHallEffect
  by unfold_locales code_simp

section \<open>The class BrickletJoystick (\<^verbatim>\<open>bricklet_joystick.py\<close>)\<close>

definition BrickletJoystick_GetPosition :: shape where
  "BrickletJoystick_GetPosition = Named ''Position''
     [''x'', ''y'']"

definition BrickletJoystick_GetAnalogValue :: shape where
  "BrickletJoystick_GetAnalogValue = Named ''AnalogValue''
     [''x'', ''y'']"

definition BrickletJoystick_GetPositionCallbackThreshold :: shape where
  "BrickletJoystick_GetPositionCallbackThreshold = Named ''PositionCallbackThreshold''
     [''option'', ''min_x'', ''max_x'', ''min_y'', ''max_y'']"

definition BrickletJoystick_GetAnalogValueCallbackThreshold :: shape where
  "BrickletJoystick_GetAnalogValueCallbackThreshold = Named ''AnalogValueCallbackThreshold''
     [''option'', ''min_x'', ''max_x'', ''min_y'', ''max_y'']"

definition BrickletJoystick_GetIdentity :: shape where
  "BrickletJoystick_GetIdentity = Named ''Identity''
     [''uid'', ''connected_uid'', ''position'', ''hardware_version'', ''firmware_version'',
      ''device_identifier'']"

definition BrickletJoystick_ids :: "(string \<times> int) list" where
  "BrickletJoystick_ids =
     [(''CALLBACK_POSITION'', 15), (''CALLBACK_ANALOG_VALUE'', 16),
      (''CALLBACK_POSITION_REACHED'', 17), (''CALLBACK_ANALOG_VALUE_REACHED'', 18),
      (''CALLBACK_PRESSED'', 19), (''CALLBACK_RELEASED'', 20), (''FUNCTION_GET_POSITION'', 1),
      (''FUNCTION_IS_PRESSED'', 2), (''FUNCTION_GET_ANALOG_VALUE'', 3),
      (''FUNCTION_CALIBRATE'', 4), (''FUNCTION_SET_POSITION_CALLBACK_PERIOD'', 5),
      (''FUNCTION_GET_POSITION_CALLBACK_PERIOD'', 6),
      (''FUNCTION_SET_ANALOG_VALUE_CALLBACK_PERIOD'', 7),
      (''FUNCTION_GET_ANALOG_VALUE_CALLBACK_PERIOD'', 8),
      (''FUNCTION_SET_POSITION_CALLBACK_THRESHOLD'', 9),
      (''FUNCTION_GET_POSITION_CALLBACK_THRESHOLD'', 10),
      (''FUNCTION_SET_ANALOG_VALUE_CALLBACK_THRESHOLD'', 11),
      (''FUNCTION_GET_ANALOG_VALUE_CALLBACK_THRESHOLD'', 12),
      (''FUNCTION_SET_DEBOUNCE_PERIOD'', 13), (''FUNCTION_GET_DEBOUNCE_PERIOD'', 14),
      (''FUNCTION_GET_IDENTITY'', 255)]"

definition BrickletJoystick_flags :: "(int \<times> resp_flag) list" where
  "BrickletJoystick_flags =
     [(1, ALWAYS_TRUE), (2, ALWAYS_TRUE), (3, ALWAYS_TRUE), (4, RE_FALSE), (5, RE_TRUE),
      (6, ALWAYS_TRUE), (7, RE_TRUE), (8, ALWAYS_TRUE), (9, RE_TRUE), (10, ALWAYS_TRUE),
      (11, RE_TRUE), (12, ALWAYS_TRUE), (13, RE_TRUE), (14, ALWAYS_TRUE), (15, ALWAYS_FALSE),
      (16, ALWAYS_FALSE), (17, ALWAYS_FALSE), (18, ALWAYS_FALSE), (19, ALWAYS_FALSE),
      (20, ALWAYS_FALSE), (255, ALWAYS_TRUE)]"

definition BrickletJoystick_formats :: "(int \<times> string) list" where
  "BrickletJoystick_formats =
     [(15, ''h h''), (16, ''H H''), (17, ''h h''), (18, ''H H''), (19, []), (20, [])]"

definition BrickletJoystick_get_position :: dev_method where
  "BrickletJoystick_get_position =
     \<lparr>m_name = ''get_position'', m_params = [],
      m_function = 1, m_form = [], m_form_ret = ''h h'',
      m_result = BrickletJoystick_GetPosition\<rparr>"

definition BrickletJoystick_is_pressed :: dev_method where
  "BrickletJoystick_is_pressed =
     \<lparr>m_name = ''is_pressed'', m_params = [],
      m_function = 2, m_form = [], m_form_ret = ''?'',
      m_result = Returned\<rparr>"

definition BrickletJoystick_get_analog_value :: dev_method where
  "BrickletJoystick_get_analog_value =
     \<lparr>m_name = ''get_analog_value'', m_params = [],
      m_function = 3, m_form = [], m_form_ret = ''H H'',
      m_result = BrickletJoystick_GetAnalogValue\<rparr>"

definition BrickletJoystick_calibrate :: dev_method where
  "BrickletJoystick_calibrate =
     \<lparr>m_name = ''calibrate'', m_params = [],
      m_function = 4, m_form = [], m_form_ret = [],
      m_result = Discarded\<rparr>"

definition BrickletJoystick_set_position_callback_period :: dev_method where
  "BrickletJoystick_set_position_callback_period =
     \<lparr>m_name = ''set_position_callback_period'', m_params = [''period''],
      m_function = 5, m_form = ''I'', m_form_ret = [],
      m_result = Discarded\<rparr>"

definition BrickletJoystick_get_position_callback_period :: dev_method where
  "BrickletJoystick_get_position_callback_period =
     \<lparr>m_name = ''get_position_callback_period'', m_params = [],
      m_function = 6, m_form = [], m_form_ret = ''I'',
      m_result = Returned\<rparr>"

definition BrickletJoystick_set_analog_value_callback_period :: dev_method where
  "BrickletJoystick_set_analog_value_callback_period =
     \<lparr>m_name = ''set_analog_value_callback_period'', m_params = [''period''],
      m_function = 7, m_form = ''I'', m_form_ret = [],
      m_result = Discarded\<rparr>"

definition BrickletJoystick_get_analog_value_callback_period :: dev_method where
  "BrickletJoystick_get_analog_value_callback_period =
     \<lparr>m_name = ''get_analog_value_callback_period'', m_params = [],
      m_function = 8, m_form = [], m_form_ret = ''I'',
      m_result = Returned\<rparr>"

definition BrickletJoystick_set_position_callback_threshold :: dev_method where
  "BrickletJoystick_set_position_callback_threshold =
     \<lparr>m_name = ''set_position_callback_threshold'', m_params = [''option'', ''min_x'', ''max_x'', ''min_y'', ''max_y''],
      m_function = 9, m_form = ''c h h h h'', m_form_ret = [],
      m_result = Discarded\<rparr>"

definition BrickletJoystick_get_position_callback_threshold :: dev_method where
  "BrickletJoystick_get_position_callback_threshold =
     \<lparr>m_name = ''get_position_callback_threshold'', m_params = [],
      m_function = 10, m_form = [], m_form_ret = ''c h h h h'',
      m_result = BrickletJoystick_GetPositionCallbackThreshold\<rparr>"

definition BrickletJoystick_set_analog_value_callback_threshold :: dev_method where
  "BrickletJoystick_set_analog_value_callback_threshold =
     \<lparr>m_name = ''set_analog_value_callback_threshold'', m_params = [''option'', ''min_x'', ''max_x'', ''min_y'', ''max_y''],
      m_function = 11, m_form = ''c H H H H'', m_form_ret = [],
      m_result = Discarded\<rparr>"

definition BrickletJoystick_get_analog_value_callback_threshold :: dev_method where
  "BrickletJoystick_get_analog_value_callback_threshold =
     \<lparr>m_name = ''get_analog_value_callback_threshold'', m_params = [],
      m_function = 12, m_form = [], m_form_ret = ''c H H H H'',
      m_result = BrickletJoystick_GetAnalogValueCallbackThreshold\<rparr>"

definition BrickletJoystick_set_debounce_period :: dev_method where
  "BrickletJoystick_set_debounce_period =
     \<lparr>m_name = ''set_debounce_period'', m_params = [''debounce''],
      m_function = 13, m_form = ''I'', m_form_ret = [],
      m_result = Discarded\<rparr>"

definition BrickletJoystick_get_debounce_period :: dev_method where
  "BrickletJoystick_get_debounce_period =
     \<lparr>m_name = ''get_debounce_period'', m_params = [],
      m_function = 14, m_form = [], m_form_ret = ''I'',
      m_result = Returned\<rparr>"

definition BrickletJoystick_get_identity :: dev_method where
  "BrickletJoystick_get_identity =
     \<lparr>m_name = ''get_identity'', m_params = [],
      m_function = 255, m_form = [], m_form_ret = ''8s 8s c 3B 3B H'',
      m_result = BrickletJoystick_GetIdentity\<rparr>"

definition BrickletJoystick :: binding where
  "BrickletJoystick =
     \<lparr>b_class = ''BrickletJoystick'', b_identifier = 210, b_ids = BrickletJoystick_ids,
      b_api_version = (2, 0, 0), b_flags = BrickletJoystick_flags, b_formats = BrickletJoystick_formats,
      b_methods =
       [BrickletJoystick_get_position, BrickletJoystick_is_pressed,
        BrickletJoystick_get_analog_value, BrickletJoystick_calibrate,
        BrickletJoystick_set_position_callback_period,
        BrickletJoystick_get_position_callback_period,
        BrickletJoystick_set_analog_value_callback_period,
        BrickletJoystick_get_analog_value_callback_period,
        BrickletJoystick_set_position_callback_threshold,
        BrickletJoystick_get_position_callback_threshold,
        BrickletJoystick_set_analog_value_callback_threshold,
        BrickletJoystick_get_analog_value_callback_threshold, BrickletJoystick_set_debounce_period,
        BrickletJoystick_get_debounce_period, BrickletJoystick_get_identity]\<rparr>"

interpretation Joystick: device_class BrickletJoystick
  by unfold_locales code_simp

section \<open>The class BrickletLaserRangeFinder (\<^verbatim>\<open>bricklet_laser_range_finder.py\<close>)\<close>

definition BrickletLaserRangeFinder_GetDistanceCallbackThreshold :: shape where
  "BrickletLaserRangeFinder_GetDistanceCallbackThreshold = Named ''DistanceCallbackThreshold''
     [''option'', ''min'', ''max'']"

definition BrickletLaserRangeFinder_GetVelocityCallbackThreshold :: shape where
  "BrickletLaserRangeFinder_GetVelocityCallbackThreshold = Named ''VelocityCallbackThreshold''
     [''option'', ''min'', ''max'']"

definition BrickletLaserRangeFinder_GetMovingAverage :: shape where
  "BrickletLaserRangeFinder_GetMovingAverage = Named ''MovingAverage''
     [''distance_average_length'', ''velocity_average_length'']"

definition BrickletLaserRangeFinder_GetIdentity :: shape where
  "BrickletLaserRangeFinder_GetIdentity = Named ''Identity''
     [''uid'', ''connected_uid'', ''position'', ''hardware_version'', ''firmware_version'',
      ''device_identifier'']"

definition BrickletLaserRangeFinder_ids :: "(string \<times> int) list" where
  "BrickletLaserRangeFinder_ids =
     [(''CALLBACK_DISTANCE'', 20), (''CALLBACK_VELOCITY'', 21),
      (''CALLBACK_DISTANCE_REACHED'', 22), (''CALLBACK_VELOCITY_REACHED'', 23),
      (''FUNCTION_GET_DISTANCE'', 1), (''FUNCTION_GET_VELOCITY'', 2),
      (''FUNCTION_SET_DISTANCE_CALLBACK_PERIOD'', 3),
      (''FUNCTION_GET_DISTANCE_CALLBACK_PERIOD'', 4),
      (''FUNCTION_SET_VELOCITY_CALLBACK_PERIOD'', 5),
      (''FUNCTION_GET_VELOCITY_CALLBACK_PERIOD'', 6),
      (''FUNCTION_SET_DISTANCE_CALLBACK_THRESHOLD'', 7),
      (''FUNCTION_GET_DISTANCE_CALLBACK_THRESHOLD'', 8),
      (''FUNCTION_SET_VELOCITY_CALLBACK_THRESHOLD'', 9),
      (''FUNCTION_GET_VELOCITY_CALLBACK_THRESHOLD'', 10), (''FUNCTION_SET_DEBOUNCE_PERIOD'', 11),
      (''FUNCTION_GET_DEBOUNCE_PERIOD'', 12), (''FUNCTION_SET_MOVING_AVERAGE'', 13),
      (''FUNCTION_GET_MOVING_AVERAGE'', 14), (''FUNCTION_SET_MODE'', 15),
      (''FUNCTION_GET_MODE'', 16), (''FUNCTION_ENABLE_LASER'', 17),
      (''FUNCTION_DISABLE_LASER'', 18), (''FUNCTION_IS_LASER_ENABLED'', 19),
      (''FUNCTION_GET_IDENTITY'', 255)]"

definition BrickletLaserRangeFinder_flags :: "(int \<times> resp_flag) list" where
  "BrickletLaserRangeFinder_flags =
     [(1, ALWAYS_TRUE), (2, ALWAYS_TRUE), (3, RE_TRUE), (4, ALWAYS_TRUE), (5, RE_TRUE),
      (6, ALWAYS_TRUE), (7, RE_TRUE), (8, ALWAYS_TRUE), (9, RE_TRUE), (10, ALWAYS_TRUE),
      (11, RE_TRUE), (12, ALWAYS_TRUE), (13, RE_FALSE), (14, ALWAYS_TRUE), (15, RE_FALSE),
      (16, ALWAYS_TRUE), (17, RE_FALSE), (18, RE_FALSE), (19, ALWAYS_TRUE), (20, ALWAYS_FALSE),
      (21, ALWAYS_FALSE), (22, ALWAYS_FALSE), (23, ALWAYS_FALSE), (255, ALWAYS_TRUE)]"

definition BrickletLaserRangeFinder_formats :: "(int \<times> string) list" where
  "BrickletLaserRangeFinder_formats =
     [(20, ''H''), (21, ''h''), (22, ''H''), (23, ''h'')]"

definition BrickletLaserRangeFinder_get_distance :: dev_method where
  "BrickletLaserRangeFinder_get_distance =
     \<lparr>m_name = ''get_distance'', m_params = [],
      m_function = 1, m_form = [], m_form_ret = ''H'',
      m_result = Returned\<rparr>"

definition BrickletLaserRangeFinder_get_velocity :: dev_method where
  "BrickletLaserRangeFinder_get_velocity =
     \<lparr>m_name = ''get_velocity'', m_params = [],
      m_function = 2, m_form = [], m_form_ret = ''h'',
      m_result = Returned\<rparr>"

definition BrickletLaserRangeFinder_set_distance_callback_period :: dev_method where
  "BrickletLaserRangeFinder_set_distance_callback_period =
     \<lparr>m_name = ''set_distance_callback_period'', m_params = [''period''],
      m_function = 3, m_form = ''I'', m_form_ret = [],
      m_result = Discarded\<rparr>"

definition BrickletLaserRangeFinder_get_distance_callback_period :: dev_method where
  "BrickletLaserRangeFinder_get_distance_callback_period =
     \<lparr>m_name = ''get_distance_callback_period'', m_params = [],
      m_function = 4, m_form = [], m_form_ret = ''I'',
      m_result = Returned\<rparr>"

definition BrickletLaserRangeFinder_set_velocity_callback_period :: dev_method where
  "BrickletLaserRangeFinder_set_velocity_callback_period =
     \<lparr>m_name = ''set_velocity_callback_period'', m_params = [''period''],
      m_function = 5, m_form = ''I'', m_form_ret = [],
      m_result = Discarded\<rparr>"

definition BrickletLaserRangeFinder_get_velocity_callback_period :: dev_method where
  "BrickletLaserRangeFinder_get_velocity_callback_period =
     \<lparr>m_name = ''get_velocity_callback_period'', m_params = [],
      m_function = 6, m_form = [], m_form_ret = ''I'',
      m_result = Returned\<rparr>"

definition BrickletLaserRangeFinder_set_distance_callback_threshold :: dev_method where
  "BrickletLaserRangeFinder_set_distance_callback_threshold =
     \<lparr>m_name = ''set_distance_callback_threshold'', m_params = [''option'', ''min'', ''max''],
      m_function = 7, m_form = ''c H H'', m_form_ret = [],
      m_result = Discarded\<rparr>"

definition BrickletLaserRangeFinder_get_distance_callback_threshold :: dev_method where
  "BrickletLaserRangeFinder_get_distance_callback_threshold =
     \<lparr>m_name = ''get_distance_callback_threshold'', m_params = [],
      m_function = 8, m_form = [], m_form_ret = ''c H H'',
      m_result = BrickletLaserRangeFinder_GetDistanceCallbackThreshold\<rparr>"

definition BrickletLaserRangeFinder_set_velocity_callback_threshold :: dev_method where
  "BrickletLaserRangeFinder_set_velocity_callback_threshold =
     \<lparr>m_name = ''set_velocity_callback_threshold'', m_params = [''option'', ''min'', ''max''],
      m_function = 9, m_form = ''c h h'', m_form_ret = [],
      m_result = Discarded\<rparr>"

definition BrickletLaserRangeFinder_get_velocity_callback_threshold :: dev_method where
  "BrickletLaserRangeFinder_get_velocity_callback_threshold =
     \<lparr>m_name = ''get_velocity_callback_threshold'', m_params = [],
      m_function = 10, m_form = [], m_form_ret = ''c h h'',
      m_result = BrickletLaserRangeFinder_GetVelocityCallbackThreshold\<rparr>"

definition BrickletLaserRangeFinder_set_debounce_period :: dev_method where
  "BrickletLaserRangeFinder_set_debounce_period =
     \<lparr>m_name = ''set_debounce_period'', m_params = [''debounce''],
      m_function = 11, m_form = ''I'', m_form_ret = [],
      m_result = Discarded\<rparr>"

definition BrickletLaserRangeFinder_get_debounce_period :: dev_method where
  "BrickletLaserRangeFinder_get_debounce_period =
     \<lparr>m_name = ''get_debounce_period'', m_params = [],
      m_function = 12, m_form = [], m_form_ret = ''I'',
      m_result = Returned\<rparr>"

definition BrickletLaserRangeFinder_set_moving_average :: dev_method where
  "BrickletLaserRangeFinder_set_moving_average =
     \<lparr>m_name = ''set_moving_average'', m_params = [''distance_average_length'', ''velocity_average_length''],
      m_function = 13, m_form = ''B B'', m_form_ret = [],
      m_result = Discarded\<rparr>"

definition BrickletLaserRangeFinder_get_moving_average :: dev_method where
  "BrickletLaserRangeFinder_get_moving_average =
     \<lparr>m_name = ''get_moving_average'', m_params = [],
      m_function = 14, m_form = [], m_form_ret = ''B B'',
      m_result = BrickletLaserRangeFinder_GetMovingAverage\<rparr>"

definition BrickletLaserRangeFinder_set_mode :: dev_method where
  "BrickletLaserRangeFinder_set_mode =
     \<lparr>m_name = ''set_mode'', m_params = [''mode''],
      m_function = 15, m_form = ''B'', m_form_ret = [],
      m_result = Discarded\<rparr>"

definition BrickletLaserRangeFinder_get_mode :: dev_method where
  "BrickletLaserRangeFinder_get_mode =
     \<lparr>m_name = ''get_mode'', m_params = [],
      m_function = 16, m_form = [], m_form_ret = ''B'',
      m_result = Returned\<rparr>"

definition BrickletLaserRangeFinder_enable_laser :: dev_method where
  "BrickletLaserRangeFinder_enable_laser =
     \<lparr>m_name = ''enable_laser'', m_params = [],
      m_function = 17, m_form = [], m_form_ret = [],
      m_result = Discarded\<rparr>"

definition BrickletLaserRangeFinder_disable_laser :: dev_method where
  "BrickletLaserRangeFinder_disable_laser =
     \<lparr>m_name = ''disable_laser'', m_params = [],
      m_function = 18, m_form = [], m_form_ret = [],
      m_result = Discarded\<rparr>"

definition BrickletLaserRangeFinder_is_laser_enabled :: dev_method where
  "BrickletLaserRangeFinder_is_laser_enabled =
     \<lparr>m_name = ''is_laser_enabled'', m_params = [],
      m_function = 19, m_form = [], m_form_ret = ''?'',
      m_result = Returned\<rparr>"

definition BrickletLaserRangeFinder_get_identity :: dev_method where
  "BrickletLaserRangeFinder_get_identity =
     \<lparr>m_name = ''get_identity'', m_params = [],
      m_function = 255, m_form = [], m_form_ret = ''8s 8s c 3B 3B H'',
      m_result = BrickletLaserRangeFinder_GetIdentity\<rparr>"

definition BrickletLaserRangeFinder :: binding where
  "BrickletLaserRangeFinder =
     \<lparr>b_class = ''BrickletLaserRangeFinder'', b_identifier = 255, b_ids = BrickletLaserRangeFinder_ids,
      b_api_version = (2, 0, 0), b_flags = BrickletLaserRangeFinder_flags, b_formats = BrickletLaserRangeFinder_formats,
      b_methods =
       [BrickletLaserRangeFinder_get_distance, BrickletLaserRangeFinder_get_velocity,
        BrickletLaserRangeFinder_set_distance_callback_period,
        BrickletLaserRangeFinder_get_distance_callback_period,
        BrickletLaserRangeFinder_set_velocity_callback_period,
        BrickletLaserRangeFinder_get_velocity_callback_period,
        BrickletLaserRangeFinder_set_distance_callback_threshold,
        BrickletLaserRangeFinder_get_distance_callback_threshold,
        BrickletLaserRangeFinder_set_velocity_callback_threshold,
        BrickletLaserRangeFinder_get_velocity_callback_threshold,
        BrickletLaserRangeFinder_set_debounce_period, BrickletLaserRangeFinder_get_debounce_period,
        BrickletLaserRangeFinder_set_moving_average, BrickletLaserRangeFinder_get_moving_average,
        BrickletLaserRangeFinder_set_mode, BrickletLaserRangeFinder_get_mode,
        BrickletLaserRangeFinder_enable_laser, BrickletLaserRangeFinder_disable_laser,
        BrickletLaserRangeFinder_is_laser_enabled, BrickletLaserRangeFinder_get_identity]\<rparr>"

interpretation LaserRangeFinder: device_class BrickletLaserRangeFinder
  by unfold_locales code_simp

section \<open>The class BrickletLine (\<^verbatim>\<open>bricklet_line.py\<close>)\<close>

definition BrickletLine_GetReflectivityCallbackThreshold :: shape where
  "BrickletLine_GetReflectivityCallbackThreshold = Named ''ReflectivityCallbackThreshold''
     [''option'', ''min'', ''max'']"

definition BrickletLine_GetIdentity :: shape where
  "BrickletLine_GetIdentity = Named ''Identity''
     [''uid'', ''connected_uid'', ''position'', ''hardware_version'', ''firmware_version'',
      ''device_identifier'']"

definition BrickletLine_ids :: "(string \<times> int) list" where
  "BrickletLine_ids =
     [(''CALLBACK_REFLECTIVITY'', 8), (''CALLBACK_REFLECTIVITY_REACHED'', 9),
      (''FUNCTION_GET_REFLECTIVITY'', 1), (''FUNCTION_SET_REFLECTIVITY_CALLBACK_PERIOD'', 2),
      (''FUNCTION_GET_REFLECTIVITY_CALLBACK_PERIOD'', 3),
      (''FUNCTION_SET_REFLECTIVITY_CALLBACK_THRESHOLD'', 4),
      (''FUNCTION_GET_REFLECTIVITY_CALLBACK_THRESHOLD'', 5), (''FUNCTION_SET_DEBOUNCE_PERIOD'', 6),
      (''FUNCTION_GET_DEBOUNCE_PERIOD'', 7), (''FUNCTION_GET_IDENTITY'', 255)]"

definition BrickletLine_flags :: "(int \<times> resp_flag) list" where
  "BrickletLine_flags =
     [(1, ALWAYS_TRUE), (2, RE_TRUE), (3, ALWAYS_TRUE), (4, RE_TRUE), (5, ALWAYS_TRUE),
      (6, RE_TRUE), (7, ALWAYS_TRUE), (8, ALWAYS_FALSE), (9, ALWAYS_FALSE), (255, ALWAYS_TRUE)]"

definition BrickletLine_formats :: "(int \<times> string) list" where
  "BrickletLine_formats =
     [(8, ''H''), (9, ''H'')]"

definition BrickletLine_get_reflectivity :: dev_method where
  "BrickletLine_get_reflectivity =
     \<lparr>m_name = ''get_reflectivity'', m_params = [],
      m_function = 1, m_form = [], m_form_ret = ''H'',
      m_result = Returned\<rparr>"

definition BrickletLine_set_reflectivity_callback_period :: dev_method where
  "BrickletLine_set_reflectivity_callback_period =
     \<lparr>m_name = ''set_reflectivity_callback_period'', m_params = [''period''],
      m_function = 2, m_form = ''I'', m_form_ret = [],
      m_result = Discarded\<rparr>"

definition BrickletLine_get_reflectivity_callback_period :: dev_method where
  "BrickletLine_get_reflectivity_callback_period =
     \<lparr>m_name = ''get_reflectivity_callback_period'', m_params = [],
      m_function = 3, m_form = [], m_form_ret = ''I'',
      m_result = Returned\<rparr>"

definition BrickletLine_set_reflectivity_callback_threshold :: dev_method where
  "BrickletLine_set_reflectivity_callback_threshold =
     \<lparr>m_name = ''set_reflectivity_callback_threshold'', m_params = [''option'', ''min'', ''max''],
      m_function = 4, m_form = ''c H H'', m_form_ret = [],
      m_result = Discarded\<rparr>"

definition BrickletLine_get_reflectivity_callback_threshold :: dev_method where
  "BrickletLine_get_reflectivity_callback_threshold =
     \<lparr>m_name = ''get_reflectivity_callback_threshold'', m_params = [],
      m_function = 5, m_form = [], m_form_ret = ''c H H'',
      m_result = BrickletLine_GetReflectivityCallbackThreshold\<rparr>"

definition BrickletLine_set_debounce_period :: dev_method where
  "BrickletLine_set_debounce_period =
     \<lparr>m_name = ''set_debounce_period'', m_params = [''debounce''],
      m_function = 6, m_form = ''I'', m_form_ret = [],
      m_result = Discarded\<rparr>"

definition BrickletLine_get_debounce_period :: dev_method where
  "BrickletLine_get_debounce_period =
     \<lparr>m_name = ''get_debounce_period'', m_params = [],
      m_function = 7, m_form = [], m_form_ret = ''I'',
      m_result = Returned\<rparr>"

definition BrickletLine_get_identity :: dev_method where
  "BrickletLine_get_identity =
     \<lparr>m_name = ''get_identity'', m_params = [],
      m_function = 255, m_form = [], m_form_ret = ''8s 8s c 3B 3B H'',
      m_result = BrickletLine_GetIdentity\<rparr>"

definition BrickletLine :: binding where
  "BrickletLine =
     \<lparr>b_class = ''BrickletLine'', b_identifier = 241, b_ids = BrickletLine_ids,
      b_api_version = (2, 0, 0), b_flags = BrickletLine_flags, b_formats = BrickletLine_formats,
      b_methods =
       [BrickletLine_get_reflectivity, BrickletLine_set_reflectivity_callback_period,
        BrickletLine_get_reflectivity_callback_period,
        BrickletLine_set_reflectivity_callback_threshold,
        BrickletLine_get_reflectivity_callback_threshold, BrickletLine_set_debounce_period,
        BrickletLine_get_debounce_period, BrickletLine_get_identity]\<rparr>"

interpretation Line: device_class BrickletLine
  by unfold_locales code_simp

section \<open>The class BrickletLoadCell (\<^verbatim>\<open>bricklet_load_cell.py\<close>)\<close>

definition BrickletLoadCell_GetWeightCallbackThreshold :: shape where
  "BrickletLoadCell_GetWeightCallbackThreshold = Named ''WeightCallbackThreshold''
     [''option'', ''min'', ''max'']"

definition BrickletLoadCell_GetConfiguration :: shape where
  "BrickletLoadCell_GetConfiguration = Named ''Configuration''
     [''rate'', ''gain'']"

definition BrickletLoadCell_GetIdentity :: shape where
  "BrickletLoadCell_GetIdentity = Named ''Identity''
     [''uid'', ''connected_uid'', ''position'', ''hardware_version'', ''firmware_version'',
      ''device_identifier'']"

definition BrickletLoadCell_ids :: "(string \<times> int) list" where
  "BrickletLoadCell_ids =
     [(''CALLBACK_WEIGHT'', 17), (''CALLBACK_WEIGHT_REACHED'', 18), (''FUNCTION_GET_WEIGHT'', 1),
      (''FUNCTION_SET_WEIGHT_CALLBACK_PERIOD'', 2), (''FUNCTION_GET_WEIGHT_CALLBACK_PERIOD'', 3),
      (''FUNCTION_SET_WEIGHT_CALLBACK_THRESHOLD'', 4),
      (''FUNCTION_GET_WEIGHT_CALLBACK_THRESHOLD'', 5), (''FUNCTION_SET_DEBOUNCE_PERIOD'', 6),
      (''FUNCTION_GET_DEBOUNCE_PERIOD'', 7), (''FUNCTION_SET_MOVING_AVERAGE'', 8),
      (''FUNCTION_GET_MOVING_AVERAGE'', 9), (''FUNCTION_LED_ON'', 10), (''FUNCTION_LED_OFF'', 11),
      (''FUNCTION_IS_LED_ON'', 12), (''FUNCTION_CALIBRATE'', 13), (''FUNCTION_TARE'', 14),
      (''FUNCTION_SET_CONFIGURATION'', 15), (''FUNCTION_GET_CONFIGURATION'', 16),
      (''FUNCTION_GET_IDENTITY'', 255)]"

definition BrickletLoadCell_flags :: "(int \<times> resp_flag) list" where
  "BrickletLoadCell_flags =
     [(1, ALWAYS_TRUE), (2, RE_TRUE), (3, ALWAYS_TRUE), (4, RE_TRUE), (5, ALWAYS_TRUE),
      (6, RE_TRUE), (7, ALWAYS_TRUE), (8, RE_FALSE), (9, ALWAYS_TRUE), (10, RE_FALSE),
      (11, RE_FALSE), (12, ALWAYS_TRUE), (13, RE_FALSE), (14, RE_FALSE), (15, RE_FALSE),
      (16, ALWAYS_TRUE), (17, ALWAYS_FALSE), (18, ALWAYS_FALSE), (255, ALWAYS_TRUE)]"

definition BrickletLoadCell_formats :: "(int \<times> string) list" where
  "BrickletLoadCell_formats =
     [(17, ''i''), (18, ''i'')]"

definition BrickletLoadCell_get_weight :: dev_method where
  "BrickletLoadCell_get_weight =
     \<lparr>m_name = ''get_weight'', m_params = [],
      m_function = 1, m_form = [], m_form_ret = ''i'',
      m_result = Returned\<rparr>"

definition BrickletLoadCell_set_weight_callback_period :: dev_method where
  "BrickletLoadCell_set_weight_callback_period =
     \<lparr>m_name = ''set_weight_callback_period'', m_params = [''period''],
      m_function = 2, m_form = ''I'', m_form_ret = [],
      m_result = Discarded\<rparr>"

definition BrickletLoadCell_get_weight_callback_period :: dev_method where
  "BrickletLoadCell_get_weight_callback_period =
     \<lparr>m_name = ''get_weight_callback_period'', m_params = [],
      m_function = 3, m_form = [], m_form_ret = ''I'',
      m_result = Returned\<rparr>"

definition BrickletLoadCell_set_weight_callback_threshold :: dev_method where
  "BrickletLoadCell_set_weight_callback_threshold =
     \<lparr>m_name = ''set_weight_callback_threshold'', m_params = [''option'', ''min'', ''max''],
      m_function = 4, m_form = ''c i i'', m_form_ret = [],
      m_result = Discarded\<rparr>"

definition BrickletLoadCell_get_weight_callback_threshold :: dev_method where
  "BrickletLoadCell_get_weight_callback_threshold =
     \<lparr>m_name = ''get_weight_callback_threshold'', m_params = [],
      m_function = 5, m_form = [], m_form_ret = ''c i i'',
      m_result = BrickletLoadCell_GetWeightCallbackThreshold\<rparr>"

definition BrickletLoadCell_set_debounce_period :: dev_method where
  "BrickletLoadCell_set_debounce_period =
     \<lparr>m_name = ''set_debounce_period'', m_params = [''debounce''],
      m_function = 6, m_form = ''I'', m_form_ret = [],
      m_result = Discarded\<rparr>"

definition BrickletLoadCell_get_debounce_period :: dev_method where
  "BrickletLoadCell_get_debounce_period =
     \<lparr>m_name = ''get_debounce_period'', m_params = [],
      m_function = 7, m_form = [], m_form_ret = ''I'',
      m_result = Returned\<rparr>"

definition BrickletLoadCell_set_moving_average :: dev_method where
  "BrickletLoadCell_set_moving_average =
     \<lparr>m_name = ''set_moving_average'', m_params = [''average''],
      m_function = 8, m_form = ''B'', m_form_ret = [],
      m_result = Discarded\<rparr>"

definition BrickletLoadCell_get_moving_average :: dev_method where
  "BrickletLoadCell_get_moving_average =
     \<lparr>m_name = ''get_moving_average'', m_params = [],
      m_function = 9, m_form = [], m_form_ret = ''B'',
      m_result = Returned\<rparr>"

definition BrickletLoadCell_led_on :: dev_method where
  "BrickletLoadCell_led_on =
     \<lparr>m_name = ''led_on'', m_params = [],
      m_function = 10, m_form = [], m_form_ret = [],
      m_result = Discarded\<rparr>"

definition BrickletLoadCell_led_off :: dev_method where
  "BrickletLoadCell_led_off =
     \<lparr>m_name = ''led_off'', m_params = [],
      m_function = 11, m_form = [], m_form_ret = [],
      m_result = Discarded\<rparr>"

definition BrickletLoadCell_is_led_on :: dev_method where
  "BrickletLoadCell_is_led_on =
     \<lparr>m_name = ''is_led_on'', m_params = [],
      m_function = 12, m_form = [], m_form_ret = ''B'',
      m_result = Returned\<rparr>"

definition BrickletLoadCell_calibrate :: dev_method where
  "BrickletLoadCell_calibrate =
     \<lparr>m_name = ''calibrate'', m_params = [''weight''],
      m_function = 13, m_form = ''I'', m_form_ret = [],
      m_result = Discarded\<rparr>"

definition BrickletLoadCell_tare :: dev_method where
  "BrickletLoadCell_tare =
     \<lparr>m_name = ''tare'', m_params = [],
      m_function = 14, m_form = [], m_form_ret = [],
      m_result = Discarded\<rparr>"

definition BrickletLoadCell_set_configuration :: dev_method where
  "BrickletLoadCell_set_configuration =
     \<lparr>m_name = ''set_configuration'', m_params = [''rate'', ''gain''],
      m_function = 15, m_form = ''B B'', m_form_ret = [],
      m_result = Discarded\<rparr>"

definition BrickletLoadCell_get_configuration :: dev_method where
  "BrickletLoadCell_get_configuration =
     \<lparr>m_name = ''get_configuration'', m_params = [],
      m_function = 16, m_form = [], m_form_ret = ''B B'',
      m_result = BrickletLoadCell_GetConfiguration\<rparr>"

definition BrickletLoadCell_get_identity :: dev_method where
  "BrickletLoadCell_get_identity =
     \<lparr>m_name = ''get_identity'', m_params = [],
      m_function = 255, m_form = [], m_form_ret = ''8s 8s c 3B 3B H'',
      m_result = BrickletLoadCell_GetIdentity\<rparr>"

definition BrickletLoadCell :: binding where
  "BrickletLoadCell =
     \<lparr>b_class = ''BrickletLoadCell'', b_identifier = 253, b_ids = BrickletLoadCell_ids,
      b_api_version = (2, 0, 0), b_flags = BrickletLoadCell_flags, b_formats = BrickletLoadCell_formats,
      b_methods =
       [BrickletLoadCell_get_weight, BrickletLoadCell_set_weight_callback_period,
        BrickletLoadCell_get_weight_callback_period,
        BrickletLoadCell_set_weight_callback_threshold,
        BrickletLoadCell_get_weight_callback_threshold, BrickletLoadCell_set_debounce_period,
        BrickletLoadCell_get_debounce_period, BrickletLoadCell_set_moving_average,
        BrickletLoadCell_get_moving_average, BrickletLoadCell_led_on, BrickletLoadCell_led_off,
        BrickletLoadCell_is_led_on, BrickletLoadCell_calibrate, BrickletLoadCell_tare,
        BrickletLoadCell_set_configuration, BrickletLoadCell_get_configuration,
        BrickletLoadCell_get_identity]\<rparr>"

interpretation LoadCell: device_class BrickletLoadCell
  by unfold_locales code_simp

section \<open>The class BrickletMotionDetector (\<^verbatim>\<open>bricklet_motion_detector.py\<close>)\<close>

definition BrickletMotionDetector_GetIdentity :: shape where
  "BrickletMotionDetector_GetIdentity = Named ''Identity''
     [''uid'', ''connected_uid'', ''position'', ''hardware_version'', ''firmware_version'',
      ''device_identifier'']"

definition BrickletMotionDetector_ids :: "(string \<times> int) list" where
  "BrickletMotionDetector_ids =
     [(''CALLBACK_MOTION_DETECTED'', 2), (''CALLBACK_DETECTION_CYCLE_ENDED'', 3),
      (''FUNCTION_GET_MOTION_DETECTED'', 1), (''FUNCTION_GET_IDENTITY'', 255)]"

definition BrickletMotionDetector_flags :: "(int \<times> resp_flag) list" where
  "BrickletMotionDetector_flags =
     [(1, ALWAYS_TRUE), (2, ALWAYS_FALSE), (3, ALWAYS_FALSE), (255, ALWAYS_TRUE)]"

definition BrickletMotionDetector_formats :: "(int \<times> string) list" where
  "BrickletMotionDetector_formats =
     [(2, []), (3, [])]"

definition BrickletMotionDetector_get_motion_detected :: dev_method where
  "BrickletMotionDetector_get_motion_detected =
     \<lparr>m_name = ''get_motion_detected'', m_params = [],
      m_function = 1, m_form = [], m_form_ret = ''B'',
      m_result = Returned\<rparr>"

definition BrickletMotionDetector_get_identity :: dev_method where
  "BrickletMotionDetector_get_identity =
     \<lparr>m_name = ''get_identity'', m_params = [],
      m_function = 255, m_form = [], m_form_ret = ''8s 8s c 3B 3B H'',
      m_result = BrickletMotionDetector_GetIdentity\<rparr>"

definition BrickletMotionDetector :: binding where
  "BrickletMotionDetector =
     \<lparr>b_class = ''BrickletMotionDetector'', b_identifier = 233, b_ids = BrickletMotionDetector_ids,
      b_api_version = (2, 0, 0), b_flags = BrickletMotionDetector_flags, b_formats = BrickletMotionDetector_formats,
      b_methods =
       [BrickletMotionDetector_get_motion_detected, BrickletMotionDetector_get_identity]\<rparr>"

interpretation MotionDetector: device_class BrickletMotionDetector
  by unfold_locales code_simp

section \<open>The class BrickletMultiTouch (\<^verbatim>\<open>bricklet_multi_touch.py\<close>)\<close>

definition BrickletMultiTouch_GetIdentity :: shape where
  "BrickletMultiTouch_GetIdentity = Named ''Identity''
     [''uid'', ''connected_uid'', ''position'', ''hardware_version'', ''firmware_version'',
      ''device_identifier'']"

definition BrickletMultiTouch_ids :: "(string \<times> int) list" where
  "BrickletMultiTouch_ids =
     [(''CALLBACK_TOUCH_STATE'', 5), (''FUNCTION_GET_TOUCH_STATE'', 1),
      (''FUNCTION_RECALIBRATE'', 2), (''FUNCTION_SET_ELECTRODE_CONFIG'', 3),
      (''FUNCTION_GET_ELECTRODE_CONFIG'', 4), (''FUNCTION_SET_ELECTRODE_SENSITIVITY'', 6),
      (''FUNCTION_GET_ELECTRODE_SENSITIVITY'', 7), (''FUNCTION_GET_IDENTITY'', 255)]"

definition BrickletMultiTouch_flags :: "(int \<times> resp_flag) list" where
  "BrickletMultiTouch_flags =
     [(1, ALWAYS_TRUE), (2, RE_FALSE), (3, RE_FALSE), (4, ALWAYS_TRUE), (5, ALWAYS_FALSE),
      (6, RE_FALSE), (7, ALWAYS_TRUE), (255, ALWAYS_TRUE)]"

definition BrickletMultiTouch_formats :: "(int \<times> string) list" where
  "BrickletMultiTouch_formats =
     [(5, ''H'')]"

definition BrickletMultiTouch_get_touch_state :: dev_method where
  "BrickletMultiTouch_get_touch_state =
     \<lparr>m_name = ''get_touch_state'', m_params = [],
      m_function = 1, m_form = [], m_form_ret = ''H'',
      m_result = Returned\<rparr>"

definition BrickletMultiTouch_recalibrate :: dev_method where
  "BrickletMultiTouch_recalibrate =
     \<lparr>m_name = ''recalibrate'', m_params = [],
      m_function = 2, m_form = [], m_form_ret = [],
      m_result = Discarded\<rparr>"

definition BrickletMultiTouch_set_electrode_config :: dev_method where
  "BrickletMultiTouch_set_electrode_config =
     \<lparr>m_name = ''set_electrode_config'', m_params = [''enabled_electrodes''],
      m_function = 3, m_form = ''H'', m_form_ret = [],
      m_result = Discarded\<rparr>"

definition BrickletMultiTouch_get_electrode_config :: dev_method where
  "BrickletMultiTouch_get_electrode_config =
     \<lparr>m_name = ''get_electrode_config'', m_params = [],
      m_function = 4, m_form = [], m_form_ret = ''H'',
      m_result = Returned\<rparr>"

definition BrickletMultiTouch_set_electrode_sensitivity :: dev_method where
  "BrickletMultiTouch_set_electrode_sensitivity =
     \<lparr>m_name = ''set_electrode_sensitivity'', m_params = [''sensitivity''],
      m_function = 6, m_form = ''B'', m_form_ret = [],
      m_result = Discarded\<rparr>"

definition BrickletMultiTouch_get_electrode_sensitivity :: dev_method where
  "BrickletMultiTouch_get_electrode_sensitivity =
     \<lparr>m_name = ''get_electrode_sensitivity'', m_params = [],
      m_function = 7, m_form = [], m_form_ret = ''B'',
      m_result = Returned\<rparr>"

definition BrickletMultiTouch_get_identity :: dev_method where
  "BrickletMultiTouch_get_identity =
     \<lparr>m_name = ''get_identity'', m_params = [],
      m_function = 255, m_form = [], m_form_ret = ''8s 8s c 3B 3B H'',
      m_result = BrickletMultiTouch_GetIdentity\<rparr>"

definition BrickletMultiTouch :: binding where
  "BrickletMultiTouch =
     \<lparr>b_class = ''BrickletMultiTouch'', b_identifier = 234, b_ids = BrickletMultiTouch_ids,
      b_api_version = (2, 0, 0), b_flags = BrickletMultiTouch_flags, b_formats = BrickletMultiTouch_formats,
      b_methods =
       [BrickletMultiTouch_get_touch_state, BrickletMultiTouch_recalibrate,
        BrickletMultiTouch_set_electrode_config, BrickletMultiTouch_get_electrode_config,
        BrickletMultiTouch_set_electrode_sensitivity, BrickletMultiTouch_get_electrode_sensitivity,
        BrickletMultiTouch_get_identity]\<rparr>"

interpretation MultiTouch: device_class BrickletMultiTouch
  by unfold_locales code_simp

section \<open>The class BrickletNFCRFID (\<^verbatim>\<open>bricklet_nfc_rfid.py\<close>)\<close>

definition BrickletNFCRFID_GetTagID :: shape where
  "BrickletNFCRFID_GetTagID = Named ''TagID''
     [''tag_type'', ''tid_length'', ''tid'']"

definition BrickletNFCRFID_GetState :: shape where
  "BrickletNFCRFID_GetState = Named ''State''
     [''state'', ''idle'']"

definition BrickletNFCRFID_GetIdentity :: shape where
  "BrickletNFCRFID_GetIdentity = Named ''Identity''
     [''uid'', ''connected_uid'', ''position'', ''hardware_version'', ''firmware_version'',
      ''device_identifier'']"

definition BrickletNFCRFID_ids :: "(string \<times> int) list" where
  "BrickletNFCRFID_ids =
     [(''CALLBACK_STATE_CHANGED'', 8), (''FUNCTION_REQUEST_TAG_ID'', 1),
      (''FUNCTION_GET_TAG_ID'', 2), (''FUNCTION_GET_STATE'', 3),
      (''FUNCTION_AUTHENTICATE_MIFARE_CLASSIC_PAGE'', 4), (''FUNCTION_WRITE_PAGE'', 5),
      (''FUNCTION_REQUEST_PAGE'', 6), (''FUNCTION_GET_PAGE'', 7), (''FUNCTION_GET_IDENTITY'', 255)]"

definition BrickletNFCRFID_flags :: "(int \<times> resp_flag) list" where
  "BrickletNFCRFID_flags =
     [(1, RE_FALSE), (2, ALWAYS_TRUE), (3, ALWAYS_TRUE), (4, RE_FALSE), (5, RE_FALSE),
      (6, RE_FALSE), (7, ALWAYS_TRUE), (8, ALWAYS_FALSE), (255, ALWAYS_TRUE)]"

definition BrickletNFCRFID_formats :: "(int \<times> string) list" where
  "BrickletNFCRFID_formats =
     [(8, ''B ?'')]"

definition BrickletNFCRFID_request_tag_id :: dev_method where
  "BrickletNFCRFID_request_tag_id =
     \<lparr>m_name = ''request_tag_id'', m_params = [''tag_type''],
      m_function = 1, m_form = ''B'', m_form_ret = [],
      m_result = Discarded\<rparr>"

definition BrickletNFCRFID_get_tag_id :: dev_method where
  "BrickletNFCRFID_get_tag_id =
     \<lparr>m_name = ''get_tag_id'', m_params = [],
      m_function = 2, m_form = [], m_form_ret = ''B B 7B'',
      m_result = BrickletNFCRFID_GetTagID\<rparr>"

definition BrickletNFCRFID_get_state :: dev_method where
  "BrickletNFCRFID_get_state =
     \<lparr>m_name = ''get_state'', m_params = [],
      m_function = 3, m_form = [], m_form_ret = ''B ?'',
      m_result = BrickletNFCRFID_GetState\<rparr>"

definition BrickletNFCRFID_authenticate_mifare_classic_page :: dev_method where
  "BrickletNFCRFID_authenticate_mifare_classic_page =
     \<lparr>m_name = ''authenticate_mifare_classic_page'', m_params = [''page'', ''key_number'', ''key''],
      m_function = 4, m_form = ''H B 6B'', m_form_ret = [],
      m_result = Discarded\<rparr>"

definition BrickletNFCRFID_write_page :: dev_method where
  "BrickletNFCRFID_write_page =
     \<lparr>m_name = ''write_page'', m_params = [''page'', ''data''],
      m_function = 5, m_form = ''H 16B'', m_form_ret = [],
      m_result = Discarded\<rparr>"

definition BrickletNFCRFID_request_page :: dev_method where
  "BrickletNFCRFID_request_page =
     \<lparr>m_name = ''request_page'', m_params = [''page''],
      m_function = 6, m_form = ''H'', m_form_ret = [],
      m_result = Discarded\<rparr>"

definition BrickletNFCRFID_get_page :: dev_method where
  "BrickletNFCRFID_get_page =
     \<lparr>m_name = ''get_page'', m_params = [],
      m_function = 7, m_form = [], m_form_ret = ''16B'',
      m_result = Returned\<rparr>"

definition BrickletNFCRFID_get_identity :: dev_method where
  "BrickletNFCRFID_get_identity =
     \<lparr>m_name = ''get_identity'', m_params = [],
      m_function = 255, m_form = [], m_form_ret = ''8s 8s c 3B 3B H'',
      m_result = BrickletNFCRFID_GetIdentity\<rparr>"

definition BrickletNFCRFID :: binding where
  "BrickletNFCRFID =
     \<lparr>b_class = ''BrickletNFCRFID'', b_identifier = 246, b_ids = BrickletNFCRFID_ids,
      b_api_version = (2, 0, 0), b_flags = BrickletNFCRFID_flags, b_formats = BrickletNFCRFID_formats,
      b_methods =
       [BrickletNFCRFID_request_tag_id, BrickletNFCRFID_get_tag_id, BrickletNFCRFID_get_state,
        BrickletNFCRFID_authenticate_mifare_classic_page, BrickletNFCRFID_write_page,
        BrickletNFCRFID_request_page, BrickletNFCRFID_get_page, BrickletNFCRFID_get_identity]\<rparr>"

interpretation NFCRFID: device_class BrickletNFCRFID
  by unfold_locales code_simp

section \<open>The class BrickletRotaryEncoder (\<^verbatim>\<open>bricklet_rotary_encoder.py\<close>)\<close>

definition BrickletRotaryEncoder_GetCountCallbackThreshold :: shape where
  "BrickletRotaryEncoder_GetCountCallbackThreshold = Named ''CountCallbackThreshold''
     [''option'', ''min'', ''max'']"

definition BrickletRotaryEncoder_GetIdentity :: shape where
  "BrickletRotaryEncoder_GetIdentity = Named ''Identity''
     [''uid'', ''connected_uid'', ''position'', ''hardware_version'', ''firmware_version'',
      ''device_identifier'']"

definition BrickletRotaryEncoder_ids :: "(string \<times> int) list" where
  "BrickletRotaryEncoder_ids =
     [(''CALLBACK_COUNT'', 8), (''CALLBACK_COUNT_REACHED'', 9), (''CALLBACK_PRESSED'', 11),
      (''CALLBACK_RELEASED'', 12), (''FUNCTION_GET_COUNT'', 1),
      (''FUNCTION_SET_COUNT_CALLBACK_PERIOD'', 2), (''FUNCTION_GET_COUNT_CALLBACK_PERIOD'', 3),
      (''FUNCTION_SET_COUNT_CALLBACK_THRESHOLD'', 4),
      (''FUNCTION_GET_COUNT_CALLBACK_THRESHOLD'', 5), (''FUNCTION_SET_DEBOUNCE_PERIOD'', 6),
      (''FUNCTION_GET_DEBOUNCE_PERIOD'', 7), (''FUNCTION_IS_PRESSED'', 10),
      (''FUNCTION_GET_IDENTITY'', 255)]"

definition BrickletRotaryEncoder_flags :: "(int \<times> resp_flag) list" where
  "BrickletRotaryEncoder_flags =
     [(1, ALWAYS_TRUE), (2, RE_TRUE), (3, ALWAYS_TRUE), (4, RE_TRUE), (5, ALWAYS_TRUE),
      (6, RE_TRUE), (7, ALWAYS_TRUE), (8, ALWAYS_FALSE), (9, ALWAYS_FALSE), (10, ALWAYS_TRUE),
      (11, ALWAYS_FALSE), (12, ALWAYS_FALSE), (255, ALWAYS_TRUE)]"

definition BrickletRotaryEncoder_formats :: "(int \<times> string) list" where
  "BrickletRotaryEncoder_formats =
     [(8, ''i''), (9, ''i''), (11, []), (12, [])]"

definition BrickletRotaryEncoder_get_count :: dev_method where
  "BrickletRotaryEncoder_get_count =
     \<lparr>m_name = ''get_count'', m_params = [''reset''],
      m_function = 1, m_form = ''?'', m_form_ret = ''i'',
      m_result = Returned\<rparr>"

definition BrickletRotaryEncoder_set_count_callback_period :: dev_method where
  "BrickletRotaryEncoder_set_count_callback_period =
     \<lparr>m_name = ''set_count_callback_period'', m_params = [''period''],
      m_function = 2, m_form = ''I'', m_form_ret = [],
      m_result = Discarded\<rparr>"

definition BrickletRotaryEncoder_get_count_callback_period :: dev_method where
  "BrickletRotaryEncoder_get_count_callback_period =
     \<lparr>m_name = ''get_count_callback_period'', m_params = [],
      m_function = 3, m_form = [], m_form_ret = ''I'',
      m_result = Returned\<rparr>"

definition BrickletRotaryEncoder_set_count_callback_threshold :: dev_method where
  "BrickletRotaryEncoder_set_count_callback_threshold =
     \<lparr>m_name = ''set_count_callback_threshold'', m_params = [''option'', ''min'', ''max''],
      m_function = 4, m_form = ''c i i'', m_form_ret = [],
      m_result = Discarded\<rparr>"

definition BrickletRotaryEncoder_get_count_callback_threshold :: dev_method where
  "BrickletRotaryEncoder_get_count_callback_threshold =
     \<lparr>m_name = ''get_count_callback_threshold'', m_params = [],
      m_function = 5, m_form = [], m_form_ret = ''c i i'',
      m_result = BrickletRotaryEncoder_GetCountCallbackThreshold\<rparr>"

definition BrickletRotaryEncoder_set_debounce_period :: dev_method where
  "BrickletRotaryEncoder_set_debounce_period =
     \<lparr>m_name = ''set_debounce_period'', m_params = [''debounce''],
      m_function = 6, m_form = ''I'', m_form_ret = [],
      m_result = Discarded\<rparr>"

definition BrickletRotaryEncoder_get_debounce_period :: dev_method where
  "BrickletRotaryEncoder_get_debounce_period =
     \<lparr>m_name = ''get_debounce_period'', m_params = [],
      m_function = 7, m_form = [], m_form_ret = ''I'',
      m_result = Returned\<rparr>"

definition BrickletRotaryEncoder_is_pressed :: dev_method where
  "BrickletRotaryEncoder_is_pressed =
     \<lparr>m_name = ''is_pressed'', m_params = [],
      m_function = 10, m_form = [], m_form_ret = ''?'',
      m_result = Returned\<rparr>"

definition BrickletRotaryEncoder_get_identity :: dev_method where
  "BrickletRotaryEncoder_get_identity =
     \<lparr>m_name = ''get_identity'', m_params = [],
      m_function = 255, m_form = [], m_form_ret = ''8s 8s c 3B 3B H'',
      m_result = BrickletRotaryEncoder_GetIdentity\<rparr>"

definition BrickletRotaryEncoder :: binding where
  "BrickletRotaryEncoder =
     \<lparr>b_class = ''BrickletRotaryEncoder'', b_identifier = 236, b_ids = BrickletRotaryEncoder_ids,
      b_api_version = (2, 0, 0), b_flags = BrickletRotaryEncoder_flags, b_formats = BrickletRotaryEncoder_formats,
      b_methods =
       [BrickletRotaryEncoder_get_count, BrickletRotaryEncoder_set_count_callback_period,
        BrickletRotaryEncoder_get_count_callback_period,
        BrickletRotaryEncoder_set_count_callback_threshold,
        BrickletRotaryEncoder_get_count_callback_threshold,
        BrickletRotaryEncoder_set_debounce_period, BrickletRotaryEncoder_get_debounce_period,
        BrickletRotaryEncoder_is_pressed, BrickletRotaryEncoder_get_identity]\<rparr>"

interpretation RotaryEncoder: device_class BrickletRotaryEncoder
  by unfold_locales code_simp

section \<open>The class BrickletTilt (\<^verbatim>\<open>bricklet_tilt.py\<close>)\<close>

definition BrickletTilt_GetIdentity :: shape where
  "BrickletTilt_GetIdentity = Named ''Identity''
     [''uid'', ''connected_uid'', ''position'', ''hardware_version'', ''firmware_version'',
      ''device_identifier'']"

definition BrickletTilt_ids :: "(string \<times> int) list" where
  "BrickletTilt_ids =
     [(''CALLBACK_TILT_STATE'', 5), (''FUNCTION_GET_TILT_STATE'', 1),
      (''FUNCTION_ENABLE_TILT_STATE_CALLBACK'', 2), (''FUNCTION_DISABLE_TILT_STATE_CALLBACK'', 3),
      (''FUNCTION_IS_TILT_STATE_CALLBACK_ENABLED'', 4), (''FUNCTION_GET_IDENTITY'', 255)]"

definition BrickletTilt_flags :: "(int \<times> resp_flag) list" where
  "BrickletTilt_flags =
     [(1, ALWAYS_TRUE), (2, RE_TRUE), (3, RE_TRUE), (4, ALWAYS_TRUE), (5, ALWAYS_FALSE),
      (255, ALWAYS_TRUE)]"

definition BrickletTilt_formats :: "(int \<times> string) list" where
  "BrickletTilt_formats =
     [(5, ''B'')]"

definition BrickletTilt_get_tilt_state :: dev_method where
  "BrickletTilt_get_tilt_state =
     \<lparr>m_name = ''get_tilt_state'', m_params = [],
      m_function = 1, m_form = [], m_form_ret = ''B'',
      m_result = Returned\<rparr>"

definition BrickletTilt_enable_tilt_state_callback :: dev_method where
  "BrickletTilt_enable_tilt_state_callback =
     \<lparr>m_name = ''enable_tilt_state_callback'', m_params = [],
      m_function = 2, m_form = [], m_form_ret = [],
      m_result = Discarded\<rparr>"

definition BrickletTilt_disable_tilt_state_callback :: dev_method where
  "BrickletTilt_disable_tilt_state_callback =
     \<lparr>m_name = ''disable_tilt_state_callback'', m_params = [],
      m_function = 3, m_form = [], m_form_ret = [],
      m_result = Discarded\<rparr>"

definition BrickletTilt_is_tilt_state_callback_enabled :: dev_method where
  "BrickletTilt_is_tilt_state_callback_enabled =
     \<lparr>m_name = ''is_tilt_state_callback_enabled'', m_params = [],
      m_function = 4, m_form = [], m_form_ret = ''?'',
      m_result = Returned\<rparr>"

definition BrickletTilt_get_identity :: dev_method where
  "BrickletTilt_get_identity =
     \<lparr>m_name = ''get_identity'', m_params = [],
      m_function = 255, m_form = [], m_form_ret = ''8s 8s c 3B 3B H'',
      m_result = BrickletTilt_GetIdentity\<rparr>"

definition BrickletTilt :: binding where
  "BrickletTilt =
     \<lparr>b_class = ''BrickletTilt'', b_identifier = 239, b_ids = BrickletTilt_ids,
      b_api_version = (2, 0, 0), b_flags = BrickletTilt_flags, b_formats = BrickletTilt_formats,
      b_methods =
       [BrickletTilt_get_tilt_state, BrickletTilt_enable_tilt_state_callback,
        BrickletTilt_disable_tilt_state_callback, BrickletTilt_is_tilt_state_callback_enabled,
        BrickletTilt_get_identity]\<rparr>"

interpretation Tilt: device_class BrickletTilt
  by unfold_locales code_simp

end
