(* ===== verification/Bricklets_Industrial.thy ===== *)
theory Bricklets_Industrial
  imports Bindings
begin

text \<open>
  The device classes of the industrial, input/output, relay and serial Bricklets. For each class: its
  named tuples, its constants, the assignments of its constructor, one definition per
  method, and the class itself, on which \<open>device_class\<close> is interpreted.
\<close>

section \<open>The class BrickletIndustrialAnalogOut (\<^verbatim>\<open>bricklet_industrial_analog_out.py\<close>)\<close>

definition BrickletIndustrialAnalogOut_GetConfiguration :: shape where
  "BrickletIndustrialAnalogOut_GetConfiguration = Named ''Configuration''
     [''voltage_range'', ''current_range'']"

definition BrickletIndustrialAnalogOut_GetIdentity :: shape where
  "BrickletIndustrialAnalogOut_GetIdentity = Named ''Identity''
     [''uid'', ''connected_uid'', ''position'', ''hardware_version'', ''firmware_version'',
      ''device_identifier'']"

definition BrickletIndustrialAnalogOut_ids :: "(string \<times> int) list" where
  "BrickletIndustrialAnalogOut_ids =
     [(''FUNCTION_ENABLE'', 1), (''FUNCTION_DISABLE'', 2), (''FUNCTION_IS_ENABLED'', 3),
      (''FUNCTION_SET_VOLTAGE'', 4), (''FUNCTION_GET_VOLTAGE'', 5), (''FUNCTION_SET_CURRENT'', 6),
      (''FUNCTION_GET_CURRENT'', 7), (''FUNCTION_SET_CONFIGURATION'', 8),
      (''FUNCTION_GET_CONFIGURATION'', 9), (''FUNCTION_GET_IDENTITY'', 255)]"

definition BrickletIndustrialAnalogOut_flags :: "(int \<times> resp_flag) list" where
  "BrickletIndustrialAnalogOut_flags =
     [(1, RE_FALSE), (2, RE_FALSE), (3, ALWAYS_TRUE), (4, RE_FALSE), (5, ALWAYS_TRUE),
      (6, RE_FALSE), (7, ALWAYS_TRUE), (8, RE_FALSE), (9, ALWAYS_TRUE), (255, ALWAYS_TRUE)]"

definition BrickletIndustrialAnalogOut_formats :: "(int \<times> string) list" where
  "BrickletIndustrialAnalogOut_formats =
     []"

definition BrickletIndustrialAnalogOut_enable :: dev_method where
  "BrickletIndustrialAnalogOut_enable =
     \<lparr>m_name = ''enable'', m_params = [],
      m_function = 1, m_form = [], m_form_ret = [],
      m_result = Discarded\<rparr>"

definition BrickletIndustrialAnalogOut_disable :: dev_method where
  "BrickletIndustrialAnalogOut_disable =
     \<lparr>m_name = ''disable'', m_params = [],
      m_function = 2, m_form = [], m_form_ret = [],
      m_result = Discarded\<rparr>"

definition BrickletIndustrialAnalogOut_is_enabled :: dev_method where
  "BrickletIndustrialAnalogOut_is_enabled =
     \<lparr>m_name = ''is_enabled'', m_params = [],
      m_function = 3, m_form = [], m_form_ret = ''?'',
      m_result = Returned\<rparr>"

definition BrickletIndustrialAnalogOut_set_voltage :: dev_method where
  "BrickletIndustrialAnalogOut_set_voltage =
     \<lparr>m_name = ''set_voltage'', m_params = [''voltage''],
      m_function = 4, m_form = ''H'', m_form_ret = [],
      m_result = Discarded\<rparr>"

definition BrickletIndustrialAnalogOut_get_voltage :: dev_method where
  "BrickletIndustrialAnalogOut_get_voltage =
     \<lparr>m_name = ''get_voltage'', m_params = [],
      m_function = 5, m_form = [], m_form_ret = ''H'',
      m_result = Returned\<rparr>"

definition BrickletIndustrialAnalogOut_set_current :: dev_method where
  "BrickletIndustrialAnalogOut_set_current =
     \<lparr>m_name = ''set_current'', m_params = [''current''],
      m_function = 6, m_form = ''H'', m_form_ret = [],
      m_result = Discarded\<rparr>"

definition BrickletIndustrialAnalogOut_get_current :: dev_method where
  "BrickletIndustrialAnalogOut_get_current =
     \<lparr>m_name = ''get_current'', m_params = [],
      m_function = 7, m_form = [], m_form_ret = ''H'',
      m_result = Returned\<rparr>"

definition BrickletIndustrialAnalogOut_set_configuration :: dev_method where
  "BrickletIndustrialAnalogOut_set_configuration =
     \<lparr>m_name = ''set_configuration'', m_params = [''voltage_range'', ''current_range''],
      m_function = 8, m_form = ''B B'', m_form_ret = [],
      m_result = Discarded\<rparr>"

definition BrickletIndustrialAnalogOut_get_configuration :: dev_method where
  "BrickletIndustrialAnalogOut_get_configuration =
     \<lparr>m_name = ''get_configuration'', m_params = [],
      m_function = 9, m_form = [], m_form_ret = ''B B'',
      m_result = BrickletIndustrialAnalogOut_GetConfiguration\<rparr>"

definition BrickletIndustrialAnalogOut_get_identity :: dev_method where
  "BrickletIndustrialAnalogOut_get_identity =
     \<lparr>m_name = ''get_identity'', m_params = [],
      m_function = 255, m_form = [], m_form_ret = ''8s 8s c 3B 3B H'',
      m_result = BrickletIndustrialAnalogOut_GetIdentity\<rparr>"

definition BrickletIndustrialAnalogOut :: binding where
  "BrickletIndustrialAnalogOut =
     \<lparr>b_class = ''BrickletIndustrialAnalogOut'', b_identifier = 258, b_ids = BrickletIndustrialAnalogOut_ids,
      b_api_version = (2, 0, 0), b_flags = BrickletIndustrialAnalogOut_flags, b_formats = BrickletIndustrialAnalogOut_formats,
      b_methods =
       [BrickletIndustrialAnalogOut_enable, BrickletIndustrialAnalogOut_disable,
        BrickletIndustrialAnalogOut_is_enabled, BrickletIndustrialAnalogOut_set_voltage,
        BrickletIndustrialAnalogOut_get_voltage, BrickletIndustrialAnalogOut_set_current,
        BrickletIndustrialAnalogOut_get_current, BrickletIndustrialAnalogOut_set_configuration,
        BrickletIndustrialAnalogOut_get_configuration, BrickletIndustrialAnalogOut_get_identity]\<rparr>"

interpretation IndustrialAnalogOut: device_class BrickletIndustrialAnalogOut
  by unfold_locales code_simp

section \<open>The class BrickletIndustrialDigitalIn4 (\<^verbatim>\<open>bricklet_industrial_digital_in_4.py\<close>)\<close>

definition BrickletIndustrialDigitalIn4_GetEdgeCountConfig :: shape where
  "BrickletIndustrialDigitalIn4_GetEdgeCountConfig = Named ''EdgeCountConfig''
     [''edge_type'', ''debounce'']"

definition BrickletIndustrialDigitalIn4_GetIdentity :: shape where
  "BrickletIndustrialDigitalIn4_GetIdentity = Named ''Identity''
     [''uid'', ''connected_uid'', ''position'', ''hardware_version'', ''firmware_version'',
      ''device_identifier'']"

definition BrickletIndustrialDigitalIn4_ids :: "(string \<times> int) list" where
  "BrickletIndustrialDigitalIn4_ids =
     [(''CALLBACK_INTERRUPT'', 9), (''FUNCTION_GET_VALUE'', 1), (''FUNCTION_SET_GROUP'', 2),
      (''FUNCTION_GET_GROUP'', 3), (''FUNCTION_GET_AVAILABLE_FOR_GROUP'', 4),
      (''FUNCTION_SET_DEBOUNCE_PERIOD'', 5), (''FUNCTION_GET_DEBOUNCE_PERIOD'', 6),
      (''FUNCTION_SET_INTERRUPT'', 7), (''FUNCTION_GET_INTERRUPT'', 8),
      (''FUNCTION_GET_EDGE_COUNT'', 10), (''FUNCTION_SET_EDGE_COUNT_CONFIG'', 11),
      (''FUNCTION_GET_EDGE_COUNT_CONFIG'', 12), (''FUNCTION_GET_IDENTITY'', 255)]"

definition BrickletIndustrialDigitalIn4_flags :: "(int \<times> resp_flag) list" where
  "BrickletIndustrialDigitalIn4_flags =
     [(1, ALWAYS_TRUE), (2, RE_FALSE), (3, ALWAYS_TRUE), (4, ALWAYS_TRUE), (5, RE_TRUE),
      (6, ALWAYS_TRUE), (7, RE_TRUE), (8, ALWAYS_TRUE), (9, ALWAYS_FALSE), (10, ALWAYS_TRUE),
      (11, RE_FALSE), (12, ALWAYS_TRUE), (255, ALWAYS_TRUE)]"

definition BrickletIndustrialDigitalIn4_formats :: "(int \<times> string) list" where
  "BrickletIndustrialDigitalIn4_formats =
     [(9, ''H H'')]"

definition BrickletIndustrialDigitalIn4_get_value :: dev_method where
  "BrickletIndustrialDigitalIn4_get_value =
     \<lparr>m_name = ''get_value'', m_params = [],
      m_function = 1, m_form = [], m_form_ret = ''H'',
      m_result = Returned\<rparr>"

definition BrickletIndustrialDigitalIn4_set_group :: dev_method where
  "BrickletIndustrialDigitalIn4_set_group =
     \<lparr>m_name = ''set_group'', m_params = [''group''],
      m_function = 2, m_form = ''4c'', m_form_ret = [],
      m_result = Discarded\<rparr>"

definition BrickletIndustrialDigitalIn4_get_group :: dev_method where
  "BrickletIndustrialDigitalIn4_get_group =
     \<lparr>m_name = ''get_group'', m_params = [],
      m_function = 3, m_form = [], m_form_ret = ''4c'',
      m_result = Returned\<rparr>"

definition BrickletIndustrialDigitalIn4_get_available_for_group :: dev_method where
  "BrickletIndustrialDigitalIn4_get_available_for_group =
     \<lparr>m_name = ''get_available_for_group'', m_params = [],
      m_function = 4, m_form = [], m_form_ret = ''B'',
      m_result = Returned\<rparr>"

definition BrickletIndustrialDigitalIn4_set_debounce_period :: dev_method where
  "BrickletIndustrialDigitalIn4_set_debounce_period =
     \<lparr>m_name = ''set_debounce_period'', m_params = [''debounce''],
      m_function = 5, m_form = ''I'', m_form_ret = [],
      m_result = Discarded\<rparr>"

definition BrickletIndustrialDigitalIn4_get_debounce_period :: dev_method where
  "BrickletIndustrialDigitalIn4_get_debounce_period =
     \<lparr>m_name = ''get_debounce_period'', m_params = [],
      m_function = 6, m_form = [], m_form_ret = ''I'',
      m_result = Returned\<rparr>"

definition BrickletIndustrialDigitalIn4_set_interrupt :: dev_method where
  "BrickletIndustrialDigitalIn4_set_interrupt =
     \<lparr>m_name = ''set_interrupt'', m_params = [''interrupt_mask''],
      m_function = 7, m_form = ''H'', m_form_ret = [],
      m_result = Discarded\<rparr>"

definition BrickletIndustrialDigitalIn4_get_interrupt :: dev_method where
  "BrickletIndustrialDigitalIn4_get_interrupt =
     \<lparr>m_name = ''get_interrupt'', m_params = [],
      m_function = 8, m_form = [], m_form_ret = ''H'',
      m_result = Returned\<rparr>"

definition BrickletIndustrialDigitalIn4_get_edge_count :: dev_method where
  "BrickletIndustrialDigitalIn4_get_edge_count =
     \<lparr>m_name = ''get_edge_count'', m_params = [''pin'', ''reset_counter''],
      m_function = 10, m_form = ''B ?'', m_form_ret = ''I'',
      m_result = Returned\<rparr>"

definition BrickletIndustrialDigitalIn4_set_edge_count_config :: dev_method where
  "BrickletIndustrialDigitalIn4_set_edge_count_config =
     \<lparr>m_name = ''set_edge_count_config'', m_params = [''selection_mask'', ''edge_type'', ''debounce''],
      m_function = 11, m_form = ''H B B'', m_form_ret = [],
      m_result = Discarded\<rparr>"

definition BrickletIndustrialDigitalIn4_get_edge_count_config :: dev_method where
  "BrickletIndustrialDigitalIn4_get_edge_count_config =
     \<lparr>m_name = ''get_edge_count_config'', m_params = [''pin''],
      m_function = 12, m_form = ''B'', m_form_ret = ''B B'',
      m_result = BrickletIndustrialDigitalIn4_GetEdgeCountConfig\<rparr>"

definition BrickletIndustrialDigitalIn4_get_identity :: dev_method where
  "BrickletIndustrialDigitalIn4_get_identity =
     \<lparr>m_name = ''get_identity'', m_params = [],
      m_function = 255, m_form = [], m_form_ret = ''8s 8s c 3B 3B H'',
      m_result = BrickletIndustrialDigitalIn4_GetIdentity\<rparr>"

definition BrickletIndustrialDigitalIn4 :: binding where
  "BrickletIndustrialDigitalIn4 =
     \<lparr>b_class = ''BrickletIndustrialDigitalIn4'', b_identifier = 223, b_ids = BrickletIndustrialDigitalIn4_ids,
      b_api_version = (2, 0, 1), b_flags = BrickletIndustrialDigitalIn4_flags, b_formats = BrickletIndustrialDigitalIn4_formats,
      b_methods =
       [BrickletIndustrialDigitalIn4_get_value, BrickletIndustrialDigitalIn4_set_group,
        BrickletIndustrialDigitalIn4_get_group,
        BrickletIndustrialDigitalIn4_get_available_for_group,
        BrickletIndustrialDigitalIn4_set_debounce_period,
        BrickletIndustrialDigitalIn4_get_debounce_period,
        BrickletIndustrialDigitalIn4_set_interrupt, BrickletIndustrialDigitalIn4_get_interrupt,
        BrickletIndustrialDigitalIn4_get_edge_count,
        BrickletIndustrialDigitalIn4_set_edge_count_config,
        BrickletIndustrialDigitalIn4_get_edge_count_config,
        BrickletIndustrialDigitalIn4_get_identity]\<rparr>"

interpretation IndustrialDigitalIn4: device_class BrickletIndustrialDigitalIn4
  by unfold_locales code_simp

section \<open>The class BrickletIndustrialDigitalOut4 (\<^verbatim>\<open>bricklet_industrial_digital_out_4.py\<close>)\<close>

definition BrickletIndustrialDigitalOut4_GetMonoflop :: shape where
  "BrickletIndustrialDigitalOut4_GetMonoflop = Named ''Monoflop''
     [''value'', ''time'', ''time_remaining'']"

definition BrickletIndustrialDigitalOut4_GetIdentity :: shape where
  "BrickletIndustrialDigitalOut4_GetIdentity = Named ''Identity''
     [''uid'', ''connected_uid'', ''position'', ''hardware_version'', ''firmware_version'',
      ''device_identifier'']"

definition BrickletIndustrialDigitalOut4_ids :: "(string \<times> int) list" where
  "BrickletIndustrialDigitalOut4_ids =
     [(''CALLBACK_MONOFLOP_DONE'', 8), (''FUNCTION_SET_VALUE'', 1), (''FUNCTION_GET_VALUE'', 2),
      (''FUNCTION_SET_MONOFLOP'', 3), (''FUNCTION_GET_MONOFLOP'', 4), (''FUNCTION_SET_GROUP'', 5),
      (''FUNCTION_GET_GROUP'', 6), (''FUNCTION_GET_AVAILABLE_FOR_GROUP'', 7),
      (''FUNCTION_SET_SELECTED_VALUES'', 9), (''FUNCTION_GET_IDENTITY'', 255)]"

definition BrickletIndustrialDigitalOut4_flags :: "(int \<times> resp_flag) list" where
  "BrickletIndustrialDigitalOut4_flags =
     [(1, RE_FALSE), (2, ALWAYS_TRUE), (3, RE_FALSE), (4, ALWAYS_TRUE), (5, RE_FALSE),
      (6, ALWAYS_TRUE), (7, ALWAYS_TRUE), (8, ALWAYS_FALSE), (9, RE_FALSE), (255, ALWAYS_TRUE)]"

definition BrickletIndustrialDigitalOut4_formats :: "(int \<times> string) list" where
  "BrickletIndustrialDigitalOut4_formats =
     [(8, ''H H'')]"

definition BrickletIndustrialDigitalOut4_set_value :: dev_method where
  "BrickletIndustrialDigitalOut4_set_value =
     \<lparr>m_name = ''set_value'', m_params = [''value_mask''],
      m_function = 1, m_form = ''H'', m_form_ret = [],
      m_result = Discarded\<rparr>"

definition BrickletIndustrialDigitalOut4_get_value :: dev_method where
  "BrickletIndustrialDigitalOut4_get_value =
     \<lparr>m_name = ''get_value'', m_params = [],
      m_function = 2, m_form = [], m_form_ret = ''H'',
      m_result = Returned\<rparr>"

definition BrickletIndustrialDigitalOut4_set_monoflop :: dev_method where
  "BrickletIndustrialDigitalOut4_set_monoflop =
     \<lparr>m_name = ''set_monoflop'', m_params = [''selection_mask'', ''value_mask'', ''time''],
      m_function = 3, m_form = ''H H I'', m_form_ret = [],
      m_result = Discarded\<rparr>"

definition BrickletIndustrialDigitalOut4_get_monoflop :: dev_method where
  "BrickletIndustrialDigitalOut4_get_monoflop =
     \<lparr>m_name = ''get_monoflop'', m_params = [''pin''],
      m_function = 4, m_form = ''B'', m_form_ret = ''H I I'',
      m_result = BrickletIndustrialDigitalOut4_GetMonoflop\<rparr>"

definition BrickletIndustrialDigitalOut4_set_group :: dev_method where
  "BrickletIndustrialDigitalOut4_set_group =
     \<lparr>m_name = ''set_group'', m_params = [''group''],
      m_function = 5, m_form = ''4c'', m_form_ret = [],
      m_result = Discarded\<rparr>"

definition BrickletIndustrialDigitalOut4_get_group :: dev_method where
  "BrickletIndustrialDigitalOut4_get_group =
     \<lparr>m_name = ''get_group'', m_params = [],
      m_function = 6, m_form = [], m_form_ret = ''4c'',
      m_result = Returned\<rparr>"

definition BrickletIndustrialDigitalOut4_get_available_for_group :: dev_method where
  "BrickletIndustrialDigitalOut4_get_available_for_group =
     \<lparr>m_name = ''get_available_for_group'', m_params = [],
      m_function = 7, m_form = [], m_form_ret = ''B'',
      m_result = Returned\<rparr>"

definition BrickletIndustrialDigitalOut4_set_selected_values :: dev_method where
  "BrickletIndustrialDigitalOut4_set_selected_values =
     \<lparr>m_name = ''set_selected_values'', m_params = [''selection_mask'', ''value_mask''],
      m_function = 9, m_form = ''H H'', m_form_ret = [],
      m_result = Discarded\<rparr>"

definition BrickletIndustrialDigitalOut4_get_identity :: dev_method where
  "BrickletIndustrialDigitalOut4_get_identity =
     \<lparr>m_name = ''get_identity'', m_params = [],
      m_function = 255, m_form = [], m_form_ret = ''8s 8s c 3B 3B H'',
      m_result = BrickletIndustrialDigitalOut4_GetIdentity\<rparr>"

definition BrickletIndustrialDigitalOut4 :: binding where
  "BrickletIndustrialDigitalOut4 =
     \<lparr>b_class = ''BrickletIndustrialDigitalOut4'', b_identifier = 224, b_ids = BrickletIndustrialDigitalOut4_ids,
      b_api_version = (2, 0, 0), b_flags = BrickletIndustrialDigitalOut4_flags, b_formats = BrickletIndustrialDigitalOut4_formats,
      b_methods =
       [BrickletIndustrialDigitalOut4_set_value, BrickletIndustrialDigitalOut4_get_value,
        BrickletIndustrialDigitalOut4_set_monoflop, BrickletIndustrialDigitalOut4_get_monoflop,
        BrickletIndustrialDigitalOut4_set_group, BrickletIndustrialDigitalOut4_get_group,
        BrickletIndustrialDigitalOut4_get_available_for_group,
        BrickletIndustrialDigitalOut4_set_selected_values,
        BrickletIndustrialDigitalOut4_get_identity]\<rparr>"

interpretation IndustrialDigitalOut4: device_class BrickletIndustrialDigitalOut4
  by unfold_locales code_simp

section \<open>The class BrickletIndustrialDual020mA (\<^verbatim>\<open>bricklet_industrial_dual_0_20ma.py\<close>)\<close>

definition BrickletIndustrialDual020mA_GetCurrentCallbackThreshold :: shape where
  "BrickletIndustrialDual020mA_GetCurrentCallbackThreshold = Named ''CurrentCallbackThreshold''
     [''option'', ''min'', ''max'']"

definition BrickletIndustrialDual020mA_GetIdentity :: shape where
  "BrickletIndustrialDual020mA_GetIdentity = Named ''Identity''
     [''uid'', ''connected_uid'', ''position'', ''hardware_version'', ''firmware_version'',
      ''device_identifier'']"

definition BrickletIndustrialDual020mA_ids :: "(string \<times> int) list" where
  "BrickletIndustrialDual020mA_ids =
     [(''CALLBACK_CURRENT'', 10), (''CALLBACK_CURRENT_REACHED'', 11),
      (''FUNCTION_GET_CURRENT'', 1), (''FUNCTION_SET_CURRENT_CALLBACK_PERIOD'', 2),
      (''FUNCTION_GET_CURRENT_CALLBACK_PERIOD'', 3),
      (''FUNCTION_SET_CURRENT_CALLBACK_THRESHOLD'', 4),
      (''FUNCTION_GET_CURRENT_CALLBACK_THRESHOLD'', 5), (''FUNCTION_SET_DEBOUNCE_PERIOD'', 6),
      (''FUNCTION_GET_DEBOUNCE_PERIOD'', 7), (''FUNCTION_SET_SAMPLE_RATE'', 8),
      (''FUNCTION_GET_SAMPLE_RATE'', 9), (''FUNCTION_GET_IDENTITY'', 255)]"

definition BrickletIndustrialDual020mA_flags :: "(int \<times> resp_flag) list" where
  "BrickletIndustrialDual020mA_flags =
     [(1, ALWAYS_TRUE), (2, RE_TRUE), (3, ALWAYS_TRUE), (4, RE_TRUE), (5, ALWAYS_TRUE),
      (6, RE_TRUE), (7, ALWAYS_TRUE), (8, RE_FALSE), (9, ALWAYS_TRUE), (10, ALWAYS_FALSE),
      (11, ALWAYS_FALSE), (255, ALWAYS_TRUE)]"

definition BrickletIndustrialDual020mA_formats :: "(int \<times> string) list" where
  "BrickletIndustrialDual020mA_formats =
     [(10, ''B i''), (11, ''B i'')]"

definition BrickletIndustrialDual020mA_get_current :: dev_method where
  "BrickletIndustrialDual020mA_get_current =
     \<lparr>m_name = ''get_current'', m_params = [''sensor''],
      m_function = 1, m_form = ''B'', m_form_ret = ''i'',
      m_result = Returned\<rparr>"

definition BrickletIndustrialDual020mA_set_current_callback_period :: dev_method where
  "BrickletIndustrialDual020mA_set_current_callback_period =
     \<lparr>m_name = ''set_current_callback_period'', m_params = [''sensor'', ''period''],
      m_function = 2, m_form = ''B I'', m_form_ret = [],
      m_result = Discarded\<rparr>"

definition BrickletIndustrialDual020mA_get_current_callback_period :: dev_method where
  "BrickletIndustrialDual020mA_get_current_callback_period =
     \<lparr>m_name = ''get_current_callback_period'', m_params = [''sensor''],
      m_function = 3, m_form = ''B'', m_form_ret = ''I'',
      m_result = Returned\<rparr>"

definition BrickletIndustrialDual020mA_set_current_callback_threshold :: dev_method where
  "BrickletIndustrialDual020mA_set_current_callback_threshold =
     \<lparr>m_name = ''set_current_callback_threshold'', m_params = [''sensor'', ''option'', ''min'', ''max''],
      m_function = 4, m_form = ''B c i i'', m_form_ret = [],
      m_result = Discarded\<rparr>"

definition BrickletIndustrialDual020mA_get_current_callback_threshold :: dev_method where
  "BrickletIndustrialDual020mA_get_current_callback_threshold =
     \<lparr>m_name = ''get_current_callback_threshold'', m_params = [''sensor''],
      m_function = 5, m_form = ''B'', m_form_ret = ''c i i'',
      m_result = BrickletIndustrialDual020mA_GetCurrentCallbackThreshold\<rparr>"

definition BrickletIndustrialDual020mA_set_debounce_period :: dev_method where
  "BrickletIndustrialDual020mA_set_debounce_period =
     \<lparr>m_name = ''set_debounce_period'', m_params = [''debounce''],
      m_function = 6, m_form = ''I'', m_form_ret = [],
      m_result = Discarded\<rparr>"

definition BrickletIndustrialDual020mA_get_debounce_period :: dev_method where
  "BrickletIndustrialDual020mA_get_debounce_period =
     \<lparr>m_name = ''get_debounce_period'', m_params = [],
      m_function = 7, m_form = [], m_form_ret = ''I'',
      m_result = Returned\<rparr>"

definition BrickletIndustrialDual020mA_set_sample_rate :: dev_method where
  "BrickletIndustrialDual020mA_set_sample_rate =
     \<lparr>m_name = ''set_sample_rate'', m_params = [''rate''],
      m_function = 8, m_form = ''B'', m_form_ret = [],
      m_result = Discarded\<rparr>"

definition BrickletIndustrialDual020mA_get_sample_rate :: dev_method where
  "BrickletIndustrialDual020mA_get_sample_rate =
     \<lparr>m_name = ''get_sample_rate'', m_params = [],
      m_function = 9, m_form = [], m_form_ret = ''B'',
      m_result = Returned\<rparr>"

definition BrickletIndustrialDual020mA_get_identity :: dev_method where
  "BrickletIndustrialDual020mA_get_identity =
     \<lparr>m_name = ''get_identity'', m_params = [],
      m_function = 255, m_form = [], m_form_ret = ''8s 8s c 3B 3B H'',
      m_result = BrickletIndustrialDual020mA_GetIdentity\<rparr>"

definition BrickletIndustrialDual020mA :: binding where
  "BrickletIndustrialDual020mA =
     \<lparr>b_class = ''BrickletIndustrialDual020mA'', b_identifier = 228, b_ids = BrickletIndustrialDual020mA_ids,
      b_api_version = (2, 0, 0), b_flags = BrickletIndustrialDual020mA_flags, b_formats = BrickletIndustrialDual020mA_formats,
      b_methods =
       [BrickletIndustrialDual020mA_get_current,
        BrickletIndustrialDual020mA_set_current_callback_period,
        BrickletIndustrialDual020mA_get_current_callback_period,
        BrickletIndustrialDual020mA_set_current_callback_threshold,
        BrickletIndustrialDual020mA_get_current_callback_threshold,
        BrickletIndustrialDual020mA_set_debounce_period,
        BrickletIndustrialDual020mA_get_debounce_period,
        BrickletIndustrialDual020mA_set_sample_rate, BrickletIndustrialDual020mA_get_sample_rate,
        BrickletIndustrialDual020mA_get_identity]\<rparr>"

interpretation IndustrialDual020mA: device_class BrickletIndustrialDual020mA
  by unfold_locales code_simp

section \<open>The class BrickletIndustrialDualAnalogIn (\<^verbatim>\<open>bricklet_industrial_dual_analog_in.py\<close>)\<close>

definition BrickletIndustrialDualAnalogIn_GetVoltageCallbackThreshold :: shape where
  "BrickletIndustrialDualAnalogIn_GetVoltageCallbackThreshold = Named ''VoltageCallbackThreshold''
     [''option'', ''min'', ''max'']"

definition BrickletIndustrialDualAnalogIn_GetCalibration :: shape where
  "BrickletIndustrialDualAnalogIn_GetCalibration = Named ''Calibration''
     [''offset'', ''gain'']"

definition BrickletIndustrialDualAnalogIn_GetIdentity :: shape where
  "BrickletIndustrialDualAnalogIn_GetIdentity = Named ''Identity''
     [''uid'', ''connected_uid'', ''position'', ''hardware_version'', ''firmware_version'',
      ''device_identifier'']"

definition BrickletIndustrialDualAnalogIn_ids :: "(string \<times> int) list" where
  "BrickletIndustrialDualAnalogIn_ids =
     [(''CALLBACK_VOLTAGE'', 13), (''CALLBACK_VOLTAGE_REACHED'', 14),
      (''FUNCTION_GET_VOLTAGE'', 1), (''FUNCTION_SET_VOLTAGE_CALLBACK_PERIOD'', 2),
      (''FUNCTION_GET_VOLTAGE_CALLBACK_PERIOD'', 3),
      (''FUNCTION_SET_VOLTAGE_CALLBACK_THRESHOLD'', 4),
      (''FUNCTION_GET_VOLTAGE_CALLBACK_THRESHOLD'', 5), (''FUNCTION_SET_DEBOUNCE_PERIOD'', 6),
      (''FUNCTION_GET_DEBOUNCE_PERIOD'', 7), (''FUNCTION_SET_SAMPLE_RATE'', 8),
      (''FUNCTION_GET_SAMPLE_RATE'', 9), (''FUNCTION_SET_CALIBRATION'', 10),
      (''FUNCTION_GET_CALIBRATION'', 11), (''FUNCTION_GET_ADC_VALUES'', 12),
      (''FUNCTION_GET_IDENTITY'', 255)]"

definition BrickletIndustrialDualAnalogIn_flags :: "(int \<times> resp_flag) list" where
  "BrickletIndustrialDualAnalogIn_flags =
     [(1, ALWAYS_TRUE), (2, RE_TRUE), (3, ALWAYS_TRUE), (4, RE_TRUE), (5, ALWAYS_TRUE),
      (6, RE_TRUE), (7, ALWAYS_TRUE), (8, RE_FALSE), (9, ALWAYS_TRUE), (10, RE_FALSE),
      (11, ALWAYS_TRUE), (12, ALWAYS_TRUE), (13, ALWAYS_FALSE), (14, ALWAYS_FALSE),
      (255, ALWAYS_TRUE)]"

definition BrickletIndustrialDualAnalogIn_formats :: "(int \<times> string) list" where
  "BrickletIndustrialDualAnalogIn_formats =
     [(13, ''B i''), (14, ''B i'')]"

definition BrickletIndustrialDualAnalogIn_get_voltage :: dev_method where
  "BrickletIndustrialDualAnalogIn_get_voltage =
     \<lparr>m_name = ''get_voltage'', m_params = [''channel''],
      m_function = 1, m_form = ''B'', m_form_ret = ''i'',
      m_result = Returned\<rparr>"

definition BrickletIndustrialDualAnalogIn_set_voltage_callback_period :: dev_method where
  "BrickletIndustrialDualAnalogIn_set_voltage_callback_period =
     \<lparr>m_name = ''set_voltage_callback_period'', m_params = [''channel'', ''period''],
      m_function = 2, m_form = ''B I'', m_form_ret = [],
      m_result = Discarded\<rparr>"

definition BrickletIndustrialDualAnalogIn_get_voltage_callback_period :: dev_method where
  "BrickletIndustrialDualAnalogIn_get_voltage_callback_period =
     \<lparr>m_name = ''get_voltage_callback_period'', m_params = [''channel''],
      m_function = 3, m_form = ''B'', m_form_ret = ''I'',
      m_result = Returned\<rparr>"

definition BrickletIndustrialDualAnalogIn_set_voltage_callback_threshold :: dev_method where
  "BrickletIndustrialDualAnalogIn_set_voltage_callback_threshold =
     \<lparr>m_name = ''set_voltage_callback_threshold'', m_params = [''channel'', ''option'', ''min'', ''max''],
      m_function = 4, m_form = ''B c i i'', m_form_ret = [],
      m_result = Discarded\<rparr>"

definition BrickletIndustrialDualAnalogIn_get_voltage_callback_threshold :: dev_method where
  "BrickletIndustrialDualAnalogIn_get_voltage_callback_threshold =
     \<lparr>m_name = ''get_voltage_callback_threshold'', m_params = [''channel''],
      m_function = 5, m_form = ''B'', m_form_ret = ''c i i'',
      m_result = BrickletIndustrialDualAnalogIn_GetVoltageCallbackThreshold\<rparr>"

definition BrickletIndustrialDualAnalogIn_set_debounce_period :: dev_method where
  "BrickletIndustrialDualAnalogIn_set_debounce_period =
     \<lparr>m_name = ''set_debounce_period'', m_params = [''debounce''],
      m_function = 6, m_form = ''I'', m_form_ret = [],
      m_result = Discarded\<rparr>"

definition BrickletIndustrialDualAnalogIn_get_debounce_period :: dev_method where
  "BrickletIndustrialDualAnalogIn_get_debounce_period =
     \<lparr>m_name = ''get_debounce_period'', m_params = [],
      m_function = 7, m_form = [], m_form_ret = ''I'',
      m_result = Returned\<rparr>"

definition BrickletIndustrialDualAnalogIn_set_sample_rate :: dev_method where
  "BrickletIndustrialDualAnalogIn_set_sample_rate =
     \<lparr>m_name = ''set_sample_rate'', m_params = [''rate''],
      m_function = 8, m_form = ''B'', m_form_ret = [],
      m_result = Discarded\<rparr>"

definition BrickletIndustrialDualAnalogIn_get_sample_rate :: dev_method where
  "BrickletIndustrialDualAnalogIn_get_sample_rate =
     \<lparr>m_name = ''get_sample_rate'', m_params = [],
      m_function = 9, m_form = [], m_form_ret = ''B'',
      m_result = Returned\<rparr>"

definition BrickletIndustrialDualAnalogIn_set_calibration :: dev_method where
  "BrickletIndustrialDualAnalogIn_set_calibration =
     \<lparr>m_name = ''set_calibration'', m_params = [''offset'', ''gain''],
      m_function = 10, m_form = ''2i 2i'', m_form_ret = [],
      m_result = Discarded\<rparr>"

definition BrickletIndustrialDualAnalogIn_get_calibration :: dev_method where
  "BrickletIndustrialDualAnalogIn_get_calibration =
     \<lparr>m_name = ''get_calibration'', m_params = [],
      m_function = 11, m_form = [], m_form_ret = ''2i 2i'',
      m_result = BrickletIndustrialDualAnalogIn_GetCalibration\<rparr>"

definition BrickletIndustrialDualAnalogIn_get_adc_values :: dev_method where
  "BrickletIndustrialDualAnalogIn_get_adc_values =
     \<lparr>m_name = ''get_adc_values'', m_params = [],
      m_function = 12, m_form = [], m_form_ret = ''2i'',
      m_result = Returned\<rparr>"

definition BrickletIndustrialDualAnalogIn_get_identity :: dev_method where
  "BrickletIndustrialDualAnalogIn_get_identity =
     \<lparr>m_name = ''get_identity'', m_params = [],
      m_function = 255, m_form = [], m_form_ret = ''8s 8s c 3B 3B H'',
      m_result = BrickletIndustrialDualAnalogIn_GetIdentity\<rparr>"

definition BrickletIndustrialDualAnalogIn :: binding where
  "BrickletIndustrialDualAnalogIn =
     \<lparr>b_class = ''BrickletIndustrialDualAnalogIn'', b_identifier = 249, b_ids = BrickletIndustrialDualAnalogIn_ids,
      b_api_version = (2, 0, 0), b_flags = BrickletIndustrialDualAnalogIn_flags, b_formats = BrickletIndustrialDualAnalogIn_formats,
      b_methods =
       [BrickletIndustrialDualAnalogIn_get_voltage,
        BrickletIndustrialDualAnalogIn_set_voltage_callback_period,
        BrickletIndustrialDualAnalogIn_get_voltage_callback_period,
        BrickletIndustrialDualAnalogIn_set_voltage_callback_threshold,
        BrickletIndustrialDualAnalogIn_get_voltage_callback_threshold,
        BrickletIndustrialDualAnalogIn_set_debounce_period,
        BrickletIndustrialDualAnalogIn_get_debounce_period,
        BrickletIndustrialDualAnalogIn_set_sample_rate,
        BrickletIndustrialDualAnalogIn_get_sample_rate,
        BrickletIndustrialDualAnalogIn_set_calibration,
        BrickletIndustrialDualAnalogIn_get_calibration,
        BrickletIndustrialDualAnalogIn_get_adc_values, BrickletIndustrialDualAnalogIn_get_identity]\<rparr>"

interpretation IndustrialDualAnalogIn: device_class BrickletIndustrialDualAnalogIn
  by unfold_locales code_simp

section \<open>The class BrickletIndustrialQuadRelay (\<^verbatim>\<open>bricklet_industrial_quad_relay.py\<close>)\<close>

definition BrickletIndustrialQuadRelay_GetMonoflop :: shape where
  "BrickletIndustrialQuadRelay_GetMonoflop = Named ''Monoflop''
     [''value'', ''time'', ''time_remaining'']"

definition BrickletIndustrialQuadRelay_GetIdentity :: shape where
  "BrickletIndustrialQuadRelay_GetIdentity = Named ''Identity''
     [''uid'', ''connected_uid'', ''position'', ''hardware_version'', ''firmware_version'',
      ''device_identifier'']"

definition BrickletIndustrialQuadRelay_ids :: "(string \<times> int) list" where
  "BrickletIndustrialQuadRelay_ids =
     [(''CALLBACK_MONOFLOP_DONE'', 8), (''FUNCTION_SET_VALUE'', 1), (''FUNCTION_GET_VALUE'', 2),
      (''FUNCTION_SET_MONOFLOP'', 3), (''FUNCTION_GET_MONOFLOP'', 4), (''FUNCTION_SET_GROUP'', 5),
      (''FUNCTION_GET_GROUP'', 6), (''FUNCTION_GET_AVAILABLE_FOR_GROUP'', 7),
      (''FUNCTION_SET_SELECTED_VALUES'', 9), (''FUNCTION_GET_IDENTITY'', 255)]"

definition BrickletIndustrialQuadRelay_flags :: "(int \<times> resp_flag) list" where
  "BrickletIndustrialQuadRelay_flags =
     [(1, RE_FALSE), (2, ALWAYS_TRUE), (3, RE_FALSE), (4, ALWAYS_TRUE), (5, RE_FALSE),
      (6, ALWAYS_TRUE), (7, ALWAYS_TRUE), (8, ALWAYS_FALSE), (9, RE_FALSE), (255, ALWAYS_TRUE)]"

definition BrickletIndustrialQuadRelay_formats :: "(int \<times> string) list" where
  "BrickletIndustrialQuadRelay_formats =
     [(8, ''H H'')]"

definition BrickletIndustrialQuadRelay_set_value :: dev_method where
  "BrickletIndustrialQuadRelay_set_value =
     \<lparr>m_name = ''set_value'', m_params = [''value_mask''],
      m_function = 1, m_form = ''H'', m_form_ret = [],
      m_result = Discarded\<rparr>"

definition BrickletIndustrialQuadRelay_get_value :: dev_method where
  "BrickletIndustrialQuadRelay_get_value =
     \<lparr>m_name = ''get_value'', m_params = [],
      m_function = 2, m_form = [], m_form_ret = ''H'',
      m_result = Returned\<rparr>"

definition BrickletIndustrialQuadRelay_set_monoflop :: dev_method where
  "BrickletIndustrialQuadRelay_set_monoflop =
     \<lparr>m_name = ''set_monoflop'', m_params = [''selection_mask'', ''value_mask'', ''time''],
      m_function = 3, m_form = ''H H I'', m_form_ret = [],
      m_result = Discarded\<rparr>"

definition BrickletIndustrialQuadRelay_get_monoflop :: dev_method where
  "BrickletIndustrialQuadRelay_get_monoflop =
     \<lparr>m_name = ''get_monoflop'', m_params = [''pin''],
      m_function = 4, m_form = ''B'', m_form_ret = ''H I I'',
      m_result = BrickletIndustrialQuadRelay_GetMonoflop\<rparr>"

definition BrickletIndustrialQuadRelay_set_group :: dev_method where
  "BrickletIndustrialQuadRelay_set_group =
     \<lparr>m_name = ''set_group'', m_params = [''group''],
      m_function = 5, m_form = ''4c'', m_form_ret = [],
      m_result = Discarded\<rparr>"

definition BrickletIndustrialQuadRelay_get_group :: dev_method where
  "BrickletIndustrialQuadRelay_get_group =
     \<lparr>m_name = ''get_group'', m_params = [],
      m_function = 6, m_form = [], m_form_ret = ''4c'',
      m_result = Returned\<rparr>"

definition BrickletIndustrialQuadRelay_get_available_for_group :: dev_method where
  "BrickletIndustrialQuadRelay_get_available_for_group =
     \<lparr>m_name = ''get_available_for_group'', m_params = [],
      m_function = 7, m_form = [], m_form_ret = ''B'',
      m_result = Returned\<rparr>"

definition BrickletIndustrialQuadRelay_set_selected_values :: dev_method where
  "BrickletIndustrialQuadRelay_set_selected_values =
     \<lparr>m_name = ''set_selected_values'', m_params = [''selection_mask'', ''value_mask''],
      m_function = 9, m_form = ''H H'', m_form_ret = [],
      m_result = Discarded\<rparr>"

definition BrickletIndustrialQuadRelay_get_identity :: dev_method where
  "BrickletIndustrialQuadRelay_get_identity =
     \<lparr>m_name = ''get_identity'', m_params = [],
      m_function = 255, m_form = [], m_form_ret = ''8s 8s c 3B 3B H'',
      m_result = BrickletIndustrialQuadRelay_GetIdentity\<rparr>"

definition BrickletIndustrialQuadRelay :: binding where
  "BrickletIndustrialQuadRelay =
     \<lparr>b_class = ''BrickletIndustrialQuadRelay'', b_identifier = 225, b_ids = BrickletIndustrialQuadRelay_ids,
      b_api_version = (2, 0, 0), b_flags = BrickletIndustrialQuadRelay_flags, b_formats = BrickletIndustrialQuadRelay_formats,
      b_methods =
       [BrickletIndustrialQuadRelay_set_value, BrickletIndustrialQuadRelay_get_value,
        BrickletIndustrialQuadRelay_set_monoflop, BrickletIndustrialQuadRelay_get_monoflop,
        BrickletIndustrialQuadRelay_set_group, BrickletIndustrialQuadRelay_get_group,
        BrickletIndustrialQuadRelay_get_available_for_group,
        BrickletIndustrialQuadRelay_set_selected_values, BrickletIndustrialQuadRelay_get_identity]\<rparr>"

interpretation IndustrialQuadRelay: device_class BrickletIndustrialQuadRelay
  by unfold_locales code_simp

section \<open>The class BrickletIO16 (\<^verbatim>\<open>bricklet_io16.py\<close>)\<close>

definition BrickletIO16_GetPortConfiguration :: shape where
  "BrickletIO16_GetPortConfiguration = Named ''PortConfiguration''
     [''direction_mask'', ''value_mask'']"

definition BrickletIO16_GetPortMonoflop :: shape where
  "BrickletIO16_GetPortMonoflop = Named ''PortMonoflop''
     [''value'', ''time'', ''time_remaining'']"

definition BrickletIO16_GetEdgeCountConfig :: shape where
  "BrickletIO16_GetEdgeCountConfig = Named ''EdgeCountConfig''
     [''edge_type'', ''debounce'']"

definition BrickletIO16_GetIdentity :: shape where
  "BrickletIO16_GetIdentity = Named ''Identity''
     [''uid'', ''connected_uid'', ''position'', ''hardware_version'', ''firmware_version'',
      ''device_identifier'']"

definition BrickletIO16_ids :: "(string \<times> int) list" where
  "BrickletIO16_ids =
     [(''CALLBACK_INTERRUPT'', 9), (''CALLBACK_MONOFLOP_DONE'', 12), (''FUNCTION_SET_PORT'', 1),
      (''FUNCTION_GET_PORT'', 2), (''FUNCTION_SET_PORT_CONFIGURATION'', 3),
      (''FUNCTION_GET_PORT_CONFIGURATION'', 4), (''FUNCTION_SET_DEBOUNCE_PERIOD'', 5),
      (''FUNCTION_GET_DEBOUNCE_PERIOD'', 6), (''FUNCTION_SET_PORT_INTERRUPT'', 7),
      (''FUNCTION_GET_PORT_INTERRUPT'', 8), (''FUNCTION_SET_PORT_MONOFLOP'', 10),
      (''FUNCTION_GET_PORT_MONOFLOP'', 11), (''FUNCTION_SET_SELECTED_VALUES'', 13),
      (''FUNCTION_GET_EDGE_COUNT'', 14), (''FUNCTION_SET_EDGE_COUNT_CONFIG'', 15),
      (''FUNCTION_GET_EDGE_COUNT_CONFIG'', 16), (''FUNCTION_GET_IDENTITY'', 255)]"

definition BrickletIO16_flags :: "(int \<times> resp_flag) list" where
  "BrickletIO16_flags =
     [(1, RE_FALSE), (2, ALWAYS_TRUE), (3, RE_FALSE), (4, ALWAYS_TRUE), (5, RE_TRUE),
      (6, ALWAYS_TRUE), (7, RE_TRUE), (8, ALWAYS_TRUE), (9, ALWAYS_FALSE), (10, RE_FALSE),
      (11, ALWAYS_TRUE), (12, ALWAYS_FALSE), (13, RE_FALSE), (14, ALWAYS_TRUE), (15, RE_FALSE),
      (16, ALWAYS_TRUE), (255, ALWAYS_TRUE)]"

definition BrickletIO16_formats :: "(int \<times> string) list" where
  "BrickletIO16_formats =
     [(9, ''c B B''), (12, ''c B B'')]"

definition BrickletIO16_set_port :: dev_method where
  "BrickletIO16_set_port =
     \<lparr>m_name = ''set_port'', m_params = [''port'', ''value_mask''],
      m_function = 1, m_form = ''c B'', m_form_ret = [],
      m_result = Discarded\<rparr>"

definition BrickletIO16_get_port :: dev_method where
  "BrickletIO16_get_port =
     \<lparr>m_name = ''get_port'', m_params = [''port''],
      m_function = 2, m_form = ''c'', m_form_ret = ''B'',
      m_result = Returned\<rparr>"

definition BrickletIO16_set_port_configuration :: dev_method where
  "BrickletIO16_set_port_configuration =
     \<lparr>m_name = ''set_port_configuration'', m_params = [''port'', ''selection_mask'', ''direction'', ''value''],
      m_function = 3, m_form = ''c B c ?'', m_form_ret = [],
      m_result = Discarded\<rparr>"

definition BrickletIO16_get_port_configuration :: dev_method where
  "BrickletIO16_get_port_configuration =
     \<lparr>m_name = ''get_port_configuration'', m_params = [''port''],
      m_function = 4, m_form = ''c'', m_form_ret = ''B B'',
      m_result = BrickletIO16_GetPortConfiguration\<rparr>"

definition BrickletIO16_set_debounce_period :: dev_method where
  "BrickletIO16_set_debounce_period =
     \<lparr>m_name = ''set_debounce_period'', m_params = [''debounce''],
      m_function = 5, m_form = ''I'', m_form_ret = [],
      m_result = Discarded\<rparr>"

definition BrickletIO16_get_debounce_period :: dev_method where
  "BrickletIO16_get_debounce_period =
     \<lparr>m_name = ''get_debounce_period'', m_params = [],
      m_function = 6, m_form = [], m_form_ret = ''I'',
      m_result = Returned\<rparr>"

definition BrickletIO16_set_port_interrupt :: dev_method where
  "BrickletIO16_set_port_interrupt =
     \<lparr>m_name = ''set_port_interrupt'', m_params = [''port'', ''interrupt_mask''],
      m_function = 7, m_form = ''c B'', m_form_ret = [],
      m_result = Discarded\<rparr>"

definition BrickletIO16_get_port_interrupt :: dev_method where
  "BrickletIO16_get_port_interrupt =
     \<lparr>m_name = ''get_port_interrupt'', m_params = [''port''],
      m_function = 8, m_form = ''c'', m_form_ret = ''B'',
      m_result = Returned\<rparr>"

definition BrickletIO16_set_port_monoflop :: dev_method where
  "BrickletIO16_set_port_monoflop =
     \<lparr>m_name = ''set_port_monoflop'', m_params = [''port'', ''selection_mask'', ''value_mask'', ''time''],
      m_function = 10, m_form = ''c B B I'', m_form_ret = [],
      m_result = Discarded\<rparr>"

definition BrickletIO16_get_port_monoflop :: dev_method where
  "BrickletIO16_get_port_monoflop =
     \<lparr>m_name = ''get_port_monoflop'', m_params = [''port'', ''pin''],
      m_function = 11, m_form = ''c B'', m_form_ret = ''B I I'',
      m_result = BrickletIO16_GetPortMonoflop\<rparr>"

definition BrickletIO16_set_selected_values :: dev_method where
  "BrickletIO16_set_selected_values =
     \<lparr>m_name = ''set_selected_values'', m_params = [''port'', ''selection_mask'', ''value_mask''],
      m_function = 13, m_form = ''c B B'', m_form_ret = [],
      m_result = Discarded\<rparr>"

definition BrickletIO16_get_edge_count :: dev_method where
  "BrickletIO16_get_edge_count =
     \<lparr>m_name = ''get_edge_count'', m_params = [''pin'', ''reset_counter''],
      m_function = 14, m_form = ''B ?'', m_form_ret = ''I'',
      m_result = Returned\<rparr>"

definition BrickletIO16_set_edge_count_config :: dev_method where
  "BrickletIO16_set_edge_count_config =
     \<lparr>m_name = ''set_edge_count_config'', m_params = [''pin'', ''edge_type'', ''debounce''],
      m_function = 15, m_form = ''B B B'', m_form_ret = [],
      m_result = Discarded\<rparr>"

definition BrickletIO16_get_edge_count_config :: dev_method where
  "BrickletIO16_get_edge_count_config =
     \<lparr>m_name = ''get_edge_count_config'', m_params = [''pin''],
      m_function = 16, m_form = ''B'', m_form_ret = ''B B'',
      m_result = BrickletIO16_GetEdgeCountConfig\<rparr>"

definition BrickletIO16_get_identity :: dev_method where
  "BrickletIO16_get_identity =
     \<lparr>m_name = ''get_identity'', m_params = [],
      m_function = 255, m_form = [], m_form_ret = ''8s 8s c 3B 3B H'',
      m_result = BrickletIO16_GetIdentity\<rparr>"

definition BrickletIO16 :: binding where
  "BrickletIO16 =
     \<lparr>b_class = ''BrickletIO16'', b_identifier = 28, b_ids = BrickletIO16_ids,
      b_api_version = (2, 0, 1), b_flags = BrickletIO16_flags, b_formats = BrickletIO16_formats,
      b_methods =
       [BrickletIO16_set_port, BrickletIO16_get_port, BrickletIO16_set_port_configuration,
        BrickletIO16_get_port_configuration, BrickletIO16_set_debounce_period,
        BrickletIO16_get_debounce_period, BrickletIO16_set_port_interrupt,
        BrickletIO16_get_port_interrupt, BrickletIO16_set_port_monoflop,
        BrickletIO16_get_port_monoflop, BrickletIO16_set_selected_values,
        BrickletIO16_get_edge_count, BrickletIO16_set_edge_count_config,
        BrickletIO16_get_edge_count_config, BrickletIO16_get_identity]\<rparr>"

interpretation IO16: device_class BrickletIO16
  by unfold_locales code_simp

section \<open>The class BrickletIO4 (\<^verbatim>\<open>bricklet_io4.py\<close>)\<close>

definition BrickletIO4_GetConfiguration :: shape where
  "BrickletIO4_GetConfiguration = Named ''Configuration''
     [''direction_mask'', ''value_mask'']"

definition BrickletIO4_GetMonoflop :: shape where
  "BrickletIO4_GetMonoflop = Named ''Monoflop''
     [''value'', ''time'', ''time_remaining'']"

definition BrickletIO4_GetEdgeCountConfig :: shape where
  "BrickletIO4_GetEdgeCountConfig = Named ''EdgeCountConfig''
     [''edge_type'', ''debounce'']"

definition BrickletIO4_GetIdentity :: shape where
  "BrickletIO4_GetIdentity = Named ''Identity''
     [''uid'', ''connected_uid'', ''position'', ''hardware_version'', ''firmware_version'',
      ''device_identifier'']"

definition BrickletIO4_ids :: "(string \<times> int) list" where
  "BrickletIO4_ids =
     [(''CALLBACK_INTERRUPT'', 9), (''CALLBACK_MONOFLOP_DONE'', 12), (''FUNCTION_SET_VALUE'', 1),
      (''FUNCTION_GET_VALUE'', 2), (''FUNCTION_SET_CONFIGURATION'', 3),
      (''FUNCTION_GET_CONFIGURATION'', 4), (''FUNCTION_SET_DEBOUNCE_PERIOD'', 5),
      (''FUNCTION_GET_DEBOUNCE_PERIOD'', 6), (''FUNCTION_SET_INTERRUPT'', 7),
      (''FUNCTION_GET_INTERRUPT'', 8), (''FUNCTION_SET_MONOFLOP'', 10),
      (''FUNCTION_GET_MONOFLOP'', 11), (''FUNCTION_SET_SELECTED_VALUES'', 13),
      (''FUNCTION_GET_EDGE_COUNT'', 14), (''FUNCTION_SET_EDGE_COUNT_CONFIG'', 15),
      (''FUNCTION_GET_EDGE_COUNT_CONFIG'', 16), (''FUNCTION_GET_IDENTITY'', 255)]"

definition BrickletIO4_flags :: "(int \<times> resp_flag) list" where
  "BrickletIO4_flags =
     [(1, RE_FALSE), (2, ALWAYS_TRUE), (3, RE_FALSE), (4, ALWAYS_TRUE), (5, RE_TRUE),
      (6, ALWAYS_TRUE), (7, RE_TRUE), (8, ALWAYS_TRUE), (9, ALWAYS_FALSE), (10, RE_FALSE),
      (11, ALWAYS_TRUE), (12, ALWAYS_FALSE), (13, RE_FALSE), (14, ALWAYS_TRUE), (15, RE_FALSE),
      (16, ALWAYS_TRUE), (255, ALWAYS_TRUE)]"

definition BrickletIO4_formats :: "(int \<times> string) list" where
  "BrickletIO4_formats =
     [(9, ''B B''), (12, ''B B'')]"

definition BrickletIO4_set_value :: dev_method where
  "BrickletIO4_set_value =
     \<lparr>m_name = ''set_value'', m_params = [''value_mask''],
      m_function = 1, m_form = ''B'', m_form_ret = [],
      m_result = Discarded\<rparr>"

definition BrickletIO4_get_value :: dev_method where
  "BrickletIO4_get_value =
     \<lparr>m_name = ''get_value'', m_params = [],
      m_function = 2, m_form = [], m_form_ret = ''B'',
      m_result = Returned\<rparr>"

definition BrickletIO4_set_configuration :: dev_method where
  "BrickletIO4_set_configuration =
     \<lparr>m_name = ''set_configuration'', m_params = [''selection_mask'', ''direction'', ''value''],
      m_function = 3, m_form = ''B c ?'', m_form_ret = [],
      m_result = Discarded\<rparr>"

definition BrickletIO4_get_configuration :: dev_method where
  "BrickletIO4_get_configuration =
     \<lparr>m_name = ''get_configuration'', m_params = [],
      m_function = 4, m_form = [], m_form_ret = ''B B'',
      m_result = BrickletIO4_GetConfiguration\<rparr>"

definition BrickletIO4_set_debounce_period :: dev_method where
  "BrickletIO4_set_debounce_period =
     \<lparr>m_name = ''set_debounce_period'', m_params = [''debounce''],
      m_function = 5, m_form = ''I'', m_form_ret = [],
      m_result = Discarded\<rparr>"

definition BrickletIO4_get_debounce_period :: dev_method where
  "BrickletIO4_get_debounce_period =
     \<lparr>m_name = ''get_debounce_period'', m_params = [],
      m_function = 6, m_form = [], m_form_ret = ''I'',
      m_result = Returned\<rparr>"

definition BrickletIO4_set_interrupt :: dev_method where
  "BrickletIO4_set_interrupt =
     \<lparr>m_name = ''set_interrupt'', m_params = [''interrupt_mask''],
      m_function = 7, m_form = ''B'', m_form_ret = [],
      m_result = Discarded\<rparr>"

definition BrickletIO4_get_interrupt :: dev_method where
  "BrickletIO4_get_interrupt =
     \<lparr>m_name = ''get_interrupt'', m_params = [],
      m_function = 8, m_form = [], m_form_ret = ''B'',
      m_result = Returned\<rparr>"

definition BrickletIO4_set_monoflop :: dev_method where
  "BrickletIO4_set_monoflop =
     \<lparr>m_name = ''set_monoflop'', m_params = [''selection_mask'', ''value_mask'', ''time''],
      m_function = 10, m_form = ''B B I'', m_form_ret = [],
      m_result = Discarded\<rparr>"

definition BrickletIO4_get_monoflop :: dev_method where
  "BrickletIO4_get_monoflop =
     \<lparr>m_name = ''get_monoflop'', m_params = [''pin''],
      m_function = 11, m_form = ''B'', m_form_ret = ''B I I'',
      m_result = BrickletIO4_GetMonoflop\<rparr>"

definition BrickletIO4_set_selected_values :: dev_method where
  "BrickletIO4_set_selected_values =
     \<lparr>m_name = ''set_selected_values'', m_params = [''selection_mask'', ''value_mask''],
      m_function = 13, m_form = ''B B'', m_form_ret = [],
      m_result = Discarded\<rparr>"

definition BrickletIO4_get_edge_count :: dev_method where
  "BrickletIO4_get_edge_count =
     \<lparr>m_name = ''get_edge_count'', m_params = [''pin'', ''reset_counter''],
      m_function = 14, m_form = ''B ?'', m_form_ret = ''I'',
      m_result = Returned\<rparr>"

definition BrickletIO4_set_edge_count_config :: dev_method where
  "BrickletIO4_set_edge_count_config =
     \<lparr>m_name = ''set_edge_count_config'', m_params = [''selection_mask'', ''edge_type'', ''debounce''],
      m_function = 15, m_form = ''B B B'', m_form_ret = [],
      m_result = Discarded\<rparr>"

definition BrickletIO4_get_edge_count_config :: dev_method where
  "BrickletIO4_get_edge_count_config =
     \<lparr>m_name = ''get_edge_count_config'', m_params = [''pin''],
      m_function = 16, m_form = ''B'', m_form_ret = ''B B'',
      m_result = BrickletIO4_GetEdgeCountConfig\<rparr>"

definition BrickletIO4_get_identity :: dev_method where
  "BrickletIO4_get_identity =
     \<lparr>m_name = ''get_identity'', m_params = [],
      m_function = 255, m_form = [], m_form_ret = ''8s 8s c 3B 3B H'',
      m_result = BrickletIO4_GetIdentity\<rparr>"

definition BrickletIO4 :: binding where
  "BrickletIO4 =
     \<lparr>b_class = ''BrickletIO4'', b_identifier = 29, b_ids = BrickletIO4_ids,
      b_api_version = (2, 0, 1), b_flags = BrickletIO4_flags, b_formats = BrickletIO4_formats,
      b_methods =
       [BrickletIO4_set_value, BrickletIO4_get_value, BrickletIO4_set_configuration,
        BrickletIO4_get_configuration, BrickletIO4_set_debounce_period,
        BrickletIO4_get_debounce_period, BrickletIO4_set_interrupt, BrickletIO4_get_interrupt,
        BrickletIO4_set_monoflop, BrickletIO4_get_monoflop, BrickletIO4_set_selected_values,
        BrickletIO4_get_edge_count, BrickletIO4_set_edge_count_config,
        BrickletIO4_get_edge_count_config, BrickletIO4_get_identity]\<rparr>"

interpretation IO4: device_class BrickletIO4
  by unfold_locales code_simp

section \<open>The class BrickletDualRelay (\<^verbatim>\<open>bricklet_dual_relay.py\<close>)\<close>

definition BrickletDualRelay_GetState :: shape where
  "BrickletDualRelay_GetState = Named ''State''
     [''relay1'', ''relay2'']"

definition BrickletDualRelay_GetMonoflop :: shape where
  "BrickletDualRelay_GetMonoflop = Named ''Monoflop''
     [''state'', ''time'', ''time_remaining'']"

definition BrickletDualRelay_GetIdentity :: shape where
  "BrickletDualRelay_GetIdentity = Named ''Identity''
     [''uid'', ''connected_uid'', ''position'', ''hardware_version'', ''firmware_version'',
      ''device_identifier'']"

definition BrickletDualRelay_ids :: "(string \<times> int) list" where
  "BrickletDualRelay_ids =
     [(''CALLBACK_MONOFLOP_DONE'', 5), (''FUNCTION_SET_STATE'', 1), (''FUNCTION_GET_STATE'', 2),
      (''FUNCTION_SET_MONOFLOP'', 3), (''FUNCTION_GET_MONOFLOP'', 4),
      (''FUNCTION_SET_SELECTED_STATE'', 6), (''FUNCTION_GET_IDENTITY'', 255)]"

definition BrickletDualRelay_flags :: "(int \<times> resp_flag) list" where
  "BrickletDualRelay_flags =
     [(1, RE_FALSE), (2, ALWAYS_TRUE), (3, RE_FALSE), (4, ALWAYS_TRUE), (5, ALWAYS_FALSE),
      (6, RE_FALSE), (255, ALWAYS_TRUE)]"

definition BrickletDualRelay_formats :: "(int \<times> string) list" where
  "BrickletDualRelay_formats =
     [(5, ''B ?'')]"

definition BrickletDualRelay_set_state :: dev_method where
  "BrickletDualRelay_set_state =
     \<lparr>m_name = ''set_state'', m_params = [''relay1'', ''relay2''],
      m_function = 1, m_form = ''? ?'', m_form_ret = [],
      m_result = Discarded\<rparr>"

definition BrickletDualRelay_get_state :: dev_method where
  "BrickletDualRelay_get_state =
     \<lparr>m_name = ''get_state'', m_params = [],
      m_function = 2, m_form = [], m_form_ret = ''? ?'',
      m_result = BrickletDualRelay_GetState\<rparr>"

definition BrickletDualRelay_set_monoflop :: dev_method where
  "BrickletDualRelay_set_monoflop =
     \<lparr>m_name = ''set_monoflop'', m_params = [''relay'', ''state'', ''time''],
      m_function = 3, m_form = ''B ? I'', m_form_ret = [],
      m_result = Discarded\<rparr>"

definition BrickletDualRelay_get_monoflop :: dev_method where
  "BrickletDualRelay_get_monoflop =
     \<lparr>m_name = ''get_monoflop'', m_params = [''relay''],
      m_function = 4, m_form = ''B'', m_form_ret = ''? I I'',
      m_result = BrickletDualRelay_GetMonoflop\<rparr>"

definition BrickletDualRelay_set_selected_state :: dev_method where
  "BrickletDualRelay_set_selected_state =
     \<lparr>m_name = ''set_selected_state'', m_params = [''relay'', ''state''],
      m_function = 6, m_form = ''B ?'', m_form_ret = [],
      m_result = Discarded\<rparr>"

definition BrickletDualRelay_get_identity :: dev_method where
  "BrickletDualRelay_get_identity =
     \<lparr>m_name = ''get_identity'', m_params = [],
      m_function = 255, m_form = [], m_form_ret = ''8s 8s c 3B 3B H'',
      m_result = BrickletDualRelay_GetIdentity\<rparr>"

definition BrickletDualRelay :: binding where
  "BrickletDualRelay =
     \<lparr>b_class = ''BrickletDualRelay'', b_identifier = 26, b_ids = BrickletDualRelay_ids,
      b_api_version = (2, 0, 0), b_flags = BrickletDualRelay_flags, b_formats = BrickletDualRelay_formats,
      b_methods =
       [BrickletDualRelay_set_state, BrickletDualRelay_get_state, BrickletDualRelay_set_monoflop,
        BrickletDualRelay_get_monoflop, BrickletDualRelay_set_selected_state,
        BrickletDualRelay_get_identity]\<rparr>"

interpretation DualRelay: device_class BrickletDualRelay
  by unfold_locales code_simp

section \<open>The class BrickletSolidStateRelay (\<^verbatim>\<open>bricklet_solid_state_relay.py\<close>)\<close>

definition BrickletSolidStateRelay_GetMonoflop :: shape where
  "BrickletSolidStateRelay_GetMonoflop = Named ''Monoflop''
     [''state'', ''time'', ''time_remaining'']"

definition BrickletSolidStateRelay_GetIdentity :: shape where
  "BrickletSolidStateRelay_GetIdentity = Named ''Identity''
     [''uid'', ''connected_uid'', ''position'', ''hardware_version'', ''firmware_version'',
      ''device_identifier'']"

definition BrickletSolidStateRelay_ids :: "(string \<times> int) list" where
  "BrickletSolidStateRelay_ids =
     [(''CALLBACK_MONOFLOP_DONE'', 5), (''FUNCTION_SET_STATE'', 1), (''FUNCTION_GET_STATE'', 2),
      (''FUNCTION_SET_MONOFLOP'', 3), (''FUNCTION_GET_MONOFLOP'', 4),
      (''FUNCTION_GET_IDENTITY'', 255)]"

definition BrickletSolidStateRelay_flags :: "(int \<times> resp_flag) list" where
  "BrickletSolidStateRelay_flags =
     [(1, RE_FALSE), (2, ALWAYS_TRUE), (3, RE_FALSE), (4, ALWAYS_TRUE), (5, ALWAYS_FALSE),
      (255, ALWAYS_TRUE)]"

definition BrickletSolidStateRelay_formats :: "(int \<times> string) list" where
  "BrickletSolidStateRelay_formats =
     [(5, ''?'')]"

definition BrickletSolidStateRelay_set_state :: dev_method where
  "BrickletSolidStateRelay_set_state =
     \<lparr>m_name = ''set_state'', m_params = [''state''],
      m_function = 1, m_form = ''?'', m_form_ret = [],
      m_result = Discarded\<rparr>"

definition BrickletSolidStateRelay_get_state :: dev_method where
  "BrickletSolidStateRelay_get_state =
     \<lparr>m_name = ''get_state'', m_params = [],
      m_function = 2, m_form = [], m_form_ret = ''?'',
      m_result = Returned\<rparr>"

definition BrickletSolidStateRelay_set_monoflop :: dev_method where
  "BrickletSolidStateRelay_set_monoflop =
     \<lparr>m_name = ''set_monoflop'', m_params = [''state'', ''time''],
      m_function = 3, m_form = ''? I'', m_form_ret = [],
      m_result = Discarded\<rparr>"

definition BrickletSolidStateRelay_get_monoflop :: dev_method where
  "BrickletSolidStateRelay_get_monoflop =
     \<lparr>m_name = ''get_monoflop'', m_params = [],
      m_function = 4, m_form = [], m_form_ret = ''? I I'',
      m_result = BrickletSolidStateRelay_GetMonoflop\<rparr>"

definition BrickletSolidStateRelay_get_identity :: dev_method where
  "BrickletSolidStateRelay_get_identity =
     \<lparr>m_name = ''get_identity'', m_params = [],
      m_function = 255, m_form = [], m_form_ret = ''8s 8s c 3B 3B H'',
      m_result = BrickletSolidStateRelay_GetIdentity\<rparr>"

definition BrickletSolidStateRelay :: binding where
  "BrickletSolidStateRelay =
     \<lparr>b_class = ''BrickletSolidStateRelay'', b_identifier = 244, b_ids = BrickletSolidStateRelay_ids,
      b_api_version = (2, 0, 0), b_flags = BrickletSolidStateRelay_flags, b_formats = BrickletSolidStateRelay_formats,
      b_methods =
       [BrickletSolidStateRelay_set_state, BrickletSolidStateRelay_get_state,
        BrickletSolidStateRelay_set_monoflop, BrickletSolidStateRelay_get_monoflop,
        BrickletSolidStateRelay_get_identity]\<rparr>"

interpretation SolidStateRelay: device_class BrickletSolidStateRelay
  by unfold_locales code_simp

section \<open>The class BrickletRemoteSwitch (\<^verbatim>\<open>bricklet_remote_switch.py\<close>)\<close>

definition BrickletRemoteSwitch_GetIdentity :: shape where
  "BrickletRemoteSwitch_GetIdentity = Named ''Identity''
     [''uid'', ''connected_uid'', ''position'', ''hardware_version'', ''firmware_version'',
      ''device_identifier'']"

definition BrickletRemoteSwitch_ids :: "(string \<times> int) list" where
  "BrickletRemoteSwitch_ids =
     [(''CALLBACK_SWITCHING_DONE'', 3), (''FUNCTION_SWITCH_SOCKET'', 1),
      (''FUNCTION_GET_SWITCHING_STATE'', 2), (''FUNCTION_SET_REPEATS'', 4),
      (''FUNCTION_GET_REPEATS'', 5), (''FUNCTION_SWITCH_SOCKET_A'', 6),
      (''FUNCTION_SWITCH_SOCKET_B'', 7), (''FUNCTION_DIM_SOCKET_B'', 8),
      (''FUNCTION_SWITCH_SOCKET_C'', 9), (''FUNCTION_GET_IDENTITY'', 255)]"

definition BrickletRemoteSwitch_flags :: "(int \<times> resp_flag) list" where
  "BrickletRemoteSwitch_flags =
     [(1, RE_FALSE), (2, ALWAYS_TRUE), (3, ALWAYS_FALSE), (4, RE_FALSE), (5, ALWAYS_TRUE),
      (6, RE_FALSE), (7, RE_FALSE), (8, RE_FALSE), (9, RE_FALSE), (255, ALWAYS_TRUE)]"

definition BrickletRemoteSwitch_formats :: "(int \<times> string) list" where
  "BrickletRemoteSwitch_formats =
     [(3, [])]"

definition BrickletRemoteSwitch_switch_socket :: dev_method where
  "BrickletRemoteSwitch_switch_socket =
     \<lparr>m_name = ''switch_socket'', m_params = [''house_code'', ''receiver_code'', ''switch_to''],
      m_function = 1, m_form = ''B B B'', m_form_ret = [],
      m_result = Discarded\<rparr>"

definition BrickletRemoteSwitch_get_switching_state :: dev_method where
  "BrickletRemoteSwitch_get_switching_state =
     \<lparr>m_name = ''get_switching_state'', m_params = [],
      m_function = 2, m_form = [], m_form_ret = ''B'',
      m_result = Returned\<rparr>"

definition BrickletRemoteSwitch_set_repeats :: dev_method where
  "BrickletRemoteSwitch_set_repeats =
     \<lparr>m_name = ''set_repeats'', m_params = [''repeats''],
      m_function = 4, m_form = ''B'', m_form_ret = [],
      m_result = Discarded\<rparr>"

definition BrickletRemoteSwitch_get_repeats :: dev_method where
  "BrickletRemoteSwitch_get_repeats =
     \<lparr>m_name = ''get_repeats'', m_params = [],
      m_function = 5, m_form = [], m_form_ret = ''B'',
      m_result = Returned\<rparr>"

definition BrickletRemoteSwitch_switch_socket_a :: dev_method where
  "BrickletRemoteSwitch_switch_socket_a =
     \<lparr>m_name = ''switch_socket_a'', m_params = [''house_code'', ''receiver_code'', ''switch_to''],
      m_function = 6, m_form = ''B B B'', m_form_ret = [],
      m_result = Discarded\<rparr>"

definition BrickletRemoteSwitch_switch_socket_b :: dev_method where
  "BrickletRemoteSwitch_switch_socket_b =
     \<lparr>m_name = ''switch_socket_b'', m_params = [''address'', ''unit'', ''switch_to''],
      m_function = 7, m_form = ''I B B'', m_form_ret = [],
      m_result = Discarded\<rparr>"

definition BrickletRemoteSwitch_dim_socket_b :: dev_method where
  "BrickletRemoteSwitch_dim_socket_b =
     \<lparr>m_name = ''dim_socket_b'', m_params = [''address'', ''unit'', ''dim_value''],
      m_function = 8, m_form = ''I B B'', m_form_ret = [],
      m_result = Discarded\<rparr>"

definition BrickletRemoteSwitch_switch_socket_c :: dev_method where
  "BrickletRemoteSwitch_switch_socket_c =
     \<lparr>m_name = ''switch_socket_c'', m_params = [''system_code'', ''device_code'', ''switch_to''],
      m_function = 9, m_form = ''c B B'', m_form_ret = [],
      m_result = Discarded\<rparr>"

definition BrickletRemoteSwitch_get_identity :: dev_method where
  "BrickletRemoteSwitch_get_identity =
     \<lparr>m_name = ''get_identity'', m_params = [],
      m_function = 255, m_form = [], m_form_ret = ''8s 8s c 3B 3B H'',
      m_result = BrickletRemoteSwitch_GetIdentity\<rparr>"

definition BrickletRemoteSwitch :: binding where
  "BrickletRemoteSwitch =
     \<lparr>b_class = ''BrickletRemoteSwitch'', b_identifier = 235, b_ids = BrickletRemoteSwitch_ids,
      b_api_version = (2, 0, 1), b_flags = BrickletRemoteSwitch_flags, b_formats = BrickletRemoteSwitch_formats,
      b_methods =
       [BrickletRemoteSwitch_switch_socket, BrickletRemoteSwitch_get_switching_state,
        BrickletRemoteSwitch_set_repeats, BrickletRemoteSwitch_get_repeats,
        BrickletRemoteSwitch_switch_socket_a, BrickletRemoteSwitch_switch_socket_b,
        BrickletRemoteSwitch_dim_socket_b, BrickletRemoteSwitch_switch_socket_c,
        BrickletRemoteSwitch_get_identity]\<rparr>"

interpretation RemoteSwitch: device_class BrickletRemoteSwitch
  by unfold_locales code_simp

section \<open>The class BrickletRS232 (\<^verbatim>\<open>bricklet_rs232.py\<close>)\<close>

definition BrickletRS232_Read :: shape where
  "BrickletRS232_Read = Named ''Read''
     [''message'', ''length'']"

definition BrickletRS232_GetConfiguration :: shape where
  "BrickletRS232_GetConfiguration = Named ''Configuration''
     [''baudrate'', ''parity'', ''stopbits'', ''wordlength'', ''hardware_flowcontrol'',
      ''software_flowcontrol'']"

definition BrickletRS232_GetIdentity :: shape where
  "BrickletRS232_GetIdentity = Named ''Identity''
     [''uid'', ''connected_uid'', ''position'', ''hardware_version'', ''firmware_version'',
      ''device_identifier'']"

definition BrickletRS232_ids :: "(string \<times> int) list" where
  "BrickletRS232_ids =
     [(''CALLBACK_READ_CALLBACK'', 8), (''FUNCTION_WRITE'', 1), (''FUNCTION_READ'', 2),
      (''FUNCTION_ENABLE_READ_CALLBACK'', 3), (''FUNCTION_DISABLE_READ_CALLBACK'', 4),
      (''FUNCTION_IS_READ_CALLBACK_ENABLED'', 5), (''FUNCTION_SET_CONFIGURATION'', 6),
      (''FUNCTION_GET_CONFIGURATION'', 7), (''FUNCTION_GET_IDENTITY'', 255)]"

definition BrickletRS232_flags :: "(int \<times> resp_flag) list" where
  "BrickletRS232_flags =
     [(1, ALWAYS_TRUE), (2, ALWAYS_TRUE), (3, RE_TRUE), (4, RE_TRUE), (5, ALWAYS_TRUE),
      (6, RE_FALSE), (7, ALWAYS_TRUE), (8, ALWAYS_FALSE), (255, ALWAYS_TRUE)]"

definition BrickletRS232_formats :: "(int \<times> string) list" where
  "BrickletRS232_formats =
     [(8, ''60c B'')]"

definition BrickletRS232_write :: dev_method where
  "BrickletRS232_write =
     \<lparr>m_name = ''write'', m_params = [''message'', ''length''],
      m_function = 1, m_form = ''60c B'', m_form_ret = ''B'',
      m_result = Returned\<rparr>"

definition BrickletRS232_read :: dev_method where
  "BrickletRS232_read =
     \<lparr>m_name = ''read'', m_params = [],
      m_function = 2, m_form = [], m_form_ret = ''60c B'',
      m_result = BrickletRS232_Read\<rparr>"

definition BrickletRS232_enable_read_callback :: dev_method where
  "BrickletRS232_enable_read_callback =
     \<lparr>m_name = ''enable_read_callback'', m_params = [],
      m_function = 3, m_form = [], m_form_ret = [],
      m_result = Discarded\<rparr>"

definition BrickletRS232_disable_read_callback :: dev_method where
  "BrickletRS232_disable_read_callback =
     \<lparr>m_name = ''disable_read_callback'', m_params = [],
      m_function = 4, m_form = [], m_form_ret = [],
      m_result = Discarded\<rparr>"

definition BrickletRS232_is_read_callback_enabled :: dev_method where
  "BrickletRS232_is_read_callback_enabled =
     \<lparr>m_name = ''is_read_callback_enabled'', m_params = [],
      m_function = 5, m_form = [], m_form_ret = ''?'',
      m_result = Returned\<rparr>"

definition BrickletRS232_set_configuration :: dev_method where
  "BrickletRS232_set_configuration =
     \<lparr>m_name = ''set_configuration'', m_params = [''baudrate'', ''parity'', ''stopbits'', ''wordlength'', ''hardware_flowcontrol'',
         ''software_flowcontrol''],
      m_function = 6, m_form = ''B B B B B B'', m_form_ret = [],
      m_result = Discarded\<rparr>"

definition BrickletRS232_get_configuration :: dev_method where
  "BrickletRS232_get_configuration =
     \<lparr>m_name = ''get_configuration'', m_params = [],
      m_function = 7, m_form = [], m_form_ret = ''B B B B B B'',
      m_result = BrickletRS232_GetConfiguration\<rparr>"

definition BrickletRS232_get_identity :: dev_method where
  "BrickletRS232_get_identity =
     \<lparr>m_name = ''get_identity'', m_params = [],
      m_function = 255, m_form = [], m_form_ret = ''8s 8s c 3B 3B H'',
      m_result = BrickletRS232_GetIdentity\<rparr>"

definition BrickletRS232 :: binding where
  "BrickletRS232 =
     \<lparr>b_class = ''BrickletRS232'', b_identifier = 254, b_ids = BrickletRS232_ids,
      b_api_version = (2, 0, 0), b_flags = BrickletRS232_flags, b_formats = BrickletRS232_formats,
      b_methods =
       [BrickletRS232_write, BrickletRS232_read, BrickletRS232_enable_read_callback,
        BrickletRS232_disable_read_callback, BrickletRS232_is_read_callback_enabled,
        BrickletRS232_set_configuration, BrickletRS232_get_configuration, BrickletRS232_get_identity]\<rparr>"

interpretation RS232: device_class BrickletRS232
  by unfold_locales code_simp

end
