(* ===== verification/Bricklets_Display.thy ===== *)
theory Bricklets_Display
  imports Bindings
begin

text \<open>
  The device classes of the LED strip, display, button and sound Bricklets. For each class: its
  named tuples, its constants, the assignments of its constructor, one definition per
  method, and the class itself, on which \<open>device_class\<close> is interpreted.
\<close>

section \<open>The class BrickletLEDStrip (\<^verbatim>\<open>bricklet_led_strip.py\<close>)\<close>

definition BrickletLEDStrip_GetRGBValues :: shape where
  "BrickletLEDStrip_GetRGBValues = Named ''RGBValues''
     [''r'', ''g'', ''b'']"

definition BrickletLEDStrip_GetIdentity :: shape where
  "BrickletLEDStrip_GetIdentity = Named ''Identity''
     [''uid'', ''connected_uid'', ''position'', ''hardware_version'', ''firmware_version'',
      ''device_identifier'']"

definition BrickletLEDStrip_ids :: "(string \<times> int) list" where
  "BrickletLEDStrip_ids =
     [(''CALLBACK_FRAME_RENDERED'', 6), (''FUNCTION_SET_RGB_VALUES'', 1),
      (''FUNCTION_GET_RGB_VALUES'', 2), (''FUNCTION_SET_FRAME_DURATION'', 3),
      (''FUNCTION_GET_FRAME_DURATION'', 4), (''FUNCTION_GET_SUPPLY_VOLTAGE'', 5),
      (''FUNCTION_SET_CLOCK_FREQUENCY'', 7), (''FUNCTION_GET_CLOCK_FREQUENCY'', 8),
      (''FUNCTION_SET_CHIP_TYPE'', 9), (''FUNCTION_GET_CHIP_TYPE'', 10),
      (''FUNCTION_GET_IDENTITY'', 255)]"

definition BrickletLEDStrip_flags :: "(int \<times> resp_flag) list" where
  "BrickletLEDStrip_flags =
     [(1, RE_FALSE), (2, ALWAYS_TRUE), (3, RE_FALSE), (4, ALWAYS_TRUE), (5, ALWAYS_TRUE),
      (6, ALWAYS_FALSE), (7, RE_FALSE), (8, ALWAYS_TRUE), (9, RE_FALSE), (10, ALWAYS_TRUE),
      (255, ALWAYS_TRUE)]"

definition BrickletLEDStrip_formats :: "(int \<times> string) list" where
  "BrickletLEDStrip_formats =
     [(6, ''H'')]"

definition BrickletLEDStrip_set_rgb_values :: dev_method where
  "BrickletLEDStrip_set_rgb_values =
     \<lparr>m_name = ''set_rgb_values'', m_params = [''index'', ''length'', ''r'', ''g'', ''b''],
      m_function = 1, m_form = ''H B 16B 16B 16B'', m_form_ret = [],
      m_result = Discarded\<rparr>"

definition BrickletLEDStrip_get_rgb_values :: dev_method where
  "BrickletLEDStrip_get_rgb_values =
     \<lparr>m_name = ''get_rgb_values'', m_params = [''index'', ''length''],
      m_function = 2, m_form = ''H B'', m_form_ret = ''16B 16B 16B'',
      m_result = BrickletLEDStrip_GetRGBValues\<rparr>"

definition BrickletLEDStrip_set_frame_duration :: dev_method where
  "BrickletLEDStrip_set_frame_duration =
     \<lparr>m_name = ''set_frame_duration'', m_params = [''duration''],
      m_function = 3, m_form = ''H'', m_form_ret = [],
      m_result = Discarded\<rparr>"

definition BrickletLEDStrip_get_frame_duration :: dev_method where
  "BrickletLEDStrip_get_frame_duration =
     \<lparr>m_name = ''get_frame_duration'', m_params = [],
      m_function = 4, m_form = [], m_form_ret = ''H'',
      m_result = Returned\<rparr>"

definition BrickletLEDStrip_get_supply_voltage :: dev_method where
  "BrickletLEDStrip_get_supply_voltage =
     \<lparr>m_name = ''get_supply_voltage'', m_params = [],
      m_function = 5, m_form = [], m_form_ret = ''H'',
      m_result = Returned\<rparr>"

definition BrickletLEDStrip_set_clock_frequency :: dev_method where
  "BrickletLEDStrip_set_clock_frequency =
     \<lparr>m_name = ''set_clock_frequency'', m_params = [''frequency''],
      m_function = 7, m_form = ''I'', m_form_ret = [],
      m_result = Discarded\<rparr>"

definition BrickletLEDStrip_get_clock_frequency :: dev_method where
  "BrickletLEDStrip_get_clock_frequency =
     \<lparr>m_name = ''get_clock_frequency'', m_params = [],
      m_function = 8, m_form = [], m_form_ret = ''I'',
      m_result = Returned\<rparr>"

definition BrickletLEDStrip_set_chip_type :: dev_method where
  "BrickletLEDStrip_set_chip_type =
     \<lparr>m_name = ''set_chip_type'', m_params = [''chip''],
      m_function = 9, m_form = ''H'', m_form_ret = [],
      m_result = Discarded\<rparr>"

definition BrickletLEDStrip_get_chip_type :: dev_method where
  "BrickletLEDStrip_get_chip_type =
     \<lparr>m_name = ''get_chip_type'', m_params = [],
      m_function = 10, m_form = [], m_form_ret = ''H'',
      m_result = Returned\<rparr>"

definition BrickletLEDStrip_get_identity :: dev_method where
  "BrickletLEDStrip_get_identity =
     \<lparr>m_name = ''get_identity'', m_params = [],
      m_function = 255, m_form = [], m_form_ret = ''8s 8s c 3B 3B H'',
      m_result = BrickletLEDStrip_GetIdentity\<rparr>"

definition BrickletLEDStrip :: binding where
  "BrickletLEDStrip =
     \<lparr>b_class = ''BrickletLEDStrip'', b_identifier = 231, b_ids = BrickletLEDStrip_ids,
      b_api_version = (2, 0, 2), b_flags = BrickletLEDStrip_flags, b_formats = BrickletLEDStrip_formats,
      b_methods =
       [BrickletLEDStrip_set_rgb_values, BrickletLEDStrip_get_rgb_values,
        BrickletLEDStrip_set_frame_duration, BrickletLEDStrip_get_frame_duration,
        BrickletLEDStrip_get_supply_voltage, BrickletLEDStrip_set_clock_frequency,
        BrickletLEDStrip_get_clock_frequency, BrickletLEDStrip_set_chip_type,
        BrickletLEDStrip_get_chip_type, BrickletLEDStrip_get_identity]\<rparr>"

interpretation LEDStrip: device_class BrickletLEDStrip
  by unfold_locales code_simp

section \<open>The class BrickletLCD16x2 (\<^verbatim>\<open>bricklet_lcd_16x2.py\<close>)\<close>

definition BrickletLCD16x2_GetConfig :: shape where
  "BrickletLCD16x2_GetConfig = Named ''Config''
     [''cursor'', ''blinking'']"

definition BrickletLCD16x2_GetIdentity :: shape where
  "BrickletLCD16x2_GetIdentity = Named ''Identity''
     [''uid'', ''connected_uid'', ''position'', ''hardware_version'', ''firmware_version'',
      ''device_identifier'']"

definition BrickletLCD16x2_ids :: "(string \<times> int) list" where
  "BrickletLCD16x2_ids =
     [(''CALLBACK_BUTTON_PRESSED'', 9), (''CALLBACK_BUTTON_RELEASED'', 10),
      (''FUNCTION_WRITE_LINE'', 1), (''FUNCTION_CLEAR_DISPLAY'', 2),
      (''FUNCTION_BACKLIGHT_ON'', 3), (''FUNCTION_BACKLIGHT_OFF'', 4),
      (''FUNCTION_IS_BACKLIGHT_ON'', 5), (''FUNCTION_SET_CONFIG'', 6),
      (''FUNCTION_GET_CONFIG'', 7), (''FUNCTION_IS_BUTTON_PRESSED'', 8),
      (''FUNCTION_SET_CUSTOM_CHARACTER'', 11), (''FUNCTION_GET_CUSTOM_CHARACTER'', 12),
      (''FUNCTION_GET_IDENTITY'', 255)]"

definition BrickletLCD16x2_flags :: "(int \<times> resp_flag) list" where
  "BrickletLCD16x2_flags =
     [(1, RE_FALSE), (2, RE_FALSE), (3, RE_FALSE), (4, RE_FALSE), (5, ALWAYS_TRUE), (6, RE_FALSE),
      (7, ALWAYS_TRUE), (8, ALWAYS_TRUE), (9, ALWAYS_FALSE), (10, ALWAYS_FALSE), (11, RE_FALSE),
      (12, ALWAYS_TRUE), (255, ALWAYS_TRUE)]"

definition BrickletLCD16x2_formats :: "(int \<times> string) list" where
  "BrickletLCD16x2_formats =
     [(9, ''B''), (10, ''B'')]"

definition BrickletLCD16x2_write_line :: dev_method where
  "BrickletLCD16x2_write_line =
     \<lparr>m_name = ''write_line'', m_params = [''line'', ''position'', ''text''],
      m_function = 1, m_form = ''B B 16s'', m_form_ret = [],
      m_result = Discarded\<rparr>"

definition BrickletLCD16x2_clear_display :: dev_method where
  "BrickletLCD16x2_clear_display =
     \<lparr>m_name = ''clear_display'', m_params = [],
      m_function = 2, m_form = [], m_form_ret = [],
      m_result = Discarded\<rparr>"

definition BrickletLCD16x2_backlight_on :: dev_method where
  "BrickletLCD16x2_backlight_on =
     \<lparr>m_name = ''backlight_on'', m_params = [],
      m_function = 3, m_form = [], m_form_ret = [],
      m_result = Discarded\<rparr>"

definition BrickletLCD16x2_backlight_off :: dev_method where
  "BrickletLCD16x2_backlight_off =
     \<lparr>m_name = ''backlight_off'', m_params = [],
      m_function = 4, m_form = [], m_form_ret = [],
      m_result = Discarded\<rparr>"

definition BrickletLCD16x2_is_backlight_on :: dev_method where
  "BrickletLCD16x2_is_backlight_on =
     \<lparr>m_name = ''is_backlight_on'', m_params = [],
      m_function = 5, m_form = [], m_form_ret = ''?'',
      m_result = Returned\<rparr>"

definition BrickletLCD16x2_set_config :: dev_method where
  "BrickletLCD16x2_set_config =
     \<lparr>m_name = ''set_config'', m_params = [''cursor'', ''blinking''],
      m_function = 6, m_form = ''? ?'', m_form_ret = [],
      m_result = Discarded\<rparr>"

definition BrickletLCD16x2_get_config :: dev_method where
  "BrickletLCD16x2_get_config =
     \<lparr>m_name = ''get_config'', m_params = [],
      m_function = 7, m_form = [], m_form_ret = ''? ?'',
      m_result = BrickletLCD16x2_GetConfig\<rparr>"

definition BrickletLCD16x2_is_button_pressed :: dev_method where
  "BrickletLCD16x2_is_button_pressed =
     \<lparr>m_name = ''is_button_pressed'', m_params = [''button''],
      m_function = 8, m_form = ''B'', m_form_ret = ''?'',
      m_result = Returned\<rparr>"

definition BrickletLCD16x2_set_custom_character :: dev_method where
  "BrickletLCD16x2_set_custom_character =
     \<lparr>m_name = ''set_custom_character'', m_params = [''index'', ''character''],
      m_function = 11, m_form = ''B 8B'', m_form_ret = [],
      m_result = Discarded\<rparr>"

definition BrickletLCD16x2_get_custom_character :: dev_method where
  "BrickletLCD16x2_get_custom_character =
     \<lparr>m_name = ''get_custom_character'', m_params = [''index''],
      m_function = 12, m_form = ''B'', m_form_ret = ''8B'',
      m_result = Returned\<rparr>"

definition BrickletLCD16x2_get_identity :: dev_method where
  "BrickletLCD16x2_get_identity =
     \<lparr>m_name = ''get_identity'', m_params = [],
      m_function = 255, m_form = [], m_form_ret = ''8s 8s c 3B 3B H'',
      m_result = BrickletLCD16x2_GetIdentity\<rparr>"

definition BrickletLCD16x2 :: binding where
  "BrickletLCD16x2 =
     \<lparr>b_class = ''BrickletLCD16x2'', b_identifier = 211, b_ids = BrickletLCD16x2_ids,
      b_api_version = (2, 0, 0), b_flags = BrickletLCD16x2_flags, b_formats = BrickletLCD16x2_formats,
      b_methods =
       [BrickletLCD16x2_write_line, BrickletLCD16x2_clear_display, BrickletLCD16x2_backlight_on,
        BrickletLCD16x2_backlight_off, BrickletLCD16x2_is_backlight_on, BrickletLCD16x2_set_config,
        BrickletLCD16x2_get_config, BrickletLCD16x2_is_button_pressed,
        BrickletLCD16x2_set_custom_character, BrickletLCD16x2_get_custom_character,
        BrickletLCD16x2_get_identity]\<rparr>"

interpretation LCD16x2: device_class BrickletLCD16x2
  by unfold_locales code_simp

section \<open>The class BrickletLCD20x4 (\<^verbatim>\<open>bricklet_lcd_20x4.py\<close>)\<close>

definition BrickletLCD20x4_GetConfig :: shape where
  "BrickletLCD20x4_GetConfig = Named ''Config''
     [''cursor'', ''blinking'']"

definition BrickletLCD20x4_GetIdentity :: shape where
  "BrickletLCD20x4_GetIdentity = Named ''Identity''
     [''uid'', ''connected_uid'', ''position'', ''hardware_version'', ''firmware_version'',
      ''device_identifier'']"

definition BrickletLCD20x4_ids :: "(string \<times> int) list" where
  "BrickletLCD20x4_ids =
     [(''CALLBACK_BUTTON_PRESSED'', 9), (''CALLBACK_BUTTON_RELEASED'', 10),
      (''FUNCTION_WRITE_LINE'', 1), (''FUNCTION_CLEAR_DISPLAY'', 2),
      (''FUNCTION_BACKLIGHT_ON'', 3), (''FUNCTION_BACKLIGHT_OFF'', 4),
      (''FUNCTION_IS_BACKLIGHT_ON'', 5), (''FUNCTION_SET_CONFIG'', 6),
      (''FUNCTION_GET_CONFIG'', 7), (''FUNCTION_IS_BUTTON_PRESSED'', 8),
      (''FUNCTION_SET_CUSTOM_CHARACTER'', 11), (''FUNCTION_GET_CUSTOM_CHARACTER'', 12),
      (''FUNCTION_SET_DEFAULT_TEXT'', 13), (''FUNCTION_GET_DEFAULT_TEXT'', 14),
      (''FUNCTION_SET_DEFAULT_TEXT_COUNTER'', 15), (''FUNCTION_GET_DEFAULT_TEXT_COUNTER'', 16),
      (''FUNCTION_GET_IDENTITY'', 255)]"

definition BrickletLCD20x4_flags :: "(int \<times> resp_flag) list" where
  "BrickletLCD20x4_flags =
     [(1, RE_FALSE), (2, RE_FALSE), (3, RE_FALSE), (4, RE_FALSE), (5, ALWAYS_TRUE), (6, RE_FALSE),
      (7, ALWAYS_TRUE), (8, ALWAYS_TRUE), (9, ALWAYS_FALSE), (10, ALWAYS_FALSE), (11, RE_FALSE),
      (12, ALWAYS_TRUE), (13, RE_FALSE), (14, ALWAYS_TRUE), (15, RE_FALSE), (16, ALWAYS_TRUE),
      (255, ALWAYS_TRUE)]"

definition BrickletLCD20x4_formats :: "(int \<times> string) list" where
  "BrickletLCD20x4_formats =
     [(9, ''B''), (10, ''B'')]"

definition BrickletLCD20x4_write_line :: dev_method where
  "BrickletLCD20x4_write_line =
     \<lparr>m_name = ''write_line'', m_params = [''line'', ''position'', ''text''],
      m_function = 1, m_form = ''B B 20s'', m_form_ret = [],
      m_result = Discarded\<rparr>"

definition BrickletLCD20x4_clear_display :: dev_method where
  "BrickletLCD20x4_clear_display =
     \<lparr>m_name = ''clear_display'', m_params = [],
      m_function = 2, m_form = [], m_form_ret = [],
      m_result = Discarded\<rparr>"

definition BrickletLCD20x4_backlight_on :: dev_method where
  "BrickletLCD20x4_backlight_on =
     \<lparr>m_name = ''backlight_on'', m_params = [],
      m_function = 3, m_form = [], m_form_ret = [],
      m_result = Discarded\<rparr>"

definition BrickletLCD20x4_backlight_off :: dev_method where
  "BrickletLCD20x4_backlight_off =
     \<lparr>m_name = ''backlight_off'', m_params = [],
      m_function = 4, m_form = [], m_form_ret = [],
      m_result = Discarded\<rparr>"

definition BrickletLCD20x4_is_backlight_on :: dev_method where
  "BrickletLCD20x4_is_backlight_on =
     \<lparr>m_name = ''is_backlight_on'', m_params = [],
      m_function = 5, m_form = [], m_form_ret = ''?'',
      m_result = Returned\<rparr>"

definition BrickletLCD20x4_set_config :: dev_method where
  "BrickletLCD20x4_set_config =
     \<lparr>m_name = ''set_config'', m_params = [''cursor'', ''blinking''],
      m_function = 6, m_form = ''? ?'', m_form_ret = [],
      m_result = Discarded\<rparr>"

definition BrickletLCD20x4_get_config :: dev_method where
  "BrickletLCD20x4_get_config =
     \<lparr>m_name = ''get_config'', m_params = [],
      m_function = 7, m_form = [], m_form_ret = ''? ?'',
      m_result = BrickletLCD20x4_GetConfig\<rparr>"

definition BrickletLCD20x4_is_button_pressed :: dev_method where
  "BrickletLCD20x4_is_button_pressed =
     \<lparr>m_name = ''is_button_pressed'', m_params = [''button''],
      m_function = 8, m_form = ''B'', m_form_ret = ''?'',
      m_result = Returned\<rparr>"

definition BrickletLCD20x4_set_custom_character :: dev_method where
  "BrickletLCD20x4_set_custom_character =
     \<lparr>m_name = ''set_custom_character'', m_params = [''index'', ''character''],
      m_function = 11, m_form = ''B 8B'', m_form_ret = [],
      m_result = Discarded\<rparr>"

definition BrickletLCD20x4_get_custom_character :: dev_method where
  "BrickletLCD20x4_get_custom_character =
     \<lparr>m_name = ''get_custom_character'', m_params = [''index''],
      m_function = 12, m_form = ''B'', m_form_ret = ''8B'',
      m_result = Returned\<rparr>"

definition BrickletLCD20x4_set_default_text :: dev_method where
  "BrickletLCD20x4_set_default_text =
     \<lparr>m_name = ''set_default_text'', m_params = [''line'', ''text''],
      m_function = 13, m_form = ''B 20s'', m_form_ret = [],
      m_result = Discarded\<rparr>"

definition BrickletLCD20x4_get_default_text :: dev_method where
  "BrickletLCD20x4_get_default_text =
     \<lparr>m_name = ''get_default_text'', m_params = [''line''],
      m_function = 14, m_form = ''B'', m_form_ret = ''20s'',
      m_result = Returned\<rparr>"

definition BrickletLCD20x4_set_default_text_counter :: dev_method where
  "BrickletLCD20x4_set_default_text_counter =
     \<lparr>m_name = ''set_default_text_counter'', m_params = [''counter''],
      m_function = 15, m_form = ''i'', m_form_ret = [],
      m_result = Discarded\<rparr>"

definition BrickletLCD20x4_get_default_text_counter :: dev_method where
  "BrickletLCD20x4_get_default_text_counter =
     \<lparr>m_name = ''get_default_text_counter'', m_params = [],
      m_function = 16, m_form = [], m_form_ret = ''i'',
      m_result = Returned\<rparr>"

definition BrickletLCD20x4_get_identity :: dev_method where
  "BrickletLCD20x4_get_identity =
     \<lparr>m_name = ''get_identity'', m_params = [],
      m_function = 255, m_form = [], m_form_ret = ''8s 8s c 3B 3B H'',
      m_result = BrickletLCD20x4_GetIdentity\<rparr>"

definition BrickletLCD20x4 :: binding where
  "BrickletLCD20x4 =
     \<lparr>b_class = ''BrickletLCD20x4'', b_identifier = 212, b_ids = BrickletLCD20x4_ids,
      b_api_version = (2, 0, 0), b_flags = BrickletLCD20x4_flags, b_formats = BrickletLCD20x4_formats,
      b_methods =
       [BrickletLCD20x4_write_line, BrickletLCD20x4_clear_display, BrickletLCD20x4_backlight_on,
        BrickletLCD20x4_backlight_off, BrickletLCD20x4_is_backlight_on, BrickletLCD20x4_set_config,
        BrickletLCD20x4_get_config, BrickletLCD20x4_is_button_pressed,
        BrickletLCD20x4_set_custom_character, BrickletLCD20x4_get_custom_character,
        BrickletLCD20x4_set_default_text, BrickletLCD20x4_get_default_text,
        BrickletLCD20x4_set_default_text_counter, BrickletLCD20x4_get_default_text_counter,
        BrickletLCD20x4_get_identity]\<rparr>"

interpretation LCD20x4: device_class BrickletLCD20x4
  by unfold_locales code_simp

section \<open>The class BrickletSegmentDisplay4x7 (\<^verbatim>\<open>bricklet_segment_display_4x7.py\<close>)\<close>

definition BrickletSegmentDisplay4x7_GetSegments :: shape where
  "BrickletSegmentDisplay4x7_GetSegments = Named ''Segments''
     [''segments'', ''brightness'', ''colon'']"

definition BrickletSegmentDisplay4x7_GetIdentity :: shape where
  "BrickletSegmentDisplay4x7_GetIdentity = Named ''Identity''
     [''uid'', ''connected_uid'', ''position'', ''hardware_version'', ''firmware_version'',
      ''device_identifier'']"

definition BrickletSegmentDisplay4x7_ids :: "(string \<times> int) list" where
  "BrickletSegmentDisplay4x7_ids =
     [(''CALLBACK_COUNTER_FINISHED'', 5), (''FUNCTION_SET_SEGMENTS'', 1),
      (''FUNCTION_GET_SEGMENTS'', 2), (''FUNCTION_START_COUNTER'', 3),
      (''FUNCTION_GET_COUNTER_VALUE'', 4), (''FUNCTION_GET_IDENTITY'', 255)]"

definition BrickletSegmentDisplay4x7_flags :: "(int \<times> resp_flag) list" where
  "BrickletSegmentDisplay4x7_flags =
     [(1, RE_FALSE), (2, ALWAYS_TRUE), (3, RE_FALSE), (4, ALWAYS_TRUE), (5, ALWAYS_FALSE),
      (255, ALWAYS_TRUE)]"

definition BrickletSegmentDisplay4x7_formats :: "(int \<times> string) list" where
  "BrickletSegmentDisplay4x7_formats =
     [(5, [])]"

definition BrickletSegmentDisplay4x7_set_segments :: dev_method where
  "BrickletSegmentDisplay4x7_set_segments =
     \<lparr>m_name = ''set_segments'', m_params = [''segments'', ''brightness'', ''colon''],
      m_function = 1, m_form = ''4B B ?'', m_form_ret = [],
      m_result = Discarded\<rparr>"

definition BrickletSegmentDisplay4x7_get_segments :: dev_method where
  "BrickletSegmentDisplay4x7_get_segments =
     \<lparr>m_name = ''get_segments'', m_params = [],
      m_function = 2, m_form = [], m_form_ret = ''4B B ?'',
      m_result = BrickletSegmentDisplay4x7_GetSegments\<rparr>"

definition BrickletSegmentDisplay4x7_start_counter :: dev_method where
  "BrickletSegmentDisplay4x7_start_counter =
     \<lparr>m_name = ''start_counter'', m_params = [''value_from'', ''value_to'', ''increment'', ''length''],
      m_function = 3, m_form = ''h h h I'', m_form_ret = [],
      m_result = Discarded\<rparr>"

definition BrickletSegmentDisplay4x7_get_counter_value :: dev_method where
  "BrickletSegmentDisplay4x7_get_counter_value =
     \<lparr>m_name = ''get_counter_value'', m_params = [],
      m_function = 4, m_form = [], m_form_ret = ''H'',
      m_result = Returned\<rparr>"

definition BrickletSegmentDisplay4x7_get_identity :: dev_method where
  "BrickletSegmentDisplay4x7_get_identity =
     \<lparr>m_name = ''get_identity'', m_params = [],
      m_function = 255, m_form = [], m_form_ret = ''8s 8s c 3B 3B H'',
      m_result = BrickletSegmentDisplay4x7_GetIdentity\<rparr>"

definition BrickletSegmentDisplay4x7 :: binding where
  "BrickletSegmentDisplay4x7 =
     \<lparr>b_class = ''BrickletSegmentDisplay4x7'', b_identifier = 237, b_ids = BrickletSegmentDisplay4x7_ids,
      b_api_version = (2, 0, 0), b_flags = BrickletSegmentDisplay4x7_flags, b_formats = BrickletSegmentDisplay4x7_formats,
      b_methods =
       [BrickletSegmentDisplay4x7_set_segments, BrickletSegmentDisplay4x7_get_segments,
        BrickletSegmentDisplay4x7_start_counter, BrickletSegmentDisplay4x7_get_counter_value,
        BrickletSegmentDisplay4x7_get_identity]\<rparr>"

interpretation SegmentDisplay4x7: device_class BrickletSegmentDisplay4x7
  by unfold_locales code_simp

section \<open>The class BrickletDualButton (\<^verbatim>\<open>bricklet_dual_button.py\<close>)\<close>

definition BrickletDualButton_GetLEDState :: shape where
  "BrickletDualButton_GetLEDState = Named ''LEDState''
     [''led_l'', ''led_r'']"

definition BrickletDualButton_GetButtonState :: shape where
  "BrickletDualButton_GetButtonState = Named ''ButtonState''
     [''button_l'', ''button_r'']"

definition BrickletDualButton_GetIdentity :: shape where
  "BrickletDualButton_GetIdentity = Named ''Identity''
     [''uid'', ''connected_uid'', ''position'', ''hardware_version'', ''firmware_version'',
      ''device_identifier'']"

definition BrickletDualButton_ids :: "(string \<times> int) list" where
  "BrickletDualButton_ids =
     [(''CALLBACK_STATE_CHANGED'', 4), (''FUNCTION_SET_LED_STATE'', 1),
      (''FUNCTION_GET_LED_STATE'', 2), (''FUNCTION_GET_BUTTON_STATE'', 3),
      (''FUNCTION_SET_SELECTED_LED_STATE'', 5), (''FUNCTION_GET_IDENTITY'', 255)]"

definition BrickletDualButton_flags :: "(int \<times> resp_flag) list" where
  "BrickletDualButton_flags =
     [(1, RE_FALSE), (2, ALWAYS_TRUE), (3, ALWAYS_TRUE), (4, ALWAYS_FALSE), (5, RE_FALSE),
      (255, ALWAYS_TRUE)]"

definition BrickletDualButton_formats :: "(int \<times> string) list" where
  "BrickletDualButton_formats =
     [(4, ''B B B B'')]"

definition BrickletDualButton_set_led_state :: dev_method where
  "BrickletDualButton_set_led_state =
     \<lparr>m_name = ''set_led_state'', m_params = [''led_l'', ''led_r''],
      m_function = 1, m_form = ''B B'', m_form_ret = [],
      m_result = Discarded\<rparr>"

definition BrickletDualButton_get_led_state :: dev_method where
  "BrickletDualButton_get_led_state =
     \<lparr>m_name = ''get_led_state'', m_params = [],
      m_function = 2, m_form = [], m_form_ret = ''B B'',
      m_result = BrickletDualButton_GetLEDState\<rparr>"

definition BrickletDualButton_get_button_state :: dev_method where
  "BrickletDualButton_get_button_state =
     \<lparr>m_name = ''get_button_state'', m_params = [],
      m_function = 3, m_form = [], m_form_ret = ''B B'',
      m_result = BrickletDualButton_GetButtonState\<rparr>"

definition BrickletDualButton_set_selected_led_state :: dev_method where
  "BrickletDualButton_set_selected_led_state =
     \<lparr>m_name = ''set_selected_led_state'', m_params = [''led'', ''state''],
      m_function = 5, m_form = ''B B'', m_form_ret = [],
      m_result = Discarded\<rparr>"

definition BrickletDualButton_get_identity :: dev_method where
  "BrickletDualButton_get_identity =
     \<lparr>m_name = ''get_identity'', m_params = [],
      m_function = 255, m_form = [], m_form_ret = ''8s 8s c 3B 3B H'',
      m_result = BrickletDualButton_GetIdentity\<rparr>"

definition BrickletDualButton :: binding where
  "BrickletDualButton =
     \<lparr>b_class = ''BrickletDualButton'', b_identifier = 230, b_ids = BrickletDualButton_ids,
      b_api_version = (2, 0, 0), b_flags = BrickletDualButton_flags, b_formats = BrickletDualButton_formats,
      b_methods =
       [BrickletDualButton_set_led_state, BrickletDualButton_get_led_state,
        BrickletDualButton_get_button_state, BrickletDualButton_set_selected_led_state,
        BrickletDualButton_get_identity]\<rparr>"

interpretation DualButton: device_class BrickletDualButton
  by unfold_locales code_simp

section \<open>The class BrickletPiezoBuzzer (\<^verbatim>\<open>bricklet_piezo_buzzer.py\<close>)\<close>

definition BrickletPiezoBuzzer_GetIdentity :: shape where
  "BrickletPiezoBuzzer_GetIdentity = Named ''Identity''
     [''uid'', ''connected_uid'', ''position'', ''hardware_version'', ''firmware_version'',
      ''device_identifier'']"

definition BrickletPiezoBuzzer_ids :: "(string \<times> int) list" where
  "BrickletPiezoBuzzer_ids =
     [(''CALLBACK_BEEP_FINISHED'', 3), (''CALLBACK_MORSE_CODE_FINISHED'', 4),
      (''FUNCTION_BEEP'', 1), (''FUNCTION_MORSE_CODE'', 2), (''FUNCTION_GET_IDENTITY'', 255)]"

definition BrickletPiezoBuzzer_flags :: "(int \<times> resp_flag) list" where
  "BrickletPiezoBuzzer_flags =
     [(1, RE_FALSE), (2, RE_FALSE), (3, ALWAYS_FALSE), (4, ALWAYS_FALSE), (255, ALWAYS_TRUE)]"

definition BrickletPiezoBuzzer_formats :: "(int \<times> string) list" where
  "BrickletPiezoBuzzer_formats =
     [(3, []), (4, [])]"

definition BrickletPiezoBuzzer_beep :: dev_method where
  "BrickletPiezoBuzzer_beep =
     \<lparr>m_name = ''beep'', m_params = [''duration''],
      m_function = 1, m_form = ''I'', m_form_ret = [],
      m_result = Discarded\<rparr>"

definition BrickletPiezoBuzzer_morse_code :: dev_method where
  "BrickletPiezoBuzzer_morse_code =
     \<lparr>m_name = ''morse_code'', m_params = [''morse''],
      m_function = 2, m_form = ''60s'', m_form_ret = [],
      m_result = Discarded\<rparr>"

definition BrickletPiezoBuzzer_get_identity :: dev_method where
  "BrickletPiezoBuzzer_get_identity =
     \<lparr>m_name = ''get_identity'', m_params = [],
      m_function = 255, m_form = [], m_form_ret = ''8s 8s c 3B 3B H'',
      m_result = BrickletPiezoBuzzer_GetIdentity\<rparr>"

definition BrickletPiezoBuzzer :: binding where
  "BrickletPiezoBuzzer =
     \<lparr>b_class = ''BrickletPiezoBuzzer'', b_identifier = 214, b_ids = BrickletPiezoBuzzer_ids,
      b_api_version = (2, 0, 0), b_flags = BrickletPiezoBuzzer_flags, b_formats = BrickletPiezoBuzzer_formats,
      b_methods =
       [BrickletPiezoBuzzer_beep, BrickletPiezoBuzzer_morse_code, BrickletPiezoBuzzer_get_identity]\<rparr>"

interpretation PiezoBuzzer: device_class BrickletPiezoBuzzer
  by unfold_locales code_simp

section \<open>The class BrickletPiezoSpeaker (\<^verbatim>\<open>bricklet_piezo_speaker.py\<close>)\<close>

definition BrickletPiezoSpeaker_GetIdentity :: shape where
  "BrickletPiezoSpeaker_GetIdentity = Named ''Identity''
     [''uid'', ''connected_uid'', ''position'', ''hardware_version'', ''firmware_version'',
      ''device_identifier'']"

definition BrickletPiezoSpeaker_ids :: "(string \<times> int) list" where
  "BrickletPiezoSpeaker_ids =
     [(''CALLBACK_BEEP_FINISHED'', 4), (''CALLBACK_MORSE_CODE_FINISHED'', 5),
      (''FUNCTION_BEEP'', 1), (''FUNCTION_MORSE_CODE'', 2), (''FUNCTION_CALIBRATE'', 3),
      (''FUNCTION_GET_IDENTITY'', 255)]"

definition BrickletPiezoSpeaker_flags :: "(int \<times> resp_flag) list" where
  "BrickletPiezoSpeaker_flags =
     [(1, RE_FALSE), (2, RE_FALSE), (3, ALWAYS_TRUE), (4, ALWAYS_FALSE), (5, ALWAYS_FALSE),
      (255, ALWAYS_TRUE)]"

definition BrickletPiezoSpeaker_formats :: "(int \<times> string) list" where
  "BrickletPiezoSpeaker_formats =
     [(4, []), (5, [])]"

definition BrickletPiezoSpeaker_beep :: dev_method where
  "BrickletPiezoSpeaker_beep =
     \<lparr>m_name = ''beep'', m_params = [''duration'', ''frequency''],
      m_function = 1, m_form = ''I H'', m_form_ret = [],
      m_result = Discarded\<rparr>"

definition BrickletPiezoSpeaker_morse_code :: dev_method where
  "BrickletPiezoSpeaker_morse_code =
     \<lparr>m_name = ''morse_code'', m_params = [''morse'', ''frequency''],
      m_function = 2, m_form = ''60s H'', m_form_ret = [],
      m_result = Discarded\<rparr>"

definition BrickletPiezoSpeaker_calibrate :: dev_method where
  "BrickletPiezoSpeaker_calibrate =
     \<lparr>m_name = ''calibrate'', m_params = [],
      m_function = 3, m_form = [], m_form_ret = ''?'',
      m_result = Returned\<rparr>"

definition BrickletPiezoSpeaker_get_identity :: dev_method where
  "BrickletPiezoSpeaker_get_identity =
     \<lparr>m_name = ''get_identity'', m_params = [],
      m_function = 255, m_form = [], m_form_ret = ''8s 8s c 3B 3B H'',
      m_result = BrickletPiezoSpeaker_GetIdentity\<rparr>"

definition BrickletPiezoSpeaker :: binding where
  "BrickletPiezoSpeaker =
     \<lparr>b_class = ''BrickletPiezoSpeaker'', b_identifier = 242, b_ids = BrickletPiezoSpeaker_ids,
      b_api_version = (2, 0, 0), b_flags = BrickletPiezoSpeaker_flags, b_formats = BrickletPiezoSpeaker_formats,
      b_methods =
       [BrickletPiezoSpeaker_beep, BrickletPiezoSpeaker_morse_code, BrickletPiezoSpeaker_calibrate,
        BrickletPiezoSpeaker_get_identity]\<rparr>"

interpretation PiezoSpeaker: device_class BrickletPiezoSpeaker
  by unfold_locales code_simp

end
