(* ===== verification/All_Bindings.thy ===== *)
theory All_Bindings
  imports Brick_Master_Class Brick_RED_Class Bricks_Motor Bricks_Motion Bricklets_Climate Bricklets_Electric Bricklets_Position Bricklets_Industrial Bricklets_Display
begin

text \<open>
  All device classes of the package together, and what holds for every method and every
  callback of every one of them.
\<close>

definition all_bindings :: "binding list" where
  "all_bindings =
     [BrickMaster, BrickRED, BrickDC, BrickServo, BrickStepper, BrickIMU, BrickIMUV2,
      BrickletAmbientLight, BrickletAmbientLightV2, BrickletBarometer, BrickletHumidity,
      BrickletTemperature, BrickletTemperatureIR, BrickletDustDetector, BrickletMoisture,
      BrickletSoundIntensity, BrickletColor, BrickletAnalogIn, BrickletAnalogInV2,
      BrickletAnalogOut, BrickletAnalogOutV2, BrickletCurrent12, BrickletCurrent25,
      BrickletVoltage, BrickletVoltageCurrent, BrickletLinearPoti, BrickletRotaryPoti, BrickletPTC,
      BrickletAccelerometer, BrickletDistanceIR, BrickletDistanceUS, BrickletGPS,
      BrickletHallEffect, BrickletJoystick, BrickletLaserRangeFinder, BrickletLine,
      BrickletLoadCell, BrickletMotionDetector, BrickletMultiTouch, BrickletNFCRFID,
      BrickletRotaryEncoder, BrickletTilt, BrickletIndustrialAnalogOut,
      BrickletIndustrialDigitalIn4, BrickletIndustrialDigitalOut4, BrickletIndustrialDual020mA,
      BrickletIndustrialDualAnalogIn, BrickletIndustrialQuadRelay, BrickletIO16, BrickletIO4,
      BrickletDualRelay, BrickletSolidStateRelay, BrickletRemoteSwitch, BrickletRS232,
      BrickletLEDStrip, BrickletLCD16x2, BrickletLCD20x4, BrickletSegmentDisplay4x7,
      BrickletDualButton, BrickletPiezoBuzzer, BrickletPiezoSpeaker]"

lemmas classes_ok =
  Master.ok RED.ok DC.ok Servo.ok Stepper.ok IMU.ok IMUV2.ok AmbientLight.ok
   AmbientLightV2.ok Barometer.ok Humidity.ok Temperature.ok TemperatureIR.ok DustDetector.ok
   Moisture.ok SoundIntensity.ok Color.ok AnalogIn.ok AnalogInV2.ok AnalogOut.ok
   AnalogOutV2.ok Current12.ok Current25.ok Voltage.ok VoltageCurrent.ok LinearPoti.ok
   RotaryPoti.ok PTC.ok Accelerometer.ok DistanceIR.ok DistanceUS.ok GPS.ok HallEffect.ok
   Joystick.ok LaserRangeFinder.ok Line.ok LoadCell.ok MotionDetector.ok MultiTouch.ok
   NFCRFID.ok RotaryEncoder.ok Tilt.ok IndustrialAnalogOut.ok IndustrialDigitalIn4.ok
   IndustrialDigitalOut4.ok IndustrialDual020mA.ok IndustrialDualAnalogIn.ok
   IndustrialQuadRelay.ok IO16.ok IO4.ok DualRelay.ok SolidStateRelay.ok RemoteSwitch.ok
   RS232.ok LEDStrip.ok LCD16x2.ok LCD20x4.ok SegmentDisplay4x7.ok DualButton.ok
   PiezoBuzzer.ok PiezoSpeaker.ok

lemma all_bindings_ok: "list_all binding_ok all_bindings"
  unfolding all_bindings_def by (simp only: list.pred_inject classes_ok simp_thms)

lemma all_bindings_class: "b \<in> set all_bindings \<Longrightarrow> device_class b"
  using all_bindings_ok by unfold_locales (simp add: list_all_iff)

text \<open>A strip of LEDs under the identifier 2 on an open connection, for the examples.\<close>

definition led0 :: ipcon where
  "led0 = snd (binding_init BrickletLEDStrip ''3'' conn0)"

lemma led_uid: "device_uid ''3'' = Inr 2"
  by code_simp

lemma led_init: "binding_init BrickletLEDStrip ''3'' conn0 = (Inr 1, led0)"
  by (simp add: led0_def binding_init_def Device_init_def led_uid Let_def conn0_def ipcon0_eq)

lemma led_class: "BrickletLEDStrip \<in> set all_bindings"
  by (simp add: all_bindings_def)

lemma led_instance: "is_instance BrickletLEDStrip (dev_heap led0 1)"
  using LEDStrip.init_instance [OF led_init] by blast

lemma led_facts:
  "uid (dev_heap led0 1) = 2" "ready led0 1" "idle led0 1" "next_sequence_number led0 = 0" "devices led0 2 = Some 1"
  "socket led0 = Some \<lparr>sock_peer = (''localhost'', 4223), sock_sent = []\<rparr>"
  "get_response_expected (dev_heap led0 1) 3 = Inr False"
  by (simp_all add: led0_def binding_init_def Device_init_def led_uid Let_def conn0_def ipcon0_eq ipcon_fields_def
      upd_dev_def new_device_def ready_def idle_def seq_ok_def device_ok_def get_response_expected_def
      BrickletLEDStrip_def BrickletLEDStrip_flags_def)

lemma led_methods:
  "BrickletLEDStrip_get_frame_duration \<in> set (b_methods BrickletLEDStrip)"
  "BrickletLEDStrip_set_frame_duration \<in> set (b_methods BrickletLEDStrip)"
  "map_of (b_formats BrickletLEDStrip) 6 = Some ''H''"
  by (simp_all add: BrickletLEDStrip_def BrickletLEDStrip_formats_def)

lemma led_reads:
  "form_fields [] = Some []" "form_fields ''H'' = Some [FNum (UInt 2)]"
  "response_for 2 4 1 [2, 0, 0, 0, 10, 4, 0x10, 0, 50, 0]"
  "get_error_code_from_data [2, 0, 0, 0, 10, 4, 0x10, 0, 50, 0] = Inr 0"
  "get_uid_from_data [2, 0, 0, 0, 10, 6, 0, 0, 50, 0] = Inr 2"
  "get_length_from_data [2, 0, 0, 0, 10, 6, 0, 0, 50, 0] = Inr 10"
  "get_function_id_from_data [2, 0, 0, 0, 10, 6, 0, 0, 50, 0] = Inr 6"
  "list_all2 arg_ok [FNum (UInt 2)] [PInt 100]"
  by code_simp+

text \<open>
  C13. Every device object is one its methods can rely on: whatever class it is made from and
  whatever calls of \<^verbatim>\<open>set_response_expected\<close> and \<^verbatim>\<open>set_response_expected_all\<close> follow, each getter
  of the class still expects a response, each setter has a flag that \<^verbatim>\<open>create_packet_header\<close> can
  read, and each callback keeps its format.
\<close>

theorem devices_stay_usable:
  assumes "b \<in> set all_bindings" "binding_init b u s = (Inr d, s')"
  shows "is_instance b (run_ops ops (dev_heap s' d)) \<and>
    (\<forall>m \<in> set (b_methods b). (m_form_ret m \<noteq> [] \<longrightarrow>
        get_response_expected (run_ops ops (dev_heap s' d)) (m_function m) = Inr True) \<and>
      (\<exists>e. get_response_expected (run_ops ops (dev_heap s' d)) (m_function m) = Inr e))"
proof -
  note c = all_bindings_class [OF assms(1)]
  have i: "is_instance b (run_ops ops (dev_heap s' d))"
    using device_class.init_instance [OF c assms(2)] instance_run_ops by blast
  with device_class.getter_expected [OF c i] device_class.setter_expected [OF c i] show ?thesis by blast
qed

theorem devices_stay_usable_witness:
  "is_instance BrickletLEDStrip (run_ops [Set_All True, Set_One 4 False] (dev_heap led0 1)) \<and>
   get_response_expected (run_ops [Set_All True, Set_One 4 False] (dev_heap led0 1)) 4 = Inr True"
  using devices_stay_usable [OF led_class led_init, of "[Set_All True, Set_One 4 False]"] led_methods(1)
  by (auto simp: BrickletLEDStrip_get_frame_duration_def)

text \<open>
  C5. Every getter of every class returns its fields: called with arguments that fit its
  format on a device of the class, on an open connection, when the response without error
  arrives with a payload that holds the fields, the method returns the values of the fields
  in its shape, a named tuple of exactly the right names or the bare value, has sent the
  packed arguments in one packet, and has changed nothing else.
\<close>

theorem every_getter_returns_its_fields:
  assumes "b \<in> set all_bindings" "m \<in> set (b_methods b)" "m_form_ret m \<noteq> []" "is_instance b (dev_heap s d)"
    and "ready s d" "idle s d" "0x03000000 \<le> hexversion"
    and "form_fields (m_form m) = Some ks" "list_all2 arg_ok ks args"
    and "q = next_sequence_number s + 1" "response_for (uid (dev_heap s d)) (m_function m) q p"
    and "get_error_code_from_data p = Inr 0"
    and "form_fields (m_form_ret m) = Some rs" "form_size rs \<le> length (drop 8 p)"
    and "texts_ok hexversion rs (drop 8 p)" "72 \<le> n"
  shows "\<exists>payload vs. call_method hexversion (Sent n, [p]) m d args s =
       (Inr (shaped (m_result m) vs), called d (m_function m) q payload s) \<and>
     call_ok hexversion (m_form m) args payload \<and> length vs = length rs \<and>
     deserialize_data hexversion (drop 8 p) (m_form_ret m) = Inr (collapse vs)"
  by (rule device_class.getter_returns [OF all_bindings_class [OF assms(1)] assms(2-16)])

theorem every_getter_returns_its_fields_witness:
  "\<exists>v. fst (call_method 0x03000000 (Sent 72, [[2, 0, 0, 0, 10, 4, 0x10, 0, 50, 0]])
          BrickletLEDStrip_get_frame_duration 1 [] led0) = Inr (RValue v)"
proof -
  have t: "form_size [FNum (UInt 2)] \<le> length (drop 8 [2, 0, 0, 0, 10, 4, 0x10, 0, 50, 0 :: byte])"
      "texts_ok 0x03000000 [FNum (UInt 2)] (drop 8 [2, 0, 0, 0, 10, 4, 0x10, 0, 50, 0])"
    by (simp_all add: text_ok_def)
  show ?thesis
    using every_getter_returns_its_fields [OF led_class led_methods(1) _ led_instance led_facts(2,3),
        where p = "[2, 0, 0, 0, 10, 4, 0x10, 0, 50, 0]" and hexversion = "0x03000000" and n = 72
          and args = "[]" and ks = "[]" and rs = "[FNum (UInt 2)]" and q = 1] t led_facts led_reads
    by (auto simp: BrickletLEDStrip_get_frame_duration_def)
qed

text \<open>
  C14. Every setter of every class, called with arguments that fit its format, writes exactly
  one well formed packet with the packed arguments, whose response bit is the flag of the
  function. With the response not expected it returns \<^verbatim>\<open>None\<close> at once. With the response expected
  it returns \<^verbatim>\<open>None\<close> or raises the error the first matching response carries, and raises TIMEOUT if
  there is none among the packets that arrive; the expectation is withdrawn in each case.
\<close>

theorem every_setter_writes_one_packet:
  assumes "b \<in> set all_bindings" "m \<in> set (b_methods b)" "m_form_ret m = []" "is_instance b (dev_heap s d)"
    and "ready s d" "0x03000000 \<le> hexversion" "socket s = Some k"
    and "form_fields (m_form m) = Some ks" "list_all2 arg_ok ks args"
    and "q = next_sequence_number s + 1" "72 \<le> n" "list_all (\<lambda>p. 8 \<le> length p) arrivals"
  shows "\<exists>e payload res s'. get_response_expected (dev_heap s d) (m_function m) = Inr e \<and>
     call_ok hexversion (m_form m) args payload \<and>
     call_method hexversion (Sent n, arrivals) m d args s = (res, s') \<and>
     socket s' = Some (k\<lparr>sock_sent := sock_sent k @ request_bytes (uid (dev_heap s d)) (m_function m) q e payload\<rparr>) \<and>
     wf_packet (request_bytes (uid (dev_heap s d)) (m_function m) q e payload) \<and>
     res = (if e then case find (matches (m_function m) q) (candidates d (m_function m) q arrivals s) of
                        None \<Rightarrow> Inl (timeout_error (m_function m))
                      | Some response \<Rightarrow> rmap (\<lambda>_. RValue PNone) (check_response hexversion (m_function m) [] response)
            else Inr (RValue PNone)) \<and>
     (e \<longrightarrow> expected_response_function_id (dev_heap s' d) = None \<and>
          expected_response_sequence_number (dev_heap s' d) = None)"
  by (rule device_class.setter_writes [OF all_bindings_class [OF assms(1)] assms(2-12)])

text \<open>The strip with all its responses expected.\<close>

definition led1 :: ipcon where
  "led1 = upd_dev 1 (\<lambda>x. set_response_expected_all x True) led0"

lemma led1_facts:
  "is_instance BrickletLEDStrip (dev_heap led1 1)" "ready led1 1" "next_sequence_number led1 = 0"
  "socket led1 = socket led0" "get_response_expected (dev_heap led1 1) 3 = Inr True"
  "devices led1 u = devices led0 u" "response_queue (dev_heap led1 1) = []"
proof -
  show "is_instance BrickletLEDStrip (dev_heap led1 1)"
    using instance_set_all [OF led_instance] by (simp add: led1_def upd_dev_def)
  show "ready led1 1"
    using led_facts(2) set_response_expected_all_ok [of "dev_heap led0 1" True]
    by (auto simp: led1_def upd_dev_def ready_def seq_ok_def set_response_expected_all_def Let_def)
  have "adjustable (dev_heap led0 1) 3"
    by (simp add: led0_def binding_init_def Device_init_def led_uid Let_def conn0_def ipcon0_eq upd_dev_def
        new_device_def adjustable_def BrickletLEDStrip_def BrickletLEDStrip_flags_def)
  then show "get_response_expected (dev_heap led1 1) 3 = Inr True"
    by (simp add: led1_def upd_dev_def lookup_assign_all_flag)
qed (use led_facts(3,4) in \<open>simp_all add: led1_def upd_dev_def idle_def set_response_expected_all_def Let_def\<close>)

lemma led1_response:
  "matches 3 1 [2, 0, 0, 0, 8, 3, 0x10, 0]" "response_for 2 3 1 [2, 0, 0, 0, 8, 3, 0x10, 0]"
  "check_response 0x03000000 3 [] [2, 0, 0, 0, 8, 3, 0x10, 0] = Inr PNone"
  by code_simp+

theorem every_setter_writes_one_packet_witness:
  "fst (call_method 0x03000000 (Sent 72, []) BrickletLEDStrip_set_frame_duration 1 [PInt 100] led0) = Inr (RValue PNone) \<and>
   fst (call_method 0x03000000 (Sent 72, [[2, 0, 0, 0, 8, 3, 0x10, 0]]) BrickletLEDStrip_set_frame_duration 1 [PInt 100] led1) =
     Inr (RValue PNone) \<and>
   fst (call_method 0x03000000 (Sent 72, []) BrickletLEDStrip_set_frame_duration 1 [PInt 100] led1) = Inl (timeout_error 3)"
proof -
  have m: "m_form_ret BrickletLEDStrip_set_frame_duration = []" "m_function BrickletLEDStrip_set_frame_duration = 3"
      "form_fields (m_form BrickletLEDStrip_set_frame_duration) = Some [FNum (UInt 2)]"
    using led_reads(2) by (simp_all add: BrickletLEDStrip_set_frame_duration_def)
  have h: "(0x03000000 :: int) \<le> 0x03000000" "(72 :: nat) \<le> 72" by simp_all
  have k: "socket led1 = Some \<lparr>sock_peer = (''localhost'', 4223), sock_sent = []\<rparr>" using led1_facts(4) led_facts(6) by simp
  note r0 = every_setter_writes_one_packet [OF led_class led_methods(2) m(1) led_instance led_facts(2) h(1) led_facts(6) m(3)
      led_reads(8) refl h(2), of "[]"]
  note r1 = every_setter_writes_one_packet [OF led_class led_methods(2) m(1) led1_facts(1,2) h(1) k m(3) led_reads(8) refl h(2)]
  have c: "find (matches 3 1) (candidates 1 3 1 [] led1) = None"
      "find (matches 3 1) (candidates 1 3 1 [[2, 0, 0, 0, 8, 3, 0x10, 0]] led1) = Some [2, 0, 0, 0, 8, 3, 0x10, 0]"
    using led1_response led_facts(5) by (auto simp: candidates_def led1_facts [simplified])
  show ?thesis
    using r0 r1 [of "[]"] r1 [of "[[2, 0, 0, 0, 8, 3, 0x10, 0]]"] led_facts(7) led1_facts(5) c led1_response(3)
    by (auto simp: m(2) led1_facts(3))
qed

text \<open>
  C15. Every callback of every class reaches its user: a packet with the callback's number for
  a device of the class, whose payload holds the callback's fields with readable text, makes
  \<^verbatim>\<open>dispatch_packet\<close> call the registered function with one argument per field.
\<close>

theorem every_callback_is_delivered:
  assumes "b \<in> set all_bindings" "map_of (b_formats b) i = Some form" "is_instance b (dev_heap s d)"
    and "get_uid_from_data packet = Inr u" "get_length_from_data packet = Inr l"
    and "get_function_id_from_data packet = Inr i" "devices s u = Some d"
    and "dev_registered_callbacks (dev_heap s d) i = Some (Some h)"
    and "form_fields form = Some ks" "form_size ks \<le> length (drop 8 packet)"
    and "texts_ok hexversion ks (drop 8 packet)"
  shows "\<exists>vs. length vs = length ks \<and> dispatch_packet hexversion run packet s = run h vs s"
  by (rule device_class.callback_delivered [OF all_bindings_class [OF assms(1)] assms(2-11)])

theorem every_callback_is_delivered_witness:
  "dispatch_packet 0x03000000 (\<lambda>h args s. (if h = 9 then Inr () else Inl KeyError, s\<lparr>waiter := length args\<rparr>))
     [2, 0, 0, 0, 10, 6, 0, 0, 50, 0] (dev_register_callback 1 6 (Some 9) led0) =
     (Inr (), (dev_register_callback 1 6 (Some 9) led0)\<lparr>waiter := 1\<rparr>)"
proof -
  have i: "is_instance BrickletLEDStrip (dev_heap (dev_register_callback 1 6 (Some 9) led0) 1)"
    using led_instance by (auto simp: is_instance_def device_ok_def dev_register_callback_def upd_dev_def)
  have t: "form_size [FNum (UInt 2)] \<le> length (drop 8 [2, 0, 0, 0, 10, 6, 0, 0, 50, 0 :: byte])"
      "texts_ok 0x03000000 [FNum (UInt 2)] (drop 8 [2, 0, 0, 0, 10, 6, 0, 0, 50, 0])"
    by (simp_all add: text_ok_def)
  show ?thesis
    using every_callback_is_delivered [OF led_class led_methods(3) i led_reads(5-7), where h = 9
        and run = "\<lambda>h args s. (if h = 9 then Inr () else Inl KeyError, s\<lparr>waiter := length args\<rparr>)"
        and hexversion = "0x03000000" and ks = "[FNum (UInt 2)]"] t led_facts(5) led_reads(2)
    by (auto simp: dev_register_callback_def upd_dev_def)
qed

text \<open>
  C21. The generated classes are consistent as a whole: every class satisfies \<open>binding_ok\<close>
  (numbers, flags, formats, parameters and result shapes agree for each of its methods and
  callbacks), and no two classes share a device identifier.
\<close>

theorem package_consistent:
  "list_all binding_ok all_bindings \<and> distinct (map b_identifier all_bindings) \<and>
   length all_bindings = 61 \<and> sum_list (map (\<lambda>b. length (b_methods b)) all_bindings) = 932"
proof (intro conjI)
  show "list_all binding_ok all_bindings" by (rule all_bindings_ok)
  show "distinct (map b_identifier all_bindings)" by code_simp
  show "length all_bindings = 61" by (simp add: all_bindings_def)
  show "sum_list (map (\<lambda>b. length (b_methods b)) all_bindings) = 932" by code_simp
qed

end
