(* ===== verification/Scripts.thy ===== *)
theory Scripts
  imports Bricklets_Display
begin

text \<open>
  The command line scripts of the repository that drive the LED strip of the shelf:
  \<^verbatim>\<open>led.py\<close> (called by the web pages), \<^verbatim>\<open>b.py\<close> and \<^verbatim>\<open>a.py\<close>. The functions of \<^verbatim>\<open>led.py\<close> carry the
  prefix \<open>led_\<close>, those of \<^verbatim>\<open>b.py\<close> the prefix \<open>b_\<close>, those of \<^verbatim>\<open>a.py\<close> the prefix \<open>a_\<close>. The state of a
  script is the connection and the list of what the script has done so far: its calls of
  device methods with their arguments, of \<^verbatim>\<open>disconnect\<close> and of \<^verbatim>\<open>register_callback\<close>. The environment of an
  action is \<open>env n\<close>, where \<open>n\<close> is the number of actions before it. Output to the terminal and
  delays are not part of the model.
\<close>

datatype action = Called dev_method "pval list" | Disconnected | Registered int cb_handle

type_synonym script_state = "action list \<times> ipcon"
type_synonym call_envs = "nat \<Rightarrow> req_env"

subsection \<open>int() of a command line argument\<close>

text \<open>
  White space around the number, a sign, decimal digits; from Python 3.6 on single
  underscores between digits. Arguments are ASCII.
\<close>

fun int_digits :: "bool \<Rightarrow> nat \<Rightarrow> string \<Rightarrow> nat option" where
  "int_digits us acc [] = Some acc"
| "int_digits us acc [c] = (if is_digit c then Some (10 * acc + digit_val c) else None)"
| "int_digits us acc (c # e # cs) =
     (if is_digit c then int_digits us (10 * acc + digit_val c) (e # cs)
      else if us \<and> c = CHR ''_'' \<and> is_digit e then int_digits us (10 * acc + digit_val e) cs
      else None)"

definition int_unsigned :: "int \<Rightarrow> string \<Rightarrow> int res" where
  "int_unsigned hexversion s = (case s of
     [] \<Rightarrow> Inl ValueError
   | c # cs \<Rightarrow> if \<not> is_digit c then Inl ValueError
       else (case int_digits (0x03060000 \<le> hexversion) (digit_val c) cs of
               None \<Rightarrow> Inl ValueError | Some n \<Rightarrow> Inr (int n)))"

definition strip :: "string \<Rightarrow> string" where
  "strip s = rev (dropWhile is_space (rev (dropWhile is_space s)))"

definition py_int :: "int \<Rightarrow> string \<Rightarrow> int res" where
  "py_int hexversion s = (case strip s of
     c # cs \<Rightarrow>
       if c = CHR ''-'' then rmap uminus (int_unsigned hexversion cs)
       else if c = CHR ''+'' then int_unsigned hexversion cs
       else int_unsigned hexversion (c # cs)
   | [] \<Rightarrow> Inl ValueError)"

subsection \<open>Loops and device calls\<close>

fun for_each :: "('a \<Rightarrow> 's \<Rightarrow> unit res \<times> 's) \<Rightarrow> 'a list \<Rightarrow> 's \<Rightarrow> unit res \<times> 's" where
  "for_each f [] st = (Inr (), st)"
| "for_each f (x # xs) st = sbind (f x st) (\<lambda>_ st. for_each f xs st)"

definition on_ipcon :: "(ipcon \<Rightarrow> 'a res \<times> ipcon) \<Rightarrow> script_state \<Rightarrow> 'a res \<times> script_state" where
  "on_ipcon f st = (case st of (done, s) \<Rightarrow> case f s of (r, s') \<Rightarrow> (r, (done, s')))"

definition script_call ::
    "int \<Rightarrow> call_envs \<Rightarrow> dev_method \<Rightarrow> nat \<Rightarrow> pval list \<Rightarrow> script_state \<Rightarrow> unit res \<times> script_state" where
  "script_call hexversion env m d args st = (case st of (done, s) \<Rightarrow>
     case call_method hexversion (env (length done)) m d args s of
       (res, s') \<Rightarrow> (rmap (\<lambda>_. ()) res, (done @ [Called m args], s')))"

definition script_disconnect :: "script_state \<Rightarrow> unit res \<times> script_state" where
  "script_disconnect st = (case st of (done, s) \<Rightarrow>
     case disconnect s of (r, s') \<Rightarrow> (r, (done @ [Disconnected], s')))"

definition script_register :: "nat \<Rightarrow> int \<Rightarrow> cb_handle \<Rightarrow> script_state \<Rightarrow> unit res \<times> script_state" where
  "script_register d i h st = (case st of (done, s) \<Rightarrow>
     (Inr (), (done @ [Registered i h], dev_register_callback d i h s)))"

text \<open>\<^verbatim>\<open>ls.set_rgb_values(index, length, [r]*16, [g]*16, [b]*16)\<close>.\<close>

definition set_rgb_values ::
    "int \<Rightarrow> call_envs \<Rightarrow> nat \<Rightarrow> int \<Rightarrow> int \<Rightarrow> int \<Rightarrow> int \<Rightarrow> int \<Rightarrow> script_state \<Rightarrow> unit res \<times> script_state" where
  "set_rgb_values hexversion env d index len r g b =
     script_call hexversion env BrickletLEDStrip_set_rgb_values d
       [PInt index, PInt len, PList (replicate 16 (PInt r)), PList (replicate 16 (PInt g)),
        PList (replicate 16 (PInt b))]"

subsection \<open>The script led.py\<close>

definition led_locList :: "int list list" where
  "led_locList = [[58, 40], [87, 18]]"

definition led_turnoff :: "int \<Rightarrow> call_envs \<Rightarrow> nat \<Rightarrow> script_state \<Rightarrow> unit res \<times> script_state" where
  "led_turnoff hexversion env d =
     for_each (\<lambda>i. set_rgb_values hexversion env d (i * 10) 10 0 0 0) [0..19]"

text \<open>The two copies of \<^verbatim>\<open>parsePosition\<close> differ in the table only.\<close>

definition parse_in :: "int list list \<Rightarrow> int \<Rightarrow> string \<Rightarrow> int res" where
  "parse_in locs hexversion position =
     (let col = drop 3 position; row = take 2 position;
          col = (if col = ''A'' then 0 else 1)
      in rbind (py_index locs col) (\<lambda>rows. rbind (py_int hexversion row) (\<lambda>r. py_index rows (r - 1))))"

definition led_parsePosition :: "int \<Rightarrow> string \<Rightarrow> int res" where
  "led_parsePosition = parse_in led_locList"

definition led_toggleLED ::
    "int \<Rightarrow> call_envs \<Rightarrow> nat \<Rightarrow> int \<Rightarrow> string option \<Rightarrow> script_state \<Rightarrow> unit res \<times> script_state" where
  "led_toggleLED hexversion env d state position st = (case position of
     None \<Rightarrow> led_turnoff hexversion env d st
   | Some p \<Rightarrow>
       if p = [] then led_turnoff hexversion env d st
       else sbind (sres (led_parsePosition hexversion p) st) (\<lambda>pos st.
         if state = 3 then led_turnoff hexversion env d st
         else if state \<noteq> 0 then set_rgb_values hexversion env d pos 4 0 255 0 st
         else set_rgb_values hexversion env d pos 4 0 0 0 st))"

text \<open>
  \<^verbatim>\<open>sys.argv == 3\<close> compares a list with a number, which is never equal.
\<close>

definition list_equals_int :: "'a list \<Rightarrow> int \<Rightarrow> bool" where
  "list_equals_int xs n = False"

definition led_opr :: "int \<Rightarrow> call_envs \<Rightarrow> nat \<Rightarrow> string list \<Rightarrow> script_state \<Rightarrow> unit res \<times> script_state" where
  "led_opr hexversion env d argv st =
     (if list_equals_int argv 3 then
        sbind (led_turnoff hexversion env d st) (\<lambda>_ st. led_turnoff hexversion env d st)
      else if length argv < 3 then
        sbind (sres (rbind (py_index argv 1) (py_int hexversion)) st) (\<lambda>state st.
          led_toggleLED hexversion env d state None st)
      else
        for_each (\<lambda>arg st. sbind (sres (rbind (py_index argv 1) (py_int hexversion)) st) (\<lambda>state st.
          led_toggleLED hexversion env d state (Some arg) st)) (drop 2 argv) st)"

definition led_opr2 :: "int \<Rightarrow> call_envs \<Rightarrow> nat \<Rightarrow> string list \<Rightarrow> script_state \<Rightarrow> unit res \<times> script_state" where
  "led_opr2 hexversion env d argv st =
     sbind (sres (rbind (py_index argv 1) (py_int hexversion)) st) (\<lambda>state st.
     sbind (led_toggleLED hexversion env d state None st) (\<lambda>_ st.
       if 2 < length argv then
         for_each (\<lambda>arg st. sbind (sres (rbind (py_index argv 1) (py_int hexversion)) st) (\<lambda>state st.
           led_toggleLED hexversion env d state (Some arg) st)) (drop 2 argv) st
       else (Inr (), st)))"

text \<open>
  The main block; \<open>None\<close> if it blocks in \<^verbatim>\<open>ipcon.wait()\<close>. The last statement calls
  \<^verbatim>\<open>disconnect()\<close> to compute the callback it registers, which is \<^verbatim>\<open>None\<close>. The parameter \<open>opr2\<close> is
  the only difference between the main blocks of \<^verbatim>\<open>led.py\<close> and \<^verbatim>\<open>b.py\<close>.
\<close>

definition script_main ::
    "(nat \<Rightarrow> script_state \<Rightarrow> unit res \<times> script_state) \<Rightarrow> os_env \<Rightarrow> (unit res \<times> script_state) option" where
  "script_main opr2 os =
     (case connect os ''137.226.151.148'' 4223 ipcon0 of
        (Inl e, s) \<Rightarrow> Some (Inl e, ([], s))
      | (Inr _, s) \<Rightarrow>
          (case set_timeout 10000 s of
             (Inl e, s) \<Rightarrow> Some (Inl e, ([], s))
           | (Inr _, s) \<Rightarrow>
               (case wait s of
                  None \<Rightarrow> None
                | Some s \<Rightarrow>
                    Some (sbind (on_ipcon (binding_init BrickletLEDStrip ''oV7'') ([], s)) (\<lambda>d st.
                          sbind (opr2 d st) (\<lambda>_ st.
                          sbind (script_disconnect st) (\<lambda>_ st.
                            script_register d 6 None st)))))))"

definition led_main :: "int \<Rightarrow> os_env \<Rightarrow> call_envs \<Rightarrow> string list \<Rightarrow> (unit res \<times> script_state) option" where
  "led_main hexversion os env argv = script_main (\<lambda>d. led_opr2 hexversion env d argv) os"

subsection \<open>The script b.py\<close>

definition b_locList :: "int list list" where
  "b_locList = [[0, 15, 20, 35, 40, 55, 60, 75, 80], [5, 10, 25, 30, 45, 50, 65, 70, 85]]"

definition b_turnoff :: "script_state \<Rightarrow> unit res \<times> script_state" where
  "b_turnoff st = (Inr (), st)"

definition b_parsePosition :: "int \<Rightarrow> string \<Rightarrow> int res" where
  "b_parsePosition = parse_in b_locList"

definition b_toggleLED ::
    "int \<Rightarrow> call_envs \<Rightarrow> nat \<Rightarrow> int \<Rightarrow> string option \<Rightarrow> script_state \<Rightarrow> unit res \<times> script_state" where
  "b_toggleLED hexversion env d state position st = (case position of
     None \<Rightarrow> b_turnoff st
   | Some p \<Rightarrow>
       if p = [] then b_turnoff st
       else sbind (sres (b_parsePosition hexversion p) st) (\<lambda>pos st.
         if state = 3 then b_turnoff st
         else if state \<noteq> 0 then set_rgb_values hexversion env d pos 5 0 255 0 st
         else set_rgb_values hexversion env d pos 5 0 0 0 st))"

definition b_opr :: "int \<Rightarrow> call_envs \<Rightarrow> nat \<Rightarrow> string list \<Rightarrow> script_state \<Rightarrow> unit res \<times> script_state" where
  "b_opr hexversion env d argv st =
     (if list_equals_int argv 3 then sbind (b_turnoff st) (\<lambda>_ st. b_turnoff st)
      else if length argv < 3 then
        sbind (sres (rbind (py_index argv 1) (py_int hexversion)) st) (\<lambda>state st.
          b_toggleLED hexversion env d state None st)
      else
        for_each (\<lambda>arg st. sbind (sres (rbind (py_index argv 1) (py_int hexversion)) st) (\<lambda>state st.
          b_toggleLED hexversion env d state (Some arg) st)) (drop 2 argv) st)"

definition b_opr2 :: "int \<Rightarrow> call_envs \<Rightarrow> nat \<Rightarrow> string list \<Rightarrow> script_state \<Rightarrow> unit res \<times> script_state" where
  "b_opr2 hexversion env d argv st =
     sbind (sres (rbind (py_index argv 1) (py_int hexversion)) st) (\<lambda>state st.
     sbind (sres (rbind (py_index argv 2) (py_int hexversion)) st) (\<lambda>index st.
       if state = 0 then set_rgb_values hexversion env d index 1 0 0 0 st
       else set_rgb_values hexversion env d index 1 0 255 0 st))"

definition b_main :: "int \<Rightarrow> os_env \<Rightarrow> call_envs \<Rightarrow> string list \<Rightarrow> (unit res \<times> script_state) option" where
  "b_main hexversion os env argv = script_main (\<lambda>d. b_opr2 hexversion env d argv) os"

subsection \<open>The script a.py\<close>

text \<open>The callback, with the global \<^verbatim>\<open>r_index\<close> before and after.\<close>

definition a_cb_frame_rendered ::
    "int \<Rightarrow> call_envs \<Rightarrow> nat \<Rightarrow> int \<Rightarrow> script_state \<Rightarrow> unit res \<times> int \<times> script_state" where
  "a_cb_frame_rendered hexversion env d r_index st =
     (let r_index = r_index + 1 in
      case set_rgb_values hexversion env d r_index 1 0 255 0 st of (res, st') \<Rightarrow> (res, r_index, st'))"

text \<open>
  The main block. The callback it registers is the handle \<open>h\<close>; \<^verbatim>\<open>raw_input\<close> returns when the
  user presses a key.
\<close>

definition a_main :: "int \<Rightarrow> os_env \<Rightarrow> call_envs \<Rightarrow> nat \<Rightarrow> unit res \<times> script_state" where
  "a_main hexversion os env h =
     sbind (on_ipcon (binding_init BrickletLEDStrip ''oV7'') ([], ipcon0)) (\<lambda>d st.
     sbind (on_ipcon (connect os ''137.226.151.148'' 4223) st) (\<lambda>_ st.
     sbind (script_call hexversion env BrickletLEDStrip_set_frame_duration d [PInt 50] st) (\<lambda>_ st.
     sbind (script_register d 6 (Some h) st) (\<lambda>_ st.
     sbind (set_rgb_values hexversion env d 0 16 0 0 0 st) (\<lambda>_ st.
       script_disconnect st)))))"

subsection \<open>What a drawing call does\<close>

text \<open>One call: first LED, number of LEDs, red, green, blue; its payload, and its effect.\<close>

type_synonym rgb_call = "int \<times> int \<times> int \<times> int \<times> int"

fun rgb_payload :: "rgb_call \<Rightarrow> bytes" where
  "rgb_payload (index, len, r, g, b) =
     le_bytes 2 index @ le_bytes 1 len @ replicate 16 (word_of_int r) @ replicate 16 (word_of_int g) @
     replicate 16 (word_of_int b)"

fun rgb_fits :: "rgb_call \<Rightarrow> bool" where
  "rgb_fits (index, len, r, g, b) =
     (uint_fits 2 index \<and> uint_fits 1 len \<and> uint_fits 1 r \<and> uint_fits 1 g \<and> uint_fits 1 b)"

fun rgb_action :: "rgb_call \<Rightarrow> action" where
  "rgb_action (index, len, r, g, b) = Called BrickletLEDStrip_set_rgb_values
     [PInt index, PInt len, PList (replicate 16 (PInt r)), PList (replicate 16 (PInt g)),
      PList (replicate 16 (PInt b))]"

definition draw :: "nat \<Rightarrow> rgb_call \<Rightarrow> ipcon \<Rightarrow> ipcon" where
  "draw d c s =
     (let q = next_sequence_number s + 1 in
      s\<lparr>next_sequence_number := q mod 15, disconnect_probe_flag := False,
        socket := map_option (\<lambda>k. k\<lparr>sock_sent := sock_sent k @
          request_bytes (uid (dev_heap s d)) 1 q False (rgb_payload c)\<rparr>) (socket s)\<rparr>)"

text \<open>The operating system takes every packet whole; a strip that can be drawn on.\<close>

definition takes_all :: "call_envs \<Rightarrow> bool" where
  "takes_all env = (\<forall>n. \<exists>k. fst (env n) = Sent k \<and> 72 \<le> k)"

definition drawable :: "ipcon \<Rightarrow> nat \<Rightarrow> bool" where
  "drawable s d = (ready s d \<and> get_response_expected (dev_heap s d) 1 = Inr False)"

lemma pack_same: "uint_fits 1 v \<Longrightarrow> pack_atoms (replicate n (UInt 1)) (replicate n (PInt v)) = Inr (replicate n (word_of_int v))"
  by (induction n) (auto simp: numeral_eq_Suc)

lemma rgb_formats:
  "atoms_of ''16B'' = Inr (replicate 16 (UInt 1))" "atoms_of ''H'' = Inr [UInt 2]" "atoms_of ''B'' = Inr [UInt 1]"
  "form_fields ''H B 16B 16B 16B'' =
     Some [FNum (UInt 2), FNum (UInt 1), FNums 16 (UInt 1), FNums 16 (UInt 1), FNums 16 (UInt 1)]"
  by code_simp+

lemma rgb_call_ok:
  assumes "rgb_fits (index, len, r, g, b)"
  shows "call_ok hv ''H B 16B 16B 16B'' [PInt index, PInt len, PList (replicate 16 (PInt r)),
           PList (replicate 16 (PInt g)), PList (replicate 16 (PInt b))] (rgb_payload (index, len, r, g, b))"
proof -
  have "pack_field hv ''H'' (PInt index) = Inr (le_bytes 2 index)" "pack_field hv ''B'' (PInt len) = Inr (le_bytes 1 len)"
    using assms by (simp_all add: pack_field_def pack_le_def rgb_formats)
  moreover have "pack_field hv ''16B'' (PList (replicate 16 (PInt v))) = Inr (replicate 16 (word_of_int v))"
    if "uint_fits 1 v" for v
    using pack_same [OF that, of 16] by (simp add: pack_field_def pack_le_def rgb_formats)
  ultimately show ?thesis
    using assms by (simp add: call_ok_def rgb_formats del: replicate.simps)
qed

lemma rgb_payload_length [simp]: "length (rgb_payload c) = 51"
  by (cases c) simp

lemma set_rgb_draws:
  assumes "drawable s d" "takes_all env" "rgb_fits (index, len, r, g, b)"
  shows "set_rgb_values hv env d index len r g b (l, s) =
    (Inr (), (l @ [rgb_action (index, len, r, g, b)], draw d (index, len, r, g, b) s))"
proof -
  obtain k where k: "socket s = Some k" using assms(1) by (auto simp: drawable_def ready_def)
  obtain m a where e: "env (length l) = (Sent m, a)" "72 \<le> m" using assms(2) by (metis takes_all_def prod.collapse)
  let ?p = "rgb_payload (index, len, r, g, b)"
  have "length (request_bytes (uid (dev_heap s d)) 1 q False ?p) \<le> m" for q
    using e(2) by (simp add: request_bytes_def del: rgb_payload.simps)
  with send_request_eq [OF _ rgb_call_ok [OF assms(3)] _ refl k, where f = 1 and e = False and n = m and arrivals = a and form_ret = "[]" and hv = hv] assms(1) e k
  show ?thesis
    by (simp add: set_rgb_values_def script_call_def call_method_def BrickletLEDStrip_set_rgb_values_def drawable_def make_result_def
        draw_def Let_def del: rgb_payload.simps replicate.simps)
qed

lemma draw_keeps:
  "drawable s d \<Longrightarrow> drawable (draw d' c s) d" "dev_heap (draw d c s) = dev_heap s"
  by (auto simp: drawable_def draw_def ready_def seq_ok_def Let_def)

lemma fold_draw_keeps: "drawable s d \<Longrightarrow> drawable (fold (draw d') cs s) d"
  by (induction cs arbitrary: s) (auto simp: draw_keeps)

text \<open>A loop of calls that each draw draws all of them.\<close>

lemma for_each_draws:
  assumes "\<And>x n s. x \<in> set xs \<Longrightarrow> drawable s d \<Longrightarrow> f x (n, s) = (Inr (), (n @ map rgb_action (calls x), fold (draw d) (calls x) s))"
  shows "drawable s d \<Longrightarrow> for_each f xs (n, s) =
    (Inr (), (n @ map rgb_action (concat (map calls xs)), fold (draw d) (concat (map calls xs)) s))"
  using assms
proof (induction xs arbitrary: n s)
  case (Cons x xs)
  have "f x (n, s) = (Inr (), (n @ map rgb_action (calls x), fold (draw d) (calls x) s))" using Cons.prems by simp
  with Cons.IH [of "fold (draw d) (calls x) s" "n @ map rgb_action (calls x)"] Cons.prems fold_draw_keeps show ?case
    by simp
qed simp

definition off_calls :: "rgb_call list" where
  "off_calls = map (\<lambda>i. (i * 10, 10, 0, 0, 0)) [0..19]"

lemma led_turnoff_draws:
  assumes "drawable s d" "takes_all env"
  shows "led_turnoff hv env d (n, s) = (Inr (), (n @ map rgb_action off_calls, fold (draw d) off_calls s))"
proof -
  have "set_rgb_values hv env d (i * 10) 10 0 0 0 (n, s) =
      (Inr (), (n @ map rgb_action [(i * 10, 10, 0, 0, 0)], fold (draw d) [(i * 10, 10, 0, 0, 0)] s))"
    if "i \<in> set [0..19]" "drawable s d" for i n s
    using that assms(2) by (simp add: set_rgb_draws uint_fits_def)
  from for_each_draws [of "[0..19]" d "\<lambda>i. set_rgb_values hv env d (i * 10) 10 0 0 0" "\<lambda>i. [(i * 10, 10, 0, 0, 0)]" s n, OF this assms(1)]
  show ?thesis by (simp add: led_turnoff_def off_calls_def del: rgb_action.simps)
qed

subsection \<open>Positions\<close>

lemma py_index_mem: "py_index xs i = Inr x \<Longrightarrow> x \<in> set xs"
  by (auto simp: py_index_def split: if_splits)

lemma parse_in_mem: "parse_in locs hv p = Inr x \<Longrightarrow> \<exists>rows \<in> set locs. x \<in> set rows"
  by (auto simp: parse_in_def Let_def res_simps dest!: py_index_mem)

lemma is_digit_cases:
  "is_digit c \<Longrightarrow> \<not> is_space c \<and> c \<noteq> CHR ''-'' \<and> c \<noteq> CHR ''+''"
  by (auto simp: is_digit_def is_space_def)

lemma py_int_two_digits: "is_digit c \<Longrightarrow> is_digit e \<Longrightarrow> py_int hv [c, e] = Inr (int (10 * digit_val c + digit_val e))"
  by (simp add: py_int_def strip_def is_digit_cases int_unsigned_def)

text \<open>
  C39. What a position on the command line selects. For a row of two digits, any separator and
  a column, \<^verbatim>\<open>parsePosition\<close> takes column A for the first list and everything else for the
  second, and row \<open>r\<close> for the \<open>r\<close>-th entry; a row past the end raises IndexError. Row 00 is no
  error: the index \<open>-1\<close> selects the last entry of the list.
\<close>

theorem parsePosition_result:
  assumes "is_digit c" "is_digit e" "locs = [rowsA, rowsB]" "rowsA \<noteq> []" "rowsB \<noteq> []"
  shows "parse_in locs hexversion (c # e # sep # col) =
    (let rows = (if col = ''A'' then rowsA else rowsB); r = 10 * digit_val c + digit_val e in
     if r = 0 then Inr (last rows) else if r \<le> length rows then Inr (rows ! (r - 1)) else Inl IndexError)"
  using assms
  by (auto simp: parse_in_def Let_def py_int_two_digits py_index_def last_conv_nth nat_diff_distrib
      nat_add_distrib nat_mult_distrib Suc_le_eq)

theorem parsePosition_result_witness:
  "led_parsePosition 0x02070000 ''01-A'' = Inr 58 \<and> led_parsePosition 0x02070000 ''00-B'' = Inr 18"
  using parsePosition_result [of "CHR ''0''" "CHR ''1''" led_locList "[58, 40]" "[87, 18]" "0x02070000" "CHR ''-''" "''A''"]
    parsePosition_result [of "CHR ''0''" "CHR ''0''" led_locList "[58, 40]" "[87, 18]" "0x02070000" "CHR ''-''" "''B''"]
  by (simp add: led_parsePosition_def led_locList_def is_digit_def digit_val_def)

lemma led_position_range: "led_parsePosition hv p = Inr x \<Longrightarrow> 0 \<le> x \<and> x + 4 \<le> 200"
  using parse_in_mem [of led_locList hv p x] by (auto simp: led_parsePosition_def led_locList_def)

subsection \<open>What the two ways of lighting send\<close>

lemma led_toggle_draws:
  assumes "drawable s d" "takes_all env" "p \<noteq> []" "led_parsePosition hv p = Inr x" "state \<noteq> 0" "state \<noteq> 3"
  shows "led_toggleLED hv env d state (Some p) (n, s) =
    (Inr (), (n @ map rgb_action [(x, 4, 0, 255, 0)], fold (draw d) [(x, 4, 0, 255, 0)] s))"
  using assms led_position_range [OF assms(4)] set_rgb_draws [OF assms(1,2), of x 4 0 255 0 hv n]
  by (simp add: led_toggleLED_def uint_fits_def)

text \<open>The arguments of a run: a state that lights, and positions with what they select.\<close>

definition lights :: "int \<Rightarrow> string \<Rightarrow> string list \<Rightarrow> (string \<Rightarrow> int) \<Rightarrow> bool" where
  "lights hv st ps pos =
     ((\<exists>state. py_int hv st = Inr state \<and> state \<noteq> 0 \<and> state \<noteq> 3) \<and>
      list_all (\<lambda>p. p \<noteq> [] \<and> led_parsePosition hv p = Inr (pos p)) ps)"

definition on_calls :: "(string \<Rightarrow> int) \<Rightarrow> string list \<Rightarrow> rgb_call list" where
  "on_calls pos ps = map (\<lambda>p. (pos p, 4, 0, 255, 0)) ps"

lemma on_calls_concat: "concat (map (\<lambda>p. [(pos p, 4, 0, 255, 0)]) ps) = on_calls pos ps"
  by (induction ps) (auto simp: on_calls_def)

lemma argv_state: "rbind (py_index (prog # st # ps) 1) (py_int hv) = py_int hv st"
  by (simp add: py_index_def)

lemma positions_draw:
  assumes "drawable s d" "takes_all env" "lights hv st ps pos"
  shows "for_each (\<lambda>arg stt. sbind (sres (rbind (py_index (prog # st # ps) 1) (py_int hv)) stt) (\<lambda>state stt.
           led_toggleLED hv env d state (Some arg) stt)) ps (n, s) =
    (Inr (), (n @ map rgb_action (on_calls pos ps), fold (draw d) (on_calls pos ps) s))"
proof -
  obtain state where state: "py_int hv st = Inr state" "state \<noteq> 0" "state \<noteq> 3" using assms(3) by (auto simp: lights_def)
  let ?f = "\<lambda>arg stt. sbind (sres (rbind (py_index (prog # st # ps) 1) (py_int hv)) stt) (\<lambda>state stt.
           led_toggleLED hv env d state (Some arg) stt)"
  have "?f p (n, s) = (Inr (), (n @ map rgb_action [(pos p, 4, 0, 255, 0)], fold (draw d) [(pos p, 4, 0, 255, 0)] s))"
    if "p \<in> set ps" "drawable s d" for p n s
  proof -
    have "p \<noteq> []" "led_parsePosition hv p = Inr (pos p)" using assms(3) that(1) by (auto simp: lights_def list_all_iff)
    from led_toggle_draws [OF that(2) assms(2) this state(2,3), of n] show ?thesis
      unfolding argv_state state(1) sres_bind(1) .
  qed
  from for_each_draws [of ps d ?f "\<lambda>p. [(pos p, 4, 0, 255, 0)]" s n, OF this assms(1)] show ?thesis
    unfolding on_calls_concat .
qed

lemma led_opr2_draws:
  assumes "drawable s d" "takes_all env" "lights hv st ps pos"
  shows "led_opr2 hv env d (prog # st # ps) (n, s) =
    (Inr (), (n @ map rgb_action (off_calls @ on_calls pos ps), fold (draw d) (off_calls @ on_calls pos ps) s))"
proof -
  obtain state where state: "py_int hv st = Inr state" using assms(3) by (auto simp: lights_def)
  have off: "led_toggleLED hv env d state None (n, s) = (Inr (), (n @ map rgb_action off_calls, fold (draw d) off_calls s))"
    using led_turnoff_draws [OF assms(1,2)] by (simp add: led_toggleLED_def)
  note d = positions_draw [OF fold_draw_keeps [OF assms(1)] assms(2,3), of prog "n @ map rgb_action off_calls" d off_calls]
  have *: "drop 2 (prog # st # ps) = ps" by simp
  show ?thesis
  proof (cases "ps = []")
    case True
    then show ?thesis
      unfolding led_opr2_def argv_state state sres_bind(1) off by (simp add: on_calls_def)
  next
    case False
    then have len: "2 < length (prog # st # ps)" by (cases ps) auto
    show ?thesis
      unfolding led_opr2_def argv_state state sres_bind(1) off sbind_Inr if_P [OF len] *
      using d unfolding argv_state state sres_bind(1) by simp
  qed
qed

text \<open>The LEDs a list of calls names.\<close>

definition leds_named :: "rgb_call list \<Rightarrow> int set" where
  "leds_named calls = (\<Union>(index, len, r, g, b) \<in> set calls. {index..<index + len})"

lemma off_calls_named: "leds_named off_calls = {0..<200}"
proof -
  have "(\<Union>x \<in> {0..19}. {x * 10..<x * 10 + 10}) = {0..<200 :: int}"
  proof (rule equalityI; rule subsetI)
    fix i :: int
    assume "i \<in> {0..<200}"
    then show "i \<in> (\<Union>x \<in> {0..19}. {x * 10..<x * 10 + 10})" by (intro UN_I [of "i div 10"]) auto
  qed auto
  then show ?thesis by (simp add: leds_named_def off_calls_def)
qed

text \<open>
  C22. What the two ways of \<^verbatim>\<open>led.py\<close> to show positions send, with a state that lights. \<^verbatim>\<open>opr2\<close>, the
  one the main block uses, first makes twenty calls of \<^verbatim>\<open>set_rgb_values\<close> with colour \<open>(0, 0, 0)\<close>
  for ten LEDs each, which name exactly the LEDs 0 to 199, and then one call with colour
  \<open>(0, 255, 0)\<close> for the four LEDs from each position on, in the order of the arguments; \<^verbatim>\<open>opr\<close> makes
  only the latter. Both end without an exception, each call writes its packet, and nothing
  else is done; LEDs from 200 on are never named by \<^verbatim>\<open>opr2\<close>.
\<close>

theorem led_opr2_rewrites_opr_stacks:
  assumes "drawable s d" "takes_all env" "lights hexversion st ps pos"
  shows "let dark = map (\<lambda>i. (i * 10, 10, 0, 0, 0)) [0..19];
             lit = map (\<lambda>p. (pos p, 4, 0, 255, 0)) ps
         in led_opr2 hexversion env d (prog # st # ps) (done, s) =
              (Inr (), (done @ map rgb_action (dark @ lit), fold (draw d) (dark @ lit) s)) \<and>
            (ps \<noteq> [] \<longrightarrow> led_opr hexversion env d (prog # st # ps) (done, s) =
              (Inr (), (done @ map rgb_action lit, fold (draw d) lit s))) \<and>
            leds_named dark = {0..<200} \<and> leds_named lit \<subseteq> {0..<200}"
proof -
  have opr: "led_opr hexversion env d (prog # st # ps) (done, s) =
      (Inr (), (done @ map rgb_action (on_calls pos ps), fold (draw d) (on_calls pos ps) s))" if "ps \<noteq> []"
  proof -
    have len: "\<not> length (prog # st # ps) < 3" using that by (cases ps) auto
    then show ?thesis using positions_draw [OF assms, of prog "done"] by (simp add: led_opr_def list_equals_int_def)
  qed
  have "leds_named (on_calls pos ps) \<subseteq> {0..<200}"
    using assms(3) led_position_range by (fastforce simp: leds_named_def on_calls_def lights_def list_all_iff)
  with led_opr2_draws [OF assms, of prog "done"] opr off_calls_named show ?thesis
    unfolding Let_def off_calls_def [symmetric] on_calls_def [symmetric] by blast
qed

lemma drawable_led:
  assumes "binding_init BrickletLEDStrip u s = (Inr d, s')" "seq_ok s" "socket s \<noteq> None" "callback s \<noteq> None"
  shows "drawable s' d"
proof -
  obtain x where x: "device_uid u = Inr x" "d = next_dev s"
    and s': "s' = upd_dev d (\<lambda>dev. dev\<lparr>api_version := b_api_version BrickletLEDStrip,
        response_expected := put_flags (b_flags BrickletLEDStrip) (response_expected dev),
        callback_formats := put_formats (b_formats BrickletLEDStrip) (callback_formats dev)\<rparr>)
      (s\<lparr>dev_heap := (dev_heap s)(d := new_device x), next_dev := d + 1, devices := (devices s)(x \<mapsto> d)\<rparr>)"
    using assms(1) by (auto simp: binding_init_def Device_init_def Let_def split: sum.splits)
  have i: "is_instance BrickletLEDStrip (dev_heap s' d)" using LEDStrip.init_instance [OF assms(1)] by blast
  have "response_queue (dev_heap s' d) = []" by (simp add: s' upd_dev_def new_device_def)
  moreover have "get_response_expected (dev_heap s' d) 1 = Inr False"
    by (simp add: s' upd_dev_def new_device_def get_response_expected_def BrickletLEDStrip_def BrickletLEDStrip_flags_def)
  moreover have "seq_ok s'" "socket s' \<noteq> None" "callback s' \<noteq> None"
    using assms(2-4) by (auto simp: s' upd_dev_def seq_ok_def)
  ultimately show ?thesis using instance_ok [OF i] by (simp add: drawable_def ready_def)
qed

lemma oV7: "\<exists>x. device_uid ''oV7'' = Inr x"
proof -
  have "is_ok (device_uid ''oV7'')" by code_simp
  then show ?thesis by (simp add: is_ok_iff)
qed

lemma strip_created: "\<exists>d s'. binding_init BrickletLEDStrip ''oV7'' s = (Inr d, s') \<and> conn_inv s' = conn_inv s \<and>
   socket s' = socket s \<and> callback s' = callback s \<and> auto_reconnect_pending s' = auto_reconnect_pending s"
  using oV7 by (auto simp: binding_init_def Device_init_def upd_dev_def conn_inv_def Let_def)

lemma strip0: "\<exists>d s'. binding_init BrickletLEDStrip ''oV7'' conn0 = (Inr d, s') \<and> drawable s' d"
proof -
  obtain d s' where b: "binding_init BrickletLEDStrip ''oV7'' conn0 = (Inr d, s')" using strip_created by blast
  have "seq_ok conn0" "socket conn0 \<noteq> None" "callback conn0 \<noteq> None" using conn0_ready(1) by (auto simp: ready_def)
  from drawable_led [OF b this] b show ?thesis by blast
qed

theorem led_opr2_rewrites_opr_stacks_witness:
  "\<exists>d s'. led_opr2 0x02070000 (\<lambda>_. (Sent 72, [])) d [''led.py'', ''1'', ''01-A''] ([], s') =
       (Inr (), (map rgb_action (off_calls @ [(58, 4, 0, 255, 0)]), fold (draw d) (off_calls @ [(58, 4, 0, 255, 0)]) s')) \<and>
     led_opr 0x02070000 (\<lambda>_. (Sent 72, [])) d [''led.py'', ''1'', ''01-A''] ([], s') =
       (Inr (), (map rgb_action [(58, 4, 0, 255, 0)], fold (draw d) [(58, 4, 0, 255, 0)] s'))"
proof -
  obtain d s' where d: "drawable s' d" using strip0 by blast
  have e: "takes_all (\<lambda>_. (Sent 72, []))" by (simp add: takes_all_def)
  have "py_int 0x02070000 ''1'' = Inr 1" "led_parsePosition 0x02070000 ''01-A'' = Inr 58" by code_simp+
  then have "lights 0x02070000 ''1'' [''01-A''] (\<lambda>_. 58)" by (simp add: lights_def)
  from led_opr2_rewrites_opr_stacks [OF d e this, of "''led.py''" "[]"] show ?thesis
    unfolding Let_def off_calls_def [symmetric] by (intro exI [of _ d] exI [of _ s']) simp
qed

subsection \<open>A whole run\<close>

lemma fold_draw_frame:
  "conn_inv s \<Longrightarrow> conn_inv (fold (draw d) cs s)" "callback (fold (draw d) cs s) = callback s"
  "socket s \<noteq> None \<Longrightarrow> socket (fold (draw d) cs s) \<noteq> None"
proof (induction cs arbitrary: s)
  case (Cons c cs)
  { case 1 then show ?case using Cons(1) [of "draw d c s"] by (auto simp: draw_def conn_inv_def Let_def)
  next case 2 show ?case using Cons(2) [of "draw d c s"] by (simp add: draw_def Let_def)
  next case 3 then show ?case using Cons(3) [of "draw d c s"] by (auto simp: draw_def Let_def) }
qed auto

lemma connect_keeps:
  assumes "receive_starts os"
  shows "waiter (snd (connect os h p s)) = waiter s \<and> next_sequence_number (snd (connect os h p s)) = next_sequence_number s"
  using assms by (cases "callback s") (auto simp: connect_def connect_defs split: option.splits)

lemma connected_ipcon0:
  assumes "os_connects os ipcon0" "receive_starts os"
  shows "\<exists>s. connect os h p ipcon0 = (Inr (), s) \<and> conn_inv s \<and> seq_ok s \<and> waiter s = 1 \<and>
     socket s \<noteq> None \<and> callback s \<noteq> None"
proof -
  have s0: "socket ipcon0 = None" "\<not> auto_reconnect_pending ipcon0" "seq_ok ipcon0" "waiter ipcon0 = 1"
    by (simp_all add: ipcon0_eq ipcon_fields_def seq_ok_def)
  let ?s = "ipcon0\<lparr>host := Some h, port := Some p\<rparr>"
  have "os_connects os ?s" using assms(1) by (simp add: os_connects_def)
  from connect_unlocked_success [OF this assms(2), of h p False] obtain c s where
    "connect_unlocked os False ?s = (Inr (), s)" "callback s = Some c" "socket s \<noteq> None" by auto
  then have "connect os h p ipcon0 = (Inr (), s)" "callback s \<noteq> None" "socket s \<noteq> None"
    using s0(1) by (simp_all add: connect_def)
  then show ?thesis
    using connect_keeps [OF assms(2), of h p ipcon0] connect_inv [OF assms(2) conn_inv_ipcon0, of h p] s0(3,4)
    by (simp add: seq_ok_def)
qed

lemma disconnect_open_state:
  assumes "conn_inv s" "socket s \<noteq> None" "callback s = Some c"
  shows "\<exists>s'. disconnect s = (Inr (), s') \<and> socket s' = None \<and> \<not> auto_reconnect_pending s' \<and> callback s' = None"
proof -
  obtain k where k: "socket s = Some k" using assms(2) by auto
  obtain q where q: "disconnect_probe_queue s = Some q" "\<not> auto_reconnect_pending s" using conn_inv_open [OF assms(1) k] by metis
  from disconnect_open [OF assms q(1)] q(2) show ?thesis by (simp add: closed_state_def upd_ctx_def)
qed

text \<open>
  C23. A run of \<^verbatim>\<open>led.py\<close> with a state that lights and positions it knows. On a machine that lets
  it connect it does not block in \<^verbatim>\<open>wait()\<close> and ends without an exception, and what it does is
  exactly this, in this order: the twenty calls of \<^verbatim>\<open>set_rgb_values\<close> that darken the LEDs 0 to
  199, one call per position that lights its four LEDs green, \<^verbatim>\<open>disconnect\<close>, and the registration
  of \<^verbatim>\<open>None\<close> as the callback for rendered frames. The connection is closed at the end, and was
  before the registration: the script never waits for a frame to be rendered.
\<close>

theorem led_main_lights_and_closes:
  assumes "os_connects os ipcon0" "receive_starts os" "takes_all env" "lights hexversion st ps pos"
  shows "\<exists>d s'. led_main hexversion os env (prog # st # ps) =
       Some (Inr (), (map rgb_action (map (\<lambda>i. (i * 10, 10, 0, 0, 0)) [0..19] @ map (\<lambda>p. (pos p, 4, 0, 255, 0)) ps) @
                        [Disconnected, Registered 6 None], s')) \<and>
     phase_of s' = Closed \<and> dev_registered_callbacks (dev_heap s' d) 6 = Some None"
proof -
  obtain s where s: "connect os ''137.226.151.148'' 4223 ipcon0 = (Inr (), s)" "conn_inv s" "seq_ok s" "waiter s = 1"
      "socket s \<noteq> None" "callback s \<noteq> None"
    using connected_ipcon0 [OF assms(1,2)] by blast
  let ?s = "s\<lparr>timeout := 10000, waiter := 0\<rparr>"
  have w: "set_timeout 10000 s = (Inr (), s\<lparr>timeout := 10000\<rparr>)" "wait (s\<lparr>timeout := 10000\<rparr>) = Some ?s"
    using s(4) by (simp_all add: set_timeout_def wait_def)
  have inv: "conn_inv ?s" "seq_ok ?s" "socket ?s \<noteq> None" "callback ?s \<noteq> None"
    using s by (simp_all add: conn_inv_def seq_ok_def)
  obtain d s1 where b: "binding_init BrickletLEDStrip ''oV7'' ?s = (Inr d, s1)" "conn_inv s1" "socket s1 \<noteq> None" "callback s1 \<noteq> None"
    using strip_created [of ?s] inv by metis
  let ?s2 = "fold (draw d) (off_calls @ on_calls pos ps) s1"
  have o: "led_opr2 hexversion env d (prog # st # ps) ([], s1) = (Inr (), (map rgb_action (off_calls @ on_calls pos ps), ?s2))"
    using led_opr2_draws [OF drawable_led [OF b(1) inv(2-4)] assms(3,4), of prog "[]"] by simp
  obtain c where c: "callback ?s2 = Some c" using fold_draw_frame(2) b(4) by fastforce
  obtain s3 where "disconnect ?s2 = (Inr (), s3)" "socket s3 = None" "\<not> auto_reconnect_pending s3" "callback s3 = None"
    using disconnect_open_state [OF fold_draw_frame(1) [OF b(2)] fold_draw_frame(3) [OF b(3)] c] by blast
  then show ?thesis
    using s(1) w b(1) o
    unfolding off_calls_def [symmetric] on_calls_def [symmetric]
    by (intro exI [of _ d] exI [of _ "dev_register_callback d 6 None s3"])
       (simp add: led_main_def script_main_def on_ipcon_def script_disconnect_def script_register_def phase_of_def
          dev_register_callback_def upd_dev_def)
qed

theorem led_main_lights_and_closes_witness:
  "\<exists>s'. led_main 0x02070000 os_ok (\<lambda>_. (Sent 72, [])) [''led.py'', ''1'', ''01-A'', ''02-B''] =
       Some (Inr (), (map rgb_action (off_calls @ [(58, 4, 0, 255, 0), (18, 4, 0, 255, 0)]) @ [Disconnected, Registered 6 None], s')) \<and>
     phase_of s' = Closed"
proof -
  have e: "takes_all (\<lambda>_. (Sent 72, []))" by (simp add: takes_all_def)
  have "py_int 0x02070000 ''1'' = Inr 1" "led_parsePosition 0x02070000 ''01-A'' = Inr 58"
      "led_parsePosition 0x02070000 ''02-B'' = Inr 18"
    by code_simp+
  then have l: "lights 0x02070000 ''1'' [''01-A'', ''02-B''] (\<lambda>p. if p = ''01-A'' then 58 else 18)" by (simp add: lights_def)
  have "os_connects os_ok ipcon0" "receive_starts os_ok" by (simp_all add: os_connects_def os_ok_def)
  from led_main_lights_and_closes [OF this e l, of "''led.py''"] show ?thesis
    unfolding off_calls_def [symmetric] by auto
qed

subsection \<open>The running light of a.py\<close>

text \<open>The callback for the frames from the \<open>k\<close>-th on, one after the other.\<close>

fun a_frames :: "int \<Rightarrow> call_envs \<Rightarrow> nat \<Rightarrow> nat \<Rightarrow> int \<Rightarrow> script_state \<Rightarrow> unit res \<times> int \<times> script_state" where
  "a_frames hexversion env d 0 r_index st = (Inr (), r_index, st)"
| "a_frames hexversion env d (Suc n) r_index st =
     (case a_cb_frame_rendered hexversion env d r_index st of
        (Inl e, r_index', st') \<Rightarrow> (Inl e, r_index', st')
      | (Inr _, r_index', st') \<Rightarrow> a_frames hexversion env d n r_index' st')"

lemma a_frames_draw:
  "drawable s d \<Longrightarrow> takes_all env \<Longrightarrow> 0 \<le> r \<Longrightarrow> r + int n \<le> 65535 \<Longrightarrow>
   a_frames hv env d n r (k, s) =
     (Inr (), r + int n, (k @ map (\<lambda>i. rgb_action (i, 1, 0, 255, 0)) [r + 1..r + int n],
        fold (draw d) (map (\<lambda>i. (i, 1, 0, 255, 0)) [r + 1..r + int n]) s))"
proof (induction n arbitrary: r k s)
  case (Suc n)
  have "a_cb_frame_rendered hv env d r (k, s) = (Inr (), r + 1, (k @ [rgb_action (r + 1, 1, 0, 255, 0)], draw d (r + 1, 1, 0, 255, 0) s))"
    using set_rgb_draws [OF Suc.prems(1,2), of "r + 1" 1 0 255 0 hv k] Suc.prems(3,4)
    by (simp add: a_cb_frame_rendered_def uint_fits_def Let_def)
  moreover have "[r + 1..r + int (Suc n)] = (r + 1) # [r + 1 + 1..r + 1 + int n]"
    by (simp add: upto_rec1 add.assoc)
  moreover have "a_frames hv env d n (r + 1) (k @ [rgb_action (r + 1, 1, 0, 255, 0)], draw d (r + 1, 1, 0, 255, 0) s) =
      (Inr (), r + 1 + int n, ((k @ [rgb_action (r + 1, 1, 0, 255, 0)]) @ map (\<lambda>i. rgb_action (i, 1, 0, 255, 0)) [r + 1 + 1..r + 1 + int n],
         fold (draw d) (map (\<lambda>i. (i, 1, 0, 255, 0)) [r + 1 + 1..r + 1 + int n])
         (draw d (r + 1, 1, 0, 255, 0) s)))"
    using Suc.prems by (intro Suc.IH draw_keeps) auto
  ultimately show ?case by simp
qed simp

lemma a_frames_add:
  "a_frames hv env d m r st = (Inr (), r', st') \<Longrightarrow> a_frames hv env d (m + n) r st = a_frames hv env d n r' st'"
  by (induction m arbitrary: r st) (auto split: prod.splits sum.splits)

lemma set_rgb_too_far:
  assumes "drawable s d" "\<not> uint_fits 2 index"
  shows "fst (set_rgb_values hv env d index len r g b (l, s)) = Inl StructError"
proof -
  have f: "rgb_fits (0, 0, 0, 0, 0)" by (simp add: uint_fits_def)
  have h: "\<exists>x s'. create_packet_header (Some d) 59 1 s = (Inr x, s')"
  proof -
    have "8 + int (length (rgb_payload (0, 0, 0, 0, 0))) = 59" by (simp only: rgb_payload_length)
    moreover have "ready s d" "get_response_expected (dev_heap s d) 1 = Inr False"
      using assms(1) by (simp_all add: drawable_def)
    ultimately show ?thesis using header_for_call [OF _ rgb_call_ok [OF f]] by metis
  qed
  have "calcsize_le ''H B 16B 16B 16B'' = Inr 51" by code_simp
  moreover have "pack_field hv ''H'' (PInt index) = Inl StructError"
    using assms(2) by (simp add: pack_field_def pack_le_def rgb_formats)
  ultimately show ?thesis
    using h by (auto simp: set_rgb_values_def script_call_def call_method_def BrickletLEDStrip_set_rgb_values_def send_request_def)
qed

text \<open>
  C40. The running light of \<^verbatim>\<open>a.py\<close>: on each of the first 65535 rendered frames the callback lights
  the next LED, from 1 on, never darkening one; the 65536th frame raises \<^verbatim>\<open>struct.error\<close> in
  the callback thread, because the index is never reset and no longer fits the two bytes of
  its field.
\<close>

theorem a_running_light:
  assumes "drawable s d" "takes_all env" "n \<le> 65535"
  shows "a_frames hexversion env d n 0 (done, s) =
      (Inr (), int n, (done @ map (\<lambda>i. rgb_action (i, 1, 0, 255, 0)) [1..int n],
         fold (draw d) (map (\<lambda>i. (i, 1, 0, 255, 0)) [1..int n]) s)) \<and>
    (n = 65535 \<longrightarrow> fst (a_frames hexversion env d (n + 1) 0 (done, s)) = Inl StructError)"
proof -
  have a: "a_frames hexversion env d n 0 (done, s) =
      (Inr (), int n, (done @ map (\<lambda>i. rgb_action (i, 1, 0, 255, 0)) [1..int n],
         fold (draw d) (map (\<lambda>i. (i, 1, 0, 255, 0)) [1..int n]) s))"
    using a_frames_draw [OF assms(1,2), of 0 n hexversion "done"] assms(3) by simp
  have "fst (a_frames hexversion env d 1 (int n) (l, s')) = Inl StructError" if "n = 65535" "drawable s' d" for s' l
  proof -
    have "\<not> uint_fits 2 (int n + 1)" using that(1) by (simp add: uint_fits_def)
    from set_rgb_too_far [OF that(2) this, of hexversion env 1 0 255 0 l] show ?thesis
      by (auto simp: a_cb_frame_rendered_def Let_def split: prod.splits sum.splits)
  qed
  from this [OF _ fold_draw_keeps [OF assms(1)]]
  have "fst (a_frames hexversion env d (n + 1) 0 (done, s)) = Inl StructError" if "n = 65535"
    unfolding a_frames_add [OF a] using that by blast
  with a show ?thesis by blast
qed

theorem a_running_light_witness:
  "\<exists>d s'. a_frames 0x02070000 (\<lambda>_. (Sent 72, [])) d 2 0 ([], s') =
     (Inr (), 2, (map rgb_action [(1, 1, 0, 255, 0), (2, 1, 0, 255, 0)], fold (draw d) [(1, 1, 0, 255, 0), (2, 1, 0, 255, 0)] s'))"
proof -
  obtain d s' where d: "drawable s' d" using strip0 by blast
  have e: "takes_all (\<lambda>_. (Sent 72, []))" by (simp add: takes_all_def)
  have "[1..2] = [1, 2 :: int]" by (simp add: upto.simps)
  with a_running_light [OF d e, of 2 "0x02070000" "[]"] have
    "a_frames 0x02070000 (\<lambda>_. (Sent 72, [])) d 2 0 ([], s') =
       (Inr (), 2, (map rgb_action [(1, 1, 0, 255, 0), (2, 1, 0, 255, 0)], fold (draw d) [(1, 1, 0, 255, 0), (2, 1, 0, 255, 0)] s'))" by simp
  then show ?thesis by blast
qed

end
