(* ===== verification/Threads.thy ===== *)
theory Threads
  imports Dispatch
begin

text \<open>
  The threads of one connection and the lock they share. The state adds to the connection the
  holder of \<^verbatim>\<open>socket_lock\<close>, the place where a user thread is in \<^verbatim>\<open>connect\<close>, \<^verbatim>\<open>disconnect\<close> or
  \<^verbatim>\<open>send\<close>, the place of each callback thread (one per callback context), the receivers that still run, by socket
  number, and whether the prober runs. A step is the code between two points where a thread may
  have to wait: taking the lock, joining a thread, reading a queue. The bodies of the steps
  are the definitions of the earlier theories. User callbacks return at once; one user thread
  makes the calls. The failing start of a receive thread is left out here, it is treated in
  the theory \<open>Connection\<close>.
\<close>

subsection \<open>Model\<close>

datatype holder = H_User | H_Callback nat

datatype user_pc =
    U_Idle
  | U_Connect string int     \<comment> \<open>wants the lock in connect\<close>
  | U_Connect_Join nat       \<comment> \<open>holds it, joins the callback thread in cleanup\<close>
  | U_Send bytes             \<comment> \<open>wants the lock in send\<close>
  | U_Send_JoinProbe         \<comment> \<open>holds it, joins the prober\<close>
  | U_Send_JoinRecv          \<comment> \<open>holds it, joins the receiver\<close>
  | U_Disc                   \<comment> \<open>wants the lock in disconnect\<close>
  | U_Disc_JoinProbe         \<comment> \<open>holds it, joins the prober\<close>
  | U_Disc_JoinRecv          \<comment> \<open>holds it, joins the receiver\<close>
  | U_Disc_Put nat           \<comment> \<open>has released it\<close>
  | U_Disc_JoinCb nat        \<comment> \<open>joins the callback thread\<close>

datatype cb_pc =
    C_Off
  | C_Get                    \<comment> \<open>reads its queue\<close>
  | C_Loss "int option"      \<comment> \<open>wants the lock to close the lost socket\<close>
  | C_Loss_Join              \<comment> \<open>holds it, joins the prober\<close>
  | C_After                  \<comment> \<open>after the disconnected callback\<close>
  | C_Retry                  \<comment> \<open>wants the lock to reconnect\<close>
  | C_Ended

record tstate =
  shared :: ipcon
  lock :: "holder option"
  user :: user_pc
  cbs :: "nat \<Rightarrow> cb_pc"
  rcvs :: "int set"
  prb :: bool

text \<open>A successful connect starts a receiver, a prober and, if it made one, a callback thread.\<close>

definition started :: "ipcon \<Rightarrow> ipcon \<Rightarrow> tstate \<Rightarrow> tstate" where
  "started s s' t = t\<lparr>shared := s', rcvs := insert (socket_id s') (rcvs t), prb := True,
     cbs := (if callback s = None then (cbs t)(next_ctx s := C_Get) else cbs t)\<rparr>"

text \<open>The callback context \<^verbatim>\<open>connect_unlocked\<close> works with.\<close>

definition used_ctx :: "ipcon \<Rightarrow> nat" where
  "used_ctx s = (case callback s of None \<Rightarrow> next_ctx s | Some c \<Rightarrow> c)"

definition set_cb :: "nat \<Rightarrow> cb_pc \<Rightarrow> tstate \<Rightarrow> tstate" where
  "set_cb c pc t = t\<lparr>cbs := (cbs t)(c := pc)\<rparr>"

definition pop_ctx :: "nat \<Rightarrow> tstate \<Rightarrow> tstate" where
  "pop_ctx c t = t\<lparr>shared := upd_ctx c (\<lambda>x. x\<lparr>cb_queue := tl (cb_queue x)\<rparr>) (shared t)\<rparr>"

text \<open>What \<^verbatim>\<open>disconnect_unlocked\<close> does between joining the prober and joining the receiver.\<close>

definition probe_ended :: "nat \<Rightarrow> ipcon \<Rightarrow> ipcon" where
  "probe_ended c s = (upd_ctx c (\<lambda>x. x\<lparr>packet_dispatch_allowed := False\<rparr>) s)
     \<lparr>disconnect_probe_thread := None, receive_flag := False\<rparr>"

text \<open>
  The user thread in \<^verbatim>\<open>connect\<close>: the whole call is one step under the lock, unless its cleanup
  joins the callback thread.
\<close>

inductive connect_step :: "tstate \<Rightarrow> tstate \<Rightarrow> bool" where
  connect_refused: "user t = U_Connect h p \<Longrightarrow> lock t = None \<Longrightarrow> socket (shared t) \<noteq> None \<Longrightarrow>
    connect_step t (t\<lparr>user := U_Idle\<rparr>)"
| connect_ok: "user t = U_Connect h p \<Longrightarrow> lock t = None \<Longrightarrow> receive_starts env \<Longrightarrow>
    connect env h p (shared t) = (Inr (), s') \<Longrightarrow>
    connect_step t ((started (shared t) s' t)\<lparr>user := U_Idle\<rparr>)"
| connect_no_thread: "user t = U_Connect h p \<Longrightarrow> lock t = None \<Longrightarrow> socket (shared t) = None \<Longrightarrow>
    callback (shared t) = None \<Longrightarrow> \<not> callback_starts env \<Longrightarrow> connect env h p (shared t) = (Inl e, s') \<Longrightarrow>
    connect_step t (t\<lparr>shared := s', user := U_Idle\<rparr>)"
| connect_fail: "user t = U_Connect h p \<Longrightarrow> lock t = None \<Longrightarrow> socket (shared t) = None \<Longrightarrow> receive_starts env \<Longrightarrow>
    callback (shared t) \<noteq> None \<or> callback_starts env \<Longrightarrow> connect env h p (shared t) = (Inl e, s') \<Longrightarrow>
    c = used_ctx (shared t) \<Longrightarrow>
    connect_step t (t\<lparr>shared := s'\<lparr>callback := Some c\<rparr>, lock := Some H_User, user := U_Connect_Join c,
               cbs := (if callback (shared t) = None then (cbs t)(c := C_Get) else cbs t)\<rparr>)"
| connect_joined: "user t = U_Connect_Join c \<Longrightarrow> cbs t c = C_Ended \<Longrightarrow>
    connect_step t (t\<lparr>shared := (shared t)\<lparr>callback := None\<rparr>, lock := None, user := U_Idle\<rparr>)"

text \<open>
  The user thread in \<^verbatim>\<open>disconnect\<close> and the \<^verbatim>\<open>disconnect_unlocked\<close> it calls. The steps with
  \<open>crash\<close> in their name raise \<^verbatim>\<open>AttributeError\<close>.
\<close>

inductive disconnect_step :: "tstate \<Rightarrow> tstate \<Rightarrow> bool" where
  disc_error: "user t = U_Disc \<Longrightarrow> lock t = None \<Longrightarrow> \<not> auto_reconnect_pending (shared t) \<Longrightarrow> socket (shared t) = None \<Longrightarrow>
    disconnect_step t (t\<lparr>shared := (shared t)\<lparr>auto_reconnect_allowed := False\<rparr>, user := U_Idle\<rparr>)"
| disc_abort: "user t = U_Disc \<Longrightarrow> lock t = None \<Longrightarrow> auto_reconnect_pending (shared t) \<Longrightarrow> callback (shared t) = Some c \<Longrightarrow>
    disconnect_step t (t\<lparr>shared := (shared t)\<lparr>auto_reconnect_allowed := False, auto_reconnect_pending := False, callback := None\<rparr>,
               user := U_Disc_Put c\<rparr>)"
| disc_abort_crash: "user t = U_Disc \<Longrightarrow> lock t = None \<Longrightarrow> auto_reconnect_pending (shared t) \<Longrightarrow> callback (shared t) = None \<Longrightarrow>
    disconnect_step t (t\<lparr>shared := (shared t)\<lparr>auto_reconnect_allowed := False, auto_reconnect_pending := False\<rparr>, user := U_Idle\<rparr>)"
| disc_lock: "user t = U_Disc \<Longrightarrow> lock t = None \<Longrightarrow> \<not> auto_reconnect_pending (shared t) \<Longrightarrow> socket (shared t) \<noteq> None \<Longrightarrow>
    disconnect_probe_queue (shared t) = Some q \<Longrightarrow>
    disconnect_step t (t\<lparr>shared := (shared t)\<lparr>auto_reconnect_allowed := False, disconnect_probe_queue := Some (q @ [True])\<rparr>,
               lock := Some H_User, user := U_Disc_JoinProbe\<rparr>)"
| disc_lock_crash: "user t = U_Disc \<Longrightarrow> lock t = None \<Longrightarrow> \<not> auto_reconnect_pending (shared t) \<Longrightarrow> socket (shared t) \<noteq> None \<Longrightarrow>
    disconnect_probe_queue (shared t) = None \<Longrightarrow>
    disconnect_step t (t\<lparr>shared := (shared t)\<lparr>auto_reconnect_allowed := False\<rparr>, user := U_Idle\<rparr>)"
| disc_probe_joined: "user t = U_Disc_JoinProbe \<Longrightarrow> \<not> prb t \<Longrightarrow> callback (shared t) = Some c \<Longrightarrow>
    disconnect_step t (t\<lparr>shared := probe_ended c (shared t), user := U_Disc_JoinRecv\<rparr>)"
| disc_probe_crash: "user t = U_Disc_JoinProbe \<Longrightarrow> \<not> prb t \<Longrightarrow> callback (shared t) = None \<Longrightarrow>
    disconnect_step t (t\<lparr>shared := (shared t)\<lparr>disconnect_probe_thread := None\<rparr>, lock := None, user := U_Idle\<rparr>)"
| disc_recv_joined: "user t = U_Disc_JoinRecv \<Longrightarrow> socket_id (shared t) \<notin> rcvs t \<Longrightarrow> callback (shared t) = Some c \<Longrightarrow>
    disconnect_step t (t\<lparr>shared := (shared t)\<lparr>receive_thread := None, socket := None, callback := None\<rparr>,
               lock := None, user := U_Disc_Put c\<rparr>)"
| disc_recv_crash: "user t = U_Disc_JoinRecv \<Longrightarrow> socket_id (shared t) \<notin> rcvs t \<Longrightarrow> callback (shared t) = None \<Longrightarrow>
    disconnect_step t (t\<lparr>shared := (shared t)\<lparr>receive_thread := None, socket := None\<rparr>, lock := None, user := U_Idle\<rparr>)"
| disc_put: "user t = U_Disc_Put c \<Longrightarrow>
    disconnect_step t (t\<lparr>shared := ctx_put c QUEUE_EXIT
       (ctx_put c (QUEUE_META CALLBACK_DISCONNECTED DISCONNECT_REASON_REQUEST None) (shared t)), user := U_Disc_JoinCb c\<rparr>)"
| disc_cb_joined: "user t = U_Disc_JoinCb c \<Longrightarrow> cbs t c = C_Ended \<Longrightarrow> disconnect_step t (t\<lparr>user := U_Idle\<rparr>)"

text \<open>
  The user thread in \<^verbatim>\<open>send\<close>: a socket error closes the connection under the lock
  and reports it with no socket number.
\<close>

inductive send_step :: "tstate \<Rightarrow> tstate \<Rightarrow> bool" where
  send_refused: "user t = U_Send packet \<Longrightarrow> lock t = None \<Longrightarrow> socket (shared t) = None \<Longrightarrow>
    send_step t (t\<lparr>user := U_Idle\<rparr>)"
| send_ok: "user t = U_Send packet \<Longrightarrow> lock t = None \<Longrightarrow> socket (shared t) \<noteq> None \<Longrightarrow>
    send_step t (t\<lparr>shared := snd (send (Sent n) packet (shared t)), user := U_Idle\<rparr>)"
| send_fail: "user t = U_Send packet \<Longrightarrow> lock t = None \<Longrightarrow> socket (shared t) \<noteq> None \<Longrightarrow>
    disconnect_probe_queue (shared t) = Some q \<Longrightarrow>
    send_step t (t\<lparr>shared := (shared t)\<lparr>auto_reconnect_allowed := True, disconnect_probe_queue := Some (q @ [True])\<rparr>,
               lock := Some H_User, user := U_Send_JoinProbe\<rparr>)"
| send_fail_crash: "user t = U_Send packet \<Longrightarrow> lock t = None \<Longrightarrow> socket (shared t) \<noteq> None \<Longrightarrow>
    disconnect_probe_queue (shared t) = None \<Longrightarrow>
    send_step t (t\<lparr>shared := (shared t)\<lparr>auto_reconnect_allowed := True\<rparr>, user := U_Idle\<rparr>)"
| send_probe_joined: "user t = U_Send_JoinProbe \<Longrightarrow> \<not> prb t \<Longrightarrow> callback (shared t) = Some c \<Longrightarrow>
    send_step t (t\<lparr>shared := probe_ended c (shared t), user := U_Send_JoinRecv\<rparr>)"
| send_probe_crash: "user t = U_Send_JoinProbe \<Longrightarrow> \<not> prb t \<Longrightarrow> callback (shared t) = None \<Longrightarrow>
    send_step t (t\<lparr>shared := (shared t)\<lparr>disconnect_probe_thread := None\<rparr>, lock := None, user := U_Idle\<rparr>)"
| send_recv_joined: "user t = U_Send_JoinRecv \<Longrightarrow> socket_id (shared t) \<notin> rcvs t \<Longrightarrow> callback (shared t) = Some c \<Longrightarrow>
    send_step t (t\<lparr>shared := ctx_put c (QUEUE_META CALLBACK_DISCONNECTED DISCONNECT_REASON_ERROR None)
                 ((shared t)\<lparr>receive_thread := None, socket := None\<rparr>), lock := None, user := U_Idle\<rparr>)"
| send_recv_crash: "user t = U_Send_JoinRecv \<Longrightarrow> socket_id (shared t) \<notin> rcvs t \<Longrightarrow> callback (shared t) = None \<Longrightarrow>
    send_step t (t\<lparr>shared := (shared t)\<lparr>receive_thread := None, socket := None\<rparr>, lock := None, user := U_Idle\<rparr>)"

text \<open>
  A receive thread, by the number of its socket. It ends with an uncaught exception when the
  socket was closed by the callback thread or the length byte of a packet is too small.
\<close>

inductive receive_step :: "tstate \<Rightarrow> tstate \<Rightarrow> bool" where
  rcv_stop: "i \<in> rcvs t \<Longrightarrow> \<not> receive_flag (shared t) \<Longrightarrow> receive_step t (t\<lparr>rcvs := rcvs t - {i}\<rparr>)"
| rcv_packet: "i \<in> rcvs t \<Longrightarrow> receive_flag (shared t) \<Longrightarrow> 8 \<le> length packet \<Longrightarrow>
    receive_step t (t\<lparr>shared := snd (handle_response packet (shared t))\<rparr>)"
| rcv_loss: "i \<in> rcvs t \<Longrightarrow> receive_flag (shared t) \<Longrightarrow> reason \<in> {DISCONNECT_REASON_ERROR, DISCONNECT_REASON_SHUTDOWN} \<Longrightarrow>
    receive_step t (t\<lparr>shared := snd (handle_disconnect_by_peer reason (Some i) False (shared t)), rcvs := rcvs t - {i}\<rparr>)"
| rcv_dies: "i \<in> rcvs t \<Longrightarrow> receive_flag (shared t) \<or> socket (shared t) = None \<Longrightarrow> receive_step t (t\<lparr>rcvs := rcvs t - {i}\<rparr>)"

text \<open>
  The prober: the stop mark, a period, or a failing send.
\<close>

inductive probe_step :: "tstate \<Rightarrow> tstate \<Rightarrow> bool" where
  prb_stop: "prb t \<Longrightarrow> disconnect_probe_queue (shared t) = Some (x # q) \<Longrightarrow>
    probe_step t (t\<lparr>shared := (shared t)\<lparr>disconnect_probe_queue := Some q\<rparr>, prb := False\<rparr>)"
| prb_period: "prb t \<Longrightarrow> socket (shared t) \<noteq> None \<Longrightarrow>
    probe_step t (t\<lparr>shared := snd (probe_periods request [Probe_Period (Sent n)] (shared t))\<rparr>)"
| prb_loss: "prb t \<Longrightarrow> disconnect_probe_flag (shared t) \<Longrightarrow>
    probe_step t (t\<lparr>shared := snd (handle_disconnect_by_peer DISCONNECT_REASON_ERROR (Some (socket_id (shared t))) False (shared t)),
               prb := False\<rparr>)"

text \<open>
  The thread of callback context \<open>c\<close>: \<^verbatim>\<open>callback_loop\<close> and the phases of \<^verbatim>\<open>dispatch_meta\<close>. A packet
  that does not fit its format ends the thread.
\<close>

inductive callback_step :: "tstate \<Rightarrow> tstate \<Rightarrow> bool" where
  cb_exit: "cbs t c = C_Get \<Longrightarrow> cb_queue (ctx_heap (shared t) c) = QUEUE_EXIT # items \<Longrightarrow>
    callback_step t (set_cb c C_Ended (pop_ctx c t))"
| cb_packet: "cbs t c = C_Get \<Longrightarrow> cb_queue (ctx_heap (shared t) c) = QUEUE_PACKET packet # items \<Longrightarrow>
    callback_step t (pop_ctx c t)"
| cb_packet_dies: "cbs t c = C_Get \<Longrightarrow> cb_queue (ctx_heap (shared t) c) = QUEUE_PACKET packet # items \<Longrightarrow>
    packet_dispatch_allowed (ctx_heap (shared t) c) \<Longrightarrow> callback_step t (set_cb c C_Ended (pop_ctx c t))"
| cb_notice: "cbs t c = C_Get \<Longrightarrow> cb_queue (ctx_heap (shared t) c) = QUEUE_META f par sid # items \<Longrightarrow>
    f \<noteq> CALLBACK_DISCONNECTED \<or> par = DISCONNECT_REASON_REQUEST \<Longrightarrow> callback_step t (pop_ctx c t)"
| cb_loss: "cbs t c = C_Get \<Longrightarrow> cb_queue (ctx_heap (shared t) c) = QUEUE_META CALLBACK_DISCONNECTED par sid # items \<Longrightarrow>
    par \<noteq> DISCONNECT_REASON_REQUEST \<Longrightarrow> callback_step t (set_cb c (C_Loss sid) (pop_ctx c t))"
| cb_close: "cbs t c = C_Loss sid \<Longrightarrow> lock t = None \<Longrightarrow> socket (shared t) \<noteq> None \<Longrightarrow> Some (socket_id (shared t)) = sid \<Longrightarrow>
    disconnect_probe_queue (shared t) = Some q \<Longrightarrow>
    callback_step t (set_cb c C_Loss_Join (t\<lparr>shared := (shared t)\<lparr>disconnect_probe_queue := Some (q @ [True])\<rparr>, lock := Some (H_Callback c)\<rparr>))"
| cb_close_crash: "cbs t c = C_Loss sid \<Longrightarrow> lock t = None \<Longrightarrow> socket (shared t) \<noteq> None \<Longrightarrow> Some (socket_id (shared t)) = sid \<Longrightarrow>
    disconnect_probe_queue (shared t) = None \<Longrightarrow> callback_step t (set_cb c C_Ended t)"
| cb_stale: "cbs t c = C_Loss sid \<Longrightarrow> lock t = None \<Longrightarrow> socket (shared t) = None \<or> Some (socket_id (shared t)) \<noteq> sid \<Longrightarrow>
    callback_step t (set_cb c C_After t)"
| cb_closed: "cbs t c = C_Loss_Join \<Longrightarrow> \<not> prb t \<Longrightarrow>
    callback_step t (set_cb c C_After (t\<lparr>shared := (shared t)\<lparr>disconnect_probe_thread := None, socket := None\<rparr>, lock := None\<rparr>))"
| cb_no_retry: "cbs t c = C_After \<Longrightarrow> \<not> (auto_reconnect (shared t) \<and> auto_reconnect_allowed (shared t)) \<Longrightarrow>
    callback_step t (set_cb c C_Get t)"
| cb_retry: "cbs t c = C_After \<Longrightarrow> auto_reconnect (shared t) \<Longrightarrow> auto_reconnect_allowed (shared t) \<Longrightarrow>
    callback_step t (set_cb c C_Retry (t\<lparr>shared := (shared t)\<lparr>auto_reconnect_pending := True\<rparr>\<rparr>))"
| cb_reconnect: "cbs t c = C_Retry \<Longrightarrow> lock t = None \<Longrightarrow> auto_reconnect_allowed (shared t) \<Longrightarrow> socket (shared t) = None \<Longrightarrow>
    receive_starts env \<Longrightarrow> connect_unlocked env True (shared t) = (Inr (), s') \<Longrightarrow>
    callback_step t (set_cb c C_Get (started (shared t) s' t))"
| cb_reconnect_fail: "cbs t c = C_Retry \<Longrightarrow> lock t = None \<Longrightarrow> auto_reconnect_allowed (shared t) \<Longrightarrow> socket (shared t) = None \<Longrightarrow>
    receive_starts env \<Longrightarrow> connect_unlocked env True (shared t) = (Inl e, s') \<Longrightarrow>
    callback_step t (t\<lparr>shared := s', cbs := (if callback (shared t) = None \<and> callback_starts env
                                      then (cbs t)(next_ctx (shared t) := C_Get) else cbs t)\<rparr>)"
| cb_give_up: "cbs t c = C_Retry \<Longrightarrow> lock t = None \<Longrightarrow> \<not> (auto_reconnect_allowed (shared t) \<and> socket (shared t) = None) \<Longrightarrow>
    callback_step t (set_cb c C_Get (t\<lparr>shared := (shared t)\<lparr>auto_reconnect_pending := False\<rparr>\<rparr>))"

text \<open>A step of the program is a step of one of its threads.\<close>

inductive tstep :: "tstate \<Rightarrow> tstate \<Rightarrow> bool" where
  of_connect: "connect_step t t' \<Longrightarrow> tstep t t'"
| of_disconnect: "disconnect_step t t' \<Longrightarrow> tstep t t'"
| of_send: "send_step t t' \<Longrightarrow> tstep t t'"
| of_receive: "receive_step t t' \<Longrightarrow> tstep t t'"
| of_probe: "probe_step t t' \<Longrightarrow> tstep t t'"
| of_callback: "callback_step t t' \<Longrightarrow> tstep t t'"

text \<open>A call of the user thread.\<close>

inductive tcall :: "tstate \<Rightarrow> tstate \<Rightarrow> bool" where
  call_connect: "user t = U_Idle \<Longrightarrow> tcall t (t\<lparr>user := U_Connect h p\<rparr>)"
| call_send: "user t = U_Idle \<Longrightarrow> tcall t (t\<lparr>user := U_Send packet\<rparr>)"
| call_disconnect: "user t = U_Idle \<Longrightarrow> tcall t (t\<lparr>user := U_Disc\<rparr>)"

definition tinit :: tstate where
  "tinit = \<lparr>shared = ipcon0, lock = None, user = U_Idle, cbs = (\<lambda>_. C_Off), rcvs = {}, prb = False\<rparr>"

inductive treach :: "tstate \<Rightarrow> bool" where
  init: "treach tinit"
| step: "treach t \<Longrightarrow> tstep t t' \<Longrightarrow> treach t'"
| call: "treach t \<Longrightarrow> tcall t t' \<Longrightarrow> treach t'"

text \<open>The rules the proofs below use, as steps of the program.\<close>

lemmas
  t_connect_ok = connect_step.connect_ok [THEN of_connect]
  and t_connect_fail = connect_step.connect_fail [THEN of_connect]
  and t_disc_lock = disconnect_step.disc_lock [THEN of_disconnect]
  and t_disc_probe_joined = disconnect_step.disc_probe_joined [THEN of_disconnect]
  and t_disc_probe_crash = disconnect_step.disc_probe_crash [THEN of_disconnect]
  and t_disc_recv_joined = disconnect_step.disc_recv_joined [THEN of_disconnect]
  and t_disc_recv_crash = disconnect_step.disc_recv_crash [THEN of_disconnect]
  and t_disc_put = disconnect_step.disc_put [THEN of_disconnect]
  and t_disc_cb_joined = disconnect_step.disc_cb_joined [THEN of_disconnect]
  and t_send_probe_joined = send_step.send_probe_joined [THEN of_send]
  and t_send_probe_crash = send_step.send_probe_crash [THEN of_send]
  and t_send_recv_joined = send_step.send_recv_joined [THEN of_send]
  and t_send_recv_crash = send_step.send_recv_crash [THEN of_send]
  and t_rcv_stop = receive_step.rcv_stop [THEN of_receive]
  and t_rcv_loss = receive_step.rcv_loss [THEN of_receive]
  and t_prb_stop = probe_step.prb_stop [THEN of_probe]
  and t_cb_exit = callback_step.cb_exit [THEN of_callback]
  and t_cb_notice = callback_step.cb_notice [THEN of_callback]
  and t_cb_loss = callback_step.cb_loss [THEN of_callback]
  and t_cb_close = callback_step.cb_close [THEN of_callback]
  and t_cb_stale = callback_step.cb_stale [THEN of_callback]
  and t_cb_closed = callback_step.cb_closed [THEN of_callback]
  and t_cb_retry = callback_step.cb_retry [THEN of_callback]
  and t_cb_reconnect = callback_step.cb_reconnect [THEN of_callback]

subsection \<open>The lock and its holder\<close>

text \<open>
  Who holds the lock is at one of the places that hold it; a thread that joins the prober
  under the lock has left the prober its stop mark, and one that joins the receiver has
  lowered its flag.
\<close>

fun user_holds :: "user_pc \<Rightarrow> bool" where
  "user_holds (U_Connect_Join c) = True"
| "user_holds U_Disc_JoinProbe = True"
| "user_holds U_Disc_JoinRecv = True"
| "user_holds U_Send_JoinProbe = True"
| "user_holds U_Send_JoinRecv = True"
| "user_holds _ = False"

definition stop_left :: "tstate \<Rightarrow> bool" where
  "stop_left t = (prb t \<longrightarrow> (\<exists>x q. disconnect_probe_queue (shared t) = Some (x # q)))"

definition lock_inv :: "tstate \<Rightarrow> bool" where
  "lock_inv t =
     ((user_holds (user t) \<longleftrightarrow> lock t = Some H_User) \<and>
      (\<forall>c. cbs t c = C_Loss_Join \<longleftrightarrow> lock t = Some (H_Callback c)) \<and>
      (user t = U_Disc_JoinProbe \<or> user t = U_Send_JoinProbe \<longrightarrow> stop_left t) \<and>
      (\<forall>c. cbs t c = C_Loss_Join \<longrightarrow> stop_left t) \<and>
      (user t = U_Disc_JoinRecv \<or> user t = U_Send_JoinRecv \<longrightarrow> \<not> receive_flag (shared t)))"

lemma loss_report_frame:
  "disconnect_probe_queue (snd (handle_disconnect_by_peer r i False s)) = disconnect_probe_queue s"
  "receive_flag (snd (handle_disconnect_by_peer r i False s)) = receive_flag s"
  by (auto simp: handle_disconnect_by_peer_def callback_put_def ctx_put_def upd_ctx_def Let_def split: option.splits)

lemma packet_probe_queue: "disconnect_probe_queue (snd (handle_response packet s)) = disconnect_probe_queue s"
  by (auto simp: handle_response_def Let_def callback_put_def ctx_put_def upd_ctx_def upd_dev_def
      split: sum.splits option.splits)

lemma period_frame:
  "disconnect_probe_queue (snd (probe_periods request [Probe_Period (Sent n)] s)) = disconnect_probe_queue s"
  "receive_flag (snd (probe_periods request [Probe_Period (Sent n)] s)) = receive_flag s"
  by (auto split: option.splits)

lemmas thread_frames = loss_report_frame packet_probe_queue handle_response_frame(2) period_frame

lemma stop_mark [simp]: "\<exists>x q'. q @ [b] = x # q'"
  by (cases q) auto

lemma set_cb_inv: "lock_inv t \<Longrightarrow> cbs t c \<noteq> C_Loss_Join \<Longrightarrow> pc \<noteq> C_Loss_Join \<Longrightarrow> lock_inv (set_cb c pc t)"
  unfolding lock_inv_def stop_left_def set_cb_def by (simp, metis)

lemma shared_inv:
  "lock_inv t \<Longrightarrow> disconnect_probe_queue s = disconnect_probe_queue (shared t) \<Longrightarrow>
   receive_flag s = receive_flag (shared t) \<Longrightarrow> lock_inv (t\<lparr>shared := s\<rparr>)"
  by (simp add: lock_inv_def stop_left_def)

lemma pop_ctx_inv: "lock_inv t \<Longrightarrow> lock_inv (pop_ctx c t)"
  unfolding pop_ctx_def by (rule shared_inv) (simp_all add: upd_ctx_def)

lemma pop_ctx_cbs: "cbs (pop_ctx c t) = cbs t"
  by (simp add: pop_ctx_def)

lemma lock_free:
  "lock_inv t \<Longrightarrow> lock t = None \<Longrightarrow> \<not> user_holds (user t) \<and> (\<forall>c. cbs t c \<noteq> C_Loss_Join)"
  by (simp add: lock_inv_def)

lemma lock_free_inv:
  "lock t = None \<Longrightarrow> \<not> user_holds (user t) \<Longrightarrow> \<forall>c. cbs t c \<noteq> C_Loss_Join \<Longrightarrow> lock_inv t"
  by (cases "user t") (simp_all add: lock_inv_def)

lemma send_frame:
  "disconnect_probe_queue (snd (send (Sent n) packet s)) = disconnect_probe_queue s"
  "receive_flag (snd (send (Sent n) packet s)) = receive_flag s"
  by (simp_all add: send_def split: option.splits)

lemmas inv_unfold = lock_inv_def stop_left_def started_def set_cb_def pop_ctx_def thread_frames send_frame upd_ctx_def
  ctx_put_def probe_ended_def

lemma connect_step_inv: "connect_step t t' \<Longrightarrow> lock_inv t \<Longrightarrow> lock_inv t'"
  by (induction rule: connect_step.induct) (simp_all add: inv_unfold)

lemma disconnect_step_inv: "disconnect_step t t' \<Longrightarrow> lock_inv t \<Longrightarrow> lock_inv t'"
  by (induction rule: disconnect_step.induct) (simp_all add: inv_unfold)

lemma send_step_inv: "send_step t t' \<Longrightarrow> lock_inv t \<Longrightarrow> lock_inv t'"
  by (induction rule: send_step.induct) (simp_all add: inv_unfold)

lemma receive_step_inv: "receive_step t t' \<Longrightarrow> lock_inv t \<Longrightarrow> lock_inv t'"
  by (induction rule: receive_step.induct) (simp_all add: inv_unfold)

lemma probe_step_inv: "probe_step t t' \<Longrightarrow> lock_inv t \<Longrightarrow> lock_inv t'"
  by (induction rule: probe_step.induct) (simp_all add: inv_unfold del: probe_periods.simps)

lemma callback_step_inv: "callback_step t t' \<Longrightarrow> lock_inv t \<Longrightarrow> lock_inv t'"
proof (induction rule: callback_step.induct)
  case (cb_close t c sid q)
  then show ?case by (auto simp: lock_inv_def stop_left_def set_cb_def)
next
  case (cb_exit t c items)
  then show ?case by (intro set_cb_inv pop_ctx_inv) (simp_all add: pop_ctx_cbs)
next
  case (cb_packet_dies t c packet items)
  then show ?case by (intro set_cb_inv pop_ctx_inv) (simp_all add: pop_ctx_cbs)
next
  case (cb_loss t c par sid items)
  then show ?case by (intro set_cb_inv pop_ctx_inv) (simp_all add: pop_ctx_cbs)
next
  case (cb_no_retry t c)
  then show ?case by (intro set_cb_inv) simp_all
next
  case (cb_retry t c)
  then show ?case by (intro set_cb_inv shared_inv) simp_all
next
  case (cb_reconnect t c env s')
  with lock_free [of t] show ?case by (intro lock_free_inv) (simp_all add: set_cb_def started_def)
next
  case (cb_reconnect_fail t c env e s')
  with lock_free [of t] show ?case by (intro lock_free_inv) simp_all
qed (simp_all add: inv_unfold)

lemmas step_inv = connect_step_inv disconnect_step_inv send_step_inv receive_step_inv probe_step_inv callback_step_inv

lemma tstep_inv: "tstep t t' \<Longrightarrow> lock_inv t \<Longrightarrow> lock_inv t'"
  by (induction rule: tstep.induct) (rule step_inv, assumption+)+

lemma tcall_inv: "tcall t t' \<Longrightarrow> lock_inv t \<Longrightarrow> lock_inv t'"
  by (induction rule: tcall.induct) (simp_all add: lock_inv_def stop_left_def)

lemma treach_inv: "treach t \<Longrightarrow> lock_inv t"
proof (induction rule: treach.induct)
  case init
  show ?case by (simp add: lock_inv_def tinit_def)
next
  case (call t t')
  then show ?case by (blast intro: tcall_inv)
qed (rule tstep_inv)

subsection \<open>The lock is given back\<close>

lemma prober_stops:
  assumes "stop_left t"
  shows "\<exists>t1. tstep\<^sup>*\<^sup>* t t1 \<and> \<not> prb t1 \<and> cbs t1 = cbs t \<and> user t1 = user t"
proof (cases "prb t")
  case True
  then obtain x q where "disconnect_probe_queue (shared t) = Some (x # q)" using assms by (auto simp: stop_left_def)
  from t_prb_stop [OF True this] show ?thesis
    by (intro exI [of _ "t\<lparr>shared := (shared t)\<lparr>disconnect_probe_queue := Some q\<rparr>, prb := False\<rparr>"]) auto
qed auto

lemma set_cb_lock: "lock (set_cb c pc (t\<lparr>shared := s, lock := None\<rparr>)) = None"
  by (simp add: set_cb_def)

lemma receiver_joined:
  assumes "user t = U_Disc_JoinRecv \<or> user t = U_Send_JoinRecv" "socket_id (shared t) \<notin> rcvs t"
  shows "\<exists>t'. tstep t t' \<and> lock t' = None"
proof (cases "callback (shared t)")
  case None
  from assms(1) t_disc_recv_crash [OF _ assms(2) None] t_send_recv_crash [OF _ assms(2) None] show ?thesis by fastforce
next
  case (Some c)
  from assms(1) t_disc_recv_joined [OF _ assms(2) Some] t_send_recv_joined [OF _ assms(2) Some] show ?thesis by fastforce
qed

lemma receiver_join_passes:
  assumes "user t = U_Disc_JoinRecv \<or> user t = U_Send_JoinRecv" "\<not> receive_flag (shared t)"
  shows "\<exists>t'. tstep\<^sup>*\<^sup>* t t' \<and> lock t' = None"
proof (cases "socket_id (shared t) \<in> rcvs t")
  case True
  let ?t = "t\<lparr>rcvs := rcvs t - {socket_id (shared t)}\<rparr>"
  have "\<exists>t'. tstep ?t t' \<and> lock t' = None" using assms(1) by (intro receiver_joined) simp_all
  with t_rcv_stop [OF True assms(2)] show ?thesis by (meson converse_rtranclp_into_rtranclp r_into_rtranclp)
next
  case False
  from receiver_joined [OF assms(1) this] show ?thesis by blast
qed

lemma probe_joined:
  assumes "user t = U_Disc_JoinProbe \<or> user t = U_Send_JoinProbe" "\<not> prb t"
  shows "\<exists>t'. tstep t t' \<and> (lock t' = None \<or>
     (user t' = U_Disc_JoinRecv \<or> user t' = U_Send_JoinRecv) \<and> \<not> receive_flag (shared t'))"
proof (cases "callback (shared t)")
  case None
  from assms(1) t_disc_probe_crash [OF _ assms(2) None] t_send_probe_crash [OF _ assms(2) None] show ?thesis by fastforce
next
  case (Some c)
  have "\<not> receive_flag (probe_ended c (shared t))" by (simp add: probe_ended_def)
  with assms(1) t_disc_probe_joined [OF _ assms(2) Some] t_send_probe_joined [OF _ assms(2) Some] show ?thesis by fastforce
qed

lemma probe_join_passes:
  assumes "user t = U_Disc_JoinProbe \<or> user t = U_Send_JoinProbe" "\<not> prb t"
  shows "\<exists>t'. tstep\<^sup>*\<^sup>* t t' \<and> lock t' = None"
proof -
  obtain t1 where t1: "tstep t t1" and "lock t1 = None \<or>
      (user t1 = U_Disc_JoinRecv \<or> user t1 = U_Send_JoinRecv) \<and> \<not> receive_flag (shared t1)"
    using probe_joined [OF assms] by blast
  then have "\<exists>t'. tstep\<^sup>*\<^sup>* t1 t' \<and> lock t' = None" using receiver_join_passes [of t1] by blast
  with t1 show ?thesis by (blast intro: converse_rtranclp_into_rtranclp)
qed

text \<open>
  C8. Every thread that holds \<^verbatim>\<open>socket_lock\<close> gives it back, one case apart: in every state the
  threads can reach, in which the lock is held but not by a \<^verbatim>\<open>connect\<close> that failed and joins
  the callback thread, some steps of the threads lead to a state with the lock free. In
  particular neither \<^verbatim>\<open>disconnect\<close> nor a failing \<^verbatim>\<open>send\<close> waits under the lock for a thread that needs it.
\<close>

theorem lock_is_released:
  assumes "treach t" "lock t \<noteq> None" "\<forall>c. user t \<noteq> U_Connect_Join c"
  shows "\<exists>t'. tstep\<^sup>*\<^sup>* t t' \<and> lock t' = None"
proof -
  have inv: "lock_inv t" by (rule treach_inv [OF assms(1)])
  obtain h where h: "lock t = Some h" using assms(2) by auto
  show ?thesis
  proof (cases h)
    case (H_Callback c)
    then have c: "cbs t c = C_Loss_Join" "stop_left t" using inv h by (auto simp: lock_inv_def)
    from prober_stops [OF c(2)] obtain t1 where t1: "tstep\<^sup>*\<^sup>* t t1" "\<not> prb t1" "cbs t1 = cbs t" by blast
    from t_cb_closed [of t1 c] t1 c(1) have
      "tstep t1 (set_cb c C_After (t1\<lparr>shared := (shared t1)\<lparr>disconnect_probe_thread := None, socket := None\<rparr>, lock := None\<rparr>))" by simp
    with t1(1) show ?thesis by (intro exI conjI) (rule rtranclp.rtrancl_into_rtrancl, assumption+, rule set_cb_lock)
  next
    case H_User
    then consider "user t = U_Disc_JoinProbe \<or> user t = U_Send_JoinProbe" | "user t = U_Disc_JoinRecv \<or> user t = U_Send_JoinRecv"
      using inv h assms(3) by (cases "user t") (auto simp: lock_inv_def)
    then show ?thesis
    proof cases
      case 1
      then have "stop_left t" using inv by (auto simp: lock_inv_def)
      from prober_stops [OF this] obtain t1 where t1: "tstep\<^sup>*\<^sup>* t t1" "\<not> prb t1" "user t1 = user t" by blast
      from probe_join_passes [of t1] t1 1 obtain t2 where "tstep\<^sup>*\<^sup>* t1 t2" "lock t2 = None" by auto
      with t1(1) show ?thesis by (meson rtranclp_trans)
    next
      case 2
      then have "\<not> receive_flag (shared t)" using inv by (auto simp: lock_inv_def)
      from receiver_join_passes [OF 2 this] show ?thesis .
    qed
  qed
qed

subsection \<open>A failing connect during a reconnect\<close>

text \<open>The user thread joins, under the lock, a callback thread that wants the lock.\<close>

definition stuck_at :: "nat \<Rightarrow> tstate \<Rightarrow> bool" where
  "stuck_at c t = (lock t = Some H_User \<and> user t = U_Connect_Join c \<and> cbs t c = C_Retry)"

definition deadlocked :: "nat \<Rightarrow> tstate \<Rightarrow> bool" where
  "deadlocked c t = (lock_inv t \<and> stuck_at c t)"

lemma stuck_user: "connect_step t t' \<or> disconnect_step t t' \<or> send_step t t' \<Longrightarrow> \<not> stuck_at c t"
  by (auto simp: stuck_at_def elim: connect_step.cases disconnect_step.cases send_step.cases)

lemma stuck_receive: "receive_step t t' \<Longrightarrow> stuck_at c t \<Longrightarrow> stuck_at c t'"
  by (induction rule: receive_step.induct) (simp_all add: stuck_at_def)

lemma stuck_probe: "probe_step t t' \<Longrightarrow> stuck_at c t \<Longrightarrow> stuck_at c t'"
  by (induction rule: probe_step.induct) (simp_all add: stuck_at_def)

lemma stuck_callback: "callback_step t t' \<Longrightarrow> \<forall>x. cbs t x \<noteq> C_Loss_Join \<Longrightarrow> stuck_at c t \<Longrightarrow> stuck_at c t'"
  by (induction rule: callback_step.induct) (simp_all add: stuck_at_def set_cb_def pop_ctx_def, auto)

lemma stuck_step: "tstep t t' \<Longrightarrow> \<forall>x. cbs t x \<noteq> C_Loss_Join \<Longrightarrow> stuck_at c t \<Longrightarrow> stuck_at c t'"
  by (induction rule: tstep.induct) (metis stuck_user stuck_receive stuck_probe stuck_callback)+

lemma deadlocked_step: "tstep t t' \<Longrightarrow> deadlocked c t \<Longrightarrow> deadlocked c t'"
  using stuck_step [of t t' c] tstep_inv [of t t'] by (auto simp: deadlocked_def stuck_at_def lock_inv_def)

lemma deadlocked_forever: "tstep\<^sup>*\<^sup>* t t' \<Longrightarrow> deadlocked c t \<Longrightarrow> deadlocked c t'"
  by (induction rule: rtranclp_induct) (auto intro: deadlocked_step)

text \<open>
  C24. A deadlock: while the callback thread tries to reconnect, the user calls \<^verbatim>\<open>connect\<close> and the
  attempt fails. The cleanup of \<^verbatim>\<open>connect\<close> then joins the callback thread while it holds
  \<^verbatim>\<open>socket_lock\<close>, which the callback thread needs for its next attempt: whatever the threads do
  from then on, the call does not return, the lock stays taken and the callback thread stays
  where it is.
\<close>

theorem failing_connect_deadlocks:
  fixes env :: os_env
  assumes "treach t" "cbs t c = C_Retry" "callback (shared t) = Some c" "socket (shared t) = None" "lock t = None"
    and "user t = U_Connect h p" "connect_error env = Some code" "receive_starts env"
  shows "\<exists>t1. tstep t t1 \<and>
    (\<forall>t2. tstep\<^sup>*\<^sup>* t1 t2 \<longrightarrow> user t2 = U_Connect_Join c \<and> lock t2 = Some H_User \<and> cbs t2 c = C_Retry)"
proof -
  have "\<not> os_connects env (shared t)" using assms(7) by (simp add: os_connects_def)
  then have "\<exists>e s'. connect env h p (shared t) = (Inl e, s')"
    using connect_failure [of env "shared t" h p] assms(3,4) by auto
  then obtain e s' where e: "connect env h p (shared t) = (Inl e, s')" by blast
  have c: "c = used_ctx (shared t)" "callback (shared t) \<noteq> None \<or> callback_starts env"
    using assms(3) by (simp_all add: used_ctx_def)
  let ?t = "t\<lparr>shared := s'\<lparr>callback := Some c\<rparr>, lock := Some H_User, user := U_Connect_Join c,
               cbs := (if callback (shared t) = None then (cbs t)(c := C_Get) else cbs t)\<rparr>"
  have "tstep t ?t" by (rule t_connect_fail [OF assms(6,5,4,8) c(2) e c(1)])
  moreover from this have "lock_inv ?t" by (rule tstep_inv [OF _ treach_inv [OF assms(1)]])
  then have "deadlocked c ?t" using assms(2,3) by (simp add: deadlocked_def stuck_at_def)
  then have "\<forall>t2. tstep\<^sup>*\<^sup>* ?t t2 \<longrightarrow> deadlocked c t2" using deadlocked_forever by blast
  ultimately show ?thesis unfolding deadlocked_def stuck_at_def by blast
qed

subsection \<open>A loss noticed during disconnect\<close>

text \<open>An open connection at rest: all threads run and there is nothing in the queue.\<close>

definition at_rest :: "tstate \<Rightarrow> nat \<Rightarrow> bool" where
  "at_rest t c =
     (lock t = None \<and> socket (shared t) \<noteq> None \<and> \<not> auto_reconnect_pending (shared t) \<and>
      disconnect_probe_queue (shared t) \<noteq> None \<and> prb t \<and> receive_flag (shared t) \<and>
      socket_id (shared t) \<in> rcvs t \<and> callback (shared t) = Some c \<and> cbs t c = C_Get \<and>
      cb_queue (ctx_heap (shared t) c) = [] \<and> c < next_ctx (shared t) \<and> auto_reconnect (shared t) \<and>
      host (shared t) \<noteq> None \<and> port (shared t) \<noteq> None)"

text \<open>The socket is closed and the lock released, but a loss is reported and reconnecting allowed.\<close>

definition loss_left :: "tstate \<Rightarrow> nat \<Rightarrow> bool" where
  "loss_left t c =
     (lock t = None \<and> user t = U_Disc_Put c \<and> socket (shared t) = None \<and> callback (shared t) = None \<and>
      cbs t c = C_Get \<and> c < next_ctx (shared t) \<and> auto_reconnect (shared t) \<and> auto_reconnect_allowed (shared t) \<and>
      (\<exists>i. cb_queue (ctx_heap (shared t) c) =
         [QUEUE_META CALLBACK_DISCONNECTED DISCONNECT_REASON_SHUTDOWN (Some i)]) \<and>
      host (shared t) \<noteq> None \<and> port (shared t) \<noteq> None)"

lemma loss_during_disconnect:
  assumes "at_rest t c" "user t = U_Disc"
  shows "\<exists>t'. tstep\<^sup>*\<^sup>* t t' \<and> loss_left t' c"
proof -
  obtain q where q: "disconnect_probe_queue (shared t) = Some q" using assms(1) by (auto simp: at_rest_def)
  obtain x q' where xq: "q @ [True] = x # q'" by (cases q) auto
  let ?i = "socket_id (shared t)"
  let ?s1 = "(shared t)\<lparr>auto_reconnect_allowed := False, disconnect_probe_queue := Some (q @ [True])\<rparr>"
  let ?t1 = "t\<lparr>shared := ?s1, lock := Some H_User, user := U_Disc_JoinProbe\<rparr>"
  let ?s2 = "snd (handle_disconnect_by_peer DISCONNECT_REASON_SHUTDOWN (Some ?i) False ?s1)"
  let ?t2 = "?t1\<lparr>shared := ?s2, rcvs := rcvs t - {?i}\<rparr>"
  let ?t3 = "?t2\<lparr>shared := ?s2\<lparr>disconnect_probe_queue := Some q'\<rparr>, prb := False\<rparr>"
  let ?s4 = "probe_ended c (shared ?t3)"
  let ?t4 = "?t3\<lparr>shared := ?s4, user := U_Disc_JoinRecv\<rparr>"
  let ?t5 = "?t4\<lparr>shared := ?s4\<lparr>receive_thread := None, socket := None, callback := None\<rparr>, lock := None, user := U_Disc_Put c\<rparr>"
  note r = assms(1) [unfolded at_rest_def]
  have cb: "callback (shared t) = Some c" using r by blast
  have s2: "?s2 = ctx_put c (QUEUE_META CALLBACK_DISCONNECTED DISCONNECT_REASON_SHUTDOWN (Some ?i)) (?s1\<lparr>auto_reconnect_allowed := True\<rparr>)"
    using cb by (simp add: handle_disconnect_by_peer_def callback_put_def)
  have "tstep t ?t1" using r assms(2) q by (intro t_disc_lock) auto
  moreover have "tstep ?t1 ?t2" using t_rcv_loss [of ?i ?t1 DISCONNECT_REASON_SHUTDOWN] r by simp
  moreover have "tstep ?t2 ?t3" using t_prb_stop [of ?t2 x q'] r xq by (simp add: thread_frames)
  moreover have "tstep ?t3 ?t4" using t_disc_probe_joined [of ?t3 c] cb by (simp add: s2 ctx_put_def upd_ctx_def probe_ended_def)
  moreover have "tstep ?t4 ?t5" using t_disc_recv_joined [of ?t4 c] cb by (simp add: s2 ctx_put_def upd_ctx_def probe_ended_def)
  ultimately have "tstep\<^sup>*\<^sup>* t ?t5" by (meson converse_rtranclp_into_rtranclp rtranclp.rtrancl_refl)
  moreover have "loss_left ?t5 c" using r by (simp add: loss_left_def s2 ctx_put_def upd_ctx_def probe_ended_def)
  ultimately show ?thesis by blast
qed

lemma connect_reopens:
  assumes "socket s = None" "callback s = None" "host s \<noteq> None" "port s \<noteq> None" "c < next_ctx s"
  shows "\<exists>s'. connect_unlocked os_ok True s = (Inr (), s') \<and> socket s' \<noteq> None \<and>
     cb_queue (ctx_heap s' c) = cb_queue (ctx_heap s c)"
  using assms by (auto simp: connect_unlocked_def start_callback_def set_dispatch_def callback_put_def ctx_put_def
      upd_ctx_def os_ok_def Let_def)

lemma loss_left_reopens:
  assumes "loss_left t c"
  shows "\<exists>t'. tstep\<^sup>*\<^sup>* t t' \<and> user t' = U_Disc_Put c \<and> socket (shared t') \<noteq> None \<and> cbs t' c = C_Get \<and>
     cb_queue (ctx_heap (shared t') c) = []"
proof -
  note l = assms [unfolded loss_left_def]
  obtain i where i: "cb_queue (ctx_heap (shared t) c) =
      [QUEUE_META CALLBACK_DISCONNECTED DISCONNECT_REASON_SHUTDOWN (Some i)]" using l by blast
  let ?t1 = "set_cb c (C_Loss (Some i)) (pop_ctx c t)"
  let ?t2 = "set_cb c C_After ?t1"
  let ?t3 = "set_cb c C_Retry (?t2\<lparr>shared := (shared ?t2)\<lparr>auto_reconnect_pending := True\<rparr>\<rparr>)"
  have sh: "shared ?t3 = (upd_ctx c (\<lambda>x. x\<lparr>cb_queue := tl (cb_queue x)\<rparr>) (shared t))\<lparr>auto_reconnect_pending := True\<rparr>"
    by (simp add: set_cb_def pop_ctx_def)
  obtain s' where s': "connect_unlocked os_ok True (shared ?t3) = (Inr (), s')" "socket s' \<noteq> None"
      "cb_queue (ctx_heap s' c) = cb_queue (ctx_heap (shared ?t3) c)"
    using connect_reopens [of "shared ?t3" c] l unfolding sh by (auto simp: upd_ctx_def)
  let ?t4 = "set_cb c C_Get (started (shared ?t3) s' ?t3)"
  have "tstep t ?t1" using l i by (intro t_cb_loss) auto
  moreover have "tstep ?t1 ?t2" using l by (intro t_cb_stale) (auto simp: set_cb_def pop_ctx_def upd_ctx_def)
  moreover have "tstep ?t2 ?t3" using l by (intro t_cb_retry) (auto simp: set_cb_def pop_ctx_def upd_ctx_def)
  moreover have "tstep ?t3 ?t4"
    using l s'(1) by (intro t_cb_reconnect [where env = os_ok]) (auto simp: set_cb_def pop_ctx_def upd_ctx_def os_ok_def)
  ultimately have "tstep\<^sup>*\<^sup>* t ?t4" by (meson converse_rtranclp_into_rtranclp rtranclp.rtrancl_refl)
  moreover have "user ?t4 = U_Disc_Put c" "socket (shared ?t4) \<noteq> None" "cbs ?t4 c = C_Get"
    using l s'(2) by (simp_all add: set_cb_def started_def pop_ctx_def)
  moreover have "cb_queue (ctx_heap (shared ?t4) c) = []"
    using s'(3) i by (simp add: sh set_cb_def pop_ctx_def started_def upd_ctx_def)
  ultimately show ?thesis by blast
qed

lemma disconnect_ends:
  assumes "user t = U_Disc_Put c" "socket (shared t) \<noteq> None" "cbs t c = C_Get" "cb_queue (ctx_heap (shared t) c) = []"
  shows "\<exists>t'. tstep\<^sup>*\<^sup>* t t' \<and> user t' = U_Idle \<and> socket (shared t') \<noteq> None"
proof -
  let ?t1 = "t\<lparr>shared := ctx_put c QUEUE_EXIT
       (ctx_put c (QUEUE_META CALLBACK_DISCONNECTED DISCONNECT_REASON_REQUEST None) (shared t)), user := U_Disc_JoinCb c\<rparr>"
  let ?t2 = "pop_ctx c ?t1"
  let ?t3 = "set_cb c C_Ended (pop_ctx c ?t2)"
  have q1: "cb_queue (ctx_heap (shared ?t1) c) =
      [QUEUE_META CALLBACK_DISCONNECTED DISCONNECT_REASON_REQUEST None, QUEUE_EXIT]"
    using assms(4) by (simp add: ctx_put_def upd_ctx_def)
  then have q2: "cb_queue (ctx_heap (shared ?t2) c) = [QUEUE_EXIT]" by (simp add: pop_ctx_def upd_ctx_def)
  have "tstep t ?t1" by (rule t_disc_put [OF assms(1)])
  moreover have "tstep ?t1 ?t2" using assms(3) q1 by (intro t_cb_notice) auto
  moreover have "tstep ?t2 ?t3" using assms(3) q2 by (intro t_cb_exit) (auto simp: pop_ctx_def)
  moreover have "tstep ?t3 (?t3\<lparr>user := U_Idle\<rparr>)"
    by (intro t_disc_cb_joined [of _ c]) (simp_all add: set_cb_def pop_ctx_def)
  ultimately have "tstep\<^sup>*\<^sup>* t (?t3\<lparr>user := U_Idle\<rparr>)" by (meson converse_rtranclp_into_rtranclp rtranclp.rtrancl_refl)
  moreover have "socket (shared (?t3\<lparr>user := U_Idle\<rparr>)) \<noteq> None"
    using assms(2) by (simp add: set_cb_def pop_ctx_def upd_ctx_def ctx_put_def)
  ultimately show ?thesis by (intro exI [of _ "?t3\<lparr>user := U_Idle\<rparr>"]) simp
qed

text \<open>
  C25. \<^verbatim>\<open>disconnect\<close> may return with the connection open: if the peer closes the connection while
  \<^verbatim>\<open>disconnect\<close> joins the prober, the receive thread allows reconnecting again, which \<^verbatim>\<open>disconnect\<close>
  had forbidden, and reports the loss; the callback thread, which \<^verbatim>\<open>disconnect\<close> waits for, then
  reconnects before it reads the exit mark. No other call of the user is involved.
\<close>

theorem disconnect_may_leave_open:
  assumes "at_rest t c" "user t = U_Disc"
  shows "\<exists>t'. tstep\<^sup>*\<^sup>* t t' \<and> user t' = U_Idle \<and> get_connection_state (shared t') = CONNECTION_STATE_CONNECTED"
proof -
  obtain t1 where t1: "tstep\<^sup>*\<^sup>* t t1" "loss_left t1 c" using loss_during_disconnect [OF assms] by blast
  obtain t2 where t2: "tstep\<^sup>*\<^sup>* t1 t2" "user t2 = U_Disc_Put c" "socket (shared t2) \<noteq> None" "cbs t2 c = C_Get"
      "cb_queue (ctx_heap (shared t2) c) = []"
    using loss_left_reopens [OF t1(2)] by blast
  obtain t3 where "tstep\<^sup>*\<^sup>* t2 t3" "user t3 = U_Idle" "socket (shared t3) \<noteq> None" using disconnect_ends [OF t2(2-5)] by blast
  with t1(1) t2(1) show ?thesis by (intro exI [of _ t3]) (auto simp: get_connection_state_def)
qed

subsection \<open>A concrete run\<close>

text \<open>
  Connect to a daemon, lose the connection and begin to reconnect: the states the witnesses
  below use. The run ends with the callback thread waiting for the lock to try again.
\<close>

definition run1 :: tstate where
  "run1 = (started ipcon0 (snd (connect os_ok ''localhost'' 4223 ipcon0)) tinit)\<lparr>user := U_Idle\<rparr>"

definition run2 :: tstate where
  "run2 = pop_ctx 0 run1"

definition run3 :: tstate where
  "run3 = set_cb 0 (C_Loss (Some 1)) (pop_ctx 0 (run2\<lparr>shared := snd (handle_disconnect_by_peer
     DISCONNECT_REASON_SHUTDOWN (Some 1) False (shared run2)), rcvs := rcvs run2 - {1}\<rparr>))"

definition run4 :: tstate where
  "run4 = set_cb 0 C_Loss_Join (run3\<lparr>shared := (shared run3)\<lparr>disconnect_probe_queue := Some [True]\<rparr>, lock := Some (H_Callback 0)\<rparr>)"

definition run5 :: tstate where
  "run5 = set_cb 0 C_After (run4\<lparr>shared := (shared run4)\<lparr>disconnect_probe_queue := Some [],
     disconnect_probe_thread := None, socket := None\<rparr>, prb := False, lock := None\<rparr>)"

definition run6 :: tstate where
  "run6 = set_cb 0 C_Retry (run5\<lparr>shared := (shared run5)\<lparr>auto_reconnect_pending := True\<rparr>\<rparr>)"

lemmas run_unfold = run6_def run5_def run4_def run3_def run2_def run1_def started_def pop_ctx_def set_cb_def tinit_def
  connect_def connect_defs handle_disconnect_by_peer_def os_ok_def ipcon0_eq ipcon_fields_def

lemma run1_reached: "treach run1"
proof -
  have "treach (tinit\<lparr>user := U_Connect ''localhost'' 4223\<rparr>)"
    by (rule treach.call [OF treach.init]) (rule call_connect, simp add: tinit_def)
  moreover have "tstep (tinit\<lparr>user := U_Connect ''localhost'' 4223\<rparr>) run1"
    using t_connect_ok [of "tinit\<lparr>user := U_Connect ''localhost'' 4223\<rparr>" "''localhost''" 4223 os_ok
        "snd (connect os_ok ''localhost'' 4223 ipcon0)"]
    by (simp add: run_unfold)
  ultimately show ?thesis by (rule treach.step)
qed

lemma run2_reached: "treach run2"
proof -
  have "tstep run1 run2" unfolding run2_def
    by (rule t_cb_notice [where f = CALLBACK_CONNECTED and par = CONNECT_REASON_REQUEST]) (simp_all add: run_unfold)
  with run1_reached show ?thesis by (rule treach.step)
qed

lemma run3_reached: "treach run3"
proof -
  have "tstep run2 (run2\<lparr>shared := snd (handle_disconnect_by_peer
     DISCONNECT_REASON_SHUTDOWN (Some 1) False (shared run2)), rcvs := rcvs run2 - {1}\<rparr>)"
    by (rule t_rcv_loss) (simp_all add: run_unfold)
  with run2_reached have "treach \<dots>" by (rule treach.step)
  moreover have "tstep \<dots> run3" unfolding run3_def
    by (rule t_cb_loss [where par = DISCONNECT_REASON_SHUTDOWN]) (simp_all add: run_unfold)
  ultimately show ?thesis by (rule treach.step)
qed

lemma run4_reached: "treach run4"
proof -
  have "tstep run3 run4"
    using t_cb_close [of run3 0 "Some 1" "[]"] by (simp add: run_unfold)
  with run3_reached show ?thesis by (rule treach.step)
qed

lemma run5_reached: "treach run5"
proof -
  have "tstep run4 (run4\<lparr>shared := (shared run4)\<lparr>disconnect_probe_queue := Some []\<rparr>, prb := False\<rparr>)"
    by (rule t_prb_stop [where x = True]) (simp_all add: run_unfold)
  with run4_reached have "treach \<dots>" by (rule treach.step)
  moreover have "tstep \<dots> run5"
    using t_cb_closed [of "run4\<lparr>shared := (shared run4)\<lparr>disconnect_probe_queue := Some []\<rparr>, prb := False\<rparr>" 0]
    by (simp add: run_unfold)
  ultimately show ?thesis by (rule treach.step)
qed

lemma run6_reached: "treach run6"
proof -
  have "tstep run5 run6" unfolding run6_def by (rule t_cb_retry) (simp_all add: run_unfold)
  with run5_reached show ?thesis by (rule treach.step)
qed

theorem lock_is_released_witness: "lock run4 = Some (H_Callback 0) \<and> (\<exists>t'. tstep\<^sup>*\<^sup>* run4 t' \<and> lock t' = None)"
proof -
  have "lock run4 = Some (H_Callback 0)" "\<forall>c. user run4 \<noteq> U_Connect_Join c" by (simp_all add: run_unfold)
  with lock_is_released [OF run4_reached] show ?thesis by simp
qed

theorem failing_connect_deadlocks_witness:
  "\<exists>t1. tstep (run6\<lparr>user := U_Connect ''localhost'' 4223\<rparr>) t1 \<and>
    (\<forall>t2. tstep\<^sup>*\<^sup>* t1 t2 \<longrightarrow> user t2 = U_Connect_Join 0 \<and> lock t2 = Some H_User \<and> cbs t2 0 = C_Retry)"
proof -
  have r: "treach (run6\<lparr>user := U_Connect ''localhost'' 4223\<rparr>)"
    by (rule treach.call [OF run6_reached]) (rule call_connect, simp add: run_unfold)
  show ?thesis
    by (rule failing_connect_deadlocks [OF r, where env = "os_ok\<lparr>connect_error := Some 111\<rparr>" and code = 111])
       (simp_all add: run_unfold)
qed

theorem disconnect_may_leave_open_witness:
  "\<exists>t'. tstep\<^sup>*\<^sup>* (run2\<lparr>user := U_Disc\<rparr>) t' \<and> user t' = U_Idle \<and>
     get_connection_state (shared t') = CONNECTION_STATE_CONNECTED"
  by (rule disconnect_may_leave_open [of _ 0]) (simp_all add: at_rest_def run_unfold)


end
