(* ===== verification/Spec2Isabelle.thy ===== *)
theory Spec2Isabelle
  imports All_Bindings Scripts Threads
begin

text \<open>
  Verification of the Python program of the repository: the Tinkerforge bindings under
  \<^verbatim>\<open>src/scripts/tinkerforge/\<close> (the connection to a Brick Daemon, \<^verbatim>\<open>ip_connection.py\<close>, and one
  generated class per kind of device, \<^verbatim>\<open>brick_*.py\<close> and \<^verbatim>\<open>bricklet_*.py\<close>) and the scripts under
  \<^verbatim>\<open>src/scripts/\<close> that use them to light positions of a shelf.

  \<^bold>\<open>The program.\<close> An \<^verbatim>\<open>IPConnection\<close> holds a TCP socket to the daemon and a table of devices.
  A method of a device class packs its arguments and calls \<^verbatim>\<open>IPConnection.send_request\<close>, which
  writes a packet (a header of eight bytes and a payload) and, when a response is
  expected, waits on the queue of the device. A receive thread cuts the incoming stream into
  packets and routes each to a waiting call or to the queue of the callback thread, which
  calls the functions the user registered, closes a lost socket and reconnects. A third
  thread probes a silent connection. \<^verbatim>\<open>connect\<close>, \<^verbatim>\<open>disconnect\<close> and \<^verbatim>\<open>send\<close> exclude each other and the
  callback thread by \<^verbatim>\<open>socket_lock\<close>.

  \<^bold>\<open>Theories.\<close> In the order of their imports:

  \<^item> \<open>Prelude\<close>: exceptions, results with exceptions, Python values, indexing and slicing,
    general lemmas and lemma collections.
  \<^item> \<open>Pystruct\<close>: the part of the module \<^verbatim>\<open>struct\<close> in use. Locale \<open>wire_codec\<close>.
  \<^item> \<open>Base58\<close>: \<^verbatim>\<open>base58encode\<close>, \<^verbatim>\<open>base58decode\<close>, \<^verbatim>\<open>uid64_to_uid32\<close>.
  \<^item> \<open>State\<close>: the records \<open>device\<close>, \<open>cb_context\<close>, \<open>ipcon\<close> of the objects, with stores for the
    objects that are shared; threads and queues as values.
  \<^item> \<open>Device\<close>: the class \<^verbatim>\<open>Device\<close>, its response expected table. Locale \<open>response_flags\<close>.
  \<^item> \<open>Packet\<close>: \<^verbatim>\<open>get_*_from_data\<close>, \<^verbatim>\<open>get_next_sequence_number\<close>, \<^verbatim>\<open>create_packet_header\<close>.
  \<^item> \<open>Wire\<close>: the packing loop of \<^verbatim>\<open>send_request\<close>, \<^verbatim>\<open>deserialize_data\<close> and its helpers.
  \<^item> \<open>Connection\<close>: \<^verbatim>\<open>connect\<close>, \<^verbatim>\<open>disconnect\<close>, \<^verbatim>\<open>connect_unlocked\<close>, \<^verbatim>\<open>disconnect_unlocked\<close>, \<^verbatim>\<open>send\<close>,
    \<^verbatim>\<open>handle_disconnect_by_peer\<close> and the accessors, with the abstract automaton \<open>phase\<close>.
  \<^item> \<open>Receive\<close>: \<^verbatim>\<open>receive_loop\<close> and \<^verbatim>\<open>handle_response\<close>. Locale \<open>framer\<close>.
  \<^item> \<open>Requests\<close>: \<^verbatim>\<open>send_request\<close> and its waiting loop.
  \<^item> \<open>Dispatch\<close>: \<^verbatim>\<open>callback_loop\<close>, \<^verbatim>\<open>dispatch_meta\<close>, \<^verbatim>\<open>dispatch_packet\<close>, \<^verbatim>\<open>disconnect_probe_loop\<close>.
  \<^item> \<open>Threads\<close>: the interleaving of the threads and \<^verbatim>\<open>socket_lock\<close>, as one step relation per
    thread over the operations above.
  \<^item> \<open>Sha1\<close>, \<open>Authentication\<close>: SHA-1 and HMAC as the standard library computes them, the class
    \<^verbatim>\<open>BrickDaemon\<close>, \<^verbatim>\<open>IPConnection.authenticate\<close>, and the methods for flash memory and calibration.
  \<^item> \<open>Bindings\<close>: what the generated classes share: constructor, method call, result. Locale
    \<open>device_class\<close>.
  \<^item> \<open>Brick_Master_Class\<close>, \<open>Brick_RED_Class\<close>, \<open>Bricks_Motor\<close>, \<open>Bricks_Motion\<close>, \<open>Bricklets_Climate\<close>,
    \<open>Bricklets_Electric\<close>, \<open>Bricklets_Position\<close>, \<open>Bricklets_Industrial\<close>, \<open>Bricklets_Display\<close>: the 61 device
    classes. For each class: its named tuples, one definition per method (function number,
    parameters, formats, shape of the result), its flags, its callback formats, the class as
    a value of \<open>binding\<close>, and the interpretation of \<open>device_class\<close> on it.
  \<^item> \<open>All_Bindings\<close>: the list of all classes and what holds for every method of each.
  \<^item> \<open>Scripts\<close>: \<^verbatim>\<open>led.py\<close>, \<^verbatim>\<open>b.py\<close>, \<^verbatim>\<open>a.py\<close>, with \<^verbatim>\<open>int()\<close> on strings.

  \<^bold>\<open>Conventions.\<close> A method is a function from the state to its result and the new state; a
  raised exception is \<open>Inl\<close>, and the state is the one at the time of the raise; \<open>Inl Blocked\<close>
  stands for a call that never returns, which is a \<^verbatim>\<open>connect\<close> whose cleanup joins a callback
  thread that waits for the lock the call holds. Bytes are
  words of 8 bits, Python's integers are \<open>int\<close>. The Python version is the argument
  \<open>hexversion\<close>, since the code branches on \<^verbatim>\<open>sys.hexversion\<close>. What is outside the program is an
  argument: decisions of the operating system (\<open>os_env\<close>: which threads start, whether
  \<^verbatim>\<open>socket.connect\<close> succeeds), the result of \<^verbatim>\<open>socket.send\<close>, what \<^verbatim>\<open>recv\<close> delivers, the packets that
  arrive while a call waits, the random bytes and the clock of the first nonce, the functions
  users register (\<open>run\<close>).

  \<^bold>\<open>What is shown.\<close> Identifiers, headers and payloads: writing and reading are inverse
  (\<open>Base58\<close>, \<open>Packet\<close>, \<open>Wire\<close>). Device: fixed flags stay fixed, the last change wins.
  Connection: the methods refine an automaton closed, open, lost, reconnecting, whose
  operations succeed, fail or block, and keep an invariant of threads and sockets; a \<^verbatim>\<open>connect\<close>
  that fails before the receive thread, on a connection without a callback thread, leaves
  nothing behind; one that cannot start the receive thread leaves the connection unusable. Receiver: the packets handled do not depend on how the
  stream was cut, and each goes to the one place it belongs. Requests: a call returns the
  outcome its response carries, whatever else arrives, and otherwise times out. Callback thread: it
  recovers a lost connection at the first attempt that succeeds, ignores stale reports and
  ends after \<^verbatim>\<open>disconnect\<close>. Threads: \<^verbatim>\<open>socket_lock\<close> can always be given back, but for a failing
  \<^verbatim>\<open>connect\<close> during a reconnect, which deadlocks; and a loss noticed during \<^verbatim>\<open>disconnect\<close> may
  leave the connection open. Device classes: every getter returns its documented fields, every setter
  writes one packet, every callback is delivered with its arguments, for all methods of all
  classes. Authentication: the digest sent is the HMAC of both nonces. Scripts: exactly which
  calls they make, in which order, and what they leave behind.

  \<^bold>\<open>Loops.\<close> The loops over data (\<open>base58encode_loop\<close>, \<open>deserialize_fields\<close>, \<open>receive_packets\<close>,
  \<open>wait_response\<close>) are functions with a termination proof; a packet cut off by \<open>next_packet\<close>
  has at least one byte unless its length byte is 0, and that packet raises, so
  \<open>receive_packets\<close> ends. Loops that wait for the outside consume a list of outcomes: chunks
  for \<open>receive_loop\<close>, attempts for \<open>reconnect_loop\<close>, periods for \<open>probe_periods\<close>. \<open>callback_loop\<close> has
  fuel, one unit per item of the queue; that the length of the queue and two is enough after \<^verbatim>\<open>disconnect\<close>
  is part of its theorem.

  \<^bold>\<open>Not modelled.\<close> Delays and terminal output. The firmware of the devices: a theorem about a
  script says what it sends, not what the LED strip then shows. Calls of \<^verbatim>\<open>connect\<close> or \<^verbatim>\<open>disconnect\<close> on the callback thread
  itself, where the code skips the join. Class constants for option values (such as
  \<^verbatim>\<open>THRESHOLD_OPTION_OFF\<close>), which no code of the package reads. The locks around single
  assignments (\<^verbatim>\<open>sequence_number_lock\<close>, \<^verbatim>\<open>request_lock\<close>, \<^verbatim>\<open>socket_send_lock\<close>): one call of a device at a time
  is assumed. In \<open>Threads\<close> user callbacks return at once and one user thread makes the calls.
  \<^verbatim>\<open>print.py\<close>, an upload by FTP. The web front end (PHP, JavaScript), which calls
  \<^verbatim>\<open>led.py\<close>. \<^verbatim>\<open>build_pkg.py\<close>, a vendored build script of the daemon.
\<close>

end
